(* ===== verification/Prelude.thy ===== *)
theory Prelude
  imports Main "HOL-Library.Word"
begin

text \<open>
  The vocabulary the component theories share: Rust's \<open>Result\<close> together with an
  unwinding panic (\<open>outcome\<close>), the \<open>?\<close> operator (\<open>bind\<close>), effectful calls as
  functions on a world state (\<open>io\<close>), 64-bit integers with and without overflow
  checks, indexing that panics out of range, and the decimal and hexadecimal text of
  a number. Nothing here is specific to one component.
\<close>

named_theorems outcome_simps \<open>rules that say when a fallible computation returns, fails or panics\<close>
named_theorems io_simps \<open>rules that run effectful computations\<close>

type_synonym u8 = "8 word"
type_synonym u64 = "64 word"
type_synonym i64 = "64 word"
type_synonym usize = "64 word"

section \<open>Results and panics\<close>

text \<open>\<open>Ok\<close> and \<open>Err\<close> are the variants of \<open>Result\<close>; \<open>Panicked\<close> is a panic
  (an index out of range, an arithmetic overflow with overflow checks on, an \<open>unwrap\<close>
  of nothing), which no \<open>?\<close> and no \<open>map_err\<close> intercepts.\<close>

datatype ('a, 'e) outcome = Ok 'a | Err 'e | Panicked

definition bind :: "('a, 'e) outcome \<Rightarrow> ('a \<Rightarrow> ('b, 'e) outcome) \<Rightarrow> ('b, 'e) outcome" where
  "bind r f = (case r of Ok x \<Rightarrow> f x | Err e \<Rightarrow> Err e | Panicked \<Rightarrow> Panicked)"

definition map_err :: "('e \<Rightarrow> 'f) \<Rightarrow> ('a, 'e) outcome \<Rightarrow> ('a, 'f) outcome" where
  "map_err h r = (case r of Ok x \<Rightarrow> Ok x | Err e \<Rightarrow> Err (h e) | Panicked \<Rightarrow> Panicked)"

definition ok_or :: "'a option \<Rightarrow> 'e \<Rightarrow> ('a, 'e) outcome" where
  "ok_or m e = (case m of Some x \<Rightarrow> Ok x | None \<Rightarrow> Err e)"

definition is_ok :: "('a, 'e) outcome \<Rightarrow> bool" where
  "is_ok r = (case r of Ok _ \<Rightarrow> True | _ \<Rightarrow> False)"

definition is_err :: "('a, 'e) outcome \<Rightarrow> bool" where
  "is_err r = (case r of Err _ \<Rightarrow> True | _ \<Rightarrow> False)"

text \<open>\<open>iter().map(f).collect::<Result<Vec<_>, _>>()\<close>: the first error stops it.\<close>

primrec try_map :: "('a \<Rightarrow> ('b, 'e) outcome) \<Rightarrow> 'a list \<Rightarrow> ('b list, 'e) outcome" where
  "try_map f [] = Ok []"
| "try_map f (x # xs) = bind (f x) (\<lambda>y. bind (try_map f xs) (\<lambda>ys. Ok (y # ys)))"

lemma bind_simps [simp]:
  "bind (Ok x) f = f x" "bind (Err e) f = Err e" "bind Panicked f = Panicked"
  by (simp_all add: bind_def)

lemma map_err_simps [simp]:
  "map_err h (Ok x) = Ok x" "map_err h (Err e) = Err (h e)" "map_err h Panicked = Panicked"
  by (simp_all add: map_err_def)

lemma ok_or_simps [simp]: "ok_or (Some x) e = Ok x" "ok_or None e = Err e"
  by (simp_all add: ok_or_def)

lemma is_ok_simps [simp]: "is_ok (Ok x)" "\<not> is_ok (Err e)" "\<not> is_ok Panicked"
  by (simp_all add: is_ok_def)

lemma is_err_simps [simp]: "\<not> is_err (Ok x)" "is_err (Err e)" "\<not> is_err Panicked"
  by (simp_all add: is_err_def)

lemma bind_eq_Ok [outcome_simps]: "bind r f = Ok y \<longleftrightarrow> (\<exists>x. r = Ok x \<and> f x = Ok y)"
  by (cases r) simp_all

lemma bind_eq_Panicked [outcome_simps]:
  "bind r f = Panicked \<longleftrightarrow> r = Panicked \<or> (\<exists>x. r = Ok x \<and> f x = Panicked)"
  by (cases r) simp_all

lemma bind_eq_Err [outcome_simps]:
  "bind r f = Err e \<longleftrightarrow> r = Err e \<or> (\<exists>x. r = Ok x \<and> f x = Err e)"
  by (cases r) simp_all

lemma map_err_eq_Ok [outcome_simps]: "map_err h r = Ok y \<longleftrightarrow> r = Ok y"
  by (cases r) simp_all

lemma map_err_eq_Err [outcome_simps]: "map_err h r = Err e \<longleftrightarrow> (\<exists>e'. r = Err e' \<and> e = h e')"
  by (cases r) auto

lemma map_err_eq_Panicked [outcome_simps]: "map_err h r = Panicked \<longleftrightarrow> r = Panicked"
  by (cases r) simp_all

lemma ok_or_eq_Ok [outcome_simps]: "ok_or m e = Ok y \<longleftrightarrow> m = Some y"
  by (cases m) simp_all

lemma ok_or_eq_Err [outcome_simps]: "ok_or m e = Err e' \<longleftrightarrow> m = None \<and> e' = e"
  by (cases m) auto

lemma ok_or_no_panic [simp]: "ok_or m e \<noteq> Panicked"
  by (cases m) simp_all

lemma is_ok_iff: "is_ok r \<longleftrightarrow> (\<exists>x. r = Ok x)"
  by (cases r) simp_all

lemma is_err_iff: "is_err r \<longleftrightarrow> (\<exists>e. r = Err e)"
  by (cases r) simp_all

lemma try_map_Ok_iff:
  "try_map f xs = Ok ys \<longleftrightarrow> list_all2 (\<lambda>x y. f x = Ok y) xs ys"
  by (induction xs arbitrary: ys) (auto simp: outcome_simps list_all2_Cons1)

lemma try_map_total: "(\<And>x. x \<in> set xs \<Longrightarrow> f x = Ok (g x)) \<Longrightarrow> try_map f xs = Ok (map g xs)"
  by (induction xs) auto

section \<open>Effects\<close>

text \<open>An effectful call takes the state of the world it can observe and change (the
  remote node, the requests made so far, a cache) and returns its outcome with the new
  state. Calls are composed in the order the code awaits them.\<close>

type_synonym ('s, 'a, 'e) io = "'s \<Rightarrow> ('a, 'e) outcome \<times> 's"

definition io_lift :: "('a, 'e) outcome \<Rightarrow> ('s, 'a, 'e) io" where
  "io_lift r = (\<lambda>s. (r, s))"

definition io_bind :: "('s, 'a, 'e) io \<Rightarrow> ('a \<Rightarrow> ('s, 'b, 'e) io) \<Rightarrow> ('s, 'b, 'e) io" where
  "io_bind m f = (\<lambda>s. case m s of (Ok x, s') \<Rightarrow> f x s' | (Err e, s') \<Rightarrow> (Err e, s')
     | (Panicked, s') \<Rightarrow> (Panicked, s'))"

definition io_map_err :: "('e \<Rightarrow> 'f) \<Rightarrow> ('s, 'a, 'e) io \<Rightarrow> ('s, 'a, 'f) io" where
  "io_map_err h m = (\<lambda>s. case m s of (r, s') \<Rightarrow> (map_err h r, s'))"

lemma io_lift_run [io_simps, simp]: "io_lift r s = (r, s)"
  by (simp add: io_lift_def)

lemma io_bind_lift [io_simps, simp]:
  "io_bind (io_lift (Ok x)) f = f x"
  "io_bind (io_lift (Err e)) f = io_lift (Err e)"
  "io_bind (io_lift Panicked) f = io_lift Panicked"
  by (simp_all add: io_bind_def io_lift_def)

lemma io_bind_run [io_simps]:
  "m s = (Ok x, s') \<Longrightarrow> io_bind m f s = f x s'"
  "m s = (Err e, s') \<Longrightarrow> io_bind m f s = (Err e, s')"
  "m s = (Panicked, s') \<Longrightarrow> io_bind m f s = (Panicked, s')"
  by (simp_all add: io_bind_def)

lemma io_map_err_run [io_simps]: "m s = (r, s') \<Longrightarrow> io_map_err h m s = (map_err h r, s')"
  by (simp add: io_map_err_def)

lemma io_bind_eq_Ok [outcome_simps]:
  "io_bind m f s = (Ok y, t) \<longleftrightarrow> (\<exists>x s'. m s = (Ok x, s') \<and> f x s' = (Ok y, t))"
  by (auto simp: io_bind_def split: prod.splits outcome.splits)

lemma io_map_err_eq_Ok [outcome_simps]: "io_map_err h m s = (Ok y, t) \<longleftrightarrow> m s = (Ok y, t)"
  by (auto simp: io_map_err_def outcome_simps split: prod.splits)

lemma io_lift_eq [outcome_simps]: "io_lift r s = (r', t) \<longleftrightarrow> r = r' \<and> s = t"
  by (simp add: io_lift_def)

section \<open>Integers and indexing\<close>

text \<open>\<open>checks\<close> says whether the build has overflow checks: on in a debug build (an
  overflow panics), off in a release build (it wraps). The \<open>as\<close> casts between
  \<open>i64\<close>, \<open>u64\<close> and \<open>usize\<close> keep the 64 bits, so they are the identity here; the sign
  is in how the bits are read (\<open>sint\<close> or \<open>unat\<close>).\<close>

definition usize_sub :: "bool \<Rightarrow> usize \<Rightarrow> usize \<Rightarrow> (usize, 'e) outcome" where
  "usize_sub checks a b = (if checks \<and> a < b then Panicked else Ok (a - b))"

definition i64_add :: "bool \<Rightarrow> i64 \<Rightarrow> i64 \<Rightarrow> (i64, 'e) outcome" where
  "i64_add checks a b = (if checks \<and> sint (a + b) \<noteq> sint a + sint b then Panicked else Ok (a + b))"

definition index_at :: "'a list \<Rightarrow> usize \<Rightarrow> ('a, 'e) outcome" where
  "index_at xs i = (if unat i < length xs then Ok (xs ! unat i) else Panicked)"

lemma usize_sub_le: "unat b \<le> unat a \<Longrightarrow> usize_sub checks a b = Ok (a - b)"
  by (simp add: usize_sub_def word_less_nat_alt)

lemma i64_add_small:
  assumes "unat a + unat b < 2 ^ 63"
  shows "i64_add checks a b = Ok (a + b)" and "unat (a + b) = unat a + unat b"
proof -
  have small: "sint w = int (unat w)" if "unat w < 2 ^ 63" for w :: "64 word"
  proof -
    from that have "int (unat w) < int (2 ^ 63)" by (simp only: of_nat_less_iff)
    then have u: "uint w < 2 ^ 63" by simp
    have "sint w = signed_take_bit 63 (uint w)" by (simp add: sint_uint)
    also have "\<dots> = uint w"
      using u by (intro signed_take_bit_int_eq_self) (auto intro: order_trans [of _ 0])
    finally show ?thesis by simp
  qed
  have sum: "unat (a + b) = unat a + unat b"
    using assms by (simp add: unat_word_ariths)
  have "sint (a + b) = sint a + sint b"
    using assms sum small [of a] small [of b] small [of "a + b"] by simp
  then show "i64_add checks a b = Ok (a + b)" by (simp add: i64_add_def)
  show "unat (a + b) = unat a + unat b" by (rule sum)
qed

section \<open>Text of numbers\<close>

text \<open>The text \<open>{}\<close> prints for an \<open>i64\<close> or \<open>u64\<close>, and the value of a
  hexadecimal numeral. Characters are bytes of the UTF-8 text.\<close>

definition digit_char :: "nat \<Rightarrow> char" where
  "digit_char d = (if d < 10 then char_of (48 + d) else char_of (87 + d))"

fun show_nat :: "nat \<Rightarrow> string" where
  "show_nat n = (if n < 10 then [digit_char n] else show_nat (n div 10) @ [digit_char (n mod 10)])"

declare show_nat.simps [simp del]

definition show_i64 :: "i64 \<Rightarrow> string" where
  "show_i64 w = (if sint w < 0 then ''-'' @ show_nat (nat (- sint w)) else show_nat (nat (sint w)))"

definition hex_digit :: "char \<Rightarrow> bool" where
  "hex_digit c = (let n = of_char c :: nat in
     (48 \<le> n \<and> n \<le> 57) \<or> (97 \<le> n \<and> n \<le> 102) \<or> (65 \<le> n \<and> n \<le> 70))"

definition hex_digit_value :: "char \<Rightarrow> nat" where
  "hex_digit_value c = (let n = of_char c :: nat in
     if n \<le> 57 then n - 48 else if n \<le> 70 then n - 55 else n - 87)"

definition hex_value :: "string \<Rightarrow> nat" where
  "hex_value s = foldl (\<lambda>a c. 16 * a + hex_digit_value c) 0 s"

lemma foldl_hex_zeros:
  "foldl (\<lambda>a c. 16 * a + hex_digit_value c) 0 (dropWhile (\<lambda>c. c = CHR ''0'') s)
   = foldl (\<lambda>a c. 16 * a + hex_digit_value c) 0 s"
  by (induction s) (simp_all add: hex_digit_value_def)

lemma hex_value_dropWhile: "hex_value (dropWhile (\<lambda>c. c = CHR ''0'') s) = hex_value s"
  by (simp add: hex_value_def foldl_hex_zeros)

end
