(* ===== verification/Regex.thy ===== *)
theory Regex
  imports Prelude
begin

text \<open>
  The regular expressions of \<open>src/src/gen.rs\<close> are kept as data, so that each
  \<open>_REGEX\<close> constant of the model reads like the pattern it translates. Only the
  constructs those patterns use are here: literals, character classes, sequencing,
  alternatives, bounded and unbounded repetition and \<open>$\<close>. Every pattern starts with
  \<open>^\<close>, so a match starts at the beginning; without a \<open>$\<close> it may stop anywhere, which is
  why \<open>rests\<close> returns every remainder a match can leave.
\<close>

datatype rx =
    Lit string
  | Cls "(char \<times> char) list"     \<comment> \<open>the ranges of a class, \<open>[a-fA-F0-9]\<close>\<close>
  | Cat rx rx
  | Alt rx rx
  | Rep nat nat rx               \<comment> \<open>at least \<open>m\<close> and at most \<open>m + k\<close> times\<close>
  | Many nat rx                  \<comment> \<open>at least \<open>m\<close> times; the body consumes a character\<close>
  | Eoi                          \<comment> \<open>\<open>$\<close>, the end of the text\<close>

definition in_class :: "(char \<times> char) list \<Rightarrow> char \<Rightarrow> bool" where
  "in_class rs c = list_ex (\<lambda>(lo, hi). (of_char lo :: nat) \<le> of_char c \<and> (of_char c :: nat) \<le> of_char hi) rs"

fun reps :: "(string \<Rightarrow> string list) \<Rightarrow> nat \<Rightarrow> nat \<Rightarrow> string \<Rightarrow> string list" where
  "reps f (Suc m) k s = concat (map (reps f m k) (f s))"
| "reps f 0 (Suc k) s = s # concat (map (reps f 0 k) (f s))"
| "reps f 0 0 s = [s]"

fun class_step :: "(char \<times> char) list \<Rightarrow> string \<Rightarrow> string list" where
  "class_step rs [] = []"
| "class_step rs (c # cs) = (if in_class rs c then [cs] else [])"

text \<open>A repetition without an upper bound takes at most one round per character left,
  because the body of every \<open>Many\<close> consumes at least one.\<close>

primrec rests :: "rx \<Rightarrow> string \<Rightarrow> string list" where
  "rests (Lit l) = (\<lambda>s. if take (length l) s = l then [drop (length l) s] else [])"
| "rests (Cls rs) = class_step rs"
| "rests (Cat a b) = (\<lambda>s. concat (map (rests b) (rests a s)))"
| "rests (Alt a b) = (\<lambda>s. rests a s @ rests b s)"
| "rests (Rep m k r) = reps (rests r) m k"
| "rests (Many m r) = (\<lambda>s. reps (rests r) m (length s) s)"
| "rests Eoi = (\<lambda>s. if s = [] then [[]] else [])"

definition is_match :: "rx \<Rightarrow> string \<Rightarrow> bool" where
  "is_match r s \<longleftrightarrow> rests r s \<noteq> []"

lemma reps_class_0:
  "t \<in> set (reps (class_step rs) 0 k s) \<longleftrightarrow>
     (\<exists>u. s = u @ t \<and> length u \<le> k \<and> list_all (in_class rs) u)"
proof (induction k arbitrary: s)
  case 0
  show ?case by auto
next
  case (Suc k)
  show ?case
  proof (cases s)
    case Nil
    then show ?thesis by (auto simp: Suc.IH)
  next
    case (Cons c cs)
    have "(\<exists>u. c # cs = u @ t \<and> length u \<le> Suc k \<and> list_all (in_class rs) u) \<longleftrightarrow>
      t = c # cs \<or> (in_class rs c \<and> (\<exists>u. cs = u @ t \<and> length u \<le> k \<and> list_all (in_class rs) u))"
      (is "?l \<longleftrightarrow> ?r")
    proof
      assume ?l
      then obtain u where "c # cs = u @ t" "length u \<le> Suc k" "list_all (in_class rs) u" by blast
      then show ?r by (cases u) auto
    next
      assume ?r
      then show ?l
      proof
        assume "t = c # cs"
        then show ?l by (intro exI [of _ "[]"]) simp
      next
        assume "in_class rs c \<and> (\<exists>u. cs = u @ t \<and> length u \<le> k \<and> list_all (in_class rs) u)"
        then obtain u where "in_class rs c" "cs = u @ t" "length u \<le> k" "list_all (in_class rs) u"
          by blast
        then show ?l by (intro exI [of _ "c # u"]) simp
      qed
    qed
    with Cons show ?thesis by (auto simp: Suc.IH)
  qed
qed

lemma reps_class:
  "t \<in> set (reps (class_step rs) m k s) \<longleftrightarrow>
     (\<exists>u. s = u @ t \<and> m \<le> length u \<and> length u \<le> m + k \<and> list_all (in_class rs) u)"
proof (induction m arbitrary: s)
  case 0
  show ?case by (simp only: reps_class_0) auto
next
  case (Suc m)
  show ?case
  proof (cases s)
    case Nil
    then show ?thesis by auto
  next
    case (Cons c cs)
    have "(\<exists>u. c # cs = u @ t \<and> Suc m \<le> length u \<and> length u \<le> Suc m + k \<and> list_all (in_class rs) u)
      \<longleftrightarrow> in_class rs c \<and> (\<exists>u. cs = u @ t \<and> m \<le> length u \<and> length u \<le> m + k \<and> list_all (in_class rs) u)"
      (is "?l \<longleftrightarrow> ?r")
    proof
      assume ?l
      then obtain u where "c # cs = u @ t" "Suc m \<le> length u" "length u \<le> Suc m + k"
        "list_all (in_class rs) u" by blast
      then show ?r by (cases u) auto
    next
      assume ?r
      then obtain u where "in_class rs c" "cs = u @ t" "m \<le> length u" "length u \<le> m + k"
        "list_all (in_class rs) u" by blast
      then show ?l by (intro exI [of _ "c # u"]) simp
    qed
    with Cons show ?thesis by (auto simp: Suc.IH)
  qed
qed

text \<open>The three shapes the patterns of the program have.\<close>

lemma reps_class_to_end:
  "(\<exists>t. t \<in> set (reps (class_step rs) m k s) \<and> rests Eoi t \<noteq> []) \<longleftrightarrow>
     m \<le> length s \<and> length s \<le> m + k \<and> list_all (in_class rs) s"
  by (auto simp: reps_class)

lemma concat_map_nonempty: "concat (map f xs) \<noteq> [] \<longleftrightarrow> (\<exists>x. x \<in> set xs \<and> f x \<noteq> [])"
  by auto

lemma is_match_class_end:
  "is_match (Cat (Lit l) (Cat (Rep m k (Cls rs)) Eoi)) s \<longleftrightarrow>
     (\<exists>t. s = l @ t \<and> m \<le> length t \<and> length t \<le> m + k \<and> list_all (in_class rs) t)"
proof -
  have "is_match (Cat (Lit l) (Cat (Rep m k (Cls rs)) Eoi)) s \<longleftrightarrow>
    take (length l) s = l \<and>
    (\<exists>t. t \<in> set (reps (class_step rs) m k (drop (length l) s)) \<and> rests Eoi t \<noteq> [])"
    unfolding is_match_def rests.simps concat_map_nonempty by auto
  also have "\<dots> \<longleftrightarrow> take (length l) s = l \<and> m \<le> length (drop (length l) s) \<and>
    length (drop (length l) s) \<le> m + k \<and> list_all (in_class rs) (drop (length l) s)"
    by (simp only: reps_class_to_end)
  also have "\<dots> \<longleftrightarrow> (\<exists>t. s = l @ t \<and> m \<le> length t \<and> length t \<le> m + k \<and> list_all (in_class rs) t)"
    by (metis append_eq_conv_conj append_take_drop_id)
  finally show ?thesis .
qed

lemma is_match_many_end:
  "is_match (Cat (Lit l) (Cat (Many m (Cls rs)) Eoi)) s \<longleftrightarrow>
     (\<exists>t. s = l @ t \<and> m \<le> length t \<and> list_all (in_class rs) t)"
proof -
  have "is_match (Cat (Lit l) (Cat (Many m (Cls rs)) Eoi)) s \<longleftrightarrow>
    take (length l) s = l \<and> (\<exists>t. t \<in> set (reps (class_step rs) m (length (drop (length l) s))
      (drop (length l) s)) \<and> rests Eoi t \<noteq> [])"
    unfolding is_match_def rests.simps concat_map_nonempty by auto
  also have "\<dots> \<longleftrightarrow> take (length l) s = l \<and> m \<le> length (drop (length l) s) \<and>
    list_all (in_class rs) (drop (length l) s)"
    by (simp only: reps_class_to_end) auto
  also have "\<dots> \<longleftrightarrow> (\<exists>t. s = l @ t \<and> m \<le> length t \<and> list_all (in_class rs) t)"
    by (metis append_eq_conv_conj append_take_drop_id)
  finally show ?thesis .
qed

text \<open>\<open>^0x(0|[first]{1}[rest]{0,k})$\<close>.\<close>

lemma is_match_numeral:
  "is_match (Cat (Lit l) (Cat (Alt (Lit z) (Cat (Rep 1 0 (Cls fs)) (Rep 0 k (Cls rs)))) Eoi)) s \<longleftrightarrow>
     s = l @ z \<or> (\<exists>c t. s = l @ c # t \<and> in_class fs c \<and> length t \<le> k \<and> list_all (in_class rs) t)"
proof -
  have one: "reps (class_step fs) 1 0 v = class_step fs v" for v
    by (cases v) (simp_all add: numeral_eq_Suc)
  have first: "(\<exists>w. w \<in> set (class_step fs v) \<and> P w) \<longleftrightarrow> (\<exists>c t. v = c # t \<and> in_class fs c \<and> P t)"
    for v P by (cases v) auto
  have lit: "(\<exists>w. w \<in> set (rests (Lit z) v) \<and> rests Eoi w \<noteq> []) \<longleftrightarrow> v = z" for v
    by (auto simp: append_eq_conv_conj)
  have "is_match (Cat (Lit l) (Cat (Alt (Lit z) (Cat (Rep 1 0 (Cls fs)) (Rep 0 k (Cls rs)))) Eoi)) s \<longleftrightarrow>
    take (length l) s = l \<and> ((\<exists>w. w \<in> set (rests (Lit z) (drop (length l) s)) \<and> rests Eoi w \<noteq> []) \<or>
      (\<exists>w. w \<in> set (class_step fs (drop (length l) s)) \<and>
         (\<exists>u. u \<in> set (reps (class_step rs) 0 k w) \<and> rests Eoi u \<noteq> [])))"
    unfolding is_match_def rests.simps(2,3,4,5) concat_map_nonempty one
    by (simp add: concat_map_nonempty [symmetric] del: reps.simps rests.simps(7)) blast
  also have "\<dots> \<longleftrightarrow> take (length l) s = l \<and> (drop (length l) s = z \<or>
      (\<exists>c t. drop (length l) s = c # t \<and> in_class fs c \<and>
         (\<exists>u. u \<in> set (reps (class_step rs) 0 k t) \<and> rests Eoi u \<noteq> [])))"
    by (simp only: lit first)
  also have "\<dots> \<longleftrightarrow> take (length l) s = l \<and> (drop (length l) s = z \<or>
      (\<exists>c t. drop (length l) s = c # t \<and> in_class fs c \<and> length t \<le> k \<and> list_all (in_class rs) t))"
    by (simp only: reps_class_to_end) simp
  also have "\<dots> \<longleftrightarrow> s = l @ z \<or>
      (\<exists>c t. s = l @ c # t \<and> in_class fs c \<and> length t \<le> k \<and> list_all (in_class rs) t)"
    by (metis append_eq_conv_conj append_take_drop_id)
  finally show ?thesis .
qed

end
