(* ===== verification/Jsonrpc.thy ===== *)
theory Jsonrpc
  imports Prelude
begin

text \<open>
  The JSON-RPC messages of the \<open>iamgroot\<close> crate as far as the sources read and build
  them: an error is a code and a message (\<open>jsonrpc::Error { code, message }\<close>), a request
  a method with optional parameters and an optional id (\<open>req.method\<close>,
  \<open>req.params\<close>, \<open>req.id\<close>), a response an optional result and an optional error
  (\<open>res.result\<close>, \<open>res.error\<close>) with an id. JSON values are a type variable
  \<open>'v\<close>: \<open>serde_json\<close> is not part of the sources, and its conversions are arguments of
  the definitions that use them.
\<close>

record rpc_error =
  code :: int
  message :: string

definition rpc_err :: "int \<Rightarrow> string \<Rightarrow> rpc_error" where
  "rpc_err c m = \<lparr>code = c, message = m\<rparr>"

datatype rpc_id = NumberId int | TextId string

record 'v rpc_request =
  req_method :: string
  req_params :: "'v option"
  req_id :: "rpc_id option"

record 'v rpc_response =
  res_result :: "'v option"
  res_error :: "rpc_error option"
  res_id :: "rpc_id option"

definition response_result :: "'v \<Rightarrow> 'v rpc_response" where
  "response_result v = \<lparr>res_result = Some v, res_error = None, res_id = None\<rparr>"

definition response_error :: "int \<Rightarrow> string \<Rightarrow> 'v rpc_response" where
  "response_error c m = \<lparr>res_result = None, res_error = Some (rpc_err c m), res_id = None\<rparr>"

definition with_id :: "'v rpc_response \<Rightarrow> rpc_id \<Rightarrow> 'v rpc_response" where
  "with_id r i = r\<lparr>res_id := Some i\<rparr>"

lemma rpc_err_fields [simp]: "code (rpc_err c m) = c" "message (rpc_err c m) = m"
  by (simp_all add: rpc_err_def)

lemma rpc_err_eta [simp]: "rpc_err (code e) (message e) = e"
  by (simp add: rpc_err_def)

lemma rpc_err_inject [simp]: "rpc_err c m = rpc_err c' m' \<longleftrightarrow> c = c' \<and> m = m'"
  by (simp add: rpc_err_def)

lemma response_result_fields [simp]:
  "res_result (response_result v) = Some v" "res_error (response_result v) = None"
  "res_id (response_result v) = None"
  by (simp_all add: response_result_def)

lemma response_error_fields [simp]:
  "res_result (response_error c m) = None" "res_error (response_error c m) = Some (rpc_err c m)"
  "res_id (response_error c m) = None"
  by (simp_all add: response_error_def)

lemma with_id_fields [simp]:
  "res_result (with_id r i) = res_result r" "res_error (with_id r i) = res_error r"
  "res_id (with_id r i) = Some i"
  by (simp_all add: with_id_def)

end
