(* ===== verification/Scalars.thy ===== *)
theory Scalars
  imports Regex Jsonrpc
begin

text \<open>
  The validated newtypes of \<open>src/src/gen.rs\<close>: tuple structs over \<open>String\<close> or
  \<open>i64\<close> whose field is private, so that \<open>try_new\<close> is the only way to make one. A
  \<open>String\<close> newtype is checked against its regular expression, an \<open>i64\<close> one against
  \<open>MIN\<close> and \<open>MAX\<close>. \<open>Felt\<close> first rewrites its argument (\<open>fix\<close>). The locale
  \<open>validated_newtype\<close> states what every one of them promises; it is interpreted on
  all fifteen.
\<close>

section \<open>The contract of a validated newtype\<close>

locale validated_newtype =
  fixes try_new :: "'raw \<Rightarrow> ('t, rpc_error) outcome"
    and as_ref :: "'t \<Rightarrow> 'raw"
    and valid :: "'raw \<Rightarrow> bool"
    and norm :: "'raw \<Rightarrow> 'raw"
  assumes accepts: "valid (norm v) \<Longrightarrow> \<exists>x. try_new v = Ok x \<and> as_ref x = norm v"
    and rejects: "\<not> valid (norm v) \<Longrightarrow> \<exists>m. try_new v = Err (rpc_err 1001 m)"
    and norm_valid: "valid v \<Longrightarrow> norm v = v"
    and as_ref_inject: "as_ref x = as_ref y \<Longrightarrow> x = y"
begin

lemma try_new_Ok_iff: "try_new v = Ok x \<longleftrightarrow> valid (norm v) \<and> as_ref x = norm v"
proof (cases "valid (norm v)")
  case True
  then obtain y where "try_new v = Ok y" "as_ref y = norm v" using accepts by blast
  with True show ?thesis by (metis as_ref_inject outcome.inject(1))
next
  case False
  then show ?thesis using rejects [of v] by auto
qed

lemma try_new_valid: "try_new v = Ok x \<Longrightarrow> valid (as_ref x)"
  by (simp add: try_new_Ok_iff)

lemma try_new_again: "try_new v = Ok x \<Longrightarrow> try_new (as_ref x) = Ok x"
  by (simp add: try_new_Ok_iff norm_valid)

lemma try_new_of_valid: "valid (as_ref x) \<Longrightarrow> try_new (as_ref x) = Ok x"
  by (simp add: try_new_Ok_iff norm_valid)

lemma try_new_no_panic: "try_new v \<noteq> Panicked"
  using accepts [of v] rejects [of v] by (cases "valid (norm v)") auto

lemma try_new_err_code: "try_new v = Err e \<Longrightarrow> code e = 1001"
  using accepts [of v] rejects [of v] by (cases "valid (norm v)") auto

lemma try_new_unique: "try_new v = Ok x \<Longrightarrow> try_new w = Ok y \<Longrightarrow> norm v = norm w \<Longrightarrow> x = y"
  by (simp add: try_new_Ok_iff) (metis as_ref_inject)

end

section \<open>Numbers in hexadecimal: \<open>Felt\<close>\<close>

text \<open>\<open>"^0x(0|[a-fA-F1-9]{1}[a-fA-F0-9]{0,62})$"\<close>.\<close>

datatype Felt = Felt string

fun Felt_as_ref :: "Felt \<Rightarrow> string" where
  "Felt_as_ref (Felt s) = s"

definition hex_class :: "(char \<times> char) list" where
  "hex_class = [(CHR ''a'', CHR ''f''), (CHR ''A'', CHR ''F''), (CHR ''0'', CHR ''9'')]"

definition hex1_class :: "(char \<times> char) list" where
  "hex1_class = [(CHR ''a'', CHR ''f''), (CHR ''A'', CHR ''F''), (CHR ''1'', CHR ''9'')]"

definition FELT_REGEX :: rx where
  "FELT_REGEX = Cat (Lit ''0x'') (Cat (Alt (Lit ''0'')
     (Cat (Rep 1 0 (Cls hex1_class)) (Rep 0 62 (Cls hex_class)))) Eoi)"

definition strip_0x :: "string \<Rightarrow> string option" where
  "strip_0x s = (case s of a # b # t \<Rightarrow> if a = CHR ''0'' \<and> b = CHR ''x'' then Some t else None | _ \<Rightarrow> None)"

text \<open>\<open>fix\<close>: the prefix is taken off when it is there; an empty rest means \<open>0x0\<close>;
  leading zeros are trimmed, and then the prefix is put back.\<close>

definition Felt_fix :: "string \<Rightarrow> string" where
  "Felt_fix v =
     (let unprefixed = (case strip_0x v of Some t \<Rightarrow> t | None \<Rightarrow> v) in
      if unprefixed = [] then ''0x0''
      else if unprefixed = ''0'' then v
      else if hd unprefixed = CHR ''0'' then ''0x'' @ dropWhile (\<lambda>c. c = CHR ''0'') unprefixed
      else v)"

definition Felt_try_new :: "string \<Rightarrow> (Felt, rpc_error) outcome" where
  "Felt_try_new v0 =
     (let v = Felt_fix v0 in
      if is_match FELT_REGEX v then Ok (Felt v)
      else Err (rpc_err 1001 (''Felt value does not match regex: '' @ v)))"

definition Felt_try_from :: "string \<Rightarrow> (Felt, string) outcome" where
  "Felt_try_from v = map_err message (Felt_try_new v)"

lemma Felt_as_ref_inject [simp]: "Felt_as_ref x = Felt_as_ref y \<longleftrightarrow> x = y"
  by (cases x, cases y) simp

lemma in_hex_class: "in_class hex_class c \<longleftrightarrow> hex_digit c"
  by (auto simp: in_class_def hex_class_def hex_digit_def Let_def)

lemma in_hex1_class: "in_class hex1_class c \<longleftrightarrow> hex_digit c \<and> c \<noteq> CHR ''0''"
proof -
  have "c = CHR ''0'' \<longleftrightarrow> (of_char c :: nat) = 48"
    using of_char_eq_iff [of c "CHR ''0''", where ?'a = nat] by auto
  then show ?thesis
    by (auto simp: in_class_def hex1_class_def hex_digit_def Let_def)
qed

lemma FELT_REGEX_iff:
  "is_match FELT_REGEX s \<longleftrightarrow> s = ''0x0'' \<or>
     (\<exists>c t. s = ''0x'' @ c # t \<and> hex_digit c \<and> c \<noteq> CHR ''0'' \<and> length t \<le> 62 \<and> list_all hex_digit t)"
proof -
  have hex: "in_class hex_class = hex_digit" by (rule ext) (rule in_hex_class)
  show ?thesis
    unfolding FELT_REGEX_def is_match_numeral hex in_hex1_class by auto
qed

lemma strip_0x_append [simp]: "strip_0x (''0x'' @ t) = Some t"
  by (simp add: strip_0x_def)

lemma strip_0x_Some: "strip_0x v = Some t \<longleftrightarrow> v = ''0x'' @ t"
  by (auto simp: strip_0x_def split: list.splits if_splits)

lemma Felt_fix_valid: "is_match FELT_REGEX v \<Longrightarrow> Felt_fix v = v"
  by (auto simp: FELT_REGEX_iff Felt_fix_def strip_0x_def Let_def)

interpretation felt_t: validated_newtype Felt_try_new Felt_as_ref "is_match FELT_REGEX" Felt_fix
proof unfold_locales
  show "is_match FELT_REGEX (Felt_fix v) \<Longrightarrow> \<exists>x. Felt_try_new v = Ok x \<and> Felt_as_ref x = Felt_fix v" for v
    by (simp add: Felt_try_new_def)
  show "\<not> is_match FELT_REGEX (Felt_fix v) \<Longrightarrow> \<exists>m. Felt_try_new v = Err (rpc_err 1001 m)" for v
    by (simp add: Felt_try_new_def)
  show "is_match FELT_REGEX v \<Longrightarrow> Felt_fix v = v" for v
    by (rule Felt_fix_valid)
  show "Felt_as_ref x = Felt_as_ref y \<Longrightarrow> x = y" for x y
    by simp
qed

section \<open>The other string newtypes\<close>

definition oct_class :: "(char \<times> char) list" where
  "oct_class = [(CHR ''0'', CHR ''7'')]"

definition base64_class :: "(char \<times> char) list" where
  "base64_class = [(CHR ''A'', CHR ''Z''), (CHR ''a'', CHR ''z''), (CHR ''0'', CHR ''9''),
     (CHR ''+'', CHR ''+''), (CHR ''/'', CHR ''/'')]"

text \<open>\<open>"^0x[a-fA-F0-9]+$"\<close>.\<close>

datatype ChainId = ChainId string

fun ChainId_as_ref :: "ChainId \<Rightarrow> string" where
  "ChainId_as_ref (ChainId s) = s"

definition CHAINID_REGEX :: rx where
  "CHAINID_REGEX = Cat (Lit ''0x'') (Cat (Many 1 (Cls hex_class)) Eoi)"

definition ChainId_try_new :: "string \<Rightarrow> (ChainId, rpc_error) outcome" where
  "ChainId_try_new v =
     (if is_match CHAINID_REGEX v then Ok (ChainId v)
      else Err (rpc_err 1001 (''ChainId value does not match regex: '' @ v)))"

definition ChainId_try_from :: "string \<Rightarrow> (ChainId, string) outcome" where
  "ChainId_try_from v = map_err message (ChainId_try_new v)"

lemma ChainId_as_ref_inject [simp]: "ChainId_as_ref x = ChainId_as_ref y \<longleftrightarrow> x = y"
  by (cases x, cases y) simp

interpretation chain_id_t: validated_newtype ChainId_try_new ChainId_as_ref "is_match CHAINID_REGEX" "\<lambda>v. v"
  by unfold_locales (simp_all add: ChainId_try_new_def)

text \<open>\<open>"^(?:[A-Za-z0-9+/]{4})*(?:[A-Za-z0-9+/]{3}=|[A-Za-z0-9+/]{2}==)?$"\<close>.\<close>

datatype DeprecatedContractClassProgram = DeprecatedContractClassProgram string

fun DeprecatedContractClassProgram_as_ref :: "DeprecatedContractClassProgram \<Rightarrow> string" where
  "DeprecatedContractClassProgram_as_ref (DeprecatedContractClassProgram s) = s"

definition DEPRECATEDCONTRACTCLASSPROGRAM_REGEX :: rx where
  "DEPRECATEDCONTRACTCLASSPROGRAM_REGEX = Cat (Many 0 (Rep 4 0 (Cls base64_class)))
       (Cat (Rep 0 1 (Alt (Cat (Rep 3 0 (Cls base64_class)) (Lit ''=''))
                          (Cat (Rep 2 0 (Cls base64_class)) (Lit ''=='')))) Eoi)"

definition DeprecatedContractClassProgram_try_new :: "string \<Rightarrow> (DeprecatedContractClassProgram, rpc_error) outcome" where
  "DeprecatedContractClassProgram_try_new v =
     (if is_match DEPRECATEDCONTRACTCLASSPROGRAM_REGEX v then Ok (DeprecatedContractClassProgram v)
      else Err (rpc_err 1001 (''DeprecatedContractClassProgram value does not match regex: '' @ v)))"

definition DeprecatedContractClassProgram_try_from :: "string \<Rightarrow> (DeprecatedContractClassProgram, string) outcome" where
  "DeprecatedContractClassProgram_try_from v = map_err message (DeprecatedContractClassProgram_try_new v)"

lemma DeprecatedContractClassProgram_as_ref_inject [simp]: "DeprecatedContractClassProgram_as_ref x = DeprecatedContractClassProgram_as_ref y \<longleftrightarrow> x = y"
  by (cases x, cases y) simp

interpretation program_t: validated_newtype DeprecatedContractClassProgram_try_new DeprecatedContractClassProgram_as_ref "is_match DEPRECATEDCONTRACTCLASSPROGRAM_REGEX" "\<lambda>v. v"
  by unfold_locales (simp_all add: DeprecatedContractClassProgram_try_new_def)

text \<open>\<open>"^0x[a-fA-F0-9]{40}$"\<close>.\<close>

datatype EthAddress = EthAddress string

fun EthAddress_as_ref :: "EthAddress \<Rightarrow> string" where
  "EthAddress_as_ref (EthAddress s) = s"

definition ETHADDRESS_REGEX :: rx where
  "ETHADDRESS_REGEX = Cat (Lit ''0x'') (Cat (Rep 40 0 (Cls hex_class)) Eoi)"

definition EthAddress_try_new :: "string \<Rightarrow> (EthAddress, rpc_error) outcome" where
  "EthAddress_try_new v =
     (if is_match ETHADDRESS_REGEX v then Ok (EthAddress v)
      else Err (rpc_err 1001 (''EthAddress value does not match regex: '' @ v)))"

definition EthAddress_try_from :: "string \<Rightarrow> (EthAddress, string) outcome" where
  "EthAddress_try_from v = map_err message (EthAddress_try_new v)"

lemma EthAddress_as_ref_inject [simp]: "EthAddress_as_ref x = EthAddress_as_ref y \<longleftrightarrow> x = y"
  by (cases x, cases y) simp

interpretation eth_address_t: validated_newtype EthAddress_try_new EthAddress_as_ref "is_match ETHADDRESS_REGEX" "\<lambda>v. v"
  by unfold_locales (simp_all add: EthAddress_try_new_def)

text \<open>\<open>"^0x[a-fA-F0-9]+$"\<close>.\<close>

datatype NumAsHex = NumAsHex string

fun NumAsHex_as_ref :: "NumAsHex \<Rightarrow> string" where
  "NumAsHex_as_ref (NumAsHex s) = s"

definition NUMASHEX_REGEX :: rx where
  "NUMASHEX_REGEX = Cat (Lit ''0x'') (Cat (Many 1 (Cls hex_class)) Eoi)"

definition NumAsHex_try_new :: "string \<Rightarrow> (NumAsHex, rpc_error) outcome" where
  "NumAsHex_try_new v =
     (if is_match NUMASHEX_REGEX v then Ok (NumAsHex v)
      else Err (rpc_err 1001 (''NumAsHex value does not match regex: '' @ v)))"

definition NumAsHex_try_from :: "string \<Rightarrow> (NumAsHex, string) outcome" where
  "NumAsHex_try_from v = map_err message (NumAsHex_try_new v)"

lemma NumAsHex_as_ref_inject [simp]: "NumAsHex_as_ref x = NumAsHex_as_ref y \<longleftrightarrow> x = y"
  by (cases x, cases y) simp

interpretation num_as_hex_t: validated_newtype NumAsHex_try_new NumAsHex_as_ref "is_match NUMASHEX_REGEX" "\<lambda>v. v"
  by unfold_locales (simp_all add: NumAsHex_try_new_def)

text \<open>\<open>"^0x(0|[0-7]{1}[a-fA-F0-9]{0,62}$)"\<close>.\<close>

datatype StorageKey = StorageKey string

fun StorageKey_as_ref :: "StorageKey \<Rightarrow> string" where
  "StorageKey_as_ref (StorageKey s) = s"

definition STORAGEKEY_REGEX :: rx where
  "STORAGEKEY_REGEX = Cat (Lit ''0x'') (Alt (Lit ''0'')
       (Cat (Rep 1 0 (Cls oct_class)) (Cat (Rep 0 62 (Cls hex_class)) Eoi)))"

definition StorageKey_try_new :: "string \<Rightarrow> (StorageKey, rpc_error) outcome" where
  "StorageKey_try_new v =
     (if is_match STORAGEKEY_REGEX v then Ok (StorageKey v)
      else Err (rpc_err 1001 (''StorageKey value does not match regex: '' @ v)))"

definition StorageKey_try_from :: "string \<Rightarrow> (StorageKey, string) outcome" where
  "StorageKey_try_from v = map_err message (StorageKey_try_new v)"

lemma StorageKey_as_ref_inject [simp]: "StorageKey_as_ref x = StorageKey_as_ref y \<longleftrightarrow> x = y"
  by (cases x, cases y) simp

interpretation storage_key_t: validated_newtype StorageKey_try_new StorageKey_as_ref "is_match STORAGEKEY_REGEX" "\<lambda>v. v"
  by unfold_locales (simp_all add: StorageKey_try_new_def)

text \<open>\<open>"^0x(0|[a-fA-F1-9]{1}[a-fA-F0-9]{0,31})$"\<close>.\<close>

datatype U128 = U128 string

fun U128_as_ref :: "U128 \<Rightarrow> string" where
  "U128_as_ref (U128 s) = s"

definition U128_REGEX :: rx where
  "U128_REGEX = Cat (Lit ''0x'') (Cat (Alt (Lit ''0'')
       (Cat (Rep 1 0 (Cls hex1_class)) (Rep 0 31 (Cls hex_class)))) Eoi)"

definition U128_try_new :: "string \<Rightarrow> (U128, rpc_error) outcome" where
  "U128_try_new v =
     (if is_match U128_REGEX v then Ok (U128 v)
      else Err (rpc_err 1001 (''U128 value does not match regex: '' @ v)))"

definition U128_try_from :: "string \<Rightarrow> (U128, string) outcome" where
  "U128_try_from v = map_err message (U128_try_new v)"

lemma U128_as_ref_inject [simp]: "U128_as_ref x = U128_as_ref y \<longleftrightarrow> x = y"
  by (cases x, cases y) simp

interpretation u128_t: validated_newtype U128_try_new U128_as_ref "is_match U128_REGEX" "\<lambda>v. v"
  by unfold_locales (simp_all add: U128_try_new_def)

text \<open>\<open>"^0x(0|[a-fA-F1-9]{1}[a-fA-F0-9]{0,15})$"\<close>.\<close>

datatype U64 = U64 string

fun U64_as_ref :: "U64 \<Rightarrow> string" where
  "U64_as_ref (U64 s) = s"

definition U64_REGEX :: rx where
  "U64_REGEX = Cat (Lit ''0x'') (Cat (Alt (Lit ''0'')
       (Cat (Rep 1 0 (Cls hex1_class)) (Rep 0 15 (Cls hex_class)))) Eoi)"

definition U64_try_new :: "string \<Rightarrow> (U64, rpc_error) outcome" where
  "U64_try_new v =
     (if is_match U64_REGEX v then Ok (U64 v)
      else Err (rpc_err 1001 (''U64 value does not match regex: '' @ v)))"

definition U64_try_from :: "string \<Rightarrow> (U64, string) outcome" where
  "U64_try_from v = map_err message (U64_try_new v)"

lemma U64_as_ref_inject [simp]: "U64_as_ref x = U64_as_ref y \<longleftrightarrow> x = y"
  by (cases x, cases y) simp

interpretation u64_t: validated_newtype U64_try_new U64_as_ref "is_match U64_REGEX" "\<lambda>v. v"
  by unfold_locales (simp_all add: U64_try_new_def)

section \<open>The integer newtypes\<close>

text \<open>The bounds are compared as signed integers.\<close>

definition in_bounds :: "i64 \<Rightarrow> i64 \<Rightarrow> i64 \<Rightarrow> bool" where
  "in_bounds lo hi v \<longleftrightarrow> sint lo \<le> sint v \<and> sint v \<le> sint hi"

datatype BlockHeaderTimestamp = BlockHeaderTimestamp i64

fun BlockHeaderTimestamp_as_ref :: "BlockHeaderTimestamp \<Rightarrow> i64" where
  "BlockHeaderTimestamp_as_ref (BlockHeaderTimestamp v) = v"

definition BlockHeaderTimestamp_MIN :: i64 where "BlockHeaderTimestamp_MIN = 0"

definition BlockHeaderTimestamp_MAX :: i64 where "BlockHeaderTimestamp_MAX = 9223372036854775807"

definition BlockHeaderTimestamp_try_new :: "i64 \<Rightarrow> (BlockHeaderTimestamp, rpc_error) outcome" where
  "BlockHeaderTimestamp_try_new v =
     (if sint v < sint BlockHeaderTimestamp_MIN
      then Err (rpc_err 1001 (''BlockHeaderTimestamp value '' @ show_i64 v @ '' must be > '' @ show_i64 BlockHeaderTimestamp_MIN))
      else if sint v > sint BlockHeaderTimestamp_MAX
      then Err (rpc_err 1001 (''BlockHeaderTimestamp value '' @ show_i64 v @ '' must be < '' @ show_i64 BlockHeaderTimestamp_MAX))
      else Ok (BlockHeaderTimestamp v))"

definition BlockHeaderTimestamp_try_from :: "i64 \<Rightarrow> (BlockHeaderTimestamp, string) outcome" where
  "BlockHeaderTimestamp_try_from v = map_err message (BlockHeaderTimestamp_try_new v)"

lemma BlockHeaderTimestamp_as_ref_inject [simp]: "BlockHeaderTimestamp_as_ref x = BlockHeaderTimestamp_as_ref y \<longleftrightarrow> x = y"
  by (cases x, cases y) simp

interpretation block_header_timestamp_t: validated_newtype BlockHeaderTimestamp_try_new BlockHeaderTimestamp_as_ref
  "in_bounds BlockHeaderTimestamp_MIN BlockHeaderTimestamp_MAX" "\<lambda>v. v"
  by unfold_locales (auto simp: BlockHeaderTimestamp_try_new_def in_bounds_def)

datatype BlockNumber = BlockNumber i64

fun BlockNumber_as_ref :: "BlockNumber \<Rightarrow> i64" where
  "BlockNumber_as_ref (BlockNumber v) = v"

definition BlockNumber_MIN :: i64 where "BlockNumber_MIN = 0"

definition BlockNumber_MAX :: i64 where "BlockNumber_MAX = 9223372036854775807"

definition BlockNumber_try_new :: "i64 \<Rightarrow> (BlockNumber, rpc_error) outcome" where
  "BlockNumber_try_new v =
     (if sint v < sint BlockNumber_MIN
      then Err (rpc_err 1001 (''BlockNumber value '' @ show_i64 v @ '' must be > '' @ show_i64 BlockNumber_MIN))
      else if sint v > sint BlockNumber_MAX
      then Err (rpc_err 1001 (''BlockNumber value '' @ show_i64 v @ '' must be < '' @ show_i64 BlockNumber_MAX))
      else Ok (BlockNumber v))"

definition BlockNumber_try_from :: "i64 \<Rightarrow> (BlockNumber, string) outcome" where
  "BlockNumber_try_from v = map_err message (BlockNumber_try_new v)"

lemma BlockNumber_as_ref_inject [simp]: "BlockNumber_as_ref x = BlockNumber_as_ref y \<longleftrightarrow> x = y"
  by (cases x, cases y) simp

interpretation block_number_t: validated_newtype BlockNumber_try_new BlockNumber_as_ref
  "in_bounds BlockNumber_MIN BlockNumber_MAX" "\<lambda>v. v"
  by unfold_locales (auto simp: BlockNumber_try_new_def in_bounds_def)

datatype PendingBlockHeaderTimestamp = PendingBlockHeaderTimestamp i64

fun PendingBlockHeaderTimestamp_as_ref :: "PendingBlockHeaderTimestamp \<Rightarrow> i64" where
  "PendingBlockHeaderTimestamp_as_ref (PendingBlockHeaderTimestamp v) = v"

definition PendingBlockHeaderTimestamp_MIN :: i64 where "PendingBlockHeaderTimestamp_MIN = 0"

definition PendingBlockHeaderTimestamp_MAX :: i64 where "PendingBlockHeaderTimestamp_MAX = 9223372036854775807"

definition PendingBlockHeaderTimestamp_try_new :: "i64 \<Rightarrow> (PendingBlockHeaderTimestamp, rpc_error) outcome" where
  "PendingBlockHeaderTimestamp_try_new v =
     (if sint v < sint PendingBlockHeaderTimestamp_MIN
      then Err (rpc_err 1001 (''PendingBlockHeaderTimestamp value '' @ show_i64 v @ '' must be > '' @ show_i64 PendingBlockHeaderTimestamp_MIN))
      else if sint v > sint PendingBlockHeaderTimestamp_MAX
      then Err (rpc_err 1001 (''PendingBlockHeaderTimestamp value '' @ show_i64 v @ '' must be < '' @ show_i64 PendingBlockHeaderTimestamp_MAX))
      else Ok (PendingBlockHeaderTimestamp v))"

definition PendingBlockHeaderTimestamp_try_from :: "i64 \<Rightarrow> (PendingBlockHeaderTimestamp, string) outcome" where
  "PendingBlockHeaderTimestamp_try_from v = map_err message (PendingBlockHeaderTimestamp_try_new v)"

lemma PendingBlockHeaderTimestamp_as_ref_inject [simp]: "PendingBlockHeaderTimestamp_as_ref x = PendingBlockHeaderTimestamp_as_ref y \<longleftrightarrow> x = y"
  by (cases x, cases y) simp

interpretation pending_timestamp_t: validated_newtype PendingBlockHeaderTimestamp_try_new PendingBlockHeaderTimestamp_as_ref
  "in_bounds PendingBlockHeaderTimestamp_MIN PendingBlockHeaderTimestamp_MAX" "\<lambda>v. v"
  by unfold_locales (auto simp: PendingBlockHeaderTimestamp_try_new_def in_bounds_def)

datatype ResultPageRequestChunkSize = ResultPageRequestChunkSize i64

fun ResultPageRequestChunkSize_as_ref :: "ResultPageRequestChunkSize \<Rightarrow> i64" where
  "ResultPageRequestChunkSize_as_ref (ResultPageRequestChunkSize v) = v"

definition ResultPageRequestChunkSize_MIN :: i64 where "ResultPageRequestChunkSize_MIN = 1"

definition ResultPageRequestChunkSize_MAX :: i64 where "ResultPageRequestChunkSize_MAX = 9223372036854775807"

definition ResultPageRequestChunkSize_try_new :: "i64 \<Rightarrow> (ResultPageRequestChunkSize, rpc_error) outcome" where
  "ResultPageRequestChunkSize_try_new v =
     (if sint v < sint ResultPageRequestChunkSize_MIN
      then Err (rpc_err 1001 (''ResultPageRequestChunkSize value '' @ show_i64 v @ '' must be > '' @ show_i64 ResultPageRequestChunkSize_MIN))
      else if sint v > sint ResultPageRequestChunkSize_MAX
      then Err (rpc_err 1001 (''ResultPageRequestChunkSize value '' @ show_i64 v @ '' must be < '' @ show_i64 ResultPageRequestChunkSize_MAX))
      else Ok (ResultPageRequestChunkSize v))"

definition ResultPageRequestChunkSize_try_from :: "i64 \<Rightarrow> (ResultPageRequestChunkSize, string) outcome" where
  "ResultPageRequestChunkSize_try_from v = map_err message (ResultPageRequestChunkSize_try_new v)"

lemma ResultPageRequestChunkSize_as_ref_inject [simp]: "ResultPageRequestChunkSize_as_ref x = ResultPageRequestChunkSize_as_ref y \<longleftrightarrow> x = y"
  by (cases x, cases y) simp

interpretation chunk_size_t: validated_newtype ResultPageRequestChunkSize_try_new ResultPageRequestChunkSize_as_ref
  "in_bounds ResultPageRequestChunkSize_MIN ResultPageRequestChunkSize_MAX" "\<lambda>v. v"
  by unfold_locales (auto simp: ResultPageRequestChunkSize_try_new_def in_bounds_def)

datatype StructAbiEntrySize = StructAbiEntrySize i64

fun StructAbiEntrySize_as_ref :: "StructAbiEntrySize \<Rightarrow> i64" where
  "StructAbiEntrySize_as_ref (StructAbiEntrySize v) = v"

definition StructAbiEntrySize_MIN :: i64 where "StructAbiEntrySize_MIN = 1"

definition StructAbiEntrySize_MAX :: i64 where "StructAbiEntrySize_MAX = 9223372036854775807"

definition StructAbiEntrySize_try_new :: "i64 \<Rightarrow> (StructAbiEntrySize, rpc_error) outcome" where
  "StructAbiEntrySize_try_new v =
     (if sint v < sint StructAbiEntrySize_MIN
      then Err (rpc_err 1001 (''StructAbiEntrySize value '' @ show_i64 v @ '' must be > '' @ show_i64 StructAbiEntrySize_MIN))
      else if sint v > sint StructAbiEntrySize_MAX
      then Err (rpc_err 1001 (''StructAbiEntrySize value '' @ show_i64 v @ '' must be < '' @ show_i64 StructAbiEntrySize_MAX))
      else Ok (StructAbiEntrySize v))"

definition StructAbiEntrySize_try_from :: "i64 \<Rightarrow> (StructAbiEntrySize, string) outcome" where
  "StructAbiEntrySize_try_from v = map_err message (StructAbiEntrySize_try_new v)"

lemma StructAbiEntrySize_as_ref_inject [simp]: "StructAbiEntrySize_as_ref x = StructAbiEntrySize_as_ref y \<longleftrightarrow> x = y"
  by (cases x, cases y) simp

interpretation struct_size_t: validated_newtype StructAbiEntrySize_try_new StructAbiEntrySize_as_ref
  "in_bounds StructAbiEntrySize_MIN StructAbiEntrySize_MAX" "\<lambda>v. v"
  by unfold_locales (auto simp: StructAbiEntrySize_try_new_def in_bounds_def)

datatype GetTransactionByBlockIdAndIndexIndex = GetTransactionByBlockIdAndIndexIndex i64

fun GetTransactionByBlockIdAndIndexIndex_as_ref :: "GetTransactionByBlockIdAndIndexIndex \<Rightarrow> i64" where
  "GetTransactionByBlockIdAndIndexIndex_as_ref (GetTransactionByBlockIdAndIndexIndex v) = v"

definition GetTransactionByBlockIdAndIndexIndex_MIN :: i64 where "GetTransactionByBlockIdAndIndexIndex_MIN = 0"

definition GetTransactionByBlockIdAndIndexIndex_MAX :: i64 where "GetTransactionByBlockIdAndIndexIndex_MAX = 9223372036854775807"

definition GetTransactionByBlockIdAndIndexIndex_try_new :: "i64 \<Rightarrow> (GetTransactionByBlockIdAndIndexIndex, rpc_error) outcome" where
  "GetTransactionByBlockIdAndIndexIndex_try_new v =
     (if sint v < sint GetTransactionByBlockIdAndIndexIndex_MIN
      then Err (rpc_err 1001 (''GetTransactionByBlockIdAndIndexIndex value '' @ show_i64 v @ '' must be > '' @ show_i64 GetTransactionByBlockIdAndIndexIndex_MIN))
      else if sint v > sint GetTransactionByBlockIdAndIndexIndex_MAX
      then Err (rpc_err 1001 (''GetTransactionByBlockIdAndIndexIndex value '' @ show_i64 v @ '' must be < '' @ show_i64 GetTransactionByBlockIdAndIndexIndex_MAX))
      else Ok (GetTransactionByBlockIdAndIndexIndex v))"

definition GetTransactionByBlockIdAndIndexIndex_try_from :: "i64 \<Rightarrow> (GetTransactionByBlockIdAndIndexIndex, string) outcome" where
  "GetTransactionByBlockIdAndIndexIndex_try_from v = map_err message (GetTransactionByBlockIdAndIndexIndex_try_new v)"

lemma GetTransactionByBlockIdAndIndexIndex_as_ref_inject [simp]: "GetTransactionByBlockIdAndIndexIndex_as_ref x = GetTransactionByBlockIdAndIndexIndex_as_ref y \<longleftrightarrow> x = y"
  by (cases x, cases y) simp

interpretation txn_index_t: validated_newtype GetTransactionByBlockIdAndIndexIndex_try_new GetTransactionByBlockIdAndIndexIndex_as_ref
  "in_bounds GetTransactionByBlockIdAndIndexIndex_MIN GetTransactionByBlockIdAndIndexIndex_MAX" "\<lambda>v. v"
  by unfold_locales (auto simp: GetTransactionByBlockIdAndIndexIndex_try_new_def in_bounds_def)

datatype GetBlockTransactionCountResult = GetBlockTransactionCountResult i64

fun GetBlockTransactionCountResult_as_ref :: "GetBlockTransactionCountResult \<Rightarrow> i64" where
  "GetBlockTransactionCountResult_as_ref (GetBlockTransactionCountResult v) = v"

definition GetBlockTransactionCountResult_MIN :: i64 where "GetBlockTransactionCountResult_MIN = 0"

definition GetBlockTransactionCountResult_MAX :: i64 where "GetBlockTransactionCountResult_MAX = 9223372036854775807"

definition GetBlockTransactionCountResult_try_new :: "i64 \<Rightarrow> (GetBlockTransactionCountResult, rpc_error) outcome" where
  "GetBlockTransactionCountResult_try_new v =
     (if sint v < sint GetBlockTransactionCountResult_MIN
      then Err (rpc_err 1001 (''GetBlockTransactionCountResult value '' @ show_i64 v @ '' must be > '' @ show_i64 GetBlockTransactionCountResult_MIN))
      else if sint v > sint GetBlockTransactionCountResult_MAX
      then Err (rpc_err 1001 (''GetBlockTransactionCountResult value '' @ show_i64 v @ '' must be < '' @ show_i64 GetBlockTransactionCountResult_MAX))
      else Ok (GetBlockTransactionCountResult v))"

definition GetBlockTransactionCountResult_try_from :: "i64 \<Rightarrow> (GetBlockTransactionCountResult, string) outcome" where
  "GetBlockTransactionCountResult_try_from v = map_err message (GetBlockTransactionCountResult_try_new v)"

lemma GetBlockTransactionCountResult_as_ref_inject [simp]: "GetBlockTransactionCountResult_as_ref x = GetBlockTransactionCountResult_as_ref y \<longleftrightarrow> x = y"
  by (cases x, cases y) simp

interpretation txn_count_t: validated_newtype GetBlockTransactionCountResult_try_new GetBlockTransactionCountResult_as_ref
  "in_bounds GetBlockTransactionCountResult_MIN GetBlockTransactionCountResult_MAX" "\<lambda>v. v"
  by unfold_locales (auto simp: GetBlockTransactionCountResult_try_new_def in_bounds_def)

end
