(* ===== verification/ScalarFacts.thy ===== *)
theory ScalarFacts
  imports Scalars
begin

text \<open>
  What the validated newtypes accept, in closed form: the numeral \<open>Felt::try_new\<close>
  stores has the value of its argument, exactly which texts it rejects (among them every
  zero written with two or more digits), and what the misplaced \<open>$\<close> of the
  \<open>StorageKey\<close> pattern lets through.
\<close>

section \<open>\<open>Felt\<close>\<close>

definition hex_part :: "string \<Rightarrow> string" where
  "hex_part v = (case strip_0x v of Some t \<Rightarrow> t | None \<Rightarrow> v)"

lemma hex_part_prefixed [simp]: "hex_part (''0x'' @ t) = t"
  by (simp only: hex_part_def strip_0x_append option.case)

lemma hex_part_prefixed' [simp]: "hex_part (CHR ''0'' # CHR ''x'' # t) = t"
  using hex_part_prefixed [of t] by simp

lemma Felt_fix_alt:
  "Felt_fix v = (if hex_part v = [] then ''0x0''
     else if hex_part v \<noteq> ''0'' \<and> hd (hex_part v) = CHR ''0''
     then ''0x'' @ dropWhile (\<lambda>c. c = CHR ''0'') (hex_part v) else v)"
  by (auto simp: Felt_fix_def hex_part_def Let_def)

lemma Felt_as_ref_shape:
  assumes "Felt_try_new v = Ok x"
  obtains t where "Felt_as_ref x = ''0x'' @ t" and "list_all hex_digit t" and "t \<noteq> []" and "length t \<le> 63"
    and "t = ''0'' \<or> hd t \<noteq> CHR ''0''"
  using felt_t.try_new_valid [OF assms]
  by (auto simp: FELT_REGEX_iff hex_digit_def intro: that)

lemma hex_value_Nil [simp]: "hex_value [] = 0"
  by (simp add: hex_value_def)

text \<open>
  C35. Accepting a numeral never changes the number: when \<open>Felt::try_new\<close> accepts a text, the
  hexadecimal number it stores equals the number the text denotes (its digits after an
  optional \<open>0x\<close>), although the stored text may differ by leading zeros and the prefix.
\<close>

theorem Felt_try_new_value:
  assumes "Felt_try_new v = Ok x"
  shows "hex_value (hex_part (Felt_as_ref x)) = hex_value (hex_part v)"
proof -
  from assms have x: "Felt_as_ref x = Felt_fix v" by (simp add: felt_t.try_new_Ok_iff)
  show ?thesis
  proof (cases "hex_part v = []")
    case True
    then show ?thesis using x by (simp add: Felt_fix_alt hex_value_def hex_digit_value_def)
  next
    case False
    then show ?thesis using x by (simp add: Felt_fix_alt hex_value_dropWhile)
  qed
qed

theorem Felt_try_new_value_witness:
  "Felt_try_new ''0x00ab'' = Ok (Felt ''0xab'') \<and> hex_value (hex_part ''0xab'') = hex_value (hex_part ''0x00ab'')"
proof -
  have a: "Felt_try_new ''0x00ab'' = Ok (Felt ''0xab'')" by code_simp
  show ?thesis using a Felt_try_new_value [OF a] by simp
qed

lemma all_hex_dropWhile:
  "list_all hex_digit (dropWhile (\<lambda>c. c = CHR ''0'') t) \<longleftrightarrow> list_all hex_digit t"
  by (induction t) (simp_all add: hex_digit_def)

lemma FELT_REGEX_hex:
  "is_match FELT_REGEX (''0x'' @ t) \<longleftrightarrow>
     t = ''0'' \<or> (t \<noteq> [] \<and> hd t \<noteq> CHR ''0'' \<and> length t \<le> 63 \<and> list_all hex_digit t)"
  unfolding FELT_REGEX_iff by (cases t) auto

text \<open>With the prefix: the empty numeral and \<open>0\<close>, or hex digits that are not all zeros with at
  most 63 digits after the leading zeros.\<close>

lemma Felt_try_new_prefixed:
  "is_ok (Felt_try_new (''0x'' @ t)) \<longleftrightarrow>
     t = [] \<or> t = ''0'' \<or>
     (list_all hex_digit t \<and> dropWhile (\<lambda>c. c = CHR ''0'') t \<noteq> [] \<and>
      length (dropWhile (\<lambda>c. c = CHR ''0'') t) \<le> 63)"
proof -
  let ?z = "\<lambda>c. c = CHR ''0''"
  have ok: "is_ok (Felt_try_new v) \<longleftrightarrow> is_match FELT_REGEX (Felt_fix v)" for v
    by (simp add: Felt_try_new_def Let_def)
  consider "t = []" | "t = ''0''" | "t \<noteq> []" "t \<noteq> ''0''" "hd t = CHR ''0''"
    | "t \<noteq> []" "hd t \<noteq> CHR ''0''" by blast
  then show ?thesis
  proof cases
    case 1
    then show ?thesis by (simp add: ok Felt_fix_alt FELT_REGEX_iff)
  next
    case 2
    then show ?thesis by (simp add: ok Felt_fix_alt FELT_REGEX_iff)
  next
    case 3
    then have fx: "Felt_fix (''0x'' @ t) = ''0x'' @ dropWhile ?z t" by (simp add: Felt_fix_alt)
    obtain d where d: "d = dropWhile ?z t" by blast
    have nz: "d = [] \<or> hd d \<noteq> CHR ''0''" using hd_dropWhile [of ?z t] d by blast
    then have "d \<noteq> ''0''" by auto
    moreover have "list_all hex_digit d \<longleftrightarrow> list_all hex_digit t" unfolding d by (rule all_hex_dropWhile)
    ultimately show ?thesis using 3(1,2) nz
      unfolding ok fx FELT_REGEX_hex d [symmetric] by auto
  next
    case 4
    then have fx: "Felt_fix (''0x'' @ t) = ''0x'' @ t" and d: "dropWhile ?z t = t"
      by (simp_all add: Felt_fix_alt) (cases t, simp_all)
    show ?thesis using 4 unfolding ok fx FELT_REGEX_hex d by auto
  qed
qed

text \<open>
  C36. Exactly which texts are a \<open>Felt\<close>: the empty text and the bare prefix, \<open>0x0\<close>, or hex digits
  that are not all zeros with at most 63 digits after the leading zeros, prefixed by \<open>0x\<close> or
  starting with a zero. So \<open>0ab\<close> is accepted and \<open>ab\<close> is not, and \<open>0x00\<close> is refused: trimming the
  zeros of an all-zero numeral leaves \<open>0x\<close>, which the pattern does not match.
\<close>

theorem Felt_try_new_accepts_iff:
  "is_ok (Felt_try_new v) \<longleftrightarrow>
     (let prefixed = (strip_0x v \<noteq> None); t = hex_part v; d = dropWhile (\<lambda>c. c = CHR ''0'') t in
      t = [] \<or> prefixed \<and> t = ''0'' \<or>
      list_all hex_digit t \<and> d \<noteq> [] \<and> length d \<le> 63 \<and> (prefixed \<or> hd t = CHR ''0''))"
proof (cases "strip_0x v")
  case (Some t)
  then have v: "v = ''0x'' @ t" by (simp only: strip_0x_Some)
  show ?thesis unfolding v Felt_try_new_prefixed by (simp add: Let_def strip_0x_def)
next
  case None
  then have part: "hex_part v = v" by (simp add: hex_part_def)
  have ok: "is_ok (Felt_try_new v) \<longleftrightarrow> is_match FELT_REGEX (Felt_fix v)"
    by (simp add: Felt_try_new_def Let_def)
  have bare: "\<not> is_match FELT_REGEX v" using None by (auto simp: FELT_REGEX_iff strip_0x_def)
  show ?thesis
  proof (cases "v = [] \<or> v = ''0'' \<or> hd v \<noteq> CHR ''0''")
    case True
    have "is_match FELT_REGEX ''0x0''" by (simp add: FELT_REGEX_iff)
    then show ?thesis using True None bare unfolding ok Felt_fix_alt part Let_def by (elim disjE) simp_all
  next
    case False
    then have "Felt_fix v = Felt_fix (''0x'' @ v)" by (simp only: Felt_fix_alt part hex_part_prefixed) simp
    then have "is_ok (Felt_try_new v) \<longleftrightarrow> is_ok (Felt_try_new (''0x'' @ v))"
      by (simp only: Felt_try_new_def)
    then show ?thesis using False None unfolding Felt_try_new_prefixed part Let_def by simp
  qed
qed

text \<open>Every zero written with two or more digits is refused, with the error message of an
  empty numeral, although the number is zero and \<open>0x0\<close> is accepted.\<close>

lemma Felt_padded_zero_rejected:
  "Felt_try_new (''0x'' @ CHR ''0'' # CHR ''0'' # replicate n (CHR ''0''))
     = Err (rpc_err 1001 ''Felt value does not match regex: 0x'')
   \<and> Felt_try_new ''0x0'' = Ok (Felt ''0x0'')"
proof -
  have "dropWhile (\<lambda>c. c = CHR ''0'') (replicate n (CHR ''0'')) = []"
    by (simp add: dropWhile_eq_Nil_conv)
  then have "Felt_fix (''0x'' @ CHR ''0'' # CHR ''0'' # replicate n (CHR ''0'')) = ''0x''"
    by (simp add: Felt_fix_alt)
  moreover have "\<not> is_match FELT_REGEX ''0x''" by (simp add: FELT_REGEX_iff)
  moreover have "Felt_try_new ''0x0'' = Ok (Felt ''0x0'')"
    by (simp add: Felt_try_new_def Felt_fix_alt FELT_REGEX_iff)
  ultimately show ?thesis by (simp add: Felt_try_new_def)
qed

section \<open>\<open>StorageKey\<close>\<close>

text \<open>
  C38. The end-of-text anchor of the \<open>StorageKey\<close> pattern stands inside its second
  alternative, so the first one, \<open>0\<close>, may be followed by anything: every text that begins
  with \<open>0x0\<close> is accepted unchanged as a storage key, hexadecimal or not, of any length.
\<close>

theorem StorageKey_accepts_any_suffix:
  "StorageKey_try_new (''0x0'' @ t) = Ok (StorageKey (''0x0'' @ t))"
proof -
  have "is_match STORAGEKEY_REGEX (''0x0'' @ t)"
    by (simp add: is_match_def STORAGEKEY_REGEX_def)
  then show ?thesis by (simp add: StorageKey_try_new_def)
qed

lemma in_oct_class: "in_class oct_class c \<Longrightarrow> hex_digit c"
  by (auto simp: in_class_def oct_class_def hex_digit_def Let_def)

text \<open>Without a leading zero digit the pattern does its job.\<close>

lemma StorageKey_nonzero_hex:
  assumes "StorageKey_try_new (''0x'' @ c # t) = Ok k" and "c \<noteq> CHR ''0''"
  shows "list_all hex_digit (c # t) \<and> length t \<le> 62"
proof -
  have "is_match STORAGEKEY_REGEX (''0x'' @ c # t)"
    using storage_key_t.try_new_Ok_iff assms(1) by blast
  then obtain u where c: "in_class oct_class c" and u: "u \<in> set (reps (class_step hex_class) 0 62 t)"
      and e: "rests Eoi u \<noteq> []"
    using assms(2)
    by (auto simp: is_match_def STORAGEKEY_REGEX_def numeral_eq_Suc simp del: reps.simps(2) split: if_splits)
  then have "list_all (in_class hex_class) t \<and> length t \<le> 62"
    using reps_class_to_end [of hex_class 0 62 t] by auto
  moreover have "in_class hex_class = hex_digit" by (rule ext) (rule in_hex_class)
  ultimately show ?thesis using in_oct_class [OF c] by simp
qed

end
