(* ===== verification/Bits.thy ===== *)
theory Bits
  imports Prelude
begin

text \<open>
  \<open>src/src/util.rs\<close>: a 32-byte big-endian field element as a string of bits, most
  significant first (\<open>BitSlice<u8, Msb0>\<close>), and back. \<open>felt_to_bits\<close> drops the five
  leading bits of the 256; \<open>felt_from_bits\<close> puts the bits from position \<open>mask\<close> on back
  into an array of zero bytes, which clears the \<open>mask\<close> leading ones. Bit strings are
  \<open>bool list\<close>; the conversion of the 32 bytes to a field element belongs to
  \<open>starknet_crypto\<close> and is the argument \<open>from_bytes\<close>.
\<close>

section \<open>Bytes and bits\<close>

definition byte_bits :: "u8 \<Rightarrow> bool list" where
  "byte_bits b = [bit b 7, bit b 6, bit b 5, bit b 4, bit b 3, bit b 2, bit b 1, bit b 0]"

definition view_bits :: "u8 list \<Rightarrow> bool list" where
  "view_bits bs = concat (map byte_bits bs)"

definition bits_nat :: "bool list \<Rightarrow> nat" where
  "bits_nat bs = foldl (\<lambda>a b. 2 * a + of_bool b) 0 bs"

definition be_nat :: "u8 list \<Rightarrow> nat" where
  "be_nat bs = foldl (\<lambda>a b. 256 * a + unat b) 0 bs"

definition byte_of_bits :: "bool list \<Rightarrow> u8" where
  "byte_of_bits bs = of_nat (bits_nat bs)"

fun bytes_of_bits :: "bool list \<Rightarrow> u8 list" where
  "bytes_of_bits (a # b # c # d # e # f # g # h # bs) = byte_of_bits [a, b, c, d, e, f, g, h] # bytes_of_bits bs"
| "bytes_of_bits bs = []"

text \<open>\<open>dst[at..].copy_from_bitslice(src)\<close> panics when the lengths differ.\<close>

definition copy_from_bitslice :: "bool list \<Rightarrow> nat \<Rightarrow> bool list \<Rightarrow> (bool list, 'e) outcome" where
  "copy_from_bitslice dst at src =
     (if at \<le> length dst \<and> length dst - at = length src then Ok (take at dst @ src) else Panicked)"

section \<open>The two functions of \<open>util.rs\<close>\<close>

definition felt_to_bits :: "u8 list \<Rightarrow> bool list" where
  "felt_to_bits felt = drop 5 (view_bits felt)"

definition felt_from_bits ::
  "(u8 list \<Rightarrow> 'f) \<Rightarrow> bool list \<Rightarrow> usize option \<Rightarrow> ('f, string) outcome" where
  "felt_from_bits from_bytes bits mask_opt =
     (if length bits \<noteq> 251 then Err ''expecting 251 bits''
      else bind (case mask_opt of
                   Some x \<Rightarrow> if x > 251 then Err ''Mask cannot be bigger than 251'' else Ok x
                 | None \<Rightarrow> Ok 0)
             (\<lambda>m. bind (copy_from_bitslice (view_bits (replicate 32 0)) (5 + unat m) (drop (unat m) bits))
             (\<lambda>bytes. Ok (from_bytes (bytes_of_bits bytes)))))"

section \<open>Values of bit strings\<close>

lemma bits_nat_simps [simp]: "bits_nat [] = 0"
  by (simp add: bits_nat_def)

lemma bits_nat_foldl: "foldl (\<lambda>a b. 2 * a + of_bool b) a bs = a * 2 ^ length bs + bits_nat bs"
proof (induction bs arbitrary: a)
  case Nil
  show ?case by simp
next
  case (Cons b bs)
  show ?case
    using Cons.IH [of "2 * a + of_bool b"] Cons.IH [of "of_bool b"]
    by (simp add: bits_nat_def algebra_simps)
qed

lemma bits_nat_Cons: "bits_nat (b # bs) = of_bool b * 2 ^ length bs + bits_nat bs"
  using bits_nat_foldl [of "of_bool b" bs] by (simp add: bits_nat_def)

lemma bits_nat_append: "bits_nat (xs @ ys) = bits_nat xs * 2 ^ length ys + bits_nat ys"
  by (induction xs) (simp_all add: bits_nat_Cons algebra_simps power_add)

lemma bits_nat_less: "bits_nat bs < 2 ^ length bs"
  by (induction bs) (auto simp: bits_nat_Cons of_bool_def)

lemma bits_nat_replicate_False [simp]: "bits_nat (replicate n False) = 0"
  by (induction n) (simp_all add: bits_nat_Cons)

lemma bits_nat_drop: "bits_nat (drop k bs) = bits_nat bs mod 2 ^ (length bs - k)"
proof -
  have "bits_nat bs = bits_nat (take k bs) * 2 ^ (length bs - k) + bits_nat (drop k bs)"
    using bits_nat_append [of "take k bs" "drop k bs"] by simp
  moreover have "bits_nat (drop k bs) < 2 ^ (length bs - k)"
    using bits_nat_less [of "drop k bs"] by simp
  ultimately show ?thesis by simp
qed

lemma bits_nat_inject:
  "length xs = length ys \<Longrightarrow> bits_nat xs = bits_nat ys \<Longrightarrow> xs = ys"
proof (induction xs ys rule: list_induct2)
  case Nil
  show ?case by simp
next
  case (Cons x xs y ys)
  have "bits_nat xs < 2 ^ length xs" "bits_nat ys < 2 ^ length xs"
    using bits_nat_less [of xs] bits_nat_less [of ys] Cons.hyps by simp_all
  then have "x = y \<and> bits_nat xs = bits_nat ys"
    using Cons.prems Cons.hyps by (cases x; cases y) (simp_all add: bits_nat_Cons)
  then show ?case using Cons.IH by simp
qed

lemma length_byte_bits [simp]: "length (byte_bits b) = 8"
  by (simp add: byte_bits_def)

lemma length_view_bits [simp]: "length (view_bits bs) = 8 * length bs"
  by (induction bs) (simp_all add: view_bits_def)

lemma bits_nat_horner: "bits_nat bs = horner_sum of_bool 2 (rev bs)"
proof -
  have "horner_sum of_bool 2 (rev bs) = foldr (\<lambda>b a. of_bool b + 2 * a) (rev bs) (0::nat)"
    by (simp add: horner_sum_foldr comp_def)
  then show ?thesis by (simp add: bits_nat_def foldr_conv_foldl algebra_simps)
qed

lemma bits_nat_byte_bits: "bits_nat (byte_bits b) = unat b"
proof -
  have upt: "[0..<8] = [0, 1, 2, 3, 4, 5, 6, 7::nat]" by (simp add: upt_rec)
  have rev: "rev (byte_bits b) = map (bit (unat b)) [0..<8]"
    unfolding upt byte_bits_def by (simp add: bit_unsigned_iff)
  have "unat b < 2 ^ 8" using unsigned_less [of b, where ?'a = nat] by simp
  then have "take_bit 8 (unat b) = unat b" by (simp add: take_bit_nat_eq_self)
  then show ?thesis
    by (simp only: bits_nat_horner rev horner_sum_bit_eq_take_bit)
qed

lemma be_nat_Cons: "be_nat (b # bs) = unat b * 256 ^ length bs + be_nat bs"
proof -
  have "foldl (\<lambda>a b. 256 * a + unat b) a bs = a * 256 ^ length bs + be_nat bs" for a
  proof (induction bs arbitrary: a)
    case Nil
    show ?case by (simp add: be_nat_def)
  next
    case (Cons c bs)
    show ?case
      using Cons.IH [of "256 * a + unat c"] Cons.IH [of "unat c"]
      by (simp add: be_nat_def algebra_simps)
  qed
  from this [of "unat b"] show ?thesis by (simp add: be_nat_def)
qed

lemma be_nat_Nil [simp]: "be_nat [] = 0"
  by (simp add: be_nat_def)

lemma bits_nat_view_bits: "bits_nat (view_bits bs) = be_nat bs"
proof (induction bs)
  case Nil
  show ?case by (simp add: view_bits_def)
next
  case (Cons b bs)
  have "view_bits (b # bs) = byte_bits b @ view_bits bs" by (simp add: view_bits_def)
  then show ?case
    by (simp add: bits_nat_append bits_nat_byte_bits Cons.IH be_nat_Cons power_mult)
qed

lemma unat_byte_of_bits: "length bs = 8 \<Longrightarrow> unat (byte_of_bits bs) = bits_nat bs"
  using bits_nat_less [of bs] by (simp add: byte_of_bits_def unat_of_nat)

lemma length_bytes_of_bits: "length bits = 8 * n \<Longrightarrow> length (bytes_of_bits bits) = n"
proof (induction bits arbitrary: n rule: bytes_of_bits.induct)
  case (1 a b c d e f g h bs)
  then show ?case by (cases n) auto
qed auto

lemma be_nat_bytes_of_bits: "length bits = 8 * n \<Longrightarrow> be_nat (bytes_of_bits bits) = bits_nat bits"
proof (induction bits arbitrary: n rule: bytes_of_bits.induct)
  case (1 a b c d e f g h bs)
  obtain m where m: "n = Suc m" "length bs = 8 * m" using "1.prems" by (cases n) auto
  have "bits_nat ([a, b, c, d, e, f, g, h] @ bs)
      = bits_nat [a, b, c, d, e, f, g, h] * 2 ^ length bs + bits_nat bs"
    by (rule bits_nat_append)
  then show ?case
    using "1.IH" [OF m(2)] m
    by (simp add: be_nat_Cons unat_byte_of_bits length_bytes_of_bits power_mult)
qed (auto, presburger+)

section \<open>What the two functions compute\<close>

lemma length_felt_to_bits [simp]: "length bs = 32 \<Longrightarrow> length (felt_to_bits bs) = 251"
  by (simp add: felt_to_bits_def)

lemma bits_nat_felt_to_bits: "length bs = 32 \<Longrightarrow> bits_nat (felt_to_bits bs) = be_nat bs mod 2 ^ 251"
  by (simp add: felt_to_bits_def bits_nat_drop bits_nat_view_bits)

lemma view_bits_zero: "view_bits (replicate n 0) = replicate (8 * n) False"
proof (induction n)
  case 0
  show ?case by (simp add: view_bits_def)
next
  case (Suc n)
  have "byte_bits 0 = replicate 8 False" by (simp add: byte_bits_def numeral_eq_Suc)
  then show ?case using Suc.IH
    by (simp add: view_bits_def flip: replicate_add)
qed

text \<open>The path of an edge as bytes: the bits right-aligned in 32 zero bytes.\<close>

definition pad_bits :: "bool list \<Rightarrow> u8 list" where
  "pad_bits p = bytes_of_bits (replicate (256 - length p) False @ p)"

lemma length_pad_bits: "length p \<le> 256 \<Longrightarrow> length (pad_bits p) = 32"
  by (simp add: pad_bits_def length_bytes_of_bits)

lemma be_nat_pad_bits: "length p \<le> 256 \<Longrightarrow> be_nat (pad_bits p) = bits_nat p"
  by (simp add: pad_bits_def be_nat_bytes_of_bits [where n = 32] bits_nat_append)

lemma felt_from_bits_pad:
  assumes "length bits = 251" and "unat m \<le> 251"
  shows "felt_from_bits from_bytes bits (Some m) = Ok (from_bytes (pad_bits (drop (unat m) bits)))"
proof -
  have "\<not> m > 251" using assms(2) by (simp add: word_less_nat_alt)
  moreover have "take (5 + unat m) (replicate 256 False) = replicate (256 - (251 - unat m)) False"
    using assms(2) by simp
  ultimately show ?thesis
    using assms by (simp add: felt_from_bits_def copy_from_bitslice_def view_bits_zero pad_bits_def)
qed

lemma felt_from_bits_none:
  "length bits = 251 \<Longrightarrow> felt_from_bits from_bytes bits None = felt_from_bits from_bytes bits (Some 0)"
  by (simp add: felt_from_bits_def)

lemma felt_from_bits_err:
  "length bits = 251 \<Longrightarrow> 251 < unat m \<Longrightarrow>
     felt_from_bits from_bytes bits (Some m) = Err ''Mask cannot be bigger than 251''"
  by (simp add: felt_from_bits_def word_less_nat_alt)

text \<open>
  C34. Masking keeps the low bits: for a 32-byte big-endian number and a mask \<open>m\<close> of at most
  251, \<open>felt_from_bits(felt_to_bits(b), Some(m))\<close> succeeds and gives the field element of
  32 bytes whose value is the number modulo \<open>2 ^ (251 - m)\<close>; with no mask, modulo
  \<open>2 ^ 251\<close>, so a number below \<open>2 ^ 251\<close> comes back unchanged.
\<close>

theorem felt_from_bits_to_bits:
  assumes "length b = 32" and "unat m \<le> 251"
  shows "(\<exists>bs. felt_from_bits from_bytes (felt_to_bits b) (Some m) = Ok (from_bytes bs) \<and>
      length bs = 32 \<and> be_nat bs = be_nat b mod 2 ^ (251 - unat m)) \<and>
    felt_from_bits from_bytes (felt_to_bits b) None
      = felt_from_bits from_bytes (felt_to_bits b) (Some 0)"
proof
  let ?bits = "drop (unat m) (felt_to_bits b)"
  have len: "length (felt_to_bits b) = 251" using assms(1) by simp
  have "(2::nat) ^ (251 - unat m) dvd 2 ^ 251" by (rule le_imp_power_dvd) simp
  then have "bits_nat ?bits = be_nat b mod 2 ^ (251 - unat m)"
    using assms(1) by (simp only: bits_nat_drop len bits_nat_felt_to_bits mod_mod_cancel)
  then show "\<exists>bs. felt_from_bits from_bytes (felt_to_bits b) (Some m) = Ok (from_bytes bs) \<and>
    length bs = 32 \<and> be_nat bs = be_nat b mod 2 ^ (251 - unat m)"
    using len assms(2)
    by (intro exI [of _ "pad_bits ?bits"])
      (simp add: felt_from_bits_pad length_pad_bits be_nat_pad_bits)
  show "felt_from_bits from_bytes (felt_to_bits b) None
      = felt_from_bits from_bytes (felt_to_bits b) (Some 0)"
    using len by (rule felt_from_bits_none)
qed

theorem felt_from_bits_to_bits_witness:
  "\<exists>bs. felt_from_bits be_nat (felt_to_bits (replicate 31 0 @ [14])) (Some 248) = Ok (be_nat bs) \<and>
     length bs = 32 \<and> be_nat bs = be_nat (replicate 31 0 @ [14]) mod 2 ^ 3"
  using felt_from_bits_to_bits [of "replicate 31 0 @ [14]" 248 be_nat] by simp

end
