(* ===== verification/FieldElement.thy ===== *)
theory FieldElement
  imports Bits Scalars
begin

text \<open>
  The operations of \<open>starknet_crypto\<close>'s \<open>Felt\<close> (imported as \<open>FieldElement\<close>, and as
  \<open>StarkFelt\<close> from \<open>starknet_types_core\<close>) that the sources call, as one record of
  functions over an arbitrary type \<open>'f\<close>: that crate is not part of the sources. What
  the theorems rely on is \<open>field_laws\<close>: hexadecimal and byte conversions round-trip,
  the printed numeral is one the RPC specification accepts, and a number below
  \<open>2 ^ 251\<close>, hence below the field's prime, is determined by its element.
  Nothing is assumed of the two hash functions.
\<close>

record 'f field_ops =
  from_hex :: "string \<Rightarrow> 'f option"
  to_hex :: "'f \<Rightarrow> string"                     \<comment> \<open>the text of \<open>{:x}\<close>\<close>
  to_bytes_be :: "'f \<Rightarrow> u8 list"
  from_bytes_be :: "u8 list \<Rightarrow> 'f"
  from_bytes_be_slice :: "u8 list \<Rightarrow> 'f"
  from_u64 :: "u64 \<Rightarrow> 'f"
  fe_add :: "'f \<Rightarrow> 'f \<Rightarrow> 'f"
  fe_zero :: 'f
  pedersen_hash :: "'f \<Rightarrow> 'f \<Rightarrow> 'f"
  poseidon_hash_many :: "'f list \<Rightarrow> 'f"

text \<open>\<open>format!("0x{:x}", x)\<close>.\<close>

definition hex_text :: "'f field_ops \<Rightarrow> 'f \<Rightarrow> string" where
  "hex_text F x = ''0x'' @ to_hex F x"

definition field_laws :: "'f field_ops \<Rightarrow> bool" where
  "field_laws F \<longleftrightarrow>
     (\<forall>x. from_hex F (hex_text F x) = Some x) \<and>
     (\<forall>x. is_match FELT_REGEX (hex_text F x)) \<and>
     (\<forall>x. length (to_bytes_be F x) = 32) \<and>
     (\<forall>x. from_bytes_be F (to_bytes_be F x) = x) \<and>
     (\<forall>a b. length a = 32 \<and> length b = 32 \<and> be_nat a < 2 ^ 251 \<and> be_nat b < 2 ^ 251 \<and>
        from_bytes_be F a = from_bytes_be F b \<longrightarrow> be_nat a = be_nat b)"

lemma from_hex_text [simp]: "field_laws F \<Longrightarrow> from_hex F (hex_text F x) = Some x"
  unfolding field_laws_def by blast

lemma hex_text_is_felt: "field_laws F \<Longrightarrow> Felt_try_new (hex_text F x) = Ok (Felt (hex_text F x))"
  unfolding field_laws_def by (auto simp: felt_t.try_new_Ok_iff Felt_fix_valid)

lemma length_to_bytes_be [simp]: "field_laws F \<Longrightarrow> length (to_bytes_be F x) = 32"
  unfolding field_laws_def by blast

lemma from_to_bytes_be [simp]: "field_laws F \<Longrightarrow> from_bytes_be F (to_bytes_be F x) = x"
  unfolding field_laws_def by blast

lemma from_bytes_be_inject:
  "field_laws F \<Longrightarrow> length a = 32 \<Longrightarrow> length b = 32 \<Longrightarrow> be_nat a < 2 ^ 251 \<Longrightarrow> be_nat b < 2 ^ 251 \<Longrightarrow>
     from_bytes_be F a = from_bytes_be F b \<Longrightarrow> be_nat a = be_nat b"
  unfolding field_laws_def by blast

text \<open>The element a string of at most 251 bits stands for; it determines the bits.\<close>

definition path_felt :: "'f field_ops \<Rightarrow> bool list \<Rightarrow> 'f" where
  "path_felt F p = from_bytes_be F (pad_bits p)"

lemma path_felt_inject:
  assumes "field_laws F" "length p = length q" "length p \<le> 251" "path_felt F p = path_felt F q"
  shows "p = q"
proof -
  have "(2::nat) ^ length p \<le> 2 ^ 251" using assms(3) by (rule power_increasing) simp
  then have "bits_nat p < 2 ^ 251" "bits_nat q < 2 ^ 251"
    using bits_nat_less [of p] bits_nat_less [of q] assms(2) by simp_all
  then have "bits_nat p = bits_nat q"
    using from_bytes_be_inject [OF assms(1), of "pad_bits p" "pad_bits q"] assms(2,3,4)
    by (simp add: length_pad_bits be_nat_pad_bits path_felt_def)
  then show ?thesis using assms(2) by (rule bits_nat_inject [rotated])
qed

text \<open>\<open>FieldElement::from_hex(s).map_err(...)\<close>, as every caller of \<open>proof.rs\<close> writes it.\<close>

definition felt_error :: rpc_error where
  "felt_error = rpc_err (- 32701) ''Failed to create Field Element''"

definition parse_felt :: "'f field_ops \<Rightarrow> string \<Rightarrow> ('f, rpc_error) outcome" where
  "parse_felt F s = ok_or (from_hex F s) felt_error"

lemma parse_felt_Ok [outcome_simps]: "parse_felt F s = Ok x \<longleftrightarrow> from_hex F s = Some x"
  by (simp add: parse_felt_def outcome_simps)

lemma parse_felt_Some [simp]: "from_hex F s = Some x \<Longrightarrow> parse_felt F s = Ok x"
  by (simp add: parse_felt_def)

lemma parse_felt_no_panic [simp]: "parse_felt F s \<noteq> Panicked"
  by (simp add: parse_felt_def)

lemma parse_felt_Err: "parse_felt F s = Err e \<longleftrightarrow> from_hex F s = None \<and> e = felt_error"
  by (simp add: parse_felt_def outcome_simps)

lemma parse_felt_text [simp]: "field_laws F \<Longrightarrow> parse_felt F (hex_text F x) = Ok x"
  by simp

section \<open>An instance\<close>

text \<open>
  A concrete record that satisfies the laws, for the witnesses: 252-bit words, printed in
  hexadecimal without leading zeros, with simple mixing functions in place of the hashes.
\<close>

fun show_hex :: "nat \<Rightarrow> string" where
  "show_hex n = (if n < 16 then [digit_char n] else show_hex (n div 16) @ [digit_char (n mod 16)])"

declare show_hex.simps [simp del]

definition nat_bytes :: "nat \<Rightarrow> u8 list" where
  "nat_bytes n = map (\<lambda>i. of_nat (n div 256 ^ (31 - i))) [0..<32]"

definition word_field :: "252 word field_ops" where
  "word_field = \<lparr>
     from_hex = (\<lambda>s. case strip_0x s of
        Some t \<Rightarrow> if t \<noteq> [] \<and> list_all hex_digit t then Some (of_nat (hex_value t)) else None
      | None \<Rightarrow> None),
     to_hex = (\<lambda>x. show_hex (unat x)),
     to_bytes_be = (\<lambda>x. nat_bytes (unat x)),
     from_bytes_be = (\<lambda>bs. of_nat (be_nat bs)),
     from_bytes_be_slice = (\<lambda>bs. of_nat (be_nat bs)),
     from_u64 = (\<lambda>w. of_nat (unat w)),
     fe_add = (+),
     fe_zero = 0,
     pedersen_hash = (\<lambda>a b. 3 * a + 5 * b + 7),
     poseidon_hash_many = foldl (\<lambda>a b. 11 * a + b) 1\<rparr>"

lemma digit_char_hex:
  assumes "d < 16"
  shows "hex_digit (digit_char d)" and "hex_digit_value (digit_char d) = d"
    and "digit_char d = CHR ''0'' \<longleftrightarrow> d = 0"
proof -
  have d: "d = 0 \<or> d = 1 \<or> d = 2 \<or> d = 3 \<or> d = 4 \<or> d = 5 \<or> d = 6 \<or> d = 7 \<or> d = 8 \<or> d = 9 \<or>
    d = 10 \<or> d = 11 \<or> d = 12 \<or> d = 13 \<or> d = 14 \<or> d = 15"
    using assms by presburger
  show "hex_digit (digit_char d)"
    using d by (elim disjE) (simp_all add: digit_char_def hex_digit_def)
  show "hex_digit_value (digit_char d) = d"
    using d by (elim disjE) (simp_all add: digit_char_def hex_digit_value_def)
  show "digit_char d = CHR ''0'' \<longleftrightarrow> d = 0"
    using d by (elim disjE) (simp_all add: digit_char_def char_of_eq_iff)
qed

lemma hex_value_snoc: "hex_value (s @ [c]) = 16 * hex_value s + hex_digit_value c"
  by (simp add: hex_value_def)

lemma show_hex_facts:
  "list_all hex_digit (show_hex n) \<and> hex_value (show_hex n) = n \<and> show_hex n \<noteq> [] \<and>
   (0 < n \<longrightarrow> hd (show_hex n) \<noteq> CHR ''0'')"
proof (induction n rule: show_hex.induct)
  case (1 n)
  show ?case
  proof (cases "n < 16")
    case True
    have "hex_value [digit_char n] = n"
      using digit_char_hex(2) [OF True] by (simp add: hex_value_def)
    with True show ?thesis
      by (subst (1 2 3 4) show_hex.simps) (simp add: digit_char_hex)
  next
    case False
    note IH = "1.IH" [OF False]
    have eq: "show_hex n = show_hex (n div 16) @ [digit_char (n mod 16)]"
      using False by (subst show_hex.simps) simp
    have "0 < n div 16" using False by (simp add: div_greater_zero_iff)
    then show ?thesis
      using IH unfolding eq by (simp add: hex_value_snoc digit_char_hex)
  qed
qed

lemma length_show_hex: "n < 16 ^ Suc k \<Longrightarrow> length (show_hex n) \<le> Suc k"
proof (induction k arbitrary: n)
  case 0
  then show ?case by (subst show_hex.simps) simp
next
  case (Suc k)
  have "n div 16 < 16 ^ Suc k" using Suc.prems by (simp add: less_mult_imp_div_less mult.commute)
  from Suc.IH [OF this] show ?case by (subst show_hex.simps) simp
qed

lemma be_nat_nat_bytes:
  assumes "n < 2 ^ 256"
  shows "be_nat (nat_bytes n) = n"
proof -
  have gen: "be_nat (map (\<lambda>i. of_nat (n div 256 ^ (k - 1 - i)) :: u8) [0..<k]) = n mod 256 ^ k" for k
  proof (induction k)
    case 0
    show ?case by simp
  next
    case (Suc k)
    have "map (\<lambda>i. of_nat (n div 256 ^ (Suc k - 1 - i)) :: u8) [0..<Suc k]
      = of_nat (n div 256 ^ k) # map (\<lambda>i. of_nat (n div 256 ^ (k - 1 - i))) [0..<k]"
      by (subst upt_conv_Cons) (simp_all add: map_Suc_upt [symmetric] comp_def del: upt_Suc)
    then have "be_nat (map (\<lambda>i. of_nat (n div 256 ^ (Suc k - 1 - i)) :: u8) [0..<Suc k])
      = (n div 256 ^ k mod 256) * 256 ^ k + n mod 256 ^ k"
      by (simp only: be_nat_Cons Suc.IH length_map length_upt) (simp add: unat_of_nat)
    also have "\<dots> = n mod 256 ^ Suc k"
      using mod_mult2_eq [of n "256 ^ k" 256] by (simp add: mult.commute)
    finally show ?case .
  qed
  show ?thesis using gen [of 32] assms by (simp add: nat_bytes_def)
qed

lemma word_field_laws: "field_laws word_field"
proof -
  have unat: "unat x < 2 ^ 252" for x :: "252 word"
    using unsigned_less [of x, where ?'a = nat] by simp
  have hex: "from_hex word_field (hex_text word_field x) = Some x" for x
    using show_hex_facts [of "unat x"]
    by (simp add: word_field_def hex_text_def strip_0x_def)
  have regex: "is_match FELT_REGEX (hex_text word_field x)" for x
  proof -
    have "length (show_hex (unat x)) \<le> Suc 62"
      using unat [of x] by (intro length_show_hex) simp
    moreover have "show_hex 0 = ''0''" by (subst show_hex.simps) (simp add: digit_char_def char_of_eq_iff)
    ultimately show ?thesis
      using show_hex_facts [of "unat x"]
      by (cases "unat x = 0"; cases "show_hex (unat x)")
        (auto simp: word_field_def hex_text_def FELT_REGEX_iff)
  qed
  have bytes: "length (to_bytes_be word_field x) = 32"
    "from_bytes_be word_field (to_bytes_be word_field x) = x" for x
    using unat [of x] by (simp_all add: word_field_def nat_bytes_def [of "unat x"] be_nat_nat_bytes [unfolded nat_bytes_def])
  have inj: "be_nat a = be_nat b"
    if "be_nat a < 2 ^ 251" "be_nat b < 2 ^ 251" "from_bytes_be word_field a = from_bytes_be word_field b" for a b
  proof -
    have "unat (of_nat (be_nat a) :: 252 word) = unat (of_nat (be_nat b) :: 252 word)"
      using that(3) by (simp add: word_field_def)
    with that(1,2) show ?thesis by (simp add: unat_of_nat)
  qed
  show ?thesis unfolding field_laws_def using hex regex bytes inj by blast
qed

end
