(* ===== verification/Dto.thy ===== *)
theory Dto
  imports Scalars
begin

text \<open>
  The data types of \<open>src/src/gen.rs\<close> that the JSON-RPC methods take and return, one
  Isabelle type per Rust type and with its name: a struct is a record whose field
  \<open>f\<close> of struct \<open>SomeName\<close> is \<open>some_name_f\<close>, an enum a datatype with the same
  variants (\<open>BlockTag.Latest\<close>), a tuple struct a one-constructor datatype,
  \<open>Option\<close> is \<open>option\<close> and \<open>Vec\<close> is \<open>list\<close>. \<open>FunctionInvocation\<close> and
  \<open>NestedCall\<close> are mutually recursive. The order is that of the source except where a
  type must come after those it contains; the variant \<open>SyncingResult::False\<close> is
  \<open>FalseVariant\<close>. How serde writes them as JSON is not modelled
  here.
\<close>

datatype Address = Address Felt

record BinaryNodeBinary =
  binary_node_binary_left :: "Felt"
  binary_node_binary_right :: "Felt"

datatype BlockHash = BlockHash Felt

datatype BlockHeaderL1DaMode = Blob | Calldata

datatype BlockStatus = Pending | AcceptedOnL2 | AcceptedOnL1 | Rejected

datatype BlockTag = Latest | Pending

datatype BroadcastedDeclareTxnV1Type = Declare

datatype BroadcastedDeclareTxnV1Version = V0x1 | V0x100000000000000000000000000000001

datatype BroadcastedDeclareTxnV2Type = Declare

datatype BroadcastedDeclareTxnV2Version = V0x2 | V0x100000000000000000000000000000002

datatype BroadcastedDeclareTxnV3Type = Declare

datatype BroadcastedDeclareTxnV3Version = V0x3 | V0x100000000000000000000000000000003

datatype CallType = LibraryCall | Call | Delegate

record ComputationResources =
  computation_resources_bitwise_builtin_applications :: "i64 option"
  computation_resources_ec_op_builtin_applications :: "i64 option"
  computation_resources_ecdsa_builtin_applications :: "i64 option"
  computation_resources_keccak_builtin_applications :: "i64 option"
  computation_resources_memory_holes :: "i64 option"
  computation_resources_pedersen_builtin_applications :: "i64 option"
  computation_resources_poseidon_builtin_applications :: "i64 option"
  computation_resources_range_check_builtin_applications :: "i64 option"
  computation_resources_segment_arena_builtin :: "i64 option"
  computation_resources_steps :: "i64"

datatype DaMode = L1 | L2

datatype DeclareTxnReceiptType = Declare

datatype DeclareTxnTraceType = Declare

datatype DeclareTxnV0Type = Declare

datatype DeclareTxnV0Version = V0x0 | V0x100000000000000000000000000000000

datatype DeclareTxnV1Type = Declare

datatype DeclareTxnV1Version = V0x1 | V0x100000000000000000000000000000001

datatype DeclareTxnV2Type = Declare

datatype DeclareTxnV2Version = V0x2 | V0x100000000000000000000000000000002

datatype DeclareTxnV3Type = Declare

datatype DeclareTxnV3Version = V0x3 | V0x100000000000000000000000000000003

datatype DeployAccountTxnReceiptType = DeployAccount

datatype DeployAccountTxnTraceType = DeployAccount

datatype DeployAccountTxnV1Type = DeployAccount

datatype DeployAccountTxnV1Version = V0x1 | V0x100000000000000000000000000000001

datatype DeployAccountTxnV3Type = DeployAccount

datatype DeployAccountTxnV3Version = V0x3 | V0x100000000000000000000000000000003

datatype DeployTxnReceiptType = Deploy

datatype DeployTxnType = Deploy

record DeployedContractItem =
  deployed_contract_item_address :: "Felt"
  deployed_contract_item_class_hash :: "Felt"

record DeprecatedCairoEntryPoint =
  deprecated_cairo_entry_point_offset :: "NumAsHex"
  deprecated_cairo_entry_point_selector :: "Felt"

record DeprecatedContractClassEntryPointsByType =
  deprecated_contract_class_entry_points_by_type_constructor :: "DeprecatedCairoEntryPoint list option"
  deprecated_contract_class_entry_points_by_type_external :: "DeprecatedCairoEntryPoint list option"
  deprecated_contract_class_entry_points_by_type_l1_handler :: "DeprecatedCairoEntryPoint list option"

record EdgeNodePath =
  edge_node_path_len :: "i64"
  edge_node_path_value :: "Felt"

datatype EntryPointType = External | L1Handler | Constructor

datatype EventAbiType = Event

record EventContent =
  event_content_data :: "Felt list"
  event_content_keys :: "Felt list"

record ExecutionResourcesDataAvailability =
  execution_resources_data_availability_l1_data_gas :: "i64"
  execution_resources_data_availability_l1_gas :: "i64"

datatype FunctionAbiType = Function | L1Handler | Constructor

record FunctionCall =
  function_call_calldata :: "Felt list"
  function_call_contract_address :: "Address"
  function_call_entry_point_selector :: "Felt"

datatype FunctionStateMutability = View

datatype InvokeTxnReceiptType = Invoke

datatype InvokeTxnTraceType = Invoke

datatype InvokeTxnV0Type = Invoke

datatype InvokeTxnV0Version = V0x0 | V0x100000000000000000000000000000000

datatype InvokeTxnV1Type = Invoke

datatype InvokeTxnV1Version = V0x1 | V0x100000000000000000000000000000001

datatype InvokeTxnV3Type = Invoke

datatype InvokeTxnV3Version = V0x3 | V0x100000000000000000000000000000003

datatype L1HandlerTxnReceiptType = L1Handler

datatype L1HandlerTxnTraceType = L1Handler

datatype L1HandlerTxnType = L1Handler

datatype L1HandlerTxnVersion = V0x0

record MsgFromL1 =
  msg_from_l1_entry_point_selector :: "Felt"
  msg_from_l1_from_address :: "EthAddress"
  msg_from_l1_payload :: "Felt list"
  msg_from_l1_to_address :: "Address"

record MsgToL1 =
  msg_to_l1_from_address :: "Felt"
  msg_to_l1_payload :: "Felt list"
  msg_to_l1_to_address :: "Felt"

record NewClasses =
  new_classes_class_hash :: "Felt option"
  new_classes_compiled_class_hash :: "Felt option"

record NonceUpdate =
  nonce_update_contract_address :: "Address option"
  nonce_update_nonce :: "Felt option"

record OrderedMessage =
  ordered_message_order :: "i64 option"
  ordered_message_msg_to_l1 :: "MsgToL1"

datatype PendingBlockHeaderL1DaMode = Blob | Calldata

datatype PriceUnit = Wei | Fri

record ReplacedClass =
  replaced_class_class_hash :: "Felt option"
  replaced_class_contract_address :: "Address option"

record ResourceBounds =
  resource_bounds_max_amount :: "U64"
  resource_bounds_max_price_per_unit :: "U128"

record ResourceBoundsMapping =
  resource_bounds_mapping_l1_gas :: "ResourceBounds"
  resource_bounds_mapping_l2_gas :: "ResourceBounds"

record ResourcePrice =
  resource_price_price_in_fri :: "Felt"
  resource_price_price_in_wei :: "Felt"

record ResultPageRequest =
  result_page_request_chunk_size :: "ResultPageRequestChunkSize"
  result_page_request_continuation_token :: "string option"

datatype RevertedCommonReceiptPropertiesExecutionStatus = Reverted

record SierraEntryPoint =
  sierra_entry_point_function_idx :: "i64"
  sierra_entry_point_selector :: "Felt"

type_synonym Signature = "Felt list"

datatype SimulationFlag = SkipValidate | SkipFeeCharge

datatype SimulationFlagForEstimateFee = SkipValidate

record StorageDiffItem =
  storage_diff_item_key :: "Felt option"
  storage_diff_item_value :: "Felt option"

datatype StructAbiType = Struct

datatype SuccessfulCommonReceiptPropertiesExecutionStatus = Succeeded

record SyncStatus =
  sync_status_current_block_hash :: "BlockHash"
  sync_status_current_block_num :: "BlockNumber"
  sync_status_highest_block_hash :: "BlockHash"
  sync_status_highest_block_num :: "BlockNumber"
  sync_status_starting_block_hash :: "BlockHash"
  sync_status_starting_block_num :: "BlockNumber"

datatype TxGatewayStatus = NotReceived | Received | Pending | Rejected | AcceptedOnL1 | AcceptedOnL2 | Reverted | Aborted

datatype TxnExecutionStatus = Succeeded | Reverted

datatype TxnFinalityStatus = AcceptedOnL2 | AcceptedOnL1

datatype TxnHash = TxnHash Felt

datatype TxnStatus = Received | Rejected | AcceptedOnL2 | AcceptedOnL1

datatype TxnType = Declare | Deploy | DeployAccount | Invoke | L1Handler

record TypedParameter =
  typed_parameter_name :: "string"
  typed_parameter_type :: "string"

record GetTransactionStatusResult =
  get_transaction_status_result_execution_status :: "TxnExecutionStatus option"
  get_transaction_status_result_finality_status :: "TxnStatus"

record BlockHashAndNumberResult =
  block_hash_and_number_result_block_hash :: "BlockHash"
  block_hash_and_number_result_block_number :: "BlockNumber"

datatype SyncingResult = FalseVariant "bool" | SyncStatus "SyncStatus"

record AddInvokeTransactionResult =
  add_invoke_transaction_result_transaction_hash :: "TxnHash"

record AddDeclareTransactionResult =
  add_declare_transaction_result_class_hash :: "Felt"
  add_declare_transaction_result_transaction_hash :: "TxnHash"

record AddDeployAccountTransactionResult =
  add_deploy_account_transaction_result_contract_address :: "Felt"
  add_deploy_account_transaction_result_transaction_hash :: "TxnHash"

record BinaryNode =
  binary_node_binary :: "BinaryNodeBinary"

record BlockBodyWithTxHashes =
  block_body_with_tx_hashes_transactions :: "TxnHash list"

record BlockHeader =
  block_header_block_hash :: "BlockHash"
  block_header_block_number :: "BlockNumber"
  block_header_l1_da_mode :: "BlockHeaderL1DaMode option"
  block_header_l1_data_gas_price :: "ResourcePrice option"
  block_header_l1_gas_price :: "ResourcePrice"
  block_header_new_root :: "Felt"
  block_header_parent_hash :: "BlockHash"
  block_header_sequencer_address :: "Felt"
  block_header_starknet_version :: "string"
  block_header_timestamp :: "BlockHeaderTimestamp"

datatype BlockId = BlockHash "BlockHash" | BlockNumber "BlockNumber" | BlockTag "BlockTag"

record BlockWithTxHashes =
  block_with_tx_hashes_status :: "BlockStatus"
  block_with_tx_hashes_block_header :: "BlockHeader"
  block_with_tx_hashes_block_body_with_tx_hashes :: "BlockBodyWithTxHashes"

record ContractClassEntryPointsByType =
  contract_class_entry_points_by_type_constructor :: "SierraEntryPoint list"
  contract_class_entry_points_by_type_external :: "SierraEntryPoint list"
  contract_class_entry_points_by_type_l1_handler :: "SierraEntryPoint list"

record ContractStorageDiffItem =
  contract_storage_diff_item_address :: "Felt"
  contract_storage_diff_item_storage_entries :: "StorageDiffItem list"

record DeclareTxnV0 =
  declare_txn_v0_class_hash :: "Felt"
  declare_txn_v0_max_fee :: "Felt"
  declare_txn_v0_type :: "DeclareTxnV0Type"
  declare_txn_v0_sender_address :: "Address"
  declare_txn_v0_signature :: "Signature"
  declare_txn_v0_version :: "DeclareTxnV0Version"

record DeclareTxnV1 =
  declare_txn_v1_class_hash :: "Felt"
  declare_txn_v1_max_fee :: "Felt"
  declare_txn_v1_nonce :: "Felt"
  declare_txn_v1_type :: "DeclareTxnV1Type"
  declare_txn_v1_sender_address :: "Address"
  declare_txn_v1_signature :: "Signature"
  declare_txn_v1_version :: "DeclareTxnV1Version"

record DeclareTxnV2 =
  declare_txn_v2_class_hash :: "Felt"
  declare_txn_v2_compiled_class_hash :: "Felt"
  declare_txn_v2_max_fee :: "Felt"
  declare_txn_v2_nonce :: "Felt"
  declare_txn_v2_type :: "DeclareTxnV2Type"
  declare_txn_v2_sender_address :: "Address"
  declare_txn_v2_signature :: "Signature"
  declare_txn_v2_version :: "DeclareTxnV2Version"

record DeclareTxnV3 =
  declare_txn_v3_account_deployment_data :: "Felt list"
  declare_txn_v3_class_hash :: "Felt"
  declare_txn_v3_compiled_class_hash :: "Felt"
  declare_txn_v3_fee_data_availability_mode :: "DaMode"
  declare_txn_v3_nonce :: "Felt"
  declare_txn_v3_nonce_data_availability_mode :: "DaMode"
  declare_txn_v3_paymaster_data :: "Felt list"
  declare_txn_v3_type :: "DeclareTxnV3Type"
  declare_txn_v3_resource_bounds :: "ResourceBoundsMapping"
  declare_txn_v3_sender_address :: "Address"
  declare_txn_v3_signature :: "Signature"
  declare_txn_v3_tip :: "U64"
  declare_txn_v3_version :: "DeclareTxnV3Version"

record DeployAccountTxnV1 =
  deploy_account_txn_v1_class_hash :: "Felt"
  deploy_account_txn_v1_constructor_calldata :: "Felt list"
  deploy_account_txn_v1_contract_address_salt :: "Felt"
  deploy_account_txn_v1_max_fee :: "Felt"
  deploy_account_txn_v1_nonce :: "Felt"
  deploy_account_txn_v1_type :: "DeployAccountTxnV1Type"
  deploy_account_txn_v1_signature :: "Signature"
  deploy_account_txn_v1_version :: "DeployAccountTxnV1Version"

record DeployAccountTxnV3 =
  deploy_account_txn_v3_class_hash :: "Felt"
  deploy_account_txn_v3_constructor_calldata :: "Felt list"
  deploy_account_txn_v3_contract_address_salt :: "Felt"
  deploy_account_txn_v3_fee_data_availability_mode :: "DaMode"
  deploy_account_txn_v3_nonce :: "Felt"
  deploy_account_txn_v3_nonce_data_availability_mode :: "DaMode"
  deploy_account_txn_v3_paymaster_data :: "Felt list"
  deploy_account_txn_v3_type :: "DeployAccountTxnV3Type"
  deploy_account_txn_v3_resource_bounds :: "ResourceBoundsMapping"
  deploy_account_txn_v3_signature :: "Signature"
  deploy_account_txn_v3_tip :: "U64"
  deploy_account_txn_v3_version :: "DeployAccountTxnV3Version"

record DeployTxn =
  deploy_txn_class_hash :: "Felt"
  deploy_txn_constructor_calldata :: "Felt list"
  deploy_txn_contract_address_salt :: "Felt"
  deploy_txn_type :: "DeployTxnType"
  deploy_txn_version :: "Felt"

record EdgeNodeEdge =
  edge_node_edge_child :: "Felt"
  edge_node_edge_path :: "EdgeNodePath"

record Event =
  event_from_address :: "Address"
  event_event_content :: "EventContent"

record EventAbiEntry =
  event_abi_entry_data :: "TypedParameter list"
  event_abi_entry_keys :: "TypedParameter list"
  event_abi_entry_name :: "string"
  event_abi_entry_type :: "EventAbiType"

record EventFilter =
  event_filter_address :: "Address option"
  event_filter_from_block :: "BlockId option"
  event_filter_keys :: "Felt list list option"
  event_filter_to_block :: "BlockId option"

record ExecutionResources =
  execution_resources_computation_resources :: "ComputationResources"
  execution_resources_data_availability :: "ExecutionResourcesDataAvailability option"

record FeeEstimate =
  fee_estimate_data_gas_consumed :: "Felt option"
  fee_estimate_data_gas_price :: "Felt option"
  fee_estimate_gas_consumed :: "Felt"
  fee_estimate_gas_price :: "Felt"
  fee_estimate_overall_fee :: "Felt"
  fee_estimate_unit :: "PriceUnit"

record FeePayment =
  fee_payment_amount :: "Felt"
  fee_payment_unit :: "PriceUnit"

record FunctionAbiEntry =
  function_abi_entry_inputs :: "TypedParameter list"
  function_abi_entry_name :: "string"
  function_abi_entry_outputs :: "TypedParameter list"
  function_abi_entry_type :: "FunctionAbiType"
  function_abi_entry_statemutability :: "FunctionStateMutability option"

record InvokeTxnV0 =
  invoke_txn_v0_calldata :: "Felt list"
  invoke_txn_v0_contract_address :: "Address"
  invoke_txn_v0_entry_point_selector :: "Felt"
  invoke_txn_v0_max_fee :: "Felt"
  invoke_txn_v0_type :: "InvokeTxnV0Type"
  invoke_txn_v0_signature :: "Signature"
  invoke_txn_v0_version :: "InvokeTxnV0Version"

record InvokeTxnV1 =
  invoke_txn_v1_calldata :: "Felt list"
  invoke_txn_v1_max_fee :: "Felt"
  invoke_txn_v1_nonce :: "Felt"
  invoke_txn_v1_type :: "InvokeTxnV1Type"
  invoke_txn_v1_sender_address :: "Address"
  invoke_txn_v1_signature :: "Signature"
  invoke_txn_v1_version :: "InvokeTxnV1Version"

record InvokeTxnV3 =
  invoke_txn_v3_account_deployment_data :: "Felt list"
  invoke_txn_v3_calldata :: "Felt list"
  invoke_txn_v3_fee_data_availability_mode :: "DaMode"
  invoke_txn_v3_nonce :: "Felt"
  invoke_txn_v3_nonce_data_availability_mode :: "DaMode"
  invoke_txn_v3_paymaster_data :: "Felt list"
  invoke_txn_v3_type :: "InvokeTxnV3Type"
  invoke_txn_v3_resource_bounds :: "ResourceBoundsMapping"
  invoke_txn_v3_sender_address :: "Address"
  invoke_txn_v3_signature :: "Signature"
  invoke_txn_v3_tip :: "U64"
  invoke_txn_v3_version :: "InvokeTxnV3Version"

record L1HandlerTxn =
  l1_handler_txn_nonce :: "NumAsHex"
  l1_handler_txn_type :: "L1HandlerTxnType"
  l1_handler_txn_version :: "L1HandlerTxnVersion"
  l1_handler_txn_function_call :: "FunctionCall"

record OrderedEvent =
  ordered_event_order :: "i64 option"
  ordered_event_event :: "Event"

record PendingBlockHeader =
  pending_block_header_l1_da_mode :: "PendingBlockHeaderL1DaMode"
  pending_block_header_l1_data_gas_price :: "ResourcePrice"
  pending_block_header_l1_gas_price :: "ResourcePrice"
  pending_block_header_parent_hash :: "BlockHash"
  pending_block_header_sequencer_address :: "Felt"
  pending_block_header_starknet_version :: "string"
  pending_block_header_timestamp :: "PendingBlockHeaderTimestamp"

record PendingBlockWithTxHashes =
  pending_block_with_tx_hashes_block_body_with_tx_hashes :: "BlockBodyWithTxHashes"
  pending_block_with_tx_hashes_pending_block_header :: "PendingBlockHeader"

record RevertedCommonReceiptProperties =
  reverted_common_receipt_properties_execution_status :: "RevertedCommonReceiptPropertiesExecutionStatus"
  reverted_common_receipt_properties_revert_reason :: "string"

record StateDiff =
  state_diff_declared_classes :: "NewClasses list"
  state_diff_deployed_contracts :: "DeployedContractItem list"
  state_diff_deprecated_declared_classes :: "Felt list"
  state_diff_nonces :: "NonceUpdate list"
  state_diff_replaced_classes :: "ReplacedClass list"
  state_diff_storage_diffs :: "ContractStorageDiffItem list"

record StateUpdate =
  state_update_block_hash :: "BlockHash"
  state_update_new_root :: "Felt"
  state_update_old_root :: "Felt"
  state_update_state_diff :: "StateDiff"

record StructMember =
  struct_member_typed_parameter :: "TypedParameter"
  struct_member_offset :: "i64 option"

record SuccessfulCommonReceiptProperties =
  successful_common_receipt_properties_execution_status :: "SuccessfulCommonReceiptPropertiesExecutionStatus"

datatype GetBlockWithTxHashesResult = BlockWithTxHashes "BlockWithTxHashes" | PendingBlockWithTxHashes "PendingBlockWithTxHashes"

record GetEventsFilter =
  get_events_filter_event_filter :: "EventFilter"
  get_events_filter_result_page_request :: "ResultPageRequest"

record ContractClass =
  contract_class_abi :: "string option"
  contract_class_contract_class_version :: "string"
  contract_class_entry_points_by_type :: "ContractClassEntryPointsByType"
  contract_class_sierra_program :: "Felt list"

datatype DeclareTxn = DeclareTxnV0 "DeclareTxnV0" | DeclareTxnV1 "DeclareTxnV1" | DeclareTxnV2 "DeclareTxnV2" | DeclareTxnV3 "DeclareTxnV3"

datatype DeployAccountTxn = DeployAccountTxnV1 "DeployAccountTxnV1" | DeployAccountTxnV3 "DeployAccountTxnV3"

record EdgeNode =
  edge_node_edge :: "EdgeNodeEdge"

record EmittedEvent =
  emitted_event_event :: "Event"
  emitted_event_block_hash :: "BlockHash option"
  emitted_event_block_number :: "BlockNumber option"
  emitted_event_transaction_hash :: "TxnHash"

record EventsChunk =
  events_chunk_continuation_token :: "string option"
  events_chunk_events :: "EmittedEvent list"

datatype FunctionInvocation = FunctionInvocation
    (function_invocation_function_call: "FunctionCall")
    (function_invocation_call_type: "CallType")
    (function_invocation_caller_address: "Felt")
    (function_invocation_calls: "NestedCall list")
    (function_invocation_class_hash: "Felt")
    (function_invocation_entry_point_type: "EntryPointType")
    (function_invocation_events: "OrderedEvent list")
    (function_invocation_execution_resources: "ComputationResources")
    (function_invocation_messages: "OrderedMessage list")
    (function_invocation_result: "Felt list")
  and NestedCall = NestedCall FunctionInvocation

datatype InvokeTxn = InvokeTxnV0 "InvokeTxnV0" | InvokeTxnV1 "InvokeTxnV1" | InvokeTxnV3 "InvokeTxnV3"

datatype InvokeTxnTraceExecuteInvocation = FunctionInvocation "FunctionInvocation" | RevertReason "string"

record L1HandlerTxnTrace =
  l1_handler_txn_trace_execution_resources :: "ExecutionResources"
  l1_handler_txn_trace_function_invocation :: "FunctionInvocation"
  l1_handler_txn_trace_type :: "L1HandlerTxnTraceType"
  l1_handler_txn_trace_state_diff :: "StateDiff option"

datatype Node = BinaryNode "BinaryNode" | EdgeNode "EdgeNode"

record PendingStateUpdate =
  pending_state_update_old_root :: "Felt"
  pending_state_update_state_diff :: "StateDiff"

type_synonym Proof = "Node list"

datatype ResultCommonReceiptProperties = SuccessfulCommonReceiptProperties "SuccessfulCommonReceiptProperties" | RevertedCommonReceiptProperties "RevertedCommonReceiptProperties"

record StructAbiEntry =
  struct_abi_entry_members :: "StructMember list"
  struct_abi_entry_name :: "string"
  struct_abi_entry_type :: "StructAbiType"
  struct_abi_entry_size :: "StructAbiEntrySize"

datatype Txn = InvokeTxn "InvokeTxn" | L1HandlerTxn "L1HandlerTxn" | DeclareTxn "DeclareTxn" | DeployTxn "DeployTxn" | DeployAccountTxn "DeployAccountTxn"

datatype GetStateUpdateResult = StateUpdate "StateUpdate" | PendingStateUpdate "PendingStateUpdate"

record GetTransactionByHashResult =
  get_transaction_by_hash_result_txn :: "Txn"
  get_transaction_by_hash_result_transaction_hash :: "TxnHash"

record GetTransactionByBlockIdAndIndexResult =
  get_transaction_by_block_id_and_index_result_txn :: "Txn"
  get_transaction_by_block_id_and_index_result_transaction_hash :: "TxnHash"

record ContractData =
  contract_data_class_hash :: "Felt"
  contract_data_contract_state_hash_version :: "Felt"
  contract_data_nonce :: "Felt"
  contract_data_root :: "Felt"
  contract_data_storage_proofs :: "Proof list option"

record GetProofResult =
  get_proof_result_class_commitment :: "Felt option"
  get_proof_result_contract_data :: "ContractData option"
  get_proof_result_contract_proof :: "Proof"
  get_proof_result_state_commitment :: "Felt option"

record BroadcastedDeclareTxnV2 =
  broadcasted_declare_txn_v2_compiled_class_hash :: "Felt"
  broadcasted_declare_txn_v2_contract_class :: "ContractClass"
  broadcasted_declare_txn_v2_max_fee :: "Felt"
  broadcasted_declare_txn_v2_nonce :: "Felt"
  broadcasted_declare_txn_v2_type :: "BroadcastedDeclareTxnV2Type"
  broadcasted_declare_txn_v2_sender_address :: "Address"
  broadcasted_declare_txn_v2_signature :: "Signature"
  broadcasted_declare_txn_v2_version :: "BroadcastedDeclareTxnV2Version"

record BroadcastedDeclareTxnV3 =
  broadcasted_declare_txn_v3_account_deployment_data :: "Felt list"
  broadcasted_declare_txn_v3_compiled_class_hash :: "Felt"
  broadcasted_declare_txn_v3_contract_class :: "ContractClass"
  broadcasted_declare_txn_v3_fee_data_availability_mode :: "DaMode"
  broadcasted_declare_txn_v3_nonce :: "Felt"
  broadcasted_declare_txn_v3_nonce_data_availability_mode :: "DaMode"
  broadcasted_declare_txn_v3_paymaster_data :: "Felt list"
  broadcasted_declare_txn_v3_type :: "BroadcastedDeclareTxnV3Type"
  broadcasted_declare_txn_v3_resource_bounds :: "ResourceBoundsMapping"
  broadcasted_declare_txn_v3_sender_address :: "Address"
  broadcasted_declare_txn_v3_signature :: "Signature"
  broadcasted_declare_txn_v3_tip :: "U64"
  broadcasted_declare_txn_v3_version :: "BroadcastedDeclareTxnV3Version"

datatype BroadcastedDeployAccountTxn = BroadcastedDeployAccountTxn DeployAccountTxn

datatype BroadcastedInvokeTxn = BroadcastedInvokeTxn InvokeTxn

record CommonReceiptProperties =
  common_receipt_properties_actual_fee :: "FeePayment"
  common_receipt_properties_events :: "Event list"
  common_receipt_properties_execution_resources :: "ExecutionResources"
  common_receipt_properties_finality_status :: "TxnFinalityStatus"
  common_receipt_properties_messages_sent :: "MsgToL1 list"
  common_receipt_properties_transaction_hash :: "TxnHash"
  common_receipt_properties_result_common_receipt_properties :: "ResultCommonReceiptProperties"

datatype ContractAbiEntry = FunctionAbiEntry "FunctionAbiEntry" | EventAbiEntry "EventAbiEntry" | StructAbiEntry "StructAbiEntry"

record DeclareTxnReceipt =
  declare_txn_receipt_type :: "DeclareTxnReceiptType"
  declare_txn_receipt_common_receipt_properties :: "CommonReceiptProperties"

record DeclareTxnTrace =
  declare_txn_trace_execution_resources :: "ExecutionResources"
  declare_txn_trace_fee_transfer_invocation :: "FunctionInvocation option"
  declare_txn_trace_type :: "DeclareTxnTraceType"
  declare_txn_trace_state_diff :: "StateDiff option"
  declare_txn_trace_validate_invocation :: "FunctionInvocation option"

record DeployAccountTxnReceipt =
  deploy_account_txn_receipt_common_receipt_properties :: "CommonReceiptProperties"
  deploy_account_txn_receipt_contract_address :: "Felt"
  deploy_account_txn_receipt_type :: "DeployAccountTxnReceiptType"

record DeployAccountTxnTrace =
  deploy_account_txn_trace_constructor_invocation :: "FunctionInvocation"
  deploy_account_txn_trace_execution_resources :: "ExecutionResources"
  deploy_account_txn_trace_fee_transfer_invocation :: "FunctionInvocation option"
  deploy_account_txn_trace_type :: "DeployAccountTxnTraceType"
  deploy_account_txn_trace_state_diff :: "StateDiff option"
  deploy_account_txn_trace_validate_invocation :: "FunctionInvocation option"

record DeployTxnReceipt =
  deploy_txn_receipt_common_receipt_properties :: "CommonReceiptProperties"
  deploy_txn_receipt_contract_address :: "Felt"
  deploy_txn_receipt_type :: "DeployTxnReceiptType"

record InvokeTxnReceipt =
  invoke_txn_receipt_type :: "InvokeTxnReceiptType"
  invoke_txn_receipt_common_receipt_properties :: "CommonReceiptProperties"

record InvokeTxnTrace =
  invoke_txn_trace_execute_invocation :: "InvokeTxnTraceExecuteInvocation"
  invoke_txn_trace_execution_resources :: "ExecutionResources"
  invoke_txn_trace_fee_transfer_invocation :: "FunctionInvocation option"
  invoke_txn_trace_type :: "InvokeTxnTraceType"
  invoke_txn_trace_state_diff :: "StateDiff option"
  invoke_txn_trace_validate_invocation :: "FunctionInvocation option"

record L1HandlerTxnReceipt =
  l1_handler_txn_receipt_message_hash :: "NumAsHex"
  l1_handler_txn_receipt_type :: "L1HandlerTxnReceiptType"
  l1_handler_txn_receipt_common_receipt_properties :: "CommonReceiptProperties"

datatype TransactionTrace = InvokeTxnTrace "InvokeTxnTrace" | DeclareTxnTrace "DeclareTxnTrace" | DeployAccountTxnTrace "DeployAccountTxnTrace" | L1HandlerTxnTrace "L1HandlerTxnTrace"

record TransactionsInBlock =
  transactions_in_block_txn :: "Txn"
  transactions_in_block_transaction_hash :: "TxnHash"

datatype TxnReceipt = InvokeTxnReceipt "InvokeTxnReceipt" | L1HandlerTxnReceipt "L1HandlerTxnReceipt" | DeclareTxnReceipt "DeclareTxnReceipt" | DeployTxnReceipt "DeployTxnReceipt" | DeployAccountTxnReceipt "DeployAccountTxnReceipt"

record TxnReceiptWithBlockInfo =
  txn_receipt_with_block_info_txn_receipt :: "TxnReceipt"
  txn_receipt_with_block_info_block_hash :: "BlockHash option"
  txn_receipt_with_block_info_block_number :: "BlockNumber option"

record SimulatedTransaction =
  simulated_transaction_fee_estimation :: "FeeEstimate option"
  simulated_transaction_transaction_trace :: "TransactionTrace option"

record BlockTransactionTrace =
  block_transaction_trace_trace_root :: "TransactionTrace option"
  block_transaction_trace_transaction_hash :: "Felt option"

record BlockBodyWithTxs =
  block_body_with_txs_transactions :: "TransactionsInBlock list"

record BlockWithTxs =
  block_with_txs_status :: "BlockStatus"
  block_with_txs_block_header :: "BlockHeader"
  block_with_txs_block_body_with_txs :: "BlockBodyWithTxs"

type_synonym ContractAbi = "ContractAbiEntry list"

record DeprecatedContractClass =
  deprecated_contract_class_abi :: "ContractAbi option"
  deprecated_contract_class_entry_points_by_type :: "DeprecatedContractClassEntryPointsByType"
  deprecated_contract_class_program :: "DeprecatedContractClassProgram"

record PendingBlockWithTxs =
  pending_block_with_txs_block_body_with_txs :: "BlockBodyWithTxs"
  pending_block_with_txs_pending_block_header :: "PendingBlockHeader"

record TransactionAndReceipt =
  transaction_and_receipt_receipt :: "TxnReceipt"
  transaction_and_receipt_transaction :: "Txn"

datatype GetBlockWithTxsResult = BlockWithTxs "BlockWithTxs" | PendingBlockWithTxs "PendingBlockWithTxs"

datatype GetClassResult = DeprecatedContractClass "DeprecatedContractClass" | ContractClass "ContractClass"

datatype GetClassAtResult = DeprecatedContractClass "DeprecatedContractClass" | ContractClass "ContractClass"

record BlockBodyWithReceipts =
  block_body_with_receipts_transactions :: "TransactionAndReceipt list"

record BlockWithReceipts =
  block_with_receipts_status :: "BlockStatus"
  block_with_receipts_block_header :: "BlockHeader"
  block_with_receipts_block_body_with_receipts :: "BlockBodyWithReceipts"

record BroadcastedDeclareTxnV1 =
  broadcasted_declare_txn_v1_contract_class :: "DeprecatedContractClass"
  broadcasted_declare_txn_v1_max_fee :: "Felt"
  broadcasted_declare_txn_v1_nonce :: "Felt"
  broadcasted_declare_txn_v1_type :: "BroadcastedDeclareTxnV1Type"
  broadcasted_declare_txn_v1_sender_address :: "Address"
  broadcasted_declare_txn_v1_signature :: "Signature"
  broadcasted_declare_txn_v1_version :: "BroadcastedDeclareTxnV1Version"

record PendingBlockWithReceipts =
  pending_block_with_receipts_block_body_with_receipts :: "BlockBodyWithReceipts"
  pending_block_with_receipts_pending_block_header :: "PendingBlockHeader"

datatype GetBlockWithReceiptsResult = BlockWithReceipts "BlockWithReceipts" | PendingBlockWithReceipts "PendingBlockWithReceipts"

datatype BroadcastedDeclareTxn = BroadcastedDeclareTxnV1 "BroadcastedDeclareTxnV1" | BroadcastedDeclareTxnV2 "BroadcastedDeclareTxnV2" | BroadcastedDeclareTxnV3 "BroadcastedDeclareTxnV3"

datatype BroadcastedTxn = BroadcastedInvokeTxn "BroadcastedInvokeTxn" | BroadcastedDeclareTxn "BroadcastedDeclareTxn" | BroadcastedDeployAccountTxn "BroadcastedDeployAccountTxn"

end
