(* ===== verification/Gateway.thy ===== *)
theory Gateway
  imports Scalars Jsonrpc
begin

text \<open>
  \<open>src/src/feeder.rs\<close> and the state it returns (\<open>State\<close> of \<open>src/src/client.rs\<close>): the
  feeder gateway is the trusted source of the latest block's number, hash and state root.
  The HTTP client (reqwest) and the JSON values (serde_json) are parameters: a request and
  the reading of its body are effects on the world \<open>'s\<close> with a failure text, and a
  value is read through the accessors the code uses, all of them total.
\<close>

section \<open>Reports\<close>

text \<open>An \<open>eyre::Report\<close>: a message of \<open>bail!\<close>, \<open>eyre!\<close> or \<open>ok_or_eyre\<close>, an error with
  a \<open>context\<close>, or an error of another type converted by \<open>?\<close> (its text).\<close>

datatype report = Message string | Context string string | RpcReport rpc_error | Source string

section \<open>The libraries used\<close>

record ('s, 'q, 'resp, 'v) reqwest =
  rq_get :: "string \<Rightarrow> ('s, 'resp, string) io"
  rq_post :: "string \<Rightarrow> 'q \<Rightarrow> ('s, 'resp, string) io"
  resp_json :: "'resp \<Rightarrow> ('s, 'v, string) io"
  resp_text :: "'resp \<Rightarrow> ('s, string, string) io"

record 'v json_ops =
  index_str :: "'v \<Rightarrow> string \<Rightarrow> 'v"
  as_str :: "'v \<Rightarrow> string option"
  as_u64 :: "'v \<Rightarrow> u64 option"
  as_array :: "'v \<Rightarrow> 'v list option"
  as_object :: "'v \<Rightarrow> 'v option"
  object_to_string :: "'v \<Rightarrow> (string, string) outcome"

section \<open>\<open>State\<close>\<close>

record ClientState =
  block_number :: u64
  block_hash :: Felt
  root :: Felt

definition ClientState_eq :: "ClientState \<Rightarrow> ClientState \<Rightarrow> bool" where
  "ClientState_eq self other \<longleftrightarrow>
     block_number self = block_number other \<and>
     Felt_as_ref (root self) = Felt_as_ref (root other) \<and>
     Felt_as_ref (block_hash self) = Felt_as_ref (block_hash other)"

lemma ClientState_eq_iff: "ClientState_eq a b \<longleftrightarrow> a = b"
proof -
  have "Felt_as_ref x = Felt_as_ref y \<longleftrightarrow> x = y" for x y by (cases x; cases y) simp
  then show ?thesis by (auto simp: ClientState_eq_def)
qed

section \<open>\<open>GatewayClient\<close>\<close>

record GatewayClient = gw_url :: string

definition GatewayClient_new :: "string \<Rightarrow> (GatewayClient, report) outcome" where
  "GatewayClient_new url =
     (if url \<noteq> [] \<and> last url = CHR ''/'' then Err (Message (''Gateway URL must not end with '' @ [CHR 0x27] @ ''/'' @ [CHR 0x27] @ ''.''))
      else Ok \<lparr>gw_url = url\<rparr>)"

text \<open>The two \<open>context\<close>s every request has.\<close>

definition gateway_send ::
  "('s, 'q, 'resp, 'v) reqwest \<Rightarrow> string \<Rightarrow> ('resp \<Rightarrow> ('s, 'b, string) io) \<Rightarrow> ('s, 'b, report) io" where
  "gateway_send rq url read =
     io_bind (io_map_err (Context ''failed to send gateway request'') (rq_get rq url)) (\<lambda>resp.
     io_map_err (Context ''failed to receive gateway response'') (read resp))"

definition get_pubkey ::
  "('s, 'q, 'resp, 'v) reqwest \<Rightarrow> GatewayClient \<Rightarrow> string \<Rightarrow> ('s, string, report) io" where
  "get_pubkey rq self hash =
     gateway_send rq (gw_url self @ ''/feeder_gateway/get_public_key?blockHash='' @ hash) (resp_text rq)"

definition signature_of_json ::
  "'v json_ops \<Rightarrow> string \<Rightarrow> 'v \<Rightarrow> (string \<times> string, report) outcome" where
  "signature_of_json J h json =
     bind (ok_or (as_str J (index_str J json ''block_hash'')) (Message ''gateway: invalid block hash'')) (\<lambda>hash.
     if hash \<noteq> h then Err (Message ''gateway: invalid block hash'')
     else bind (ok_or (as_array J (index_str J json ''signature'')) (Message ''gateway: invalid signature'')) (\<lambda>signature.
     if length signature \<noteq> 2 then Err (Message ''gateway: invalid signature'')
     else bind (ok_or (as_str J (signature ! 0)) (Message ''gateway: invalid signature'')) (\<lambda>r.
     bind (ok_or (as_str J (signature ! 1)) (Message ''gateway: invalid signature'')) (\<lambda>s.
     Ok (r, s)))))"

definition get_signature ::
  "('s, 'q, 'resp, 'v) reqwest \<Rightarrow> 'v json_ops \<Rightarrow> GatewayClient \<Rightarrow> string
     \<Rightarrow> ('s, string \<times> string, report) io" where
  "get_signature rq J self h =
     io_bind (gateway_send rq (gw_url self @ ''/feeder_gateway/get_signature?blockHash='' @ h) (resp_json rq))
       (\<lambda>json. io_lift (signature_of_json J h json))"

definition state_of_json :: "'v json_ops \<Rightarrow> 'v \<Rightarrow> (ClientState, report) outcome" where
  "state_of_json J json =
     (if as_str J (index_str J json ''status'') \<noteq> Some ''ACCEPTED_ON_L2''
      then Err (Message ''gateway: invalid block status'')
      else bind (ok_or (as_u64 J (index_str J json ''block_number''))
                  (Message ''gateway: fetching block_number failed'')) (\<lambda>number.
      bind (ok_or (as_str J (index_str J json ''block_hash''))
              (Message ''gateway: fetching block_hash failed'')) (\<lambda>hash.
      bind (ok_or (as_str J (index_str J json ''state_root''))
              (Message ''gateway: fetching state_root failed'')) (\<lambda>state_root.
      bind (map_err RpcReport (Felt_try_new hash)) (\<lambda>hash_felt.
      bind (map_err RpcReport (Felt_try_new state_root)) (\<lambda>root_felt.
      Ok \<lparr>block_number = number, block_hash = hash_felt, root = root_felt\<rparr>))))))"

definition gateway_get_state ::
  "('s, 'q, 'resp, 'v) reqwest \<Rightarrow> 'v json_ops \<Rightarrow> GatewayClient \<Rightarrow> ('s, ClientState, report) io" where
  "gateway_get_state rq J self =
     io_bind (gateway_send rq (gw_url self @ ''/feeder_gateway/get_block?blockNumber=latest'') (resp_json rq))
       (\<lambda>json. io_lift (state_of_json J json))"

section \<open>Properties\<close>

text \<open>A state the gateway client returns is a well-formed one, taken from an answer that has all
  fields: the answer says \<open>ACCEPTED_ON_L2\<close>, the number is the answer's, and the hash and
  the root are the answer's texts as accepted by \<open>Felt::try_new\<close>.\<close>

lemma state_of_json_Ok_iff:
  "state_of_json J json = Ok st \<longleftrightarrow>
     as_str J (index_str J json ''status'') = Some ''ACCEPTED_ON_L2'' \<and>
     as_u64 J (index_str J json ''block_number'') = Some (block_number st) \<and>
     (\<exists>h r. as_str J (index_str J json ''block_hash'') = Some h \<and> Felt_try_new h = Ok (block_hash st) \<and>
            as_str J (index_str J json ''state_root'') = Some r \<and> Felt_try_new r = Ok (root st))"
  by (cases st) (auto simp: state_of_json_def outcome_simps)

text \<open>A signature is returned only for the block asked for, and only when it has exactly two
  texts; no answer makes the reading of it panic.\<close>

lemma signature_of_json_Ok_iff:
  "signature_of_json J h json \<noteq> Panicked \<and>
   (signature_of_json J h json = Ok (r, s) \<longleftrightarrow>
     as_str J (index_str J json ''block_hash'') = Some h \<and>
     (\<exists>a b. as_array J (index_str J json ''signature'') = Some [a, b] \<and>
        as_str J a = Some r \<and> as_str J b = Some s))"
proof -
  have two: "length l = 2 \<longleftrightarrow> (\<exists>a b. l = [a, b])" for l :: "'a list"
    by (auto simp: length_Suc_conv numeral_2_eq_2)
  have bwd: "signature_of_json J h json = Ok (r, s)"
    if "as_str J (index_str J json ''block_hash'') = Some h"
      and "as_array J (index_str J json ''signature'') = Some [a, b]"
      and "as_str J a = Some r" and "as_str J b = Some s" for a b
    using that by (simp add: signature_of_json_def)
  have fwd: "as_str J (index_str J json ''block_hash'') = Some h \<and>
      (\<exists>a b. as_array J (index_str J json ''signature'') = Some [a, b] \<and> as_str J a = Some r \<and> as_str J b = Some s)"
    if "signature_of_json J h json = Ok (r, s)"
    using that by (auto simp: signature_of_json_def outcome_simps two split: if_splits)
  have "signature_of_json J h json \<noteq> Panicked"
    by (auto simp: signature_of_json_def outcome_simps)
  then show ?thesis using bwd fwd by blast
qed

end
