(* ===== verification/ExeMap.thy ===== *)
theory ExeMap
  imports FieldElement Dto ScalarFacts Gateway
begin

text \<open>
  \<open>src/src/exe/err.rs\<close> and \<open>src/src/exe/map.rs\<close>: the error type of an execution with its
  conversions, and the conversions between the RPC's types and those of the virtual
  machine: \<open>Felt\<close> and field elements, and contract classes. An error of a foreign library
  is represented by the text \<open>{:?}\<close> prints for it; the hexadecimal encoder, the JSON,
  base64 and gzip decoders and the class compilers are parameters.
\<close>

section \<open>Errors\<close>

text \<open>The variants of blockifier's \<open>StateError\<close> the sources build, and any other.\<close>

datatype 'f StateError = StateReadError string | UndeclaredClassHash 'f | OtherStateError string

datatype 'f Error =
    Io string | Base64 string | Serde string | Reqwest string | IamGroot rpc_error
  | StarknetApi string | State "'f StateError" | EntryPoint string | Transaction string
  | SierraCompilation string | Program string | Custom string

text \<open>The derived \<open>Debug\<close> texts.\<close>

record 'f debug_texts =
  debug_rpc_error :: "rpc_error \<Rightarrow> string"
  debug_state_error :: "'f StateError \<Rightarrow> string"
  debug_error :: "'f Error \<Rightarrow> string"

primrec Error_to_string :: "'f debug_texts \<Rightarrow> 'f Error \<Rightarrow> string" where
  "Error_to_string D (Io t) = ''io error: '' @ t"
| "Error_to_string D (Base64 t) = ''base64 error: '' @ t"
| "Error_to_string D (Serde t) = ''serde error: '' @ t"
| "Error_to_string D (Reqwest t) = ''reqwest error: '' @ t"
| "Error_to_string D (IamGroot e) = ''codegen error: '' @ debug_rpc_error D e"
| "Error_to_string D (StarknetApi t) = ''starknet api error: '' @ t"
| "Error_to_string D (State e) = ''blockifier state error: '' @ debug_state_error D e"
| "Error_to_string D (EntryPoint t) = ''blockifier entry point error: '' @ t"
| "Error_to_string D (Transaction t) = ''blockifier transaction error: '' @ t"
| "Error_to_string D (SierraCompilation t) = ''sierra compilation error: '' @ t"
| "Error_to_string D (Program t) = ''program error: '' @ t"
| "Error_to_string D (Custom t) = t"

definition StateError_from :: "'f debug_texts \<Rightarrow> 'f Error \<Rightarrow> 'f StateError" where
  "StateError_from D err = StateReadError (debug_error D err)"

definition rpc_error_from :: "'f debug_texts \<Rightarrow> 'f Error \<Rightarrow> rpc_error" where
  "rpc_error_from D err = (case err of IamGroot e \<Rightarrow> e | e \<Rightarrow> rpc_err 500 (Error_to_string D e))"

lemma rpc_error_from_code: "code (rpc_error_from D err) = (case err of IamGroot e \<Rightarrow> code e | _ \<Rightarrow> 500)"
  by (cases err) (simp_all add: rpc_error_from_def)

section \<open>Felts and field elements\<close>

definition trim_zeros :: "string \<Rightarrow> string" where
  "trim_zeros h = dropWhile (\<lambda>c. c = CHR ''0'') h"

text \<open>\<open>unchecked\<close> is \<open>StarkFelt::from_hex_unchecked\<close>, which panics on a text it cannot
  read; \<open>hex\<close> is \<open>hex::encode\<close>.\<close>

definition stark_from_felt :: "(string \<Rightarrow> 'f option) \<Rightarrow> Felt \<Rightarrow> ('f, 'f Error) outcome" where
  "stark_from_felt unchecked felt =
     (case unchecked (Felt_as_ref felt) of Some x \<Rightarrow> Ok x | None \<Rightarrow> Panicked)"

definition felt_from_stark_ref ::
  "(u8 list \<Rightarrow> string) \<Rightarrow> 'f field_ops \<Rightarrow> 'f \<Rightarrow> (Felt, 'f Error) outcome" where
  "felt_from_stark_ref hex F felt =
     (let h = trim_zeros (hex (to_bytes_be F felt));
          h = (if h = [] then ''0'' else h) in
      map_err IamGroot (Felt_try_new (''0x'' @ h)))"

definition felt_from_stark ::
  "(u8 list \<Rightarrow> string) \<Rightarrow> 'f field_ops \<Rightarrow> 'f \<Rightarrow> (Felt, 'f Error) outcome" where
  "felt_from_stark hex F felt = felt_from_stark_ref hex F felt"

text \<open>\<open>as_felt\<close> of \<open>src/src/client.rs\<close>.\<close>

definition as_felt :: "(u8 list \<Rightarrow> string) \<Rightarrow> u8 list \<Rightarrow> (Felt, report) outcome" where
  "as_felt hex bytes = map_err RpcReport (Felt_try_new (''0x'' @ trim_zeros (hex bytes)))"

text \<open>What is relied on: \<open>hex::encode\<close> writes two digits per byte, most significant first;
  a field element is below \<open>2 ^ 252\<close>; \<open>from_hex_unchecked\<close> reads the number written.\<close>

definition hex_law :: "(u8 list \<Rightarrow> string) \<Rightarrow> bool" where
  "hex_law hex \<longleftrightarrow> (\<forall>bs. list_all hex_digit (hex bs) \<and> hex_value (hex bs) = be_nat bs)"

definition small_law :: "'f field_ops \<Rightarrow> bool" where
  "small_law F \<longleftrightarrow> (\<forall>x. be_nat (to_bytes_be F x) < 16 ^ 63)"

definition unchecked_law :: "'f field_ops \<Rightarrow> (string \<Rightarrow> 'f option) \<Rightarrow> bool" where
  "unchecked_law F unchecked \<longleftrightarrow> (\<forall>h x. h \<noteq> [] \<and> list_all hex_digit h \<and>
     hex_value h = be_nat (to_bytes_be F x) \<longrightarrow> unchecked (''0x'' @ h) = Some x)"

section \<open>Classes\<close>

record ('v, 'f, 'v0, 'class) class_tools =
  json_of_class :: "GetClassResult \<Rightarrow> ('v, string) outcome"
  json_of_deprecated :: "DeprecatedContractClass \<Rightarrow> ('v, string) outcome"
  json_from_str :: "string \<Rightarrow> ('v, string) outcome"
  json_to_string :: "'v \<Rightarrow> (string, string) outcome"
  json_set :: "'v \<Rightarrow> string \<Rightarrow> 'v \<Rightarrow> 'v"
  compile_sierra :: "'v \<Rightarrow> ('class, 'f Error) outcome"   \<comment> \<open>from JSON to CASM to the V1 class\<close>
  v0_from_json :: "string \<Rightarrow> ('v0, string) outcome"
  class_v0 :: "'v0 \<Rightarrow> 'class"
  base64_decode :: "string \<Rightarrow> (u8 list, string) outcome"
  gunzip :: "u8 list \<Rightarrow> (string, string) outcome"

definition decode_base64 :: "('v, 'f, 'v0, 'class) class_tools \<Rightarrow> string \<Rightarrow> (u8 list, 'f Error) outcome" where
  "decode_base64 K input = map_err Base64 (base64_decode K input)"

definition decompress :: "('v, 'f, 'v0, 'class) class_tools \<Rightarrow> u8 list \<Rightarrow> (string, 'f Error) outcome" where
  "decompress K input = map_err Io (gunzip K input)"

definition decode_program :: "('v, 'f, 'v0, 'class) class_tools \<Rightarrow> string \<Rightarrow> (string, 'f Error) outcome" where
  "decode_program K program = bind (decode_base64 K program) (\<lambda>bytes. decompress K bytes)"

definition build_contract_class ::
  "('v, 'f, 'v0, 'class) class_tools \<Rightarrow> DeprecatedContractClass \<Rightarrow> ('v0, 'f Error) outcome" where
  "build_contract_class K class =
     bind (decode_program K (DeprecatedContractClassProgram_as_ref (deprecated_contract_class_program class))) (\<lambda>program.
     bind (map_err Serde (json_of_deprecated K class)) (\<lambda>class_json.
     bind (map_err Serde (json_from_str K program)) (\<lambda>program_json.
     bind (map_err Serde (json_to_string K (json_set K class_json ''program'' program_json))) (\<lambda>json.
     map_err Program (v0_from_json K json)))))"

definition contract_class_from ::
  "('v, 'f, 'v0, 'class) class_tools \<Rightarrow> GetClassResult \<Rightarrow> ('class, 'f Error) outcome" where
  "contract_class_from K v =
     (case v of
        GetClassResult.ContractClass c \<Rightarrow>
          bind (map_err Serde (json_of_class K v)) (\<lambda>json.
          bind (case contract_class_abi c of
                  Some abi \<Rightarrow> bind (map_err Serde (json_from_str K abi)) (\<lambda>a. Ok (json_set K json ''abi'' a))
                | None \<Rightarrow> Ok json) (\<lambda>json.
          compile_sierra K json))
      | GetClassResult.DeprecatedContractClass c \<Rightarrow>
          bind (build_contract_class K c) (\<lambda>v0. Ok (class_v0 K v0)))"

section \<open>Facts\<close>

lemma trim_zeros_digits: "list_all hex_digit h \<Longrightarrow> list_all hex_digit (trim_zeros h)"
  by (simp add: trim_zeros_def all_hex_dropWhile)

lemma trim_zeros_value: "hex_value (trim_zeros h) = hex_value h"
  by (simp add: trim_zeros_def hex_value_dropWhile)

lemma trim_zeros_head: "trim_zeros h \<noteq> [] \<Longrightarrow> hd (trim_zeros h) \<noteq> CHR ''0''"
  unfolding trim_zeros_def by (drule hd_dropWhile) simp

lemma hex_digit_value_pos: "hex_digit c \<Longrightarrow> c \<noteq> CHR ''0'' \<Longrightarrow> 0 < hex_digit_value c"
proof -
  assume c: "hex_digit c" "c \<noteq> CHR ''0''"
  have "c = CHR ''0''" if "of_char c = (48::nat)"
    using that of_char_eq_iff [of c "CHR ''0''", where ?'a = nat] by simp
  then have "of_char c \<noteq> (48::nat)" using c(2) by blast
  then show "0 < hex_digit_value c"
    using c(1) by (auto simp: hex_digit_def hex_digit_value_def Let_def)
qed

lemma hex_value_Cons: "hex_value (c # t) = hex_digit_value c * 16 ^ length t + hex_value t"
proof -
  have "foldl (\<lambda>a c. 16 * a + hex_digit_value c) a t
      = a * 16 ^ length t + foldl (\<lambda>a c. 16 * a + hex_digit_value c) 0 t" for a
  proof (induction t arbitrary: a)
    case Nil
    show ?case by simp
  next
    case (Cons d t)
    show ?case
      using Cons.IH [of "16 * a + hex_digit_value d"] Cons.IH [of "hex_digit_value d"]
      by (simp add: algebra_simps)
  qed
  from this [of "hex_digit_value c"] show ?thesis by (simp add: hex_value_def)
qed

lemma hex_length_bound:
  assumes "list_all hex_digit h" and "h \<noteq> []" and "hd h \<noteq> CHR ''0''" and "hex_value h < 16 ^ n"
  shows "length h \<le> n"
proof -
  obtain c t where h: "h = c # t" using assms(2) by (cases h) auto
  have "1 * 16 ^ length t \<le> hex_digit_value c * 16 ^ length t"
    using assms(1,3) hex_digit_value_pos [of c] by (intro mult_right_mono) (simp_all add: h)
  also have "\<dots> \<le> hex_value h" by (simp add: h hex_value_Cons)
  finally have "16 ^ length t \<le> hex_value h" by simp
  then have "(16::nat) ^ length t < 16 ^ n" using assms(4) by (rule le_less_trans)
  then have "length t < n" by simp
  then show ?thesis by (simp add: h)
qed

lemma try_new_trimmed:
  assumes "hex_law hex" and "be_nat bs < 16 ^ 63" and "trim_zeros (hex bs) \<noteq> []"
  shows "Felt_try_new (''0x'' @ trim_zeros (hex bs)) = Ok (Felt (''0x'' @ trim_zeros (hex bs)))"
proof -
  let ?h = "trim_zeros (hex bs)"
  have digits: "list_all hex_digit ?h" and v: "hex_value ?h = be_nat bs"
    using assms(1) by (simp_all add: hex_law_def trim_zeros_digits trim_zeros_value)
  have "length ?h \<le> 63"
    using assms(2) v by (intro hex_length_bound [OF digits assms(3) trim_zeros_head [OF assms(3)]]) simp
  then have "is_match FELT_REGEX (''0x'' @ ?h)"
    using digits assms(3) trim_zeros_head [OF assms(3)] by (simp only: FELT_REGEX_hex simp_thms)
  then show ?thesis
    by (intro felt_t.try_new_Ok_iff [THEN iffD2]) (simp add: Felt_fix_valid)
qed

lemma try_new_zero: "Felt_try_new ''0x0'' = Ok (Felt ''0x0'')" "Felt_try_new ''0x'' = Ok (Felt ''0x0'')"
  by (simp_all add: Felt_try_new_def Felt_fix_alt FELT_REGEX_iff)

lemma hex_zero: "hex_law hex \<Longrightarrow> trim_zeros (hex bs) = [] \<Longrightarrow> be_nat bs = 0"
  unfolding hex_law_def by (metis hex_value_Nil trim_zeros_value)

lemma felt_from_stark_Ok:
  assumes "hex_law hex" and "small_law F"
  shows "\<exists>h. felt_from_stark hex F x = Ok (Felt (''0x'' @ h)) \<and> h \<noteq> [] \<and> list_all hex_digit h \<and>
      hex_value h = be_nat (to_bytes_be F x) \<and> (h = ''0'' \<or> hd h \<noteq> CHR ''0'') \<and>
      as_felt hex (to_bytes_be F x) = Ok (Felt (''0x'' @ h))"
proof (cases "trim_zeros (hex (to_bytes_be F x)) = []")
  case True
  then show ?thesis
    using hex_zero [OF assms(1) True] try_new_zero
    by (simp add: felt_from_stark_def felt_from_stark_ref_def as_felt_def hex_digit_def hex_value_def
        hex_digit_value_def)
next
  case False
  have "be_nat (to_bytes_be F x) < 16 ^ 63" using assms(2) by (simp add: small_law_def)
  then have t: "Felt_try_new (''0x'' @ trim_zeros (hex (to_bytes_be F x)))
      = Ok (Felt (''0x'' @ trim_zeros (hex (to_bytes_be F x))))"
    using assms(1) False by (intro try_new_trimmed)
  have "list_all hex_digit (trim_zeros (hex (to_bytes_be F x)))"
    "hex_value (trim_zeros (hex (to_bytes_be F x))) = be_nat (to_bytes_be F x)"
    using assms(1) by (simp_all add: hex_law_def trim_zeros_digits trim_zeros_value)
  then show ?thesis
    using t False trim_zeros_head [OF False]
    by (intro exI [of _ "trim_zeros (hex (to_bytes_be F x))"])
      (simp add: felt_from_stark_def felt_from_stark_ref_def as_felt_def)
qed

section \<open>Properties\<close>

text \<open>
  C33. Every field element becomes a \<open>Felt\<close>: the conversion always succeeds, the text is the
  canonical one (no leading zero, \<open>0x0\<close> for zero) of the element's number, and reading it
  back gives the element.
\<close>

theorem felt_from_stark_roundtrip:
  assumes "hex_law hex" and "small_law F" and "unchecked_law F unchecked"
  shows "bind (felt_from_stark hex F x) (stark_from_felt unchecked) = Ok x \<and>
    (\<exists>h. felt_from_stark hex F x = Ok (Felt (''0x'' @ h)) \<and> hex_value h = be_nat (to_bytes_be F x) \<and>
         (h = ''0'' \<or> hd h \<noteq> CHR ''0''))"
proof -
  obtain h where h: "felt_from_stark hex F x = Ok (Felt (''0x'' @ h))" "h \<noteq> []" "list_all hex_digit h"
      "hex_value h = be_nat (to_bytes_be F x)" "h = ''0'' \<or> hd h \<noteq> CHR ''0''"
    using felt_from_stark_Ok [OF assms(1,2)] by blast
  then have "unchecked (''0x'' @ h) = Some x"
    using assms(3) unfolding unchecked_law_def by blast
  then show ?thesis using h by (auto simp: stark_from_felt_def)
qed

text \<open>The two places that print a field element agree: \<open>as_felt\<close> of the client library, which
  strips every leading zero and leaves the repair of an empty numeral to \<open>Felt::try_new\<close>,
  and the conversion used by the RPC server give the same \<open>Felt\<close>, zero included.\<close>

lemma as_felt_agrees:
  assumes "hex_law hex" and "small_law F"
  shows "\<exists>v. as_felt hex (to_bytes_be F x) = Ok v \<and> felt_from_stark hex F x = Ok v"
  using felt_from_stark_Ok [OF assms, of x] by blast

section \<open>An instance\<close>

definition hex_encode :: "u8 list \<Rightarrow> string" where
  "hex_encode bs = concat (map (\<lambda>b. [digit_char (unat b div 16), digit_char (unat b mod 16)]) bs)"

definition word_unchecked :: "string \<Rightarrow> 252 word option" where
  "word_unchecked = from_hex word_field"

lemma digit_char_value: "d < 16 \<Longrightarrow> hex_digit (digit_char d) \<and> hex_digit_value (digit_char d) = d"
  by (auto simp: digit_char_def hex_digit_def hex_digit_value_def Let_def)

lemma hex_law_encode: "hex_law hex_encode"
proof -
  have byte: "unat b div 16 < 16" "unat b mod 16 < 16" for b :: u8
    using unsigned_less [of b, where ?'a = nat] by (simp_all add: less_mult_imp_div_less)
  have "list_all hex_digit (hex_encode bs) \<and> hex_value (hex_encode bs) = be_nat bs" for bs
  proof (induction bs)
    case Nil
    show ?case by (simp add: hex_encode_def)
  next
    case (Cons b bs)
    have len: "length (hex_encode bs) = 2 * length bs"
      by (induction bs) (simp_all add: hex_encode_def)
    have "hex_encode (b # bs) = digit_char (unat b div 16) # digit_char (unat b mod 16) # hex_encode bs"
      by (simp add: hex_encode_def)
    moreover have "unat b div 16 * (16 * 16 ^ (2 * length bs)) + unat b mod 16 * 16 ^ (2 * length bs)
        = unat b * 256 ^ length bs"
    proof -
      have "unat b = unat b div 16 * 16 + unat b mod 16" by simp
      moreover have "(256::nat) ^ length bs = 16 ^ (2 * length bs)" by (simp add: power_mult)
      ultimately show ?thesis by (metis (no_types, opaque_lifting) add_mult_distrib mult.assoc)
    qed
    ultimately show ?case
      using Cons.IH byte by (simp add: hex_value_Cons be_nat_Cons len digit_char_value)
  qed
  then show ?thesis by (simp add: hex_law_def)
qed

lemma word_small_law: "small_law word_field"
proof -
  have "be_nat (to_bytes_be word_field x) < 16 ^ 63" for x
  proof -
    have "unat x < 2 ^ 252" using unsigned_less [of x, where ?'a = nat] by simp
    then show ?thesis by (simp add: word_field_def be_nat_nat_bytes)
  qed
  then show ?thesis by (simp add: small_law_def)
qed

lemma word_unchecked_law: "unchecked_law word_field word_unchecked"
proof -
  have "word_unchecked (''0x'' @ h) = Some x"
    if "h \<noteq> []" "list_all hex_digit h" "hex_value h = be_nat (to_bytes_be word_field x)" for h x
  proof -
    have "unat x < 2 ^ 252" using unsigned_less [of x, where ?'a = nat] by simp
    then show ?thesis
      using that by (simp add: word_unchecked_def word_field_def strip_0x_def be_nat_nat_bytes)
  qed
  then show ?thesis by (auto simp: unchecked_law_def)
qed

theorem felt_from_stark_roundtrip_witness:
  "bind (felt_from_stark hex_encode word_field 255) (stark_from_felt word_unchecked) = Ok (255 :: 252 word)"
  using felt_from_stark_roundtrip [OF hex_law_encode word_small_law word_unchecked_law, of 255] by simp

end
