(* ===== verification/StarkField.thy ===== *)
theory StarkField
  imports ExeMap
begin

text \<open>
  The field the program computes in: the integers modulo the Stark prime, as a type with its
  order and addition. With any two hash functions it satisfies every law the theorems assume
  of the field (\<open>field_laws\<close>, \<open>small_law\<close>, \<open>unchecked_law\<close>), so these hold of the arithmetic
  the sources rely on and not only of the 252-bit words of the samples.
\<close>

section \<open>The type\<close>

definition stark_prime :: nat where
  "stark_prime = 2 ^ 251 + 17 * 2 ^ 192 + 1"

lemma stark_prime_bounds: "0 < stark_prime" "2 ^ 251 < stark_prime" "stark_prime < 2 ^ 252"
  by (simp_all add: stark_prime_def)

typedef stark = "{n. n < stark_prime}"
  morphisms stark_nat Stark
  using stark_prime_bounds(1) by auto

setup_lifting type_definition_stark

lift_definition stark_of_nat :: "nat \<Rightarrow> stark" is "\<lambda>n. n mod stark_prime"
  using stark_prime_bounds(1) by simp

lemma stark_nat_less: "stark_nat x < stark_prime"
  using stark_nat [of x] by simp

lemma stark_of_nat_inverse [simp]: "stark_of_nat (stark_nat x) = x"
  by transfer simp

lemma stark_nat_of_nat [simp]: "stark_nat (stark_of_nat n) = n mod stark_prime"
  by (rule stark_of_nat.rep_eq)

instantiation stark :: linorder
begin

lift_definition less_eq_stark :: "stark \<Rightarrow> stark \<Rightarrow> bool" is "(\<le>)" .

lift_definition less_stark :: "stark \<Rightarrow> stark \<Rightarrow> bool" is "(<)" .

instance
  by (standard; transfer) auto

end

instantiation stark :: comm_monoid_add
begin

lift_definition zero_stark :: stark is 0
  by (rule stark_prime_bounds(1))

lift_definition plus_stark :: "stark \<Rightarrow> stark \<Rightarrow> stark" is "\<lambda>a b. (a + b) mod stark_prime"
  using stark_prime_bounds(1) by simp

instance
  by (standard; transfer) (simp_all add: mod_simps ac_simps)

end

instantiation stark :: equal
begin

lift_definition equal_stark :: "stark \<Rightarrow> stark \<Rightarrow> bool" is "(=)" .

instance
  by (standard; transfer) simp

end

section \<open>Its operations\<close>

text \<open>Hexadecimal texts and bytes are reduced modulo the prime.\<close>

definition stark_from_hex :: "string \<Rightarrow> stark option" where
  "stark_from_hex s = (case strip_0x s of
     Some t \<Rightarrow> if t \<noteq> [] \<and> list_all hex_digit t then Some (stark_of_nat (hex_value t)) else None
   | None \<Rightarrow> None)"

definition stark_field :: "(stark \<Rightarrow> stark \<Rightarrow> stark) \<Rightarrow> (stark list \<Rightarrow> stark) \<Rightarrow> stark field_ops" where
  "stark_field pedersen poseidon = \<lparr>
     from_hex = stark_from_hex,
     to_hex = (\<lambda>x. show_hex (stark_nat x)),
     to_bytes_be = (\<lambda>x. nat_bytes (stark_nat x)),
     from_bytes_be = (\<lambda>bs. stark_of_nat (be_nat bs)),
     from_bytes_be_slice = (\<lambda>bs. stark_of_nat (be_nat bs)),
     from_u64 = (\<lambda>w. stark_of_nat (unat w)),
     fe_add = (+),
     fe_zero = 0,
     pedersen_hash = pedersen,
     poseidon_hash_many = poseidon\<rparr>"

lemma stark_nat_small: "stark_nat x < 2 ^ 252"
  using stark_nat_less [of x] stark_prime_bounds(3) by (rule less_trans)

lemma stark_bytes_value: "be_nat (to_bytes_be (stark_field ped pos) x) = stark_nat x"
proof -
  have "(2::nat) ^ 252 \<le> 2 ^ 256" by (rule power_increasing) simp_all
  then have "stark_nat x < 2 ^ 256" using stark_nat_small [of x] by linarith
  then show ?thesis by (simp add: stark_field_def be_nat_nat_bytes)
qed

lemma stark_numeral:
  "is_match FELT_REGEX (''0x'' @ show_hex (stark_nat x))"
proof -
  have "length (show_hex (stark_nat x)) \<le> Suc 62"
    using stark_nat_small [of x] by (intro length_show_hex) simp
  moreover have "show_hex 0 = ''0''" by (subst show_hex.simps) (simp add: digit_char_def char_of_eq_iff)
  ultimately show ?thesis
    using show_hex_facts [of "stark_nat x"]
    by (cases "stark_nat x = 0"; cases "show_hex (stark_nat x)") (auto simp: FELT_REGEX_iff)
qed

lemma stark_field_laws: "field_laws (stark_field ped pos)"
proof -
  let ?F = "stark_field ped pos"
  have hex: "from_hex ?F (hex_text ?F x) = Some x" for x
    using show_hex_facts [of "stark_nat x"]
    by (simp add: stark_field_def hex_text_def stark_from_hex_def strip_0x_def)
  have regex: "is_match FELT_REGEX (hex_text ?F x)" for x
    using stark_numeral [of x] by (simp add: stark_field_def hex_text_def)
  have len: "length (to_bytes_be ?F x) = 32" for x
    by (simp add: stark_field_def nat_bytes_def)
  have back_again: "from_bytes_be ?F (to_bytes_be ?F x) = x" for x
  proof -
    have "from_bytes_be ?F bs = stark_of_nat (be_nat bs)" for bs by (simp add: stark_field_def)
    then show ?thesis by (simp add: stark_bytes_value)
  qed
  have inj: "be_nat a = be_nat b"
    if "be_nat a < 2 ^ 251" "be_nat b < 2 ^ 251" "from_bytes_be ?F a = from_bytes_be ?F b" for a b
  proof -
    have "be_nat a mod stark_prime = be_nat b mod stark_prime"
      using arg_cong [OF that(3), of stark_nat] by (simp add: stark_field_def)
    then show ?thesis using that(1,2) stark_prime_bounds(2) by simp
  qed
  show ?thesis unfolding field_laws_def using hex regex len back_again inj by blast
qed

lemma stark_small_law: "small_law (stark_field ped pos)"
  using stark_nat_small by (simp add: small_law_def stark_bytes_value)

lemma stark_unchecked_law: "unchecked_law (stark_field ped pos) stark_from_hex"
  by (auto simp: unchecked_law_def stark_bytes_value stark_from_hex_def strip_0x_def)

end
