(* ===== verification/MerkleProof.thy ===== *)
theory MerkleProof
  imports FieldElement Dto
begin

text \<open>
  \<open>src/src/proof.rs\<close>: the verification of a \<open>pathfinder_getProof\<close> answer. A storage
  proof and a contract proof are lists of nodes of a binary Merkle-Patricia trie, root
  first; \<open>parse_proof\<close> hashes from the leaf upwards and returns the root it arrives at,
  \<open>None\<close> when the nodes do not fit, or an error when a numeral does not parse.
  \<open>F\<close> is the field library and \<open>checks\<close> whether overflow checks are compiled in.
\<close>

section \<open>\<open>parse_proof\<close>\<close>

datatype Direction = Left | Right

definition Direction_from :: "bool \<Rightarrow> Direction" where
  "Direction_from flag = (if flag then Right else Left)"

text \<open>The body of the loop over \<open>proof.iter().rev().enumerate()\<close>, on the two loop
  variables \<open>hold\<close> and \<open>path_len\<close>: \<open>Ok None\<close> is the early \<open>return Ok(None)\<close>.\<close>

definition edge_step ::
  "'f field_ops \<Rightarrow> bool \<Rightarrow> bool list \<Rightarrow> 'f \<Rightarrow> nat \<Rightarrow> EdgeNodeEdge \<Rightarrow> 'f \<times> i64
     \<Rightarrow> (('f \<times> i64) option, rpc_error) outcome" where
  "edge_step F checks key value_felt i e st =
     (let path = edge_node_edge_path e; len = edge_node_path_len path in
      bind (parse_felt F (Felt_as_ref (edge_node_edge_child e))) (\<lambda>child_felt.
      bind (parse_felt F (Felt_as_ref (edge_node_path_value path))) (\<lambda>path_value.
      let provided_hash = fe_add F (pedersen_hash F child_felt path_value) (from_u64 F len) in
      bind (if i = 0
            then bind (usize_sub checks 251 len) (\<lambda>m.
                   case felt_from_bits (from_bytes_be F) key (Some m) of
                     Ok masked_key \<Rightarrow>
                       Ok (provided_hash = fe_add F (pedersen_hash F value_felt masked_key) (from_u64 F len))
                   | Err _ \<Rightarrow> Ok False
                   | Panicked \<Rightarrow> Panicked)
            else Ok True) (\<lambda>fits.
      if \<not> fits then Ok None
      else bind (i64_add checks (snd st) len) (\<lambda>path_len. Ok (Some (provided_hash, path_len)))))))"

definition binary_step ::
  "'f field_ops \<Rightarrow> bool \<Rightarrow> bool list \<Rightarrow> BinaryNodeBinary \<Rightarrow> 'f \<times> i64
     \<Rightarrow> (('f \<times> i64) option, rpc_error) outcome" where
  "binary_step F checks key b st =
     bind (i64_add checks (snd st) 1) (\<lambda>path_len.
     bind (parse_felt F (Felt_as_ref (binary_node_binary_left b))) (\<lambda>left.
     bind (parse_felt F (Felt_as_ref (binary_node_binary_right b))) (\<lambda>right.
     bind (usize_sub checks 251 path_len) (\<lambda>at.
     bind (index_at key at) (\<lambda>flag.
     let expected_hash = (case Direction_from flag of
           Left \<Rightarrow> pedersen_hash F (fst st) right
         | Right \<Rightarrow> pedersen_hash F left (fst st));
         hold = pedersen_hash F left right in
     if hold \<noteq> expected_hash then Ok None else Ok (Some (hold, path_len)))))))"

fun proof_step ::
  "'f field_ops \<Rightarrow> bool \<Rightarrow> bool list \<Rightarrow> 'f \<Rightarrow> nat \<Rightarrow> Node \<Rightarrow> 'f \<times> i64
     \<Rightarrow> (('f \<times> i64) option, rpc_error) outcome" where
  "proof_step F checks key value_felt i (Node.EdgeNode n) st =
     edge_step F checks key value_felt i (edge_node_edge n) st"
| "proof_step F checks key value_felt i (Node.BinaryNode n) st =
     binary_step F checks key (binary_node_binary n) st"

primrec proof_loop ::
  "'f field_ops \<Rightarrow> bool \<Rightarrow> bool list \<Rightarrow> 'f \<Rightarrow> nat \<Rightarrow> Node list \<Rightarrow> 'f \<times> i64
     \<Rightarrow> (('f \<times> i64) option, rpc_error) outcome" where
  "proof_loop F checks key value_felt i [] st = Ok (Some st)"
| "proof_loop F checks key value_felt i (n # ns) st =
     bind (proof_step F checks key value_felt i n st) (\<lambda>r.
       case r of None \<Rightarrow> Ok None | Some st' \<Rightarrow> proof_loop F checks key value_felt (Suc i) ns st')"

definition parse_proof ::
  "'f field_ops \<Rightarrow> bool \<Rightarrow> string \<Rightarrow> Felt \<Rightarrow> Node list \<Rightarrow> (Felt option, rpc_error) outcome" where
  "parse_proof F checks key0 v proof_nodes =
     bind (parse_felt F key0) (\<lambda>key_felt.
     let key = felt_to_bits (to_bytes_be F key_felt) in
     if length key \<noteq> 251 then Ok None
     else bind (parse_felt F (Felt_as_ref v)) (\<lambda>value_felt.
     bind (proof_loop F checks key value_felt 0 (rev proof_nodes) (value_felt, 0)) (\<lambda>r.
       case r of None \<Rightarrow> Ok None
       | Some (hold, _) \<Rightarrow> bind (Felt_try_new (hex_text F hold)) (\<lambda>root. Ok (Some root)))))"

section \<open>The other functions of \<open>impl GetProofResult\<close>\<close>

abbreviation newline :: char where
  "newline \<equiv> CHR 0x0A"

definition proof_error :: "string \<Rightarrow> rpc_error" where
  "proof_error m = rpc_err (- 32700) m"

text \<open>\<open>storage_proofs[0]\<close> panics on an empty vector.\<close>

definition verify_storage_proofs ::
  "'f field_ops \<Rightarrow> bool \<Rightarrow> ContractData \<Rightarrow> StorageKey \<Rightarrow> Felt \<Rightarrow> (unit, rpc_error) outcome" where
  "verify_storage_proofs F checks contract_data k v =
     (let root = contract_data_root contract_data in
      bind (ok_or (contract_data_storage_proofs contract_data) (proof_error ''No storage proof found'')) (\<lambda>proofs.
      bind (index_at proofs 0) (\<lambda>storage_proofs.
      bind (parse_proof F checks (StorageKey_as_ref k) v storage_proofs) (\<lambda>r.
      case r of
        Some computed_root \<Rightarrow>
          if Felt_as_ref computed_root = Felt_as_ref root then Ok ()
          else Err (proof_error (''Proof invalid:'' @ [newline] @ ''provided-root -> '' @ Felt_as_ref root @
                 [newline] @ ''computed-root -> '' @ Felt_as_ref computed_root @ [newline]))
      | None \<Rightarrow> Err (proof_error (''Proof invalid for root -> '' @ Felt_as_ref root @ [newline]))))))"

definition calculate_contract_state_hash ::
  "'f field_ops \<Rightarrow> ContractData \<Rightarrow> (Felt, rpc_error) outcome" where
  "calculate_contract_state_hash F contract_data =
     bind (parse_felt F (Felt_as_ref (contract_data_class_hash contract_data))) (\<lambda>class_hash.
     bind (parse_felt F (Felt_as_ref (contract_data_root contract_data))) (\<lambda>root.
     let hash = pedersen_hash F class_hash root in
     bind (parse_felt F (Felt_as_ref (contract_data_nonce contract_data))) (\<lambda>nonce.
     let hash = pedersen_hash F hash nonce;
         hash = pedersen_hash F hash (fe_zero F) in
     map_err (\<lambda>_. felt_error) (Felt_try_new (hex_text F hash)))))"

definition state_version_bytes :: "u8 list" where
  "state_version_bytes = map of_char ''STARKNET_STATE_V0''"

definition calculate_global_root ::
  "'f field_ops \<Rightarrow> Felt \<Rightarrow> Felt \<Rightarrow> (Felt, rpc_error) outcome" where
  "calculate_global_root F class_commitment storage_commitment =
     (let global_state_ver = from_bytes_be_slice F state_version_bytes in
      bind (parse_felt F (Felt_as_ref storage_commitment)) (\<lambda>storage.
      bind (parse_felt F (Felt_as_ref class_commitment)) (\<lambda>classes.
      let hash = poseidon_hash_many F [global_state_ver, storage, classes] in
      map_err (\<lambda>_. felt_error) (Felt_try_new (hex_text F hash)))))"

definition verify_contract_proof ::
  "'f field_ops \<Rightarrow> bool \<Rightarrow> GetProofResult \<Rightarrow> ContractData \<Rightarrow> Felt \<Rightarrow> Address
     \<Rightarrow> (unit, rpc_error) outcome" where
  "verify_contract_proof F checks self contract_data global_root contract_address =
     bind (calculate_contract_state_hash F contract_data) (\<lambda>state_hash.
     bind (case contract_address of Address.Address a \<Rightarrow>
             parse_proof F checks (Felt_as_ref a) state_hash (get_proof_result_contract_proof self)) (\<lambda>r.
     case r of
       Some storage_commitment \<Rightarrow>
         bind (ok_or (get_proof_result_class_commitment self) (proof_error ''No class commitment'')) (\<lambda>class_commitment.
         bind (map_err (\<lambda>_. proof_error ''Failed to calculate global root'')
                 (calculate_global_root F class_commitment storage_commitment)) (\<lambda>parsed_global_root.
         bind (ok_or (get_proof_result_state_commitment self) (proof_error ''No state commitment'')) (\<lambda>state_commitment.
         if Felt_as_ref state_commitment = Felt_as_ref parsed_global_root
            \<and> Felt_as_ref global_root = Felt_as_ref parsed_global_root
         then Ok ()
         else Err (proof_error (''Proof invalid:'' @ [newline] @ ''state commitment -> '' @ Felt_as_ref state_commitment @
                [newline] @ ''parsed global root -> '' @ Felt_as_ref parsed_global_root @
                [newline] @ '' global root -> '' @ Felt_as_ref global_root)))))
     | None \<Rightarrow> Err (proof_error (''Could not parse global root for root: '' @ Felt_as_ref global_root))))"

definition verify ::
  "'f field_ops \<Rightarrow> bool \<Rightarrow> GetProofResult \<Rightarrow> Felt \<Rightarrow> Address \<Rightarrow> StorageKey \<Rightarrow> Felt
     \<Rightarrow> (unit, rpc_error) outcome" where
  "verify F checks self global_root contract_address k v =
     bind (ok_or (get_proof_result_contract_data self) (proof_error ''No contract data found'')) (\<lambda>contract_data.
     bind (verify_storage_proofs F checks contract_data k v) (\<lambda>_.
     verify_contract_proof F checks self contract_data global_root contract_address))"

section \<open>Basic facts\<close>

lemma proof_loop_append:
  "proof_loop F checks key v i (xs @ ys) st =
     bind (proof_loop F checks key v i xs st) (\<lambda>r.
       case r of None \<Rightarrow> Ok None | Some st' \<Rightarrow> proof_loop F checks key v (i + length xs) ys st')"
proof (induction xs arbitrary: i st)
  case Nil
  show ?case by simp
next
  case (Cons n xs)
  show ?case
    by (cases "proof_step F checks key v i n st") (auto simp: Cons.IH split: option.splits)
qed

lemma verify_Ok_iff_checks:
  "verify F checks self global_root contract_address k v = Ok () \<longleftrightarrow>
     (\<exists>cd p ps a state_hash storage_commitment class_commitment.
        get_proof_result_contract_data self = Some cd \<and>
        contract_data_storage_proofs cd = Some (p # ps) \<and>
        parse_proof F checks (StorageKey_as_ref k) v p = Ok (Some (contract_data_root cd)) \<and>
        calculate_contract_state_hash F cd = Ok state_hash \<and>
        contract_address = Address.Address a \<and>
        parse_proof F checks (Felt_as_ref a) state_hash (get_proof_result_contract_proof self)
          = Ok (Some storage_commitment) \<and>
        get_proof_result_class_commitment self = Some class_commitment \<and>
        calculate_global_root F class_commitment storage_commitment = Ok global_root \<and>
        get_proof_result_state_commitment self = Some global_root)"
proof -
  have storage: "verify_storage_proofs F checks cd k v = Ok () \<longleftrightarrow>
    (\<exists>p ps. contract_data_storage_proofs cd = Some (p # ps) \<and>
       parse_proof F checks (StorageKey_as_ref k) v p = Ok (Some (contract_data_root cd)))" for cd
  proof (cases "contract_data_storage_proofs cd")
    case None
    then show ?thesis by (simp add: verify_storage_proofs_def)
  next
    case (Some l)
    then show ?thesis
      by (cases l; cases "parse_proof F checks (StorageKey_as_ref k) v (hd l)")
        (auto simp: verify_storage_proofs_def Let_def index_at_def split: option.splits)
  qed
  have contract: "verify_contract_proof F checks self cd global_root contract_address = Ok () \<longleftrightarrow>
    (\<exists>a state_hash storage_commitment class_commitment.
        calculate_contract_state_hash F cd = Ok state_hash \<and>
        contract_address = Address.Address a \<and>
        parse_proof F checks (Felt_as_ref a) state_hash (get_proof_result_contract_proof self)
          = Ok (Some storage_commitment) \<and>
        get_proof_result_class_commitment self = Some class_commitment \<and>
        calculate_global_root F class_commitment storage_commitment = Ok global_root \<and>
        get_proof_result_state_commitment self = Some global_root)" for cd
    by (cases contract_address)
      (auto simp: verify_contract_proof_def outcome_simps split: option.splits if_splits)
  show ?thesis
    by (auto simp: verify_def outcome_simps storage contract)
qed

text \<open>What a successful \<open>verify\<close> has established: the answer has contract data with at least
  one storage proof; the first storage proof leads from the key and the value to exactly the
  storage root of the contract data; the contract proof leads from the contract's state
  hash to a storage commitment; and the global root computed from it and the class
  commitment is both the state commitment of the answer and the trusted global root.\<close>

lemma verify_ok_iff:
  "verify F checks self global_root contract_address k v = Ok () \<longleftrightarrow>
     (\<exists>cd p ps a state_hash storage_commitment class_commitment.
        get_proof_result_contract_data self = Some cd \<and>
        contract_data_storage_proofs cd = Some (p # ps) \<and>
        parse_proof F checks (StorageKey_as_ref k) v p = Ok (Some (contract_data_root cd)) \<and>
        calculate_contract_state_hash F cd = Ok state_hash \<and>
        contract_address = Address.Address a \<and>
        parse_proof F checks (Felt_as_ref a) state_hash (get_proof_result_contract_proof self)
          = Ok (Some storage_commitment) \<and>
        get_proof_result_class_commitment self = Some class_commitment \<and>
        calculate_global_root F class_commitment storage_commitment = Ok global_root \<and>
        get_proof_result_state_commitment self = Some global_root)"
  by (rule verify_Ok_iff_checks)

end
