(* ===== verification/MerkleTrie.thy ===== *)
theory MerkleTrie
  imports MerkleProof
begin

text \<open>
  What \<open>proof.rs\<close> is meant to decide. \<open>mtrie\<close> is the trie a Starknet node commits to
  (binary nodes, and edges that skip a run of levels), \<open>root_hash\<close> its commitment,
  \<open>trie_lookup\<close> the value it stores at a key and \<open>trie_prove\<close> the membership proof
  an honest node sends. \<open>open_root\<close> is the reference verifier: it follows the key from
  the root and demands of every node that its child is the hash of the next one and that
  its path is the key's. It is complete and, up to hash collisions, sound; the code
  agrees with it on every proof it accepts, but accepts more.
\<close>

section \<open>Tries, commitments, membership proofs\<close>

datatype 'f mtrie = Leaf 'f | Bin "'f mtrie" "'f mtrie" | Edge "bool list" "'f mtrie"

text \<open>What is hashed at a node; an edge hash adds the length of the path to the digest.\<close>

datatype 'f preimage = PBin 'f 'f | PEdge 'f 'f u64

fun digest :: "'f field_ops \<Rightarrow> 'f preimage \<Rightarrow> 'f" where
  "digest F (PBin l r) = pedersen_hash F l r"
| "digest F (PEdge c p len) = fe_add F (pedersen_hash F c p) (from_u64 F len)"

fun root_hash :: "'f field_ops \<Rightarrow> 'f mtrie \<Rightarrow> 'f" where
  "root_hash F (Leaf v) = v"
| "root_hash F (Bin l r) = digest F (PBin (root_hash F l) (root_hash F r))"
| "root_hash F (Edge p t) = digest F (PEdge (root_hash F t) (path_felt F p) (of_nat (length p)))"

fun trie_lookup :: "'f mtrie \<Rightarrow> bool list \<Rightarrow> 'f option" where
  "trie_lookup (Leaf v) bs = (if bs = [] then Some v else None)"
| "trie_lookup (Bin l r) [] = None"
| "trie_lookup (Bin l r) (b # bs) = trie_lookup (if b then r else l) bs"
| "trie_lookup (Edge p t) bs =
     (if take (length p) bs = p then trie_lookup t (drop (length p) bs) else None)"

fun trie_wf :: "nat \<Rightarrow> 'f mtrie \<Rightarrow> bool" where
  "trie_wf n (Leaf v) = (n = 0)"
| "trie_wf n (Bin l r) = (0 < n \<and> trie_wf (n - 1) l \<and> trie_wf (n - 1) r)"
| "trie_wf n (Edge p t) = (p \<noteq> [] \<and> length p \<le> n \<and> trie_wf (n - length p) t)"

definition felt_text :: "'f field_ops \<Rightarrow> 'f \<Rightarrow> Felt" where
  "felt_text F x = Felt (hex_text F x)"

definition bin_node :: "'f field_ops \<Rightarrow> 'f \<Rightarrow> 'f \<Rightarrow> Node" where
  "bin_node F l r = Node.BinaryNode \<lparr>binary_node_binary =
     \<lparr>binary_node_binary_left = felt_text F l, binary_node_binary_right = felt_text F r\<rparr>\<rparr>"

definition edge_node :: "'f field_ops \<Rightarrow> 'f \<Rightarrow> bool list \<Rightarrow> Node" where
  "edge_node F c p = Node.EdgeNode \<lparr>edge_node_edge =
     \<lparr>edge_node_edge_child = felt_text F c,
      edge_node_edge_path = \<lparr>edge_node_path_len = of_nat (length p),
                             edge_node_path_value = felt_text F (path_felt F p)\<rparr>\<rparr>\<rparr>"

fun trie_prove :: "'f field_ops \<Rightarrow> 'f mtrie \<Rightarrow> bool list \<Rightarrow> Node list" where
  "trie_prove F (Leaf v) bs = []"
| "trie_prove F (Bin l r) [] = []"
| "trie_prove F (Bin l r) (b # bs) =
     bin_node F (root_hash F l) (root_hash F r) # trie_prove F (if b then r else l) bs"
| "trie_prove F (Edge p t) bs =
     edge_node F (root_hash F t) p # trie_prove F t (drop (length p) bs)"

section \<open>The reference verifier\<close>

definition edge_child :: "EdgeNode \<Rightarrow> string" where
  "edge_child e = Felt_as_ref (edge_node_edge_child (edge_node_edge e))"

definition edge_path :: "EdgeNode \<Rightarrow> string" where
  "edge_path e = Felt_as_ref (edge_node_path_value (edge_node_edge_path (edge_node_edge e)))"

definition edge_len :: "EdgeNode \<Rightarrow> i64" where
  "edge_len e = edge_node_path_len (edge_node_edge_path (edge_node_edge e))"

definition bin_left :: "BinaryNode \<Rightarrow> string" where
  "bin_left b = Felt_as_ref (binary_node_binary_left (binary_node_binary b))"

definition bin_right :: "BinaryNode \<Rightarrow> string" where
  "bin_right b = Felt_as_ref (binary_node_binary_right (binary_node_binary b))"

fun open_root :: "'f field_ops \<Rightarrow> bool list \<Rightarrow> Node list \<Rightarrow> 'f \<Rightarrow> 'f option" where
  "open_root F bs [] v = (if bs = [] then Some v else None)"
| "open_root F bs (Node.BinaryNode n # ns) v =
     (case bs of [] \<Rightarrow> None | b # bs' \<Rightarrow>
       (case (from_hex F (bin_left n), from_hex F (bin_right n), open_root F bs' ns v) of
          (Some l, Some r, Some h) \<Rightarrow>
            if (if b then r else l) = h then Some (digest F (PBin l r)) else None
        | _ \<Rightarrow> None))"
| "open_root F bs (Node.EdgeNode e # ns) v =
     (let n = unat (edge_len e) in
      if n = 0 \<or> length bs < n then None
      else (case (from_hex F (edge_child e), from_hex F (edge_path e), open_root F (drop n bs) ns v) of
          (Some c, Some p, Some h) \<Rightarrow>
            if c = h \<and> p = path_felt F (take n bs) then Some (digest F (PEdge c p (edge_len e))) else None
        | _ \<Rightarrow> None))"

lemma open_root_Bin:
  "open_root F bs (Node.BinaryNode n # ns) v = Some h \<longleftrightarrow>
     (\<exists>b bs' l r h'. bs = b # bs' \<and> from_hex F (bin_left n) = Some l \<and> from_hex F (bin_right n) = Some r \<and>
        open_root F bs' ns v = Some h' \<and> (if b then r else l) = h' \<and> h = digest F (PBin l r))"
  by (auto split: list.splits option.splits)

lemma open_root_Edge:
  "open_root F bs (Node.EdgeNode e # ns) v = Some h \<longleftrightarrow>
     (\<exists>c p. 0 < unat (edge_len e) \<and> unat (edge_len e) \<le> length bs \<and>
        from_hex F (edge_child e) = Some c \<and> from_hex F (edge_path e) = Some p \<and>
        open_root F (drop (unat (edge_len e)) bs) ns v = Some c \<and>
        p = path_felt F (take (unat (edge_len e)) bs) \<and> h = digest F (PEdge c p (edge_len e)))"
  by (auto simp: Let_def split: option.splits)

declare open_root.simps(2,3) [simp del]

lemma bin_node_fields [simp]:
  "bin_left \<lparr>binary_node_binary = \<lparr>binary_node_binary_left = Felt x, binary_node_binary_right = Felt y\<rparr>\<rparr> = x"
  "bin_right \<lparr>binary_node_binary = \<lparr>binary_node_binary_left = Felt x, binary_node_binary_right = Felt y\<rparr>\<rparr> = y"
  by (simp_all add: bin_left_def bin_right_def)

lemma unat_of_nat_small: "n \<le> 252 \<Longrightarrow> unat (of_nat n :: 64 word) = n"
  by (simp add: unat_of_nat)

text \<open>
  Completeness of the reference verifier: for a well-formed trie of any height up to 251
  and a key it stores, the proof an honest node builds opens, with the stored value, to the
  trie's root hash.
\<close>

lemma open_root_complete:
  assumes "field_laws F" and "trie_wf (length bs) t" and "length bs \<le> 251"
    and "trie_lookup t bs = Some v"
  shows "open_root F bs (trie_prove F t bs) v = Some (root_hash F t)"
  using assms(2-4)
proof (induction t arbitrary: bs)
  case (Leaf w)
  then show ?case by (simp split: if_splits)
next
  case (Bin l r)
  then obtain b bs' where bs: "bs = b # bs'" by (cases bs) auto
  with Bin.prems have "open_root F bs' (trie_prove F (if b then r else l) bs') v
      = Some (root_hash F (if b then r else l))"
    by (cases b) (auto intro: Bin.IH)
  then show ?case
    using assms(1) by (simp add: bs bin_node_def felt_text_def open_root_Bin)
next
  case (Edge p t)
  let ?n = "length p"
  from Edge.prems have p: "take ?n bs = p" "?n \<le> length bs" "0 < ?n"
    and t: "trie_lookup t (drop ?n bs) = Some v" "trie_wf (length (drop ?n bs)) t"
    by (auto split: if_splits)
  from Edge.IH [OF t(2) _ t(1)] Edge.prems(2)
  have IH: "open_root F (drop ?n bs) (trie_prove F t (drop ?n bs)) v = Some (root_hash F t)" by simp
  have len: "unat (of_nat ?n :: 64 word) = ?n"
    using p(2) Edge.prems(2) by (intro unat_of_nat_small) simp
  show ?case
    using p IH assms(1)
    by (simp add: edge_node_def felt_text_def open_root_Edge edge_len_def edge_child_def edge_path_def len)
qed

section \<open>Soundness of the reference verifier\<close>

primrec trie_preimages :: "'f field_ops \<Rightarrow> 'f mtrie \<Rightarrow> 'f preimage list" where
  "trie_preimages F (Leaf v) = []"
| "trie_preimages F (Bin l r) =
     PBin (root_hash F l) (root_hash F r) # trie_preimages F l @ trie_preimages F r"
| "trie_preimages F (Edge p t) =
     PEdge (root_hash F t) (path_felt F p) (of_nat (length p)) # trie_preimages F t"

fun node_preimages :: "'f field_ops \<Rightarrow> Node \<Rightarrow> 'f preimage list" where
  "node_preimages F (Node.BinaryNode n) =
     (case (from_hex F (bin_left n), from_hex F (bin_right n)) of
        (Some l, Some r) \<Rightarrow> [PBin l r] | _ \<Rightarrow> [])"
| "node_preimages F (Node.EdgeNode e) =
     (case (from_hex F (edge_child e), from_hex F (edge_path e)) of
        (Some c, Some p) \<Rightarrow> [PEdge c p (edge_len e)] | _ \<Rightarrow> [])"

definition proof_preimages :: "'f field_ops \<Rightarrow> Node list \<Rightarrow> 'f preimage list" where
  "proof_preimages F ns = concat (map (node_preimages F) ns)"

text \<open>No two different inputs among those listed have the same hash.\<close>

definition collision_free :: "'f field_ops \<Rightarrow> 'f preimage list \<Rightarrow> bool" where
  "collision_free F xs \<longleftrightarrow> inj_on (digest F) (set xs)"

lemma collision_freeD:
  "collision_free F xs \<Longrightarrow> x \<in> set xs \<Longrightarrow> y \<in> set xs \<Longrightarrow> digest F x = digest F y \<Longrightarrow> x = y"
  by (simp add: collision_free_def inj_on_def)

lemma collision_free_mono: "collision_free F xs \<Longrightarrow> set ys \<subseteq> set xs \<Longrightarrow> collision_free F ys"
  by (auto simp: collision_free_def intro: inj_on_subset)

lemma proof_preimages_Cons: "proof_preimages F (n # ns) = node_preimages F n @ proof_preimages F ns"
  by (simp add: proof_preimages_def)

text \<open>
  Soundness of the reference verifier: if a proof opens with a value to the root hash of
  a well-formed trie, and the hash function has no collision among the inputs hashed in the
  trie and in the proof, then the trie stores exactly that value at the key.
\<close>

lemma open_root_sound:
  assumes "field_laws F" and "trie_wf (length bs) t" and "length bs \<le> 251"
    and "open_root F bs ns v = Some (root_hash F t)"
    and "collision_free F (trie_preimages F t @ proof_preimages F ns)"
  shows "trie_lookup t bs = Some v"
  using assms(2-5)
proof (induction ns arbitrary: t bs)
  case Nil
  then show ?case by (cases t) (auto split: if_splits)
next
  case (Cons n ns)
  show ?case
  proof (cases n)
    case (BinaryNode b)
    from Cons.prems(3) obtain f bs' l r where o: "bs = f # bs'" "from_hex F (bin_left b) = Some l"
        "from_hex F (bin_right b) = Some r" "open_root F bs' ns v = Some (if f then r else l)"
        "root_hash F t = digest F (PBin l r)"
      unfolding BinaryNode open_root_Bin by auto
    have inp: "PBin l r \<in> set (proof_preimages F (n # ns))"
      by (simp add: proof_preimages_Cons BinaryNode o)
    show ?thesis
    proof (cases t)
      case (Leaf w)
      then show ?thesis using Cons.prems(1) o(1) by simp
    next
      case (Bin tl tr)
      have "PBin (root_hash F tl) (root_hash F tr) = PBin l r"
        by (rule collision_freeD [OF Cons.prems(4)]) (use inp o(5) Bin in simp_all)
      moreover have "collision_free F (trie_preimages F (if f then tr else tl) @ proof_preimages F ns)"
        by (rule collision_free_mono [OF Cons.prems(4)]) (auto simp: Bin proof_preimages_Cons)
      ultimately have "trie_lookup (if f then tr else tl) bs' = Some v"
        using Cons.prems(1,2) o Bin by (intro Cons.IH) auto
      then show ?thesis by (simp add: Bin o)
    next
      case (Edge p t')
      have "PEdge (root_hash F t') (path_felt F p) (of_nat (length p)) = PBin l r"
        by (rule collision_freeD [OF Cons.prems(4)]) (use inp o(5) Edge in simp_all)
      then show ?thesis by simp
    qed
  next
    case (EdgeNode e)
    let ?m = "unat (edge_len e)"
    from Cons.prems(3) obtain c where o: "0 < ?m" "?m \<le> length bs" "from_hex F (edge_child e) = Some c"
        "from_hex F (edge_path e) = Some (path_felt F (take ?m bs))"
        "open_root F (drop ?m bs) ns v = Some c"
        "root_hash F t = digest F (PEdge c (path_felt F (take ?m bs)) (edge_len e))"
      unfolding EdgeNode open_root_Edge by auto
    have inp: "PEdge c (path_felt F (take ?m bs)) (edge_len e) \<in> set (proof_preimages F (n # ns))"
      by (simp add: proof_preimages_Cons EdgeNode o)
    show ?thesis
    proof (cases t)
      case (Leaf w)
      then show ?thesis using Cons.prems(1) o(1,2) by simp
    next
      case (Bin tl tr)
      have "PBin (root_hash F tl) (root_hash F tr) = PEdge c (path_felt F (take ?m bs)) (edge_len e)"
        by (rule collision_freeD [OF Cons.prems(4)]) (use inp o(6) Bin in simp_all)
      then show ?thesis by simp
    next
      case (Edge p t')
      have eq: "PEdge (root_hash F t') (path_felt F p) (of_nat (length p))
          = PEdge c (path_felt F (take ?m bs)) (edge_len e)"
        by (rule collision_freeD [OF Cons.prems(4)]) (use inp o(6) Edge in simp_all)
      have p: "p \<noteq> []" "length p \<le> length bs" "trie_wf (length bs - length p) t'"
        using Cons.prems(1) Edge by auto
      have m: "?m = length p"
        using eq p(2) Cons.prems(2) using unat_of_nat_small [of "length p"] by simp
      have "p = take ?m bs"
        using eq p(2) m o(2) Cons.prems(2) by (intro path_felt_inject [OF assms(1)]) simp_all
      moreover have "trie_lookup t' (drop ?m bs) = Some v"
      proof (rule Cons.IH)
        show "trie_wf (length (drop ?m bs)) t'" using p(3) m by simp
        show "length (drop ?m bs) \<le> 251" using Cons.prems(2) by simp
        show "open_root F (drop ?m bs) ns v = Some (root_hash F t')" using o(5) eq by simp
        show "collision_free F (trie_preimages F t' @ proof_preimages F ns)"
          by (rule collision_free_mono [OF Cons.prems(4)]) (auto simp: Edge proof_preimages_Cons)
      qed
      ultimately show ?thesis using m by (simp add: Edge)
    qed
  qed
qed

end
