(* ===== verification/ProofFacts.thy ===== *)
theory ProofFacts
  imports MerkleTrie
begin

text \<open>
  What \<open>parse_proof\<close> accepts. \<open>code_open\<close> reads the same nodes from the root downwards and
  makes exactly the checks of the loop; \<open>proof_loop_code_open\<close> shows that the loop, which
  runs upwards with a running length and indexes into the key, computes it. Against the
  reference verifier \<open>open_root\<close> it accepts every honest proof; it lacks the checks on
  edges that are not last and on the total length, and with these added it is sound.
\<close>

section \<open>The loop as a top-down function\<close>

fun node_width :: "Node \<Rightarrow> nat" where
  "node_width (Node.BinaryNode n) = 1"
| "node_width (Node.EdgeNode e) = unat (edge_len e)"

definition proof_width :: "Node list \<Rightarrow> nat" where
  "proof_width ns = sum_list (map node_width ns)"

lemma proof_width_simps [simp]:
  "proof_width [] = 0" "proof_width (n # ns) = node_width n + proof_width ns"
  by (simp_all add: proof_width_def)

fun code_open :: "'f field_ops \<Rightarrow> bool list \<Rightarrow> Node list \<Rightarrow> 'f \<Rightarrow> 'f option" where
  "code_open F bs [] v = Some v"
| "code_open F bs (Node.BinaryNode n # ns) v =
     (case bs of [] \<Rightarrow> None | b # bs' \<Rightarrow>
       (case (from_hex F (bin_left n), from_hex F (bin_right n), code_open F bs' ns v) of
          (Some l, Some r, Some h) \<Rightarrow>
            if digest F (PBin l r) = digest F (if b then PBin l h else PBin h r)
            then Some (digest F (PBin l r)) else None
        | _ \<Rightarrow> None))"
| "code_open F bs (Node.EdgeNode e # ns) v =
     (case (from_hex F (edge_child e), from_hex F (edge_path e),
            code_open F (drop (unat (edge_len e)) bs) ns v) of
        (Some c, Some p, Some h) \<Rightarrow>
          if ns \<noteq> [] \<or> digest F (PEdge c p (edge_len e)) = digest F (PEdge v (path_felt F bs) (edge_len e))
          then Some (digest F (PEdge c p (edge_len e))) else None
      | _ \<Rightarrow> None)"

lemma code_open_Bin:
  "code_open F bs (Node.BinaryNode n # ns) v = Some h \<longleftrightarrow>
     (\<exists>b bs' l r h'. bs = b # bs' \<and> from_hex F (bin_left n) = Some l \<and> from_hex F (bin_right n) = Some r \<and>
        code_open F bs' ns v = Some h' \<and>
        digest F (PBin l r) = digest F (if b then PBin l h' else PBin h' r) \<and> h = digest F (PBin l r))"
  by (auto split: list.splits option.splits)

lemma code_open_Edge:
  "code_open F bs (Node.EdgeNode e # ns) v = Some h \<longleftrightarrow>
     (\<exists>c p h'. from_hex F (edge_child e) = Some c \<and> from_hex F (edge_path e) = Some p \<and>
        code_open F (drop (unat (edge_len e)) bs) ns v = Some h' \<and>
        (ns = [] \<longrightarrow> digest F (PEdge c p (edge_len e)) = digest F (PEdge v (path_felt F bs) (edge_len e))) \<and>
        h = digest F (PEdge c p (edge_len e)))"
  by (auto split: option.splits)

declare code_open.simps(2,3) [simp del]

section \<open>One step of the loop\<close>

lemma unat_add_small: "unat (a::i64) + unat (b::i64) \<le> 252 \<Longrightarrow> unat (a + b) = unat a + unat b"
  by (simp add: unat_word_ariths)

lemma usize_sub_251: "unat w \<le> 251 \<Longrightarrow> usize_sub checks 251 w = Ok (251 - w)"
  by (rule usize_sub_le) simp

lemma unat_251_minus: "unat (w::usize) \<le> 251 \<Longrightarrow> unat (251 - w) = 251 - unat w"
  by (simp add: unat_sub word_le_nat_alt)

lemma binary_step_iff:
  assumes "length key = 251" and "unat (snd st) < 251"
  shows "binary_step F checks key (binary_node_binary n) st = Ok (Some (h, w)) \<longleftrightarrow>
    (\<exists>l r. from_hex F (bin_left n) = Some l \<and> from_hex F (bin_right n) = Some r \<and>
       digest F (PBin l r)
         = digest F (if key ! (250 - unat (snd st)) then PBin l (fst st) else PBin (fst st) r) \<and>
       h = digest F (PBin l r) \<and> w = snd st + 1)"
proof -
  have add: "i64_add checks (snd st) 1 = Ok (snd st + 1)" and u: "unat (snd st + 1) = Suc (unat (snd st))"
    using i64_add_small [where a = "snd st" and b = 1] assms(2) by simp_all
  then have sub: "usize_sub checks 251 (snd st + 1) = Ok (251 - (snd st + 1))"
    and at: "unat (251 - (snd st + 1)) = 250 - unat (snd st)"
    using assms(2) usize_sub_251 [of "snd st + 1" checks] unat_251_minus [of "snd st + 1"] by simp_all
  have "unat (250 - snd st) = 250 - unat (snd st)" using at by simp
  then have key: "index_at key (250 - snd st) = Ok (key ! (250 - unat (snd st)))"
    using assms(1) by (simp add: index_at_def)
  show ?thesis
    by (auto simp: binary_step_def add sub key outcome_simps Let_def Direction_from_def
        bin_left_def bin_right_def split: if_splits)
qed

lemma edge_step_iff:
  assumes "length key = 251" and "unat (snd st) + unat (edge_len e) \<le> 251"
  shows "edge_step F checks key v i (edge_node_edge e) st = Ok (Some (h, w)) \<longleftrightarrow>
    (\<exists>c p. from_hex F (edge_child e) = Some c \<and> from_hex F (edge_path e) = Some p \<and>
       (i = 0 \<longrightarrow> digest F (PEdge c p (edge_len e))
          = digest F (PEdge v (path_felt F (drop (251 - unat (edge_len e)) key)) (edge_len e))) \<and>
       h = digest F (PEdge c p (edge_len e)) \<and> w = snd st + edge_len e)"
proof -
  have add: "i64_add checks (snd st) (edge_len e) = Ok (snd st + edge_len e)"
    using i64_add_small(1) [of "snd st" "edge_len e" checks] assms(2) by simp
  have sub: "usize_sub checks 251 (edge_len e) = Ok (251 - edge_len e)"
    using assms(2) by (simp add: usize_sub_251)
  have mask: "felt_from_bits (from_bytes_be F) key (Some (251 - edge_len e))
      = Ok (path_felt F (drop (251 - unat (edge_len e)) key))"
    using assms by (simp add: felt_from_bits_pad unat_251_minus path_felt_def)
  show ?thesis
    unfolding edge_step_def edge_len_def [symmetric] edge_child_def [symmetric] edge_path_def [symmetric] Let_def
    by (cases "i = 0"; cases "from_hex F (edge_child e)"; cases "from_hex F (edge_path e)")
      (auto simp: add sub mask parse_felt_def)
qed

lemma proof_loop_snoc:
  "proof_loop F checks key v 0 (rev (n # ns)) st =
     bind (proof_loop F checks key v 0 (rev ns) st) (\<lambda>r.
       case r of None \<Rightarrow> Ok None | Some st' \<Rightarrow> proof_step F checks key v (length ns) n st')"
proof -
  have last: "bind m (\<lambda>r. case r of None \<Rightarrow> Ok None | Some st' \<Rightarrow> Ok (Some st')) = m"
    for m :: "(('a \<times> i64) option, rpc_error) outcome"
    by (cases m) (auto split: option.splits)
  show ?thesis by (simp add: proof_loop_append last cong: option.case_cong)
qed

lemma proof_loop_snoc_Some:
  "proof_loop F checks key v 0 (rev (n # ns)) st = Ok (Some st'') \<longleftrightarrow>
     (\<exists>st'. proof_loop F checks key v 0 (rev ns) st = Ok (Some st') \<and>
        proof_step F checks key v (length ns) n st' = Ok (Some st''))"
  by (cases "proof_loop F checks key v 0 (rev ns) st")
    (auto simp del: rev.simps simp: proof_loop_snoc split: option.splits)

lemma proof_loop_code_open:
  assumes "length key = 251" and "proof_width ns \<le> 251"
  shows "proof_loop F checks key v 0 (rev ns) (v, 0) = Ok (Some (h, w)) \<longleftrightarrow>
    code_open F (drop (251 - proof_width ns) key) ns v = Some h \<and> w = of_nat (proof_width ns)"
  using assms(2)
proof (induction ns arbitrary: h w)
  case Nil
  show ?case by auto
next
  case (Cons n ns)
  let ?k = "proof_width ns"
  have IH: "proof_loop F checks key v 0 (rev ns) (v, 0) = Ok (Some (h, w)) \<longleftrightarrow>
    code_open F (drop (251 - ?k) key) ns v = Some h \<and> w = of_nat ?k" for h w
    using Cons.prems by (intro Cons.IH) simp
  have k: "unat (of_nat ?k :: i64) = ?k"
    using Cons.prems by (intro unat_of_nat_small) simp
  have loop: "proof_loop F checks key v 0 (rev (n # ns)) (v, 0) = Ok (Some (h, w)) \<longleftrightarrow>
    (\<exists>h'. code_open F (drop (251 - ?k) key) ns v = Some h' \<and>
       proof_step F checks key v (length ns) n (h', of_nat ?k) = Ok (Some (h, w)))"
    unfolding proof_loop_snoc_Some using IH by auto
  show ?case
  proof (cases n)
    case (BinaryNode b)
    have bs: "drop (251 - proof_width (n # ns)) key = key ! (250 - ?k) # drop (251 - ?k) key"
    proof -
      have "Suc (250 - ?k) = 251 - ?k" "250 - ?k < length key" using Cons.prems assms(1) BinaryNode by simp_all
      then show ?thesis using Cons_nth_drop_Suc [of "250 - ?k" key] by (simp add: BinaryNode)
    qed
    have small: "unat (snd (h', of_nat ?k :: i64)) < 251" for h' :: 'a
      using Cons.prems BinaryNode k by simp
    show ?thesis
      unfolding loop bs
      by (cases "key ! (250 - ?k)")
        (auto simp: BinaryNode code_open_Bin k binary_step_iff [OF assms(1) small] add.commute)
  next
    case (EdgeNode e)
    have bs: "drop (unat (edge_len e)) (drop (251 - proof_width (n # ns)) key) = drop (251 - ?k) key"
      using Cons.prems EdgeNode by (simp add: add.commute)
    have small: "unat (snd (h', of_nat ?k :: i64)) + unat (edge_len e) \<le> 251" for h' :: 'a
      using Cons.prems EdgeNode k by simp
    have len: "proof_width (n # ns) = unat (edge_len e) + ?k" by (simp add: EdgeNode)
    have root: "ns = [] \<Longrightarrow> drop (251 - proof_width (n # ns)) key = drop (251 - unat (edge_len e)) key"
      by (simp add: EdgeNode)
    show ?thesis
      unfolding loop unfolding EdgeNode proof_step.simps edge_step_iff [OF assms(1) small] code_open_Edge
        bs [unfolded EdgeNode]
      using root by (cases "ns = []") (auto simp: EdgeNode add.commute)
  qed
qed

section \<open>Against the reference verifier\<close>

lemma open_root_width: "open_root F bs ns v = Some h \<Longrightarrow> proof_width ns = length bs"
proof (induction ns arbitrary: bs h)
  case (Cons n ns)
  then show ?case by (cases n) (fastforce simp: open_root_Bin open_root_Edge)+
qed (simp split: if_splits)

lemma code_open_complete: "open_root F bs ns v = Some h \<Longrightarrow> code_open F bs ns v = Some h"
proof (induction ns arbitrary: bs h)
  case Nil
  then show ?case by (simp split: if_splits)
next
  case (Cons n ns)
  show ?case
  proof (cases n)
    case (BinaryNode b)
    with Cons.prems obtain f bs' l r where "bs = f # bs'" "from_hex F (bin_left b) = Some l"
        "from_hex F (bin_right b) = Some r" "open_root F bs' ns v = Some (if f then r else l)"
        "h = digest F (PBin l r)"
      by (auto simp: open_root_Bin)
    then show ?thesis
      using Cons.IH [of bs' "if f then r else l"] by (cases f) (auto simp: BinaryNode code_open_Bin)
  next
    case (EdgeNode e)
    with Cons.prems obtain c p where o: "unat (edge_len e) \<le> length bs"
        "from_hex F (edge_child e) = Some c" "from_hex F (edge_path e) = Some p"
        "open_root F (drop (unat (edge_len e)) bs) ns v = Some c"
        "p = path_felt F (take (unat (edge_len e)) bs)" "h = digest F (PEdge c p (edge_len e))"
      by (auto simp: open_root_Edge)
    then show ?thesis
      using Cons.IH [OF o(4)] by (auto simp: EdgeNode code_open_Edge split: if_splits)
  qed
qed

text \<open>The checks the loop leaves out: an edge that is not the last node must have its child
  equal to the hash of the next node and its path equal to the key's.\<close>

fun links_checked :: "'f field_ops \<Rightarrow> bool list \<Rightarrow> Node list \<Rightarrow> 'f \<Rightarrow> bool" where
  "links_checked F bs [] v \<longleftrightarrow> True"
| "links_checked F bs (Node.BinaryNode n # ns) v \<longleftrightarrow> links_checked F (tl bs) ns v"
| "links_checked F bs (Node.EdgeNode e # ns) v \<longleftrightarrow>
     (let n = unat (edge_len e) in
        0 < n \<and> n \<le> length bs \<and>
        (ns \<noteq> [] \<longrightarrow> from_hex F (edge_child e) = code_open F (drop n bs) ns v \<and>
                    from_hex F (edge_path e) = Some (path_felt F (take n bs))) \<and>
        links_checked F (drop n bs) ns v)"

text \<open>The inputs the loop hashes itself to compare with the provided ones.\<close>

fun expected_preimages :: "'f field_ops \<Rightarrow> bool list \<Rightarrow> Node list \<Rightarrow> 'f \<Rightarrow> 'f preimage list" where
  "expected_preimages F bs [] v = []"
| "expected_preimages F bs (Node.BinaryNode n # ns) v =
     (case (from_hex F (bin_left n), from_hex F (bin_right n), code_open F (tl bs) ns v) of
        (Some l, Some r, Some h) \<Rightarrow> [if hd bs then PBin l h else PBin h r]
      | _ \<Rightarrow> []) @ expected_preimages F (tl bs) ns v"
| "expected_preimages F bs (Node.EdgeNode e # ns) v =
     (if ns = [] then [PEdge v (path_felt F bs) (edge_len e)] else []) @
     expected_preimages F (drop (unat (edge_len e)) bs) ns v"

lemma code_open_sound:
  assumes "code_open F bs ns v = Some h" and "proof_width ns = length bs"
    and "links_checked F bs ns v"
    and "collision_free F (proof_preimages F ns @ expected_preimages F bs ns v)"
  shows "open_root F bs ns v = Some h"
  using assms
proof (induction ns arbitrary: bs h)
  case Nil
  then show ?case by simp
next
  case (Cons n ns)
  show ?case
  proof (cases n)
    case (BinaryNode b)
    with Cons.prems(1) obtain f bs' l r h' where o: "bs = f # bs'" "from_hex F (bin_left b) = Some l"
        "from_hex F (bin_right b) = Some r" "code_open F bs' ns v = Some h'"
        "digest F (PBin l r) = digest F (if f then PBin l h' else PBin h' r)" "h = digest F (PBin l r)"
      by (auto simp: code_open_Bin)
    have "PBin l r = (if f then PBin l h' else PBin h' r)"
      by (rule collision_freeD [OF Cons.prems(4)]) (use o in \<open>simp_all add: BinaryNode proof_preimages_Cons\<close>)
    moreover have "collision_free F (proof_preimages F ns @ expected_preimages F bs' ns v)"
      by (rule collision_free_mono [OF Cons.prems(4)]) (auto simp: BinaryNode proof_preimages_Cons o(1))
    then have "open_root F bs' ns v = Some h'"
      using Cons.prems(2,3) o by (intro Cons.IH) (simp_all add: BinaryNode)
    ultimately show ?thesis using o by (auto simp: BinaryNode open_root_Bin split: if_splits)
  next
    case (EdgeNode e)
    let ?m = "unat (edge_len e)"
    from EdgeNode Cons.prems(1) obtain c p h' where o: "from_hex F (edge_child e) = Some c"
        "from_hex F (edge_path e) = Some p" "code_open F (drop ?m bs) ns v = Some h'"
        "ns = [] \<longrightarrow> digest F (PEdge c p (edge_len e)) = digest F (PEdge v (path_felt F bs) (edge_len e))"
        "h = digest F (PEdge c p (edge_len e))"
      by (auto simp: code_open_Edge)
    have len: "0 < ?m" "?m \<le> length bs" "links_checked F (drop ?m bs) ns v"
      using Cons.prems(3) by (simp_all add: EdgeNode Let_def)
    have "collision_free F (proof_preimages F ns @ expected_preimages F (drop ?m bs) ns v)"
      by (rule collision_free_mono [OF Cons.prems(4)]) (auto simp: EdgeNode proof_preimages_Cons)
    then have IH: "open_root F (drop ?m bs) ns v = Some h'"
      using Cons.prems(2) len o(3) by (intro Cons.IH) (simp_all add: EdgeNode)
    have "c = h' \<and> p = path_felt F (take ?m bs)"
    proof (cases "ns = []")
      case True
      have "PEdge c p (edge_len e) = PEdge v (path_felt F bs) (edge_len e)"
        by (rule collision_freeD [OF Cons.prems(4)])
          (use o True in \<open>simp_all add: EdgeNode proof_preimages_Cons\<close>)
      then show ?thesis using True o(3) Cons.prems(2) by (simp add: EdgeNode)
    next
      case False
      then show ?thesis using Cons.prems(3) o by (simp add: EdgeNode Let_def)
    qed
    then show ?thesis using o len IH by (auto simp: EdgeNode open_root_Edge)
  qed
qed

text \<open>Replacing the lower part of a proof by one that hashes to the same element.\<close>

lemma code_open_replace:
  assumes "code_open F (drop (proof_width up) bs) X v = code_open F (drop (proof_width up) bs) Y w"
    and "X \<noteq> []" and "Y \<noteq> []"
  shows "code_open F bs (up @ X) v = code_open F bs (up @ Y) w"
  using assms(1)
proof (induction up arbitrary: bs)
  case Nil
  then show ?case by simp
next
  case (Cons n up)
  show ?case
  proof (cases n)
    case (BinaryNode b)
    then show ?thesis
      using Cons by (cases bs) (simp_all add: code_open.simps cong: option.case_cong)
  next
    case (EdgeNode e)
    then show ?thesis
      using Cons assms(2,3) by (simp add: code_open.simps add.commute cong: option.case_cong)
  qed
qed

lemma code_open_suffix:
  "code_open F bs (up @ X) v \<noteq> None \<Longrightarrow> code_open F (drop (proof_width up) bs) X v \<noteq> None"
proof (induction up arbitrary: bs)
  case (Cons n up)
  show ?case
  proof (cases n)
    case (BinaryNode b)
    then show ?thesis using Cons by (auto simp: code_open_Bin)
  next
    case (EdgeNode e)
    then show ?thesis
      using Cons.prems Cons.IH [of "drop (unat (edge_len e)) bs"]
      by (auto simp: code_open_Edge add.commute)
  qed
qed simp

section \<open>When the loop panics\<close>

lemma binary_step_no_panic:
  assumes "length key = 251" and "unat (snd st) < 251"
  shows "binary_step F checks key b st \<noteq> Panicked"
proof -
  have add: "i64_add checks (snd st) 1 = Ok (snd st + 1)" and "unat (snd st + 1) = Suc (unat (snd st))"
    using i64_add_small [where a = "snd st" and b = 1] assms(2) by simp_all
  then have sub: "usize_sub checks 251 (snd st + 1) = Ok (251 - (snd st + 1))"
    and "unat (251 - (snd st + 1)) < 251"
    using assms(2) usize_sub_251 [of "snd st + 1" checks] unat_251_minus [of "snd st + 1"] by simp_all
  then have key: "index_at key (251 - (snd st + 1)) \<noteq> Panicked"
    using assms(1) by (simp add: index_at_def)
  show ?thesis
    using key by (auto simp: binary_step_def add sub outcome_simps Let_def split: if_splits)
qed

lemma edge_step_no_panic:
  assumes "length key = 251" and "unat (snd st) + unat (edge_len e) \<le> 251"
  shows "edge_step F checks key v i (edge_node_edge e) st \<noteq> Panicked"
proof -
  have add: "i64_add checks (snd st) (edge_len e) = Ok (snd st + edge_len e)"
    using i64_add_small(1) [of "snd st" "edge_len e" checks] assms(2) by simp
  have sub: "usize_sub checks 251 (edge_len e) = Ok (251 - edge_len e)"
    using assms(2) by (simp add: usize_sub_251)
  have mask: "felt_from_bits (from_bytes_be F) key (Some (251 - edge_len e))
      = Ok (path_felt F (drop (251 - unat (edge_len e)) key))"
    using assms by (simp add: felt_from_bits_pad unat_251_minus path_felt_def)
  show ?thesis
    unfolding edge_step_def edge_len_def [symmetric] Let_def
    by (auto simp: add sub mask outcome_simps split: if_splits)
qed

lemma proof_loop_no_panic:
  assumes "length key = 251" and "proof_width ns \<le> 251"
  shows "proof_loop F checks key v 0 (rev ns) (v, 0) \<noteq> Panicked"
  using assms(2)
proof (induction ns)
  case Nil
  show ?case by simp
next
  case (Cons n ns)
  have step: "proof_step F checks key v (length ns) n st \<noteq> Panicked"
    if "proof_loop F checks key v 0 (rev ns) (v, 0) = Ok (Some st)" for st
  proof -
    obtain h w where st: "st = (h, w)" by (cases st)
    have "w = of_nat (proof_width ns)"
      using that Cons.prems proof_loop_code_open [OF assms(1), of ns F checks v h w] by (simp add: st)
    then have "unat (snd st) = proof_width ns"
      using Cons.prems by (simp add: st unat_of_nat_small)
    then show ?thesis
      using Cons.prems by (cases n) (simp_all add: binary_step_no_panic edge_step_no_panic assms(1))
  qed
  then show ?case
    using Cons unfolding proof_loop_snoc by (auto simp: outcome_simps split: option.splits)
qed

text \<open>One node too many: the running length reaches 252 and the index falls below zero.\<close>

lemma binary_step_panics:
  assumes "length key = 251" and "snd st = 251"
    and "from_hex F (bin_left n) = Some l" and "from_hex F (bin_right n) = Some r"
  shows "binary_step F checks key (binary_node_binary n) st = Panicked"
proof -
  have add: "i64_add checks (snd st) 1 = Ok 252"
    using i64_add_small(1) [of "snd st" 1 checks] assms(2) by simp
  have "(251 :: usize) - 252 = - 1" by simp
  moreover have "unat (- 1 :: usize) = 2 ^ 64 - 1" by (simp add: unsigned_minus_1_eq_mask mask_eq_exp_minus_1)
  ultimately have oob: "index_at key (- 1) = Panicked"
    using assms(1) by (simp add: index_at_def)
  show ?thesis
    using assms(3,4) by (simp add: binary_step_def add oob usize_sub_def bin_left_def bin_right_def)
qed

end
