(* ===== verification/ProofProps.thy ===== *)
theory ProofProps
  imports ProofFacts
begin

text \<open>
  The properties of \<open>GetProofResult::parse_proof\<close> and \<open>verify\<close>: honest proofs are
  accepted, accepted proofs with checked inner edges and full length are membership proofs,
  which inputs panic, and the two checks that are missing.
\<close>

definition key_bits :: "'f field_ops \<Rightarrow> 'f \<Rightarrow> bool list" where
  "key_bits F k = felt_to_bits (to_bytes_be F k)"

lemma length_key_bits [simp]: "field_laws F \<Longrightarrow> length (key_bits F k) = 251"
  by (simp add: key_bits_def)

lemma felt_text_as_ref [simp]: "Felt_as_ref (felt_text F x) = hex_text F x"
  by (simp add: felt_text_def)

lemma felt_text_inject [simp]: "field_laws F \<Longrightarrow> felt_text F x = felt_text F y \<longleftrightarrow> x = y"
  by (metis felt_text_as_ref from_hex_text option.inject)

lemma parse_proof_loop:
  assumes "field_laws F" and "from_hex F key0 = Some k" and "from_hex F (Felt_as_ref v) = Some x"
  shows "parse_proof F checks key0 v ns =
    bind (proof_loop F checks (key_bits F k) x 0 (rev ns) (x, 0)) (\<lambda>r.
      case r of None \<Rightarrow> Ok None | Some (h, _) \<Rightarrow> Ok (Some (felt_text F h)))"
proof -
  have numeral: "Felt_try_new (hex_text F h) = Ok (felt_text F h)" for h
    using assms(1) by (simp add: hex_text_is_felt felt_text_def)
  have len: "length (felt_to_bits (to_bytes_be F k)) = 251" using assms(1) by simp
  show ?thesis
    by (simp add: parse_proof_def assms(2,3) key_bits_def [symmetric] len [folded key_bits_def] Let_def numeral)
qed

lemma parse_proof_code_open:
  assumes "field_laws F" and "from_hex F key0 = Some k" and "from_hex F (Felt_as_ref v) = Some x"
    and "proof_width ns \<le> 251"
  shows "parse_proof F checks key0 v ns = Ok (Some r) \<longleftrightarrow>
    (\<exists>h. code_open F (drop (251 - proof_width ns) (key_bits F k)) ns x = Some h \<and> r = felt_text F h)"
  using proof_loop_code_open [of "key_bits F k" ns F checks x] assms(1,4)
  by (auto simp: parse_proof_loop [OF assms(1,2,3)] outcome_simps split: option.splits)

lemma trie_prove_open:
  assumes "field_laws F" and "trie_wf 251 t" and "trie_lookup t (key_bits F k) = Some x"
  shows "open_root F (key_bits F k) (trie_prove F t (key_bits F k)) x = Some (root_hash F t)"
  using assms by (intro open_root_complete) simp_all

lemma links_checked_nodes:
  assumes "field_laws F"
  shows "links_checked F bs (bin_node F l r # ns) v = links_checked F (tl bs) ns v"
    and "length p \<le> 251 \<Longrightarrow> links_checked F bs (edge_node F c p # ns) v \<longleftrightarrow>
      0 < length p \<and> length p \<le> length bs \<and>
      (ns \<noteq> [] \<longrightarrow> Some c = code_open F (drop (length p) bs) ns v \<and>
                  path_felt F p = path_felt F (take (length p) bs)) \<and>
      links_checked F (drop (length p) bs) ns v"
  using assms
  by (auto simp: bin_node_def edge_node_def edge_len_def edge_child_def edge_path_def unat_of_nat_small Let_def)

lemma expected_preimages_nodes:
  assumes "field_laws F"
  shows "expected_preimages F bs (bin_node F l r # ns) v =
      (case code_open F (tl bs) ns v of Some h \<Rightarrow> [if hd bs then PBin l h else PBin h r] | None \<Rightarrow> [])
      @ expected_preimages F (tl bs) ns v"
    and "length p \<le> 251 \<Longrightarrow> expected_preimages F bs (edge_node F c p # ns) v =
      (if ns = [] then [PEdge v (path_felt F bs) (of_nat (length p))] else [])
      @ expected_preimages F (drop (length p) bs) ns v"
  using assms
  by (auto simp: bin_node_def edge_node_def edge_len_def felt_text_def unat_of_nat_small split: option.splits)

lemma node_preimages_nodes:
  assumes "field_laws F"
  shows "node_preimages F (bin_node F l r) = [PBin l r]"
    and "node_preimages F (edge_node F c p) = [PEdge c (path_felt F p) (of_nat (length p))]"
  using assms
  by (simp_all add: bin_node_def edge_node_def edge_len_def edge_child_def edge_path_def felt_text_def)

section \<open>A sample trie\<close>

text \<open>The instance of the witnesses: key zero stores 5 below an edge of length 100, a binary
  node and an edge of length 150.\<close>

definition sample_trie :: "252 word mtrie" where
  "sample_trie = Edge (replicate 100 False)
     (Bin (Edge (replicate 150 False) (Leaf 5)) (Edge (replicate 150 False) (Leaf 6)))"

abbreviation sample_proof :: "Node list" where
  "sample_proof \<equiv> trie_prove word_field sample_trie (replicate 251 False)"

lemma word_field_ops:
  "pedersen_hash word_field a b = 3 * a + 5 * b + 7"
  "fe_add word_field a b = a + b"
  "from_u64 word_field w = of_nat (unat w)"
  by (simp_all add: word_field_def)

lemma word_field_from_hex [simp]: "from_hex word_field (hex_text word_field x) = Some x"
  by (rule from_hex_text [OF word_field_laws])

lemma sample_key: "from_hex word_field ''0x0'' = Some 0"
  by (simp add: word_field_def strip_0x_def hex_digit_def hex_value_def hex_digit_value_def)

lemma sample_key_bits: "key_bits word_field 0 = replicate 251 False"
proof -
  have "nat_bytes 0 = replicate 32 0" by (simp add: nat_bytes_def map_replicate_const)
  then show ?thesis by (simp add: key_bits_def word_field_def felt_to_bits_def view_bits_zero)
qed

lemma sample_path: "n \<le> 256 \<Longrightarrow> path_felt word_field (replicate n False) = 0"
  by (simp add: path_felt_def word_field_def be_nat_pad_bits)

lemma sample_wf: "trie_wf 251 sample_trie"
  by (simp add: sample_trie_def)

lemma sample_bits_split:
  "replicate 251 False = replicate 100 False @ False # replicate 150 False"
  using replicate_add [of 100 151 False] replicate_Suc [of 150 False] by simp

lemma sample_lookup: "trie_lookup sample_trie (replicate 251 False) = Some 5"
  unfolding sample_bits_split by (simp add: sample_trie_def)

lemma sample_proof_eq:
  "sample_proof = [edge_node word_field 1398 (replicate 100 False)] @
     bin_node word_field 172 175 # [edge_node word_field 5 (replicate 150 False)]"
  unfolding sample_bits_split
  by (simp add: sample_trie_def sample_path word_field_ops)

lemma sample_root: "root_hash word_field sample_trie = 4301"
  by (simp add: sample_trie_def sample_path word_field_ops)

lemma sample_width: "proof_width sample_proof = 251"
  by (simp add: sample_proof_eq edge_node_def bin_node_def edge_len_def)

section \<open>Honest and accepted proofs\<close>

lemma parse_proof_honest:
  assumes "field_laws F" and "from_hex F key0 = Some k"
    and "trie_wf 251 t" and "trie_lookup t (key_bits F k) = Some x"
  shows "parse_proof F checks key0 (felt_text F x) (trie_prove F t (key_bits F k))
      = Ok (Some (felt_text F (root_hash F t)))"
proof -
  note o = trie_prove_open [OF assms(1,3,4)]
  have "proof_width (trie_prove F t (key_bits F k)) = 251"
    using open_root_width [OF o] assms(1) by simp
  then show ?thesis
    using code_open_complete [OF o] assms
    by (simp add: parse_proof_code_open [OF assms(1,2)])
qed

lemma parse_proof_member:
  assumes "field_laws F" and "from_hex F key0 = Some k" and "from_hex F (Felt_as_ref v) = Some x"
    and "trie_wf 251 t"
    and "parse_proof F checks key0 v ns = Ok (Some (felt_text F (root_hash F t)))"
    and "proof_width ns = 251" and "links_checked F (key_bits F k) ns x"
    and "collision_free F (trie_preimages F t @ proof_preimages F ns @ expected_preimages F (key_bits F k) ns x)"
  shows "trie_lookup t (key_bits F k) = Some x"
proof -
  have len: "length (key_bits F k) = 251" using assms(1) by simp
  have "code_open F (key_bits F k) ns x = Some (root_hash F t)"
    using assms(1,5,6) parse_proof_code_open [OF assms(1,2,3), of ns checks] by auto
  then have "open_root F (key_bits F k) ns x = Some (root_hash F t)"
    by (rule code_open_sound) (use assms(6,7) len in \<open>auto intro: collision_free_mono [OF assms(8)]\<close>)
  then show ?thesis
    by (rule open_root_sound [rotated 3])
      (use assms(1,4) len in \<open>auto intro: collision_free_mono [OF assms(8)]\<close>)
qed

text \<open>
  C10. Completeness of \<open>parse_proof\<close>: for every well-formed trie of height 251 and every key it
  stores, the proof an honest node sends is accepted with the stored value and leads to
  the root hash of the trie, whether or not overflow checks are compiled in.
\<close>

theorem parse_proof_complete:
  assumes "field_laws F" and "from_hex F key0 = Some k"
    and "trie_wf 251 t" and "trie_lookup t (key_bits F k) = Some x"
  shows "parse_proof F checks key0 (felt_text F x) (trie_prove F t (key_bits F k))
      = Ok (Some (felt_text F (root_hash F t)))"
  using assms by (rule parse_proof_honest)

theorem parse_proof_complete_witness:
  "parse_proof word_field True ''0x0'' (felt_text word_field 5) sample_proof
     = Ok (Some (felt_text word_field 4301))"
  using parse_proof_complete [OF word_field_laws sample_key sample_wf, where x = 5 and checks = True]
  by (simp add: sample_key_bits sample_lookup sample_root)

lemma sample_accepted:
  "parse_proof word_field checks ''0x0'' (felt_text word_field 5) sample_proof
     = Ok (Some (felt_text word_field (root_hash word_field sample_trie)))"
proof -
  have o: "open_root word_field (replicate 251 False) sample_proof 5 = Some (root_hash word_field sample_trie)"
    using trie_prove_open [OF word_field_laws sample_wf, of 0 5] by (simp add: sample_key_bits sample_lookup)
  show ?thesis
    using code_open_complete [OF o] sample_width
    by (simp add: parse_proof_code_open [OF word_field_laws sample_key] sample_key_bits)
qed

lemma sample_leaf_open:
  "code_open word_field (replicate 150 False) [edge_node word_field 5 (replicate 150 False)] 5 = Some 172"
  by (simp add: edge_node_def code_open.simps edge_child_def edge_path_def edge_len_def sample_path felt_text_def
      word_field_ops)

lemma sample_bin_open:
  "code_open word_field (False # replicate 150 False)
     [bin_node word_field 172 175, edge_node word_field 5 (replicate 150 False)] 5 = Some 1398"
  by (simp add: bin_node_def felt_text_def code_open.simps(2) sample_leaf_open word_field_ops)

lemma replicate_151: "replicate 151 False = False # replicate 150 False"
  using replicate_Suc [of 150 False] by simp

lemma sample_links: "links_checked word_field (replicate 251 False) sample_proof 5"
proof -
  have "drop 100 (replicate 251 False) = False # replicate 150 False"
    unfolding sample_bits_split by simp
  moreover have "take 100 (replicate 251 False) = replicate 100 False"
    unfolding sample_bits_split by simp
  ultimately show ?thesis
    by (simp add: sample_proof_eq links_checked_nodes word_field_laws sample_bin_open)
qed

lemma sample_collision_free:
  "collision_free word_field (trie_preimages word_field sample_trie @ proof_preimages word_field sample_proof @
     expected_preimages word_field (replicate 251 False) sample_proof 5)"
proof -
  have "drop 100 (replicate 251 False) = False # replicate 150 False"
    unfolding sample_bits_split by simp
  then have expected: "expected_preimages word_field (replicate 251 False) sample_proof 5
      = [PBin 172 175, PEdge 5 0 150]"
    by (simp add: sample_proof_eq expected_preimages_nodes word_field_laws sample_leaf_open sample_path)
  have nodes: "proof_preimages word_field sample_proof
      = [PEdge 1398 0 100, PBin 172 175, PEdge 5 0 150]"
    by (simp add: sample_proof_eq proof_preimages_def node_preimages_nodes word_field_laws sample_path)
  have trie: "trie_preimages word_field sample_trie
      = [PEdge 1398 0 100, PBin 172 175, PEdge 5 0 150, PEdge 6 0 150]"
    by (simp add: sample_trie_def sample_path word_field_ops)
  show ?thesis
    by (auto simp: collision_free_def inj_on_def expected nodes trie word_field_ops)
qed

text \<open>
  C9. What an accepted proof means: if \<open>parse_proof\<close> arrives at the root hash of a trie of
  height 251, the nodes' path lengths add up to 251, the edges above the last node are
  linked to the node below them and follow the key (\<open>links_checked\<close>: the code does not
  check this), and the hashes involved do not collide, then the trie stores exactly that
  value at the key.
\<close>

theorem parse_proof_sound:
  assumes "field_laws F" and "from_hex F key0 = Some k" and "from_hex F (Felt_as_ref v) = Some x"
    and "trie_wf 251 t"
    and "parse_proof F checks key0 v ns = Ok (Some (felt_text F (root_hash F t)))"
    and "proof_width ns = 251" and "links_checked F (key_bits F k) ns x"
    and "collision_free F (trie_preimages F t @ proof_preimages F ns @ expected_preimages F (key_bits F k) ns x)"
  shows "trie_lookup t (key_bits F k) = Some x"
  using assms by (rule parse_proof_member)

theorem parse_proof_sound_witness:
  "trie_lookup sample_trie (replicate 251 False) = Some 5"
  by (rule parse_proof_sound [OF word_field_laws sample_key _ sample_wf sample_accepted [of True] sample_width,
        where x = 5, unfolded sample_key_bits])
    (simp_all add: sample_links sample_collision_free)

section \<open>Panics\<close>

text \<open>
  C28. \<open>parse_proof\<close> never panics on a proof whose path lengths add up to at most 251,
  whatever texts it holds: every failure to parse is an \<open>Err\<close>, every mismatch \<open>Ok(None)\<close>.
\<close>

theorem parse_proof_no_panic:
  assumes "field_laws F" and "proof_width ns \<le> 251"
  shows "parse_proof F checks key0 v ns \<noteq> Panicked"
proof (cases "from_hex F key0")
  case None
  then show ?thesis by (simp add: parse_proof_def parse_felt_def)
next
  case (Some k)
  show ?thesis
  proof (cases "from_hex F (Felt_as_ref v)")
    case None
    then show ?thesis using assms(1) Some by (simp add: parse_proof_def parse_felt_def)
  next
    case (Some x)
    show ?thesis
      using proof_loop_no_panic [of "key_bits F k" ns F checks x] assms
      by (auto simp: parse_proof_loop [OF assms(1) \<open>from_hex F key0 = Some k\<close> Some] outcome_simps
          split: option.splits)
  qed
qed

theorem parse_proof_no_panic_witness:
  "parse_proof word_field True ''0x0'' (Felt ''no number'') sample_proof \<noteq> Panicked"
  by (rule parse_proof_no_panic [OF word_field_laws]) (simp add: sample_width)

text \<open>
  C31. One binary node above a proof of full length makes \<open>parse_proof\<close> panic, in debug builds
  on the subtraction and in release builds on the index: the answer of an untrusted node
  aborts the request instead of being refused.
\<close>

theorem parse_proof_overlong_panics:
  assumes "field_laws F" and "from_hex F key0 = Some k" and "from_hex F (Felt_as_ref v) = Some x"
    and "parse_proof F checks key0 v ns = Ok (Some r)" and "proof_width ns = 251"
    and "from_hex F (bin_left b) = Some l" and "from_hex F (bin_right b) = Some r'"
  shows "parse_proof F checks key0 v (Node.BinaryNode b # ns) = Panicked"
proof -
  let ?loop = "proof_loop F checks (key_bits F k) x 0 (rev ns) (x, 0)"
  have len: "length (key_bits F k) = 251" using assms(1) by simp
  obtain h where "code_open F (key_bits F k) ns x = Some h"
    using assms(4,5) parse_proof_code_open [OF assms(1,2,3), of ns checks] by auto
  then have "?loop = Ok (Some (h, 251))"
    using proof_loop_code_open [OF len, of ns F checks x h 251] assms(5) by simp
  then have "proof_loop F checks (key_bits F k) x 0 (rev (Node.BinaryNode b # ns)) (x, 0) = Panicked"
    unfolding proof_loop_snoc
    using binary_step_panics [OF len _ assms(6,7), of "(h, 251)" checks] by simp
  then show ?thesis
    unfolding parse_proof_loop [OF assms(1,2,3)] by simp
qed

theorem parse_proof_overlong_panics_witness:
  "parse_proof word_field False ''0x0'' (felt_text word_field 5)
     (bin_node word_field 1 2 # sample_proof) = Panicked"
  unfolding bin_node_def felt_text_def
  by (rule parse_proof_overlong_panics [OF word_field_laws sample_key _ sample_accepted [unfolded felt_text_def] sample_width])
    simp_all

section \<open>Two missing checks\<close>

text \<open>
  C29. An edge above the last node is not compared with anything: take any honest proof with such an
  edge, cut it after that edge and append a leaf edge for any value \<open>y\<close> whose path is the
  rest of the key. \<open>parse_proof\<close> accepts it and arrives at the same root, so a node can
  prove any value at that key.
\<close>

theorem parse_proof_forged_leaf:
  assumes "field_laws F" and "from_hex F key0 = Some k"
    and "trie_wf 251 t" and "trie_lookup t (key_bits F k) = Some x"
    and "trie_prove F t (key_bits F k) = up @ Node.EdgeNode e # down" and "down \<noteq> []"
  shows "parse_proof F checks key0 (felt_text F y)
      (up @ [Node.EdgeNode e, edge_node F y (drop (251 - proof_width down) (key_bits F k))])
    = Ok (Some (felt_text F (root_hash F t)))"
proof -
  let ?bs = "key_bits F k" and ?rest = "drop (251 - proof_width down) (key_bits F k)"
  let ?forged = "[Node.EdgeNode e, edge_node F y ?rest]"
  have len: "length ?bs = 251" using assms(1) by simp
  have width_append: "proof_width (xs @ ys) = proof_width xs + proof_width ys" for xs ys
    by (simp add: proof_width_def)
  have o: "open_root F ?bs (up @ Node.EdgeNode e # down) x = Some (root_hash F t)"
    using trie_prove_open [OF assms(1,3,4)] assms(5) by simp
  then have width: "proof_width up + (unat (edge_len e) + proof_width down) = 251"
    using open_root_width [OF o] len by (simp add: width_append)
  have code: "code_open F ?bs (up @ Node.EdgeNode e # down) x = Some (root_hash F t)"
    using o by (rule code_open_complete)
  have rest: "drop (unat (edge_len e)) (drop (proof_width up) ?bs) = ?rest"
  proof -
    have "unat (edge_len e) + proof_width up = 251 - proof_width down" using width by simp
    then show ?thesis by simp
  qed
  have l: "unat (of_nat (length ?rest) :: 64 word) = length ?rest" "length ?rest = proof_width down"
    using width len by (simp_all add: unat_of_nat_small)
  have leaf: "code_open F ?rest [edge_node F y ?rest] y \<noteq> None"
    using assms(1) by (simp add: edge_node_def code_open.simps edge_child_def edge_path_def)
  have "code_open F (drop (proof_width up) ?bs) (Node.EdgeNode e # down) x \<noteq> None"
    using code code_open_suffix [of F ?bs up "Node.EdgeNode e # down" x] by simp
  then have "code_open F (drop (proof_width up) ?bs) ?forged y
      = code_open F (drop (proof_width up) ?bs) (Node.EdgeNode e # down) x"
    using leaf assms(6) unfolding code_open.simps rest by (auto split: option.splits)
  then have forged: "code_open F ?bs (up @ ?forged) y = Some (root_hash F t)"
    using code code_open_replace [of F up ?bs ?forged y "Node.EdgeNode e # down" x] by simp
  have "proof_width (up @ ?forged) = 251"
    using width l by (simp add: width_append edge_node_def edge_len_def)
  then show ?thesis
    using forged assms(1) parse_proof_code_open [OF assms(1,2), of "felt_text F y" y "up @ ?forged" checks]
    by simp
qed

theorem parse_proof_forged_leaf_witness:
  "parse_proof word_field True ''0x0'' (felt_text word_field 99)
     [edge_node word_field 1398 (replicate 100 False), edge_node word_field 99 (replicate 151 False)]
   = Ok (Some (felt_text word_field (root_hash word_field sample_trie)))"
proof -
  have w: "proof_width [bin_node word_field 172 175, edge_node word_field 5 (replicate 150 False)] = 151"
    by (simp add: edge_node_def bin_node_def edge_len_def)
  show ?thesis
    using parse_proof_forged_leaf [OF word_field_laws sample_key sample_wf, where x = 5 and up = "[]"
        and down = "[bin_node word_field 172 175, edge_node word_field 5 (replicate 150 False)]" and y = 99
        and checks = True, unfolded w sample_key_bits]
    by (simp add: sample_lookup sample_proof_eq edge_node_def del: trie_prove.simps)
qed

text \<open>
  C30. The total length of the path is not compared with 251: the single root node of a trie that
  begins with a binary node proves, for any key, that the value is the hash of one of its
  two subtrees (the one the last bit of the key selects).
\<close>

theorem parse_proof_short_proof:
  assumes "field_laws F" and "from_hex F key0 = Some k"
  shows "parse_proof F checks key0 (felt_text F (root_hash F (if last (key_bits F k) then r else l)))
      [bin_node F (root_hash F l) (root_hash F r)]
    = Ok (Some (felt_text F (root_hash F (Bin l r))))"
proof -
  have "drop 250 (key_bits F k) = [last (key_bits F k)]"
    using assms(1) last_conv_nth [of "key_bits F k"] Cons_nth_drop_Suc [of 250 "key_bits F k"]
    by force
  then show ?thesis
    using assms
    by (simp add: parse_proof_code_open [OF assms(1,2)] bin_node_def felt_text_def code_open.simps)
qed

theorem parse_proof_short_proof_witness:
  "parse_proof word_field True ''0x0'' (felt_text word_field 5) [bin_node word_field 5 6]
     = Ok (Some (felt_text word_field (root_hash word_field (Bin (Leaf 5) (Leaf 6)))))"
  using parse_proof_short_proof [OF word_field_laws sample_key, of True "Leaf 6" "Leaf 5"]
  by (simp add: sample_key_bits)

end
