(* ===== verification/VerifyProps.thy ===== *)
theory VerifyProps
  imports ProofProps
begin

text \<open>
  \<open>GetProofResult::verify\<close> against the state it is about: a storage trie below a contract
  trie below a global root. \<open>honest_answer\<close> is what a node with these tries sends. It is
  accepted, and an accepted answer with linked proofs is about the value the storage trie
  holds, unless two of the hashed inputs collide.
\<close>

definition contract_state_hash :: "'f field_ops \<Rightarrow> 'f \<Rightarrow> 'f \<Rightarrow> 'f \<Rightarrow> 'f" where
  "contract_state_hash F class_hash storage_root nonce =
     pedersen_hash F (pedersen_hash F (pedersen_hash F class_hash storage_root) nonce) (fe_zero F)"

definition global_root_of :: "'f field_ops \<Rightarrow> 'f \<Rightarrow> 'f \<Rightarrow> 'f" where
  "global_root_of F storage_commitment class_commitment =
     poseidon_hash_many F [from_bytes_be_slice F state_version_bytes, storage_commitment, class_commitment]"

definition honest_answer ::
  "'f field_ops \<Rightarrow> 'f mtrie \<Rightarrow> 'f mtrie \<Rightarrow> 'f \<Rightarrow> 'f \<Rightarrow> 'f \<Rightarrow> 'f \<Rightarrow> 'f \<Rightarrow> GetProofResult" where
  "honest_answer F contracts storage class_hash nonce class_commitment address k = \<lparr>
     get_proof_result_class_commitment = Some (felt_text F class_commitment),
     get_proof_result_contract_data = Some \<lparr>
       contract_data_class_hash = felt_text F class_hash,
       contract_data_contract_state_hash_version = felt_text F (fe_zero F),
       contract_data_nonce = felt_text F nonce,
       contract_data_root = felt_text F (root_hash F storage),
       contract_data_storage_proofs = Some [trie_prove F storage (key_bits F k)]\<rparr>,
     get_proof_result_contract_proof = trie_prove F contracts (key_bits F address),
     get_proof_result_state_commitment = Some (felt_text F (global_root_of F (root_hash F contracts) class_commitment))\<rparr>"

section \<open>The two hashes above the tries\<close>

definition data_felts :: "'f field_ops \<Rightarrow> ContractData \<Rightarrow> ('f \<times> 'f \<times> 'f) option" where
  "data_felts F cd =
     (case (from_hex F (Felt_as_ref (contract_data_class_hash cd)), from_hex F (Felt_as_ref (contract_data_root cd)),
            from_hex F (Felt_as_ref (contract_data_nonce cd))) of
        (Some c, Some r, Some n) \<Rightarrow> Some (c, r, n) | _ \<Rightarrow> None)"

lemma calculate_contract_state_hash_Ok:
  assumes "field_laws F"
  shows "calculate_contract_state_hash F cd = Ok h \<longleftrightarrow>
    (\<exists>c r n. data_felts F cd = Some (c, r, n) \<and> h = felt_text F (contract_state_hash F c r n))"
  using hex_text_is_felt [OF assms]
  by (auto simp: calculate_contract_state_hash_def data_felts_def Let_def outcome_simps felt_text_def
      contract_state_hash_def split: option.splits)

lemma calculate_global_root_Ok:
  assumes "field_laws F"
  shows "calculate_global_root F cc sc = Ok g \<longleftrightarrow>
    (\<exists>c s. from_hex F (Felt_as_ref cc) = Some c \<and> from_hex F (Felt_as_ref sc) = Some s \<and>
       g = felt_text F (global_root_of F s c))"
  using hex_text_is_felt [OF assms]
  by (auto simp: calculate_global_root_def Let_def outcome_simps felt_text_def global_root_of_def)

lemma parse_proof_felt_text:
  assumes "field_laws F" and "parse_proof F checks key0 v ns = Ok (Some r)"
  obtains h where "r = felt_text F h"
proof -
  from assms(2) obtain h w where "Felt_try_new (hex_text F h) = Ok r"
    by (auto simp: parse_proof_def Let_def outcome_simps split: if_splits option.splits)
  then show thesis using that hex_text_is_felt [OF assms(1), of h] by (auto simp: felt_text_def)
qed

section \<open>Completeness\<close>

lemma verify_honest:
  assumes "field_laws F" and "from_hex F (StorageKey_as_ref sk) = Some k" and "from_hex F (Felt_as_ref a) = Some address"
    and "trie_wf 251 storage" and "trie_lookup storage (key_bits F k) = Some x"
    and "trie_wf 251 contracts"
    and "trie_lookup contracts (key_bits F address) = Some (contract_state_hash F class_hash (root_hash F storage) nonce)"
  shows "verify F checks (honest_answer F contracts storage class_hash nonce class_commitment address k)
      (felt_text F (global_root_of F (root_hash F contracts) class_commitment)) (Address.Address a) sk (felt_text F x)
    = Ok ()"
proof -
  define answer where "answer = honest_answer F contracts storage class_hash nonce class_commitment address k"
  define state_hash where "state_hash = contract_state_hash F class_hash (root_hash F storage) nonce"
  obtain cd where cd: "get_proof_result_contract_data answer = Some cd"
      "contract_data_storage_proofs cd = Some [trie_prove F storage (key_bits F k)]"
      "contract_data_root cd = felt_text F (root_hash F storage)"
      "data_felts F cd = Some (class_hash, root_hash F storage, nonce)"
    using assms(1) by (simp add: answer_def honest_answer_def data_felts_def)
  have fields: "get_proof_result_contract_proof answer = trie_prove F contracts (key_bits F address)"
      "get_proof_result_class_commitment answer = Some (felt_text F class_commitment)"
      "get_proof_result_state_commitment answer
        = Some (felt_text F (global_root_of F (root_hash F contracts) class_commitment))"
    by (simp_all add: answer_def honest_answer_def)
  have "calculate_contract_state_hash F cd = Ok (felt_text F state_hash)"
    using assms(1) cd(4) by (simp add: calculate_contract_state_hash_Ok state_hash_def)
  moreover have "parse_proof F checks (StorageKey_as_ref sk) (felt_text F x) (trie_prove F storage (key_bits F k))
      = Ok (Some (felt_text F (root_hash F storage)))"
    using assms(1,2,4,5) by (rule parse_proof_honest)
  moreover have "parse_proof F checks (Felt_as_ref a) (felt_text F state_hash) (trie_prove F contracts (key_bits F address))
      = Ok (Some (felt_text F (root_hash F contracts)))"
    using parse_proof_honest [OF assms(1,3,6,7)] by (simp add: state_hash_def)
  moreover have "calculate_global_root F (felt_text F class_commitment) (felt_text F (root_hash F contracts))
      = Ok (felt_text F (global_root_of F (root_hash F contracts) class_commitment))"
    using assms(1) by (simp add: calculate_global_root_Ok)
  ultimately show ?thesis
    unfolding verify_Ok_iff_checks answer_def [symmetric]
    by (intro exI conjI) (use cd fields in simp_all)
qed

text \<open>
  C2. An honest answer is accepted: for any storage trie holding a value at the key, any
  contract trie holding the contract's state hash at the address, and any class
  commitment, \<open>verify\<close> accepts the answer of a node with these tries against the global
  root they have.
\<close>

theorem verify_complete:
  assumes "field_laws F" and "from_hex F (StorageKey_as_ref sk) = Some k" and "from_hex F (Felt_as_ref a) = Some address"
    and "trie_wf 251 storage" and "trie_lookup storage (key_bits F k) = Some x"
    and "trie_wf 251 contracts"
    and "trie_lookup contracts (key_bits F address) = Some (contract_state_hash F class_hash (root_hash F storage) nonce)"
  shows "verify F checks (honest_answer F contracts storage class_hash nonce class_commitment address k)
      (felt_text F (global_root_of F (root_hash F contracts) class_commitment)) (Address.Address a) sk (felt_text F x)
    = Ok ()"
  using assms by (rule verify_honest)

text \<open>The instance: one contract at address zero with the sample storage trie.\<close>

definition sample_contracts :: "252 word mtrie" where
  "sample_contracts = Edge (replicate 251 False) (Leaf 193693)"

abbreviation sample_answer :: GetProofResult where
  "sample_answer \<equiv> honest_answer word_field sample_contracts sample_trie 1 2 9 0 0"

lemma sample_state_hash: "contract_state_hash word_field 1 (root_hash word_field sample_trie) 2 = 193693"
  by (simp add: contract_state_hash_def sample_root word_field_ops) (simp add: word_field_def)

lemma sample_contracts_facts:
  "trie_wf 251 sample_contracts" "trie_lookup sample_contracts (replicate 251 False) = Some 193693"
  "root_hash word_field sample_contracts = 581337"
  by (simp_all add: sample_contracts_def sample_path word_field_ops)

lemma sample_verified:
  "verify word_field checks sample_answer (felt_text word_field (global_root_of word_field 581337 9))
     (Address.Address (Felt ''0x0'')) (StorageKey ''0x0'') (felt_text word_field 5) = Ok ()"
  using verify_honest [OF word_field_laws, of "StorageKey ''0x0''" 0 "Felt ''0x0''" 0 sample_trie 5 sample_contracts 1 2 checks 9]
  by (simp add: sample_key sample_key_bits sample_wf sample_lookup sample_contracts_facts sample_state_hash)

theorem verify_complete_witness:
  "verify word_field True sample_answer (felt_text word_field (global_root_of word_field 581337 9))
     (Address.Address (Felt ''0x0'')) (StorageKey ''0x0'') (felt_text word_field 5) = Ok ()"
  using verify_complete [OF word_field_laws, of "StorageKey ''0x0''" 0 "Felt ''0x0''" 0 sample_trie 5 sample_contracts 1 2 True 9]
  by (simp add: sample_key sample_key_bits sample_wf sample_lookup sample_contracts_facts sample_state_hash)

section \<open>Soundness\<close>

definition state_preimages :: "'f field_ops \<Rightarrow> 'f \<Rightarrow> 'f \<Rightarrow> 'f \<Rightarrow> 'f preimage list" where
  "state_preimages F c r n =
     (let h1 = pedersen_hash F c r; h2 = pedersen_hash F h1 n in [PBin c r, PBin h1 n, PBin h2 (fe_zero F)])"

lemma state_hash_inject:
  assumes "collision_free F (state_preimages F c r n @ state_preimages F c' r' n')"
    and "contract_state_hash F c r n = contract_state_hash F c' r' n'"
  shows "c = c' \<and> r = r' \<and> n = n'"
proof -
  let ?h1 = "pedersen_hash F c r" and ?h1' = "pedersen_hash F c' r'"
  have "PBin (pedersen_hash F ?h1 n) (fe_zero F) = PBin (pedersen_hash F ?h1' n') (fe_zero F)"
    by (rule collision_freeD [OF assms(1)])
      (use assms(2) in \<open>simp_all add: state_preimages_def contract_state_hash_def Let_def\<close>)
  then have "PBin ?h1 n = PBin ?h1' n'"
    by (intro collision_freeD [OF assms(1)]) (simp_all add: state_preimages_def Let_def)
  then have "n = n'" and "PBin c r = PBin c' r'"
    by (simp, intro collision_freeD [OF assms(1)]) (simp_all add: state_preimages_def Let_def)
  then show ?thesis by simp
qed

text \<open>What the code does not check of an answer's two proofs: the length of the path and the
  links of the edges above the last node.\<close>

definition answer_linked :: "'f field_ops \<Rightarrow> GetProofResult \<Rightarrow> 'f \<Rightarrow> 'f \<Rightarrow> 'f \<Rightarrow> bool" where
  "answer_linked F answer address k x \<longleftrightarrow>
     (\<exists>cd p ps c r n. get_proof_result_contract_data answer = Some cd \<and>
        contract_data_storage_proofs cd = Some (p # ps) \<and> data_felts F cd = Some (c, r, n) \<and>
        proof_width p = 251 \<and> links_checked F (key_bits F k) p x \<and>
        proof_width (get_proof_result_contract_proof answer) = 251 \<and>
        links_checked F (key_bits F address) (get_proof_result_contract_proof answer) (contract_state_hash F c r n))"

text \<open>No two of the inputs hashed in the answer, in its verification and in the state collide.\<close>

definition answer_collision_free ::
  "'f field_ops \<Rightarrow> GetProofResult \<Rightarrow> 'f mtrie \<Rightarrow> 'f mtrie \<Rightarrow> 'f \<Rightarrow> 'f \<Rightarrow> 'f \<Rightarrow> 'f \<Rightarrow> 'f \<Rightarrow> 'f \<Rightarrow> bool" where
  "answer_collision_free F answer contracts storage class_hash nonce class_commitment address k x \<longleftrightarrow>
     (\<exists>cd p ps c r n s cc. get_proof_result_contract_data answer = Some cd \<and>
        contract_data_storage_proofs cd = Some (p # ps) \<and> data_felts F cd = Some (c, r, n) \<and>
        map_option Felt_as_ref (get_proof_result_class_commitment answer) = Some cc \<and>
        code_open F (key_bits F address) (get_proof_result_contract_proof answer) (contract_state_hash F c r n) = Some s \<and>
        collision_free F (trie_preimages F storage @ proof_preimages F p @ expected_preimages F (key_bits F k) p x) \<and>
        collision_free F (trie_preimages F contracts @ proof_preimages F (get_proof_result_contract_proof answer) @
          expected_preimages F (key_bits F address) (get_proof_result_contract_proof answer) (contract_state_hash F c r n)) \<and>
        collision_free F (state_preimages F c r n @ state_preimages F class_hash (root_hash F storage) nonce) \<and>
        inj_on (poseidon_hash_many F)
          {[from_bytes_be_slice F state_version_bytes, s, the (from_hex F cc)],
           [from_bytes_be_slice F state_version_bytes, root_hash F contracts, class_commitment]})"

text \<open>Global roots that do not collide come from the same contract trie.\<close>

lemma global_root_commitment:
  assumes "field_laws F" and "calculate_global_root F cc (felt_text F s) = Ok (felt_text F (global_root_of F t class_commitment))"
    and "inj_on (poseidon_hash_many F)
        {[from_bytes_be_slice F state_version_bytes, s, the (from_hex F (Felt_as_ref cc))],
         [from_bytes_be_slice F state_version_bytes, t, class_commitment]}"
  shows "s = t"
proof -
  obtain ccv where "from_hex F (Felt_as_ref cc) = Some ccv" "global_root_of F s ccv = global_root_of F t class_commitment"
    using assms(2) assms(1) by (auto simp: calculate_global_root_Ok [OF assms(1)])
  then show ?thesis
    using inj_onD [OF assms(3), of "[from_bytes_be_slice F state_version_bytes, s, ccv]"
        "[from_bytes_be_slice F state_version_bytes, t, class_commitment]"]
    by (simp add: global_root_of_def)
qed

text \<open>
  C1. What an accepted answer proves about the chain: let the trusted global root be the one of
  a contract trie that holds, at the address, the state hash of a contract with a given
  storage trie. If \<open>verify\<close> accepts an answer whose proofs have full length and linked
  inner edges (which the code leaves unchecked), and no two of the inputs hashed collide,
  then the storage trie holds exactly the verified value at the key.
\<close>

theorem verify_sound:
  assumes "field_laws F" and "from_hex F (StorageKey_as_ref sk) = Some k" and "from_hex F (Felt_as_ref a) = Some address"
    and "from_hex F (Felt_as_ref v) = Some x"
    and "trie_wf 251 storage" and "trie_wf 251 contracts"
    and "trie_lookup contracts (key_bits F address) = Some (contract_state_hash F class_hash (root_hash F storage) nonce)"
    and "verify F checks answer (felt_text F (global_root_of F (root_hash F contracts) class_commitment))
      (Address.Address a) sk v = Ok ()"
    and "answer_linked F answer address k x"
    and "answer_collision_free F answer contracts storage class_hash nonce class_commitment address k x"
  shows "trie_lookup storage (key_bits F k) = Some x"
proof -
  let ?cp = "get_proof_result_contract_proof answer"
  have len: "length (key_bits F address) = 251" using assms(1) by simp
  from assms(8) obtain cd p ps sh sc cc where ok: "get_proof_result_contract_data answer = Some cd"
      "contract_data_storage_proofs cd = Some (p # ps)"
      "parse_proof F checks (StorageKey_as_ref sk) v p = Ok (Some (contract_data_root cd))"
      "calculate_contract_state_hash F cd = Ok sh"
      "parse_proof F checks (Felt_as_ref a) sh ?cp = Ok (Some sc)"
      "get_proof_result_class_commitment answer = Some cc"
      "calculate_global_root F cc sc = Ok (felt_text F (global_root_of F (root_hash F contracts) class_commitment))"
    by (auto simp: verify_Ok_iff_checks)
  from assms(9) ok(1,2) obtain c r n where linked: "data_felts F cd = Some (c, r, n)"
      "proof_width p = 251" "links_checked F (key_bits F k) p x" "proof_width ?cp = 251"
      "links_checked F (key_bits F address) ?cp (contract_state_hash F c r n)"
    by (auto simp: answer_linked_def)
  from assms(10) ok(1,2,6) linked(1) obtain s where free:
      "code_open F (key_bits F address) ?cp (contract_state_hash F c r n) = Some s"
      "collision_free F (trie_preimages F storage @ proof_preimages F p @ expected_preimages F (key_bits F k) p x)"
      "collision_free F (trie_preimages F contracts @ proof_preimages F ?cp @
        expected_preimages F (key_bits F address) ?cp (contract_state_hash F c r n))"
      "collision_free F (state_preimages F c r n @ state_preimages F class_hash (root_hash F storage) nonce)"
      "inj_on (poseidon_hash_many F)
        {[from_bytes_be_slice F state_version_bytes, s, the (from_hex F (Felt_as_ref cc))],
         [from_bytes_be_slice F state_version_bytes, root_hash F contracts, class_commitment]}"
    by (auto simp: answer_collision_free_def)
  have sh: "sh = felt_text F (contract_state_hash F c r n)"
    using ok(4) linked(1) by (simp add: calculate_contract_state_hash_Ok [OF assms(1)])
  have hex: "from_hex F (Felt_as_ref sh) = Some (contract_state_hash F c r n)" using assms(1) by (simp add: sh)
  have sc: "sc = felt_text F s"
    using parse_proof_code_open [OF assms(1,3) hex, of ?cp checks sc] ok(5) linked(4) free(1) by simp
  have "s = root_hash F contracts"
    using ok(7) unfolding sc by (rule global_root_commitment [OF assms(1) _ free(5)])
  then have "trie_lookup contracts (key_bits F address) = Some (contract_state_hash F c r n)"
    using parse_proof_member [OF assms(1,3) hex assms(6) _ linked(4,5) free(3)] ok(5) sc by simp
  then have r: "r = root_hash F storage"
    using assms(7) state_hash_inject [OF free(4)] by simp
  obtain h where h: "contract_data_root cd = felt_text F h"
    using parse_proof_felt_text [OF assms(1) ok(3)] by blast
  then have "h = r" using linked(1) assms(1) by (auto simp: data_felts_def split: option.splits)
  then show ?thesis
    using parse_proof_member [OF assms(1,2,4,5) _ linked(2,3) free(2)] ok(3) h r by simp
qed

lemma sample_contract_proof: "trie_prove word_field sample_contracts (replicate 251 False)
    = [edge_node word_field 193693 (replicate 251 False)]"
  by (simp add: sample_contracts_def)

lemma sample_answer_fields:
  "get_proof_result_contract_proof sample_answer = [edge_node word_field 193693 (replicate 251 False)]"
  "get_proof_result_class_commitment sample_answer = Some (felt_text word_field 9)"
  "\<exists>cd. get_proof_result_contract_data sample_answer = Some cd \<and>
     contract_data_storage_proofs cd = Some [sample_proof] \<and> data_felts word_field cd = Some (1, 4301, 2)"
  by (simp_all add: honest_answer_def sample_key_bits sample_contract_proof data_felts_def sample_root)

lemma sample_state_hash': "contract_state_hash word_field 1 4301 2 = 193693"
  using sample_state_hash by (simp add: sample_root)

lemma sample_linked: "answer_linked word_field sample_answer 0 0 5"
proof -
  have "proof_width [edge_node word_field 193693 (replicate 251 False)] = 251"
    by (simp add: edge_node_def edge_len_def)
  moreover have "links_checked word_field (replicate 251 False) [edge_node word_field 193693 (replicate 251 False)] 193693"
    by (simp add: links_checked_nodes word_field_laws)
  ultimately show ?thesis
    unfolding answer_linked_def sample_answer_fields(1) sample_key_bits
    using sample_answer_fields(3) sample_width sample_links sample_state_hash' by auto
qed

lemma sample_answer_collision_free:
  "answer_collision_free word_field sample_answer sample_contracts sample_trie 1 2 9 0 0 5"
proof -
  let ?cp = "[edge_node word_field 193693 (replicate 251 False)]"
  have opened: "code_open word_field (replicate 251 False) ?cp 193693 = Some 581337"
    by (simp add: edge_node_def code_open.simps edge_child_def edge_path_def edge_len_def sample_path felt_text_def
        word_field_ops)
  have "trie_preimages word_field sample_contracts @ proof_preimages word_field ?cp @
      expected_preimages word_field (replicate 251 False) ?cp 193693
    = [PEdge 193693 0 251, PEdge 193693 0 251, PEdge 193693 0 251]"
    by (simp add: sample_contracts_def proof_preimages_def node_preimages_nodes expected_preimages_nodes
        word_field_laws sample_path)
  then have contracts: "collision_free word_field (trie_preimages word_field sample_contracts @
      proof_preimages word_field ?cp @ expected_preimages word_field (replicate 251 False) ?cp 193693)"
    by (simp add: collision_free_def)
  have state: "collision_free word_field (state_preimages word_field 1 4301 2 @ state_preimages word_field 1 4301 2)"
    by (auto simp: collision_free_def inj_on_def state_preimages_def Let_def word_field_ops) (simp_all add: word_field_def)
  show ?thesis
    unfolding answer_collision_free_def sample_answer_fields(1,2) sample_key_bits sample_root sample_contracts_facts(3)
    using sample_answer_fields(3) sample_collision_free contracts state opened sample_state_hash' by auto
qed

theorem verify_sound_witness:
  "verify word_field True sample_answer (felt_text word_field (global_root_of word_field 581337 9))
     (Address.Address (Felt ''0x0'')) (StorageKey ''0x0'') (felt_text word_field 5) = Ok () \<and>
   trie_lookup sample_trie (replicate 251 False) = Some 5"
proof
  show v: "verify word_field True sample_answer (felt_text word_field (global_root_of word_field 581337 9))
     (Address.Address (Felt ''0x0'')) (StorageKey ''0x0'') (felt_text word_field 5) = Ok ()"
    by (rule sample_verified)
  show "trie_lookup sample_trie (replicate 251 False) = Some 5"
    unfolding sample_key_bits [symmetric]
    by (rule verify_sound [OF word_field_laws _ _ _ sample_wf sample_contracts_facts(1) _ _ sample_linked
          sample_answer_collision_free, where sk = "StorageKey ''0x0''" and a = "Felt ''0x0''" and v = "felt_text word_field 5"
          and checks = True])
      (simp_all add: sample_key sample_key_bits sample_contracts_facts sample_state_hash v)
qed

end
