(* ===== verification/AbsentProof.thy ===== *)
theory AbsentProof
  imports VerifyProps
begin

text \<open>
  Keys that a trie does not hold. A node proves their absence with the nodes on the way to
  the key down to the edge that leads elsewhere (\<open>trie_path\<close>; for a key that is held it is
  \<open>trie_prove\<close>). \<open>parse_proof\<close> has no notion of such a proof: it compares the last edge
  with the key and the value as if the value were below it, and refuses. So a slot that was
  never written, whose value is zero, cannot be read from an honest node. A dishonest node is
  another matter: below an inner edge it can still forge a value.
\<close>

fun trie_path :: "'f field_ops \<Rightarrow> 'f mtrie \<Rightarrow> bool list \<Rightarrow> Node list" where
  "trie_path F (Leaf v) bs = []"
| "trie_path F (Bin l r) [] = []"
| "trie_path F (Bin l r) (b # bs) =
     bin_node F (root_hash F l) (root_hash F r) # trie_path F (if b then r else l) bs"
| "trie_path F (Edge p t) bs =
     edge_node F (root_hash F t) p # (if take (length p) bs = p then trie_path F t (drop (length p) bs) else [])"

lemma trie_path_held: "trie_lookup t bs = Some v \<Longrightarrow> trie_path F t bs = trie_prove F t bs"
  by (induction F t bs rule: trie_path.induct) (auto split: if_splits)

text \<open>The edge where the way to a key ends, with the bits of the key from there on.\<close>

fun diverging :: "'f mtrie \<Rightarrow> bool list \<Rightarrow> (bool list \<times> 'f mtrie \<times> bool list) option" where
  "diverging (Leaf v) bs = None"
| "diverging (Bin l r) [] = None"
| "diverging (Bin l r) (b # bs) = diverging (if b then r else l) bs"
| "diverging (Edge p t) bs =
     (if take (length p) bs = p then diverging t (drop (length p) bs) else Some (p, t, bs))"

lemma diverging_absent:
  "trie_wf (length bs) t \<Longrightarrow> trie_lookup t bs = None \<longleftrightarrow> diverging t bs \<noteq> None"
  by (induction t bs rule: diverging.induct) auto

lemma diverging_wf:
  assumes "trie_wf (length bs) t" and "diverging t bs = Some (p, t', rest)"
  shows "0 < length p \<and> length p \<le> length rest \<and> length rest \<le> length bs \<and> take (length p) rest \<noteq> p \<and>
    trie_wf (length rest - length p) t' \<and> (\<exists>above. bs = above @ rest)"
  using assms
proof (induction t bs rule: diverging.induct)
  case (3 l r b bs)
  then have "\<exists>above. bs = above @ rest" by (cases b) auto
  then have "\<exists>above. b # bs = above @ rest" by (metis append_Cons)
  with 3 show ?case by (cases b) auto
next
  case (4 q t bs)
  show ?case
  proof (cases "take (length q) bs = q")
    case True
    with 4 obtain above where "drop (length q) bs = above @ rest" by auto
    then have "bs = (q @ above) @ rest" using True by (metis append.assoc append_take_drop_id)
    then have "\<exists>above. bs = above @ rest" by blast
    with 4 True show ?thesis by auto
  qed (use 4 in auto)
qed auto

lemma trie_path_last:
  assumes "diverging t bs = Some (p, t', rest)"
  shows "trie_path F t bs \<noteq> [] \<and> last (trie_path F t bs) = edge_node F (root_hash F t') p"
  using assms
proof (induction F t bs rule: trie_path.induct)
  case (3 F l r b bs)
  then show ?case by (cases b) auto
qed (auto split: if_splits)

text \<open>The hashes of the nodes below an edge of the trie, leaves left out.\<close>

fun inner_hashes :: "'f field_ops \<Rightarrow> 'f mtrie \<Rightarrow> 'f list" where
  "inner_hashes F (Leaf v) = []"
| "inner_hashes F (Bin l r) = root_hash F (Bin l r) # inner_hashes F l @ inner_hashes F r"
| "inner_hashes F (Edge p t) = root_hash F (Edge p t) # inner_hashes F t"

lemma diverging_inner:
  assumes "diverging t bs = Some (p, t', rest)" and "trie_wf n t'" and "0 < n"
  shows "root_hash F t' \<in> set (inner_hashes F t)"
  using assms(1)
proof (induction t bs rule: diverging.induct)
  case (3 l r b bs)
  then show ?case by (cases b) auto
next
  case (4 q t bs)
  have "root_hash F t' \<in> set (inner_hashes F t')" using assms(2,3) by (cases t') auto
  with 4 show ?case by (auto split: if_splits)
qed auto

text \<open>What the comparison of the last edge hashes.\<close>

definition absence_preimages :: "'f field_ops \<Rightarrow> 'f mtrie \<Rightarrow> bool list \<Rightarrow> 'f \<Rightarrow> 'f preimage list" where
  "absence_preimages F t bs x = (case diverging t bs of
     Some (p, t', rest) \<Rightarrow> [PEdge (root_hash F t') (path_felt F p) (of_nat (length p)),
       PEdge x (path_felt F (drop (length bs - length p) bs)) (of_nat (length p))]
   | None \<Rightarrow> [])"

lemma last_edge_differs:
  assumes "field_laws F" and "length bs = 251" and "trie_wf (length bs) t" and d: "diverging t bs = Some (p, t', rest)"
    and "collision_free F (absence_preimages F t bs x)" and "x \<notin> set (inner_hashes F t)"
  shows "digest F (PEdge (root_hash F t') (path_felt F p) (of_nat (length p)))
    \<noteq> digest F (PEdge x (path_felt F (drop (251 - length p) bs)) (of_nat (length p)))"
proof
  let ?low = "drop (251 - length p) bs"
  note facts = diverging_wf [OF assms(3) d]
  assume "digest F (PEdge (root_hash F t') (path_felt F p) (of_nat (length p)))
      = digest F (PEdge x (path_felt F ?low) (of_nat (length p)))"
  from collision_freeD [OF assms(5) _ _ this]
  have eq: "root_hash F t' = x" "path_felt F p = path_felt F ?low"
    by (simp_all add: absence_preimages_def d assms(2))
  show False
  proof (cases "length rest = length p")
    case True
    from facts obtain above where "bs = above @ rest" by blast
    then have low: "?low = rest" using assms(2) True by auto
    have "p = ?low"
      by (rule path_felt_inject [OF assms(1) _ _ eq(2)]) (use facts assms(2) in \<open>simp_all add: low True\<close>)
    then show False using low facts by simp
  next
    case False
    then have "root_hash F t' \<in> set (inner_hashes F t)"
      using facts by (intro diverging_inner [OF d, of "length rest - length p"]) auto
    then show False using eq(1) assms(6) by simp
  qed
qed

text \<open>The first step of the loop, on the last node: an edge whose hash is not the one the key and
  the value give ends it with no root.\<close>

lemma last_edge_step:
  assumes "field_laws F" and "length bs = 251" and "length p \<le> 251"
    and "digest F (PEdge c (path_felt F p) (of_nat (length p)))
      \<noteq> digest F (PEdge x (path_felt F (drop (251 - length p) bs)) (of_nat (length p)))"
  shows "proof_step F checks bs x 0 (edge_node F c p) st = Ok None"
proof -
  have len: "unat (of_nat (length p) :: i64) = length p" using assms(3) by (simp add: unat_of_nat_small)
  have sub: "usize_sub checks 251 (of_nat (length p)) = Ok (251 - of_nat (length p))"
    using assms(3) by (simp add: usize_sub_251 len)
  have mask: "felt_from_bits (from_bytes_be F) bs (Some (251 - of_nat (length p)))
      = Ok (path_felt F (drop (251 - length p) bs))"
    using assms(2,3) by (simp add: felt_from_bits_pad unat_251_minus len path_felt_def)
  show ?thesis
    using assms(1,4) by (simp add: edge_node_def edge_step_def Let_def sub mask)
qed

lemma parse_proof_absent:
  assumes "field_laws F" and "from_hex F key0 = Some k" and "from_hex F (Felt_as_ref v) = Some x"
    and "trie_wf 251 t" and "trie_lookup t (key_bits F k) = None"
    and "collision_free F (absence_preimages F t (key_bits F k) x)" and "x \<notin> set (inner_hashes F t)"
    and "ns \<noteq> []" and "last ns = last (trie_path F t (key_bits F k))"
  shows "parse_proof F checks key0 v ns = Ok None"
proof -
  let ?bs = "key_bits F k"
  have len: "length ?bs = 251" and wf: "trie_wf (length ?bs) t" using assms(1,4) by simp_all
  obtain p t' rest where d: "diverging t ?bs = Some (p, t', rest)"
    using diverging_absent [OF wf] assms(5) by (cases "diverging t ?bs") auto
  obtain up where ns: "ns = up @ [edge_node F (root_hash F t') p]"
    using assms(8,9) trie_path_last [OF d, of F] by (metis append_butlast_last_id)
  have "proof_step F checks ?bs x 0 (edge_node F (root_hash F t') p) (x, 0) = Ok None"
    using diverging_wf [OF wf d] len by (intro last_edge_step assms last_edge_differs [OF assms(1) len wf d]) auto
  then show ?thesis by (simp add: parse_proof_loop [OF assms(1-3)] ns)
qed

section \<open>Properties\<close>

text \<open>
  C11. A proof of absence is refused: when the storage trie does not hold the key, an answer whose
  first storage proof ends in the edge where the way to the key ends, as the honest one does, is
  an error for every value other than the hash of an inner node of the trie, zero in
  particular, and for any root, unless the two inputs compared at that edge collide.
\<close>

theorem absence_proof_refused:
  assumes "field_laws F" and "from_hex F (StorageKey_as_ref sk) = Some k" and "from_hex F (Felt_as_ref v) = Some x"
    and "trie_wf 251 storage" and "trie_lookup storage (key_bits F k) = None"
    and "collision_free F (absence_preimages F storage (key_bits F k) x)" and "x \<notin> set (inner_hashes F storage)"
    and "get_proof_result_contract_data answer = Some cd"
    and "contract_data_storage_proofs cd = Some (ns # ps)"
    and "ns \<noteq> []" and "last ns = last (trie_path F storage (key_bits F k))"
  shows "verify F checks answer global_root address sk v
    = Err (proof_error (''Proof invalid for root -> '' @ Felt_as_ref (contract_data_root cd) @ [newline]))"
  using parse_proof_absent [OF assms(1-7,10,11), of checks] assms(8,9)
  by (simp add: verify_def verify_storage_proofs_def index_at_def Let_def)

text \<open>
  C39. An answer that carries contract data with an empty list of storage proofs kills the task:
  \<open>verify_storage_proofs\<close> takes the first proof by index, so the verification panics, whatever
  the rest of the answer, the trusted root and the claimed value are.
\<close>

theorem verify_empty_proofs_panics:
  "verify F checks (answer\<lparr>get_proof_result_contract_data :=
      Some (cd\<lparr>contract_data_storage_proofs := Some []\<rparr>)\<rparr>) global_root address key value = Panicked"
  by (simp add: verify_def verify_storage_proofs_def index_at_def Let_def)

text \<open>The instance: key one in the sample trie, which holds only keys that end in zeros.\<close>

lemma sample_one_bits: "key_bits word_field 1 = replicate 250 False @ [True]"
proof (rule bits_nat_inject)
  have "length (nat_bytes 1) = 32" by (simp add: nat_bytes_def)
  then have "bits_nat (felt_to_bits (nat_bytes 1)) = 1" by (simp add: bits_nat_felt_to_bits be_nat_nat_bytes)
  moreover have "to_bytes_be word_field 1 = nat_bytes 1" by (simp add: word_field_def)
  ultimately show "bits_nat (key_bits word_field 1) = bits_nat (replicate 250 False @ [True])"
    by (simp add: key_bits_def bits_nat_append bits_nat_Cons)
qed (simp_all add: word_field_laws)

lemma sample_one_split:
  "replicate 250 False @ [True] = replicate 100 False @ False # (replicate 149 False @ [True])"
  using replicate_add [of 100 150 False] replicate_Suc [of 149 False] by simp

lemma sample_diverging: "diverging sample_trie (replicate 250 False @ [True])
    = Some (replicate 150 False, Leaf 5, replicate 149 False @ [True])"
proof -
  have "replicate 149 False @ [True] \<noteq> replicate 150 False"
    using replicate_add [of 149 1 False] by simp
  then show ?thesis unfolding sample_one_split by (simp add: sample_trie_def)
qed

lemma sample_absent:
  "trie_lookup sample_trie (key_bits word_field 1) = None"
  "collision_free word_field (absence_preimages word_field sample_trie (key_bits word_field 1) 0)"
  "0 \<notin> set (inner_hashes word_field sample_trie)"
proof -
  show "trie_lookup sample_trie (key_bits word_field 1) = None"
    using diverging_absent [of "key_bits word_field 1" sample_trie] sample_wf
    by (simp add: sample_one_bits sample_diverging)
  have "path_felt word_field (replicate 149 False @ [True]) = 1"
    by (simp add: path_felt_def word_field_def be_nat_pad_bits bits_nat_append bits_nat_Cons)
  moreover have "drop 101 (replicate 250 False @ [True]) = replicate 149 False @ [True]" by simp
  ultimately show "collision_free word_field (absence_preimages word_field sample_trie (key_bits word_field 1) 0)"
    by (simp add: absence_preimages_def sample_one_bits sample_diverging sample_path collision_free_def word_field_ops)
  show "0 \<notin> set (inner_hashes word_field sample_trie)"
    by (simp add: sample_trie_def sample_path word_field_ops)
qed

definition sample_absent_data :: ContractData where
  "sample_absent_data = \<lparr>contract_data_class_hash = Felt ''0x1'', contract_data_contract_state_hash_version = Felt ''0x0'',
     contract_data_nonce = Felt ''0x2'', contract_data_root = felt_text word_field 4301,
     contract_data_storage_proofs = Some [trie_path word_field sample_trie (key_bits word_field 1)]\<rparr>"

theorem absence_proof_refused_witness:
  "\<forall>global_root. is_err (verify word_field True (sample_answer\<lparr>get_proof_result_contract_data := Some sample_absent_data\<rparr>)
     global_root (Address.Address (Felt ''0x0'')) (StorageKey ''0x1'') (Felt ''0x0''))"
proof
  fix global_root
  have one: "from_hex word_field ''0x1'' = Some 1"
    by (simp add: word_field_def strip_0x_def hex_digit_def hex_value_def hex_digit_value_def)
  have path: "trie_path word_field sample_trie (key_bits word_field 1) \<noteq> []"
    using trie_path_last [OF sample_diverging] by (simp add: sample_one_bits)
  show "is_err (verify word_field True (sample_answer\<lparr>get_proof_result_contract_data := Some sample_absent_data\<rparr>)
     global_root (Address.Address (Felt ''0x0'')) (StorageKey ''0x1'') (Felt ''0x0''))"
    by (subst absence_proof_refused [OF word_field_laws _ _ sample_wf sample_absent, where cd = sample_absent_data and ps = "[]"
          and ns = "trie_path word_field sample_trie (key_bits word_field 1)"])
      (simp_all add: one sample_key sample_absent_data_def path)
qed

end
