(* ===== verification/RpcTrait.thy ===== *)
theory RpcTrait
  imports Dto Jsonrpc
begin

text \<open>
  The RPC interface of \<open>src/src/gen.rs\<close>: the table of predefined errors (\<open>gen::error\<close>),
  the trait \<open>Rpc\<close> and its blocking twin as records of effectful calls over a world
  \<open>'s\<close>, and the conversions between arguments, results and JSON values \<open>'v\<close> each method
  needs. The conversions are derived by serde, which is not part of the sources: a
  \<open>method_codec\<close> is a parameter. Its four functions are \<open>from_value::<ArgByName>\<close>,
  \<open>from_value::<ArgByPos>\<close>, \<open>to_value\<close> of the argument tuple, and \<open>to_value\<close> and
  \<open>from_value\<close> of the result; an \<open>Err\<close> holds the text the caller prints.
\<close>

section \<open>The predefined errors\<close>

datatype GenError = GenError int string

definition GenError_into :: "GenError \<Rightarrow> rpc_error" where
  "GenError_into err = (case err of GenError c m \<Rightarrow> rpc_err c m)"

definition BLOCK_NOT_FOUND :: GenError where
  "BLOCK_NOT_FOUND = GenError 24 ''Block not found''"

definition CLASS_ALREADY_DECLARED :: GenError where
  "CLASS_ALREADY_DECLARED = GenError 51 ''Class already declared''"

definition CLASS_HASH_NOT_FOUND :: GenError where
  "CLASS_HASH_NOT_FOUND = GenError 28 ''Class hash not found''"

definition COMPILATION_FAILED :: GenError where
  "COMPILATION_FAILED = GenError 56 ''Compilation failed''"

definition COMPILED_CLASS_HASH_MISMATCH :: GenError where
  "COMPILED_CLASS_HASH_MISMATCH = GenError 60 ''the compiled class hash did not match the one supplied in the transaction''"

definition CONTRACT_CLASS_SIZE_IS_TOO_LARGE :: GenError where
  "CONTRACT_CLASS_SIZE_IS_TOO_LARGE = GenError 57 ''Contract class size it too large''"

definition CONTRACT_ERROR :: GenError where
  "CONTRACT_ERROR = GenError 40 ''Contract error''"

definition CONTRACT_NOT_FOUND :: GenError where
  "CONTRACT_NOT_FOUND = GenError 20 ''Contract not found''"

definition DUPLICATE_TX :: GenError where
  "DUPLICATE_TX = GenError 59 ''A transaction with the same hash already exists in the mempool''"

definition FAILED_TO_RECEIVE_TXN :: GenError where
  "FAILED_TO_RECEIVE_TXN = GenError 1 ''Failed to write transaction''"

definition INSUFFICIENT_ACCOUNT_BALANCE :: GenError where
  "INSUFFICIENT_ACCOUNT_BALANCE = GenError 54 (''Account balance is smaller than the transaction'' @ [CHR 0x27] @ ''s max_fee'')"

definition INSUFFICIENT_MAX_FEE :: GenError where
  "INSUFFICIENT_MAX_FEE = GenError 53 ''Max fee is smaller than the minimal transaction cost (validation plus fee transfer)''"

definition INVALID_CONTINUATION_TOKEN :: GenError where
  "INVALID_CONTINUATION_TOKEN = GenError 33 ''The supplied continuation token is invalid or unknown''"

definition INVALID_TRANSACTION_NONCE :: GenError where
  "INVALID_TRANSACTION_NONCE = GenError 52 ''Invalid transaction nonce''"

definition INVALID_TXN_INDEX :: GenError where
  "INVALID_TXN_INDEX = GenError 27 ''Invalid transaction index in a block''"

definition NON_ACCOUNT :: GenError where
  "NON_ACCOUNT = GenError 58 ''Sender address in not an account contract''"

definition NO_BLOCKS :: GenError where
  "NO_BLOCKS = GenError 32 ''There are no blocks''"

definition NO_TRACE_AVAILABLE :: GenError where
  "NO_TRACE_AVAILABLE = GenError 10 ''No trace available for transaction''"

definition PAGE_SIZE_TOO_BIG :: GenError where
  "PAGE_SIZE_TOO_BIG = GenError 31 ''Requested page size is too big''"

definition PROOF_LIMIT_EXCEEDED :: GenError where
  "PROOF_LIMIT_EXCEEDED = GenError 10000 ''Too many storage keys requested''"

definition TOO_MANY_KEYS_IN_FILTER :: GenError where
  "TOO_MANY_KEYS_IN_FILTER = GenError 34 ''Too many keys provided in a filter''"

definition TRANSACTION_EXECUTION_ERROR :: GenError where
  "TRANSACTION_EXECUTION_ERROR = GenError 41 ''Transaction execution error''"

definition TXN_HASH_NOT_FOUND :: GenError where
  "TXN_HASH_NOT_FOUND = GenError 29 ''Transaction hash not found''"

definition UNEXPECTED_ERROR :: GenError where
  "UNEXPECTED_ERROR = GenError 63 ''An unexpected error occurred''"

definition UNSUPPORTED_CONTRACT_CLASS_VERSION :: GenError where
  "UNSUPPORTED_CONTRACT_CLASS_VERSION = GenError 62 ''the contract class version is not supported''"

definition UNSUPPORTED_TX_VERSION :: GenError where
  "UNSUPPORTED_TX_VERSION = GenError 61 ''the transaction version is not supported''"

definition VALIDATION_FAILURE :: GenError where
  "VALIDATION_FAILURE = GenError 55 ''Account validation failed''"

definition predefined_errors :: "GenError list" where
  "predefined_errors =
    [BLOCK_NOT_FOUND,
     CLASS_ALREADY_DECLARED,
     CLASS_HASH_NOT_FOUND,
     COMPILATION_FAILED,
     COMPILED_CLASS_HASH_MISMATCH,
     CONTRACT_CLASS_SIZE_IS_TOO_LARGE,
     CONTRACT_ERROR,
     CONTRACT_NOT_FOUND,
     DUPLICATE_TX,
     FAILED_TO_RECEIVE_TXN,
     INSUFFICIENT_ACCOUNT_BALANCE,
     INSUFFICIENT_MAX_FEE,
     INVALID_CONTINUATION_TOKEN,
     INVALID_TRANSACTION_NONCE,
     INVALID_TXN_INDEX,
     NON_ACCOUNT,
     NO_BLOCKS,
     NO_TRACE_AVAILABLE,
     PAGE_SIZE_TOO_BIG,
     PROOF_LIMIT_EXCEEDED,
     TOO_MANY_KEYS_IN_FILTER,
     TRANSACTION_EXECUTION_ERROR,
     TXN_HASH_NOT_FOUND,
     UNEXPECTED_ERROR,
     UNSUPPORTED_CONTRACT_CLASS_VERSION,
     UNSUPPORTED_TX_VERSION,
     VALIDATION_FAILURE]"

lemmas predefined_error_defs =
  BLOCK_NOT_FOUND_def
  CLASS_ALREADY_DECLARED_def
  CLASS_HASH_NOT_FOUND_def
  COMPILATION_FAILED_def
  COMPILED_CLASS_HASH_MISMATCH_def
  CONTRACT_CLASS_SIZE_IS_TOO_LARGE_def
  CONTRACT_ERROR_def
  CONTRACT_NOT_FOUND_def
  DUPLICATE_TX_def
  FAILED_TO_RECEIVE_TXN_def
  INSUFFICIENT_ACCOUNT_BALANCE_def
  INSUFFICIENT_MAX_FEE_def
  INVALID_CONTINUATION_TOKEN_def
  INVALID_TRANSACTION_NONCE_def
  INVALID_TXN_INDEX_def
  NON_ACCOUNT_def
  NO_BLOCKS_def
  NO_TRACE_AVAILABLE_def
  PAGE_SIZE_TOO_BIG_def
  PROOF_LIMIT_EXCEEDED_def
  TOO_MANY_KEYS_IN_FILTER_def
  TRANSACTION_EXECUTION_ERROR_def
  TXN_HASH_NOT_FOUND_def
  UNEXPECTED_ERROR_def
  UNSUPPORTED_CONTRACT_CLASS_VERSION_def
  UNSUPPORTED_TX_VERSION_def
  VALIDATION_FAILURE_def

text \<open>A code identifies a predefined error.\<close>

lemma predefined_codes_distinct: "distinct (map (\<lambda>e. code (GenError_into e)) predefined_errors)"
  by (simp add: predefined_errors_def predefined_error_defs GenError_into_def)

section \<open>The traits\<close>

record 's Rpc =
  rpc_getProof :: "BlockId \<Rightarrow> Address \<Rightarrow> StorageKey list \<Rightarrow> ('s, GetProofResult, rpc_error) io"
  rpc_getTxStatus :: "TxnHash \<Rightarrow> ('s, TxGatewayStatus, rpc_error) io"
  rpc_version :: "('s, string, rpc_error) io"
  rpc_addDeclareTransaction :: "BroadcastedDeclareTxn \<Rightarrow> ('s, AddDeclareTransactionResult, rpc_error) io"
  rpc_addDeployAccountTransaction :: "BroadcastedDeployAccountTxn \<Rightarrow> ('s, AddDeployAccountTransactionResult, rpc_error) io"
  rpc_addInvokeTransaction :: "BroadcastedInvokeTxn \<Rightarrow> ('s, AddInvokeTransactionResult, rpc_error) io"
  rpc_blockHashAndNumber :: "('s, BlockHashAndNumberResult, rpc_error) io"
  rpc_blockNumber :: "('s, BlockNumber, rpc_error) io"
  rpc_call :: "FunctionCall \<Rightarrow> BlockId \<Rightarrow> ('s, Felt list, rpc_error) io"
  rpc_chainId :: "('s, ChainId, rpc_error) io"
  rpc_estimateFee :: "BroadcastedTxn list \<Rightarrow> SimulationFlagForEstimateFee list \<Rightarrow> BlockId \<Rightarrow> ('s, FeeEstimate list, rpc_error) io"
  rpc_estimateMessageFee :: "MsgFromL1 \<Rightarrow> BlockId \<Rightarrow> ('s, FeeEstimate, rpc_error) io"
  rpc_getBlockTransactionCount :: "BlockId \<Rightarrow> ('s, GetBlockTransactionCountResult, rpc_error) io"
  rpc_getBlockWithReceipts :: "BlockId \<Rightarrow> ('s, GetBlockWithReceiptsResult, rpc_error) io"
  rpc_getBlockWithTxHashes :: "BlockId \<Rightarrow> ('s, GetBlockWithTxHashesResult, rpc_error) io"
  rpc_getBlockWithTxs :: "BlockId \<Rightarrow> ('s, GetBlockWithTxsResult, rpc_error) io"
  rpc_getClass :: "BlockId \<Rightarrow> Felt \<Rightarrow> ('s, GetClassResult, rpc_error) io"
  rpc_getClassAt :: "BlockId \<Rightarrow> Address \<Rightarrow> ('s, GetClassAtResult, rpc_error) io"
  rpc_getClassHashAt :: "BlockId \<Rightarrow> Address \<Rightarrow> ('s, Felt, rpc_error) io"
  rpc_getEvents :: "GetEventsFilter \<Rightarrow> ('s, EventsChunk, rpc_error) io"
  rpc_getNonce :: "BlockId \<Rightarrow> Address \<Rightarrow> ('s, Felt, rpc_error) io"
  rpc_getStateUpdate :: "BlockId \<Rightarrow> ('s, GetStateUpdateResult, rpc_error) io"
  rpc_getStorageAt :: "Address \<Rightarrow> StorageKey \<Rightarrow> BlockId \<Rightarrow> ('s, Felt, rpc_error) io"
  rpc_getTransactionByBlockIdAndIndex :: "BlockId \<Rightarrow> GetTransactionByBlockIdAndIndexIndex \<Rightarrow> ('s, GetTransactionByBlockIdAndIndexResult, rpc_error) io"
  rpc_getTransactionByHash :: "TxnHash \<Rightarrow> ('s, GetTransactionByHashResult, rpc_error) io"
  rpc_getTransactionReceipt :: "TxnHash \<Rightarrow> ('s, TxnReceiptWithBlockInfo, rpc_error) io"
  rpc_getTransactionStatus :: "TxnHash \<Rightarrow> ('s, GetTransactionStatusResult, rpc_error) io"
  rpc_simulateTransactions :: "BlockId \<Rightarrow> BroadcastedTxn list \<Rightarrow> SimulationFlag list \<Rightarrow> ('s, SimulatedTransaction list, rpc_error) io"
  rpc_specVersion :: "('s, string, rpc_error) io"
  rpc_syncing :: "('s, SyncingResult, rpc_error) io"
  rpc_traceBlockTransactions :: "BlockId \<Rightarrow> ('s, BlockTransactionTrace list, rpc_error) io"
  rpc_traceTransaction :: "TxnHash \<Rightarrow> ('s, TransactionTrace, rpc_error) io"

record 's BlockingRpc =
  blocking_getProof :: "BlockId \<Rightarrow> Address \<Rightarrow> StorageKey list \<Rightarrow> ('s, GetProofResult, rpc_error) io"
  blocking_getTxStatus :: "TxnHash \<Rightarrow> ('s, TxGatewayStatus, rpc_error) io"
  blocking_version :: "('s, string, rpc_error) io"
  blocking_addDeclareTransaction :: "BroadcastedDeclareTxn \<Rightarrow> ('s, AddDeclareTransactionResult, rpc_error) io"
  blocking_addDeployAccountTransaction :: "BroadcastedDeployAccountTxn \<Rightarrow> ('s, AddDeployAccountTransactionResult, rpc_error) io"
  blocking_addInvokeTransaction :: "BroadcastedInvokeTxn \<Rightarrow> ('s, AddInvokeTransactionResult, rpc_error) io"
  blocking_blockHashAndNumber :: "('s, BlockHashAndNumberResult, rpc_error) io"
  blocking_blockNumber :: "('s, BlockNumber, rpc_error) io"
  blocking_call :: "FunctionCall \<Rightarrow> BlockId \<Rightarrow> ('s, Felt list, rpc_error) io"
  blocking_chainId :: "('s, ChainId, rpc_error) io"
  blocking_estimateFee :: "BroadcastedTxn list \<Rightarrow> SimulationFlagForEstimateFee list \<Rightarrow> BlockId \<Rightarrow> ('s, FeeEstimate list, rpc_error) io"
  blocking_estimateMessageFee :: "MsgFromL1 \<Rightarrow> BlockId \<Rightarrow> ('s, FeeEstimate, rpc_error) io"
  blocking_getBlockTransactionCount :: "BlockId \<Rightarrow> ('s, GetBlockTransactionCountResult, rpc_error) io"
  blocking_getBlockWithReceipts :: "BlockId \<Rightarrow> ('s, GetBlockWithReceiptsResult, rpc_error) io"
  blocking_getBlockWithTxHashes :: "BlockId \<Rightarrow> ('s, GetBlockWithTxHashesResult, rpc_error) io"
  blocking_getBlockWithTxs :: "BlockId \<Rightarrow> ('s, GetBlockWithTxsResult, rpc_error) io"
  blocking_getClass :: "BlockId \<Rightarrow> Felt \<Rightarrow> ('s, GetClassResult, rpc_error) io"
  blocking_getClassAt :: "BlockId \<Rightarrow> Address \<Rightarrow> ('s, GetClassAtResult, rpc_error) io"
  blocking_getClassHashAt :: "BlockId \<Rightarrow> Address \<Rightarrow> ('s, Felt, rpc_error) io"
  blocking_getEvents :: "GetEventsFilter \<Rightarrow> ('s, EventsChunk, rpc_error) io"
  blocking_getNonce :: "BlockId \<Rightarrow> Address \<Rightarrow> ('s, Felt, rpc_error) io"
  blocking_getStateUpdate :: "BlockId \<Rightarrow> ('s, GetStateUpdateResult, rpc_error) io"
  blocking_getStorageAt :: "Address \<Rightarrow> StorageKey \<Rightarrow> BlockId \<Rightarrow> ('s, Felt, rpc_error) io"
  blocking_getTransactionByBlockIdAndIndex :: "BlockId \<Rightarrow> GetTransactionByBlockIdAndIndexIndex \<Rightarrow> ('s, GetTransactionByBlockIdAndIndexResult, rpc_error) io"
  blocking_getTransactionByHash :: "TxnHash \<Rightarrow> ('s, GetTransactionByHashResult, rpc_error) io"
  blocking_getTransactionReceipt :: "TxnHash \<Rightarrow> ('s, TxnReceiptWithBlockInfo, rpc_error) io"
  blocking_getTransactionStatus :: "TxnHash \<Rightarrow> ('s, GetTransactionStatusResult, rpc_error) io"
  blocking_simulateTransactions :: "BlockId \<Rightarrow> BroadcastedTxn list \<Rightarrow> SimulationFlag list \<Rightarrow> ('s, SimulatedTransaction list, rpc_error) io"
  blocking_specVersion :: "('s, string, rpc_error) io"
  blocking_syncing :: "('s, SyncingResult, rpc_error) io"
  blocking_traceBlockTransactions :: "BlockId \<Rightarrow> ('s, BlockTransactionTrace list, rpc_error) io"
  blocking_traceTransaction :: "TxnHash \<Rightarrow> ('s, TransactionTrace, rpc_error) io"

text \<open>The same implementation behind the blocking trait.\<close>

definition blocking_of :: "'s Rpc \<Rightarrow> 's BlockingRpc" where
  "blocking_of R = \<lparr>
     blocking_getProof = rpc_getProof R,
     blocking_getTxStatus = rpc_getTxStatus R,
     blocking_version = rpc_version R,
     blocking_addDeclareTransaction = rpc_addDeclareTransaction R,
     blocking_addDeployAccountTransaction = rpc_addDeployAccountTransaction R,
     blocking_addInvokeTransaction = rpc_addInvokeTransaction R,
     blocking_blockHashAndNumber = rpc_blockHashAndNumber R,
     blocking_blockNumber = rpc_blockNumber R,
     blocking_call = rpc_call R,
     blocking_chainId = rpc_chainId R,
     blocking_estimateFee = rpc_estimateFee R,
     blocking_estimateMessageFee = rpc_estimateMessageFee R,
     blocking_getBlockTransactionCount = rpc_getBlockTransactionCount R,
     blocking_getBlockWithReceipts = rpc_getBlockWithReceipts R,
     blocking_getBlockWithTxHashes = rpc_getBlockWithTxHashes R,
     blocking_getBlockWithTxs = rpc_getBlockWithTxs R,
     blocking_getClass = rpc_getClass R,
     blocking_getClassAt = rpc_getClassAt R,
     blocking_getClassHashAt = rpc_getClassHashAt R,
     blocking_getEvents = rpc_getEvents R,
     blocking_getNonce = rpc_getNonce R,
     blocking_getStateUpdate = rpc_getStateUpdate R,
     blocking_getStorageAt = rpc_getStorageAt R,
     blocking_getTransactionByBlockIdAndIndex = rpc_getTransactionByBlockIdAndIndex R,
     blocking_getTransactionByHash = rpc_getTransactionByHash R,
     blocking_getTransactionReceipt = rpc_getTransactionReceipt R,
     blocking_getTransactionStatus = rpc_getTransactionStatus R,
     blocking_simulateTransactions = rpc_simulateTransactions R,
     blocking_specVersion = rpc_specVersion R,
     blocking_syncing = rpc_syncing R,
     blocking_traceBlockTransactions = rpc_traceBlockTransactions R,
     blocking_traceTransaction = rpc_traceTransaction R\<rparr>"

lemma blocking_of_fields [simp]:
  "blocking_getProof (blocking_of R) = rpc_getProof R"
  "blocking_getTxStatus (blocking_of R) = rpc_getTxStatus R"
  "blocking_version (blocking_of R) = rpc_version R"
  "blocking_addDeclareTransaction (blocking_of R) = rpc_addDeclareTransaction R"
  "blocking_addDeployAccountTransaction (blocking_of R) = rpc_addDeployAccountTransaction R"
  "blocking_addInvokeTransaction (blocking_of R) = rpc_addInvokeTransaction R"
  "blocking_blockHashAndNumber (blocking_of R) = rpc_blockHashAndNumber R"
  "blocking_blockNumber (blocking_of R) = rpc_blockNumber R"
  "blocking_call (blocking_of R) = rpc_call R"
  "blocking_chainId (blocking_of R) = rpc_chainId R"
  "blocking_estimateFee (blocking_of R) = rpc_estimateFee R"
  "blocking_estimateMessageFee (blocking_of R) = rpc_estimateMessageFee R"
  "blocking_getBlockTransactionCount (blocking_of R) = rpc_getBlockTransactionCount R"
  "blocking_getBlockWithReceipts (blocking_of R) = rpc_getBlockWithReceipts R"
  "blocking_getBlockWithTxHashes (blocking_of R) = rpc_getBlockWithTxHashes R"
  "blocking_getBlockWithTxs (blocking_of R) = rpc_getBlockWithTxs R"
  "blocking_getClass (blocking_of R) = rpc_getClass R"
  "blocking_getClassAt (blocking_of R) = rpc_getClassAt R"
  "blocking_getClassHashAt (blocking_of R) = rpc_getClassHashAt R"
  "blocking_getEvents (blocking_of R) = rpc_getEvents R"
  "blocking_getNonce (blocking_of R) = rpc_getNonce R"
  "blocking_getStateUpdate (blocking_of R) = rpc_getStateUpdate R"
  "blocking_getStorageAt (blocking_of R) = rpc_getStorageAt R"
  "blocking_getTransactionByBlockIdAndIndex (blocking_of R) = rpc_getTransactionByBlockIdAndIndex R"
  "blocking_getTransactionByHash (blocking_of R) = rpc_getTransactionByHash R"
  "blocking_getTransactionReceipt (blocking_of R) = rpc_getTransactionReceipt R"
  "blocking_getTransactionStatus (blocking_of R) = rpc_getTransactionStatus R"
  "blocking_simulateTransactions (blocking_of R) = rpc_simulateTransactions R"
  "blocking_specVersion (blocking_of R) = rpc_specVersion R"
  "blocking_syncing (blocking_of R) = rpc_syncing R"
  "blocking_traceBlockTransactions (blocking_of R) = rpc_traceBlockTransactions R"
  "blocking_traceTransaction (blocking_of R) = rpc_traceTransaction R"
  by (simp_all add: blocking_of_def)

section \<open>Conversions of arguments and results\<close>

record ('v, 'a, 'r) method_codec =
  args_by_name :: "'v \<Rightarrow> 'a option"
  args_by_pos :: "'v \<Rightarrow> 'a option"
  args_to_value :: "'a \<Rightarrow> ('v, string) outcome"
  ret_to_value :: "'r \<Rightarrow> ('v, string) outcome"
  ret_from_value :: "'v \<Rightarrow> ('r, string) outcome"

record 'v codecs =
  null_value :: 'v
  empty_array :: 'v
  getProof_codec :: "('v, BlockId \<times> Address \<times> StorageKey list, GetProofResult) method_codec"
  getTxStatus_codec :: "('v, TxnHash, TxGatewayStatus) method_codec"
  version_codec :: "('v, unit, string) method_codec"
  addDeclareTransaction_codec :: "('v, BroadcastedDeclareTxn, AddDeclareTransactionResult) method_codec"
  addDeployAccountTransaction_codec :: "('v, BroadcastedDeployAccountTxn, AddDeployAccountTransactionResult) method_codec"
  addInvokeTransaction_codec :: "('v, BroadcastedInvokeTxn, AddInvokeTransactionResult) method_codec"
  blockHashAndNumber_codec :: "('v, unit, BlockHashAndNumberResult) method_codec"
  blockNumber_codec :: "('v, unit, BlockNumber) method_codec"
  call_codec :: "('v, FunctionCall \<times> BlockId, Felt list) method_codec"
  chainId_codec :: "('v, unit, ChainId) method_codec"
  estimateFee_codec :: "('v, BroadcastedTxn list \<times> SimulationFlagForEstimateFee list \<times> BlockId, FeeEstimate list) method_codec"
  estimateMessageFee_codec :: "('v, MsgFromL1 \<times> BlockId, FeeEstimate) method_codec"
  getBlockTransactionCount_codec :: "('v, BlockId, GetBlockTransactionCountResult) method_codec"
  getBlockWithReceipts_codec :: "('v, BlockId, GetBlockWithReceiptsResult) method_codec"
  getBlockWithTxHashes_codec :: "('v, BlockId, GetBlockWithTxHashesResult) method_codec"
  getBlockWithTxs_codec :: "('v, BlockId, GetBlockWithTxsResult) method_codec"
  getClass_codec :: "('v, BlockId \<times> Felt, GetClassResult) method_codec"
  getClassAt_codec :: "('v, BlockId \<times> Address, GetClassAtResult) method_codec"
  getClassHashAt_codec :: "('v, BlockId \<times> Address, Felt) method_codec"
  getEvents_codec :: "('v, GetEventsFilter, EventsChunk) method_codec"
  getNonce_codec :: "('v, BlockId \<times> Address, Felt) method_codec"
  getStateUpdate_codec :: "('v, BlockId, GetStateUpdateResult) method_codec"
  getStorageAt_codec :: "('v, Address \<times> StorageKey \<times> BlockId, Felt) method_codec"
  getTransactionByBlockIdAndIndex_codec :: "('v, BlockId \<times> GetTransactionByBlockIdAndIndexIndex, GetTransactionByBlockIdAndIndexResult) method_codec"
  getTransactionByHash_codec :: "('v, TxnHash, GetTransactionByHashResult) method_codec"
  getTransactionReceipt_codec :: "('v, TxnHash, TxnReceiptWithBlockInfo) method_codec"
  getTransactionStatus_codec :: "('v, TxnHash, GetTransactionStatusResult) method_codec"
  simulateTransactions_codec :: "('v, BlockId \<times> BroadcastedTxn list \<times> SimulationFlag list, SimulatedTransaction list) method_codec"
  specVersion_codec :: "('v, unit, string) method_codec"
  syncing_codec :: "('v, unit, SyncingResult) method_codec"
  traceBlockTransactions_codec :: "('v, BlockId, BlockTransactionTrace list) method_codec"
  traceTransaction_codec :: "('v, TxnHash, TransactionTrace) method_codec"

text \<open>\<open>from_value::<ArgByName>(params).or_else(|_| from_value::<ArgByPos>(params))\<close>.\<close>

definition decode_args :: "('v, 'a, 'r) method_codec \<Rightarrow> 'v \<Rightarrow> 'a option" where
  "decode_args C params = (case args_by_name C params of
     Some args \<Rightarrow> Some args | None \<Rightarrow> args_by_pos C params)"

end
