(* ===== verification/Dispatch.thy ===== *)
theory Dispatch
  imports RpcTrait
begin

text \<open>
  The server side of \<open>src/src/gen.rs\<close>: one handler per method and \<open>handle\<close>, which picks
  the handler by the method's name and puts the request's id on the response. The 25
  handlers with arguments have one body, here \<open>handle_args\<close>: arguments by name, else by
  position, else -32602; the 7 without have \<open>handle_no_args\<close>, which ignores the
  parameters. They differ in the error they give when the result cannot be encoded.
\<close>

section \<open>The two bodies\<close>

definition respond ::
  "(string \<Rightarrow> 'v rpc_response) \<Rightarrow> ('v, 'a, 'r) method_codec \<Rightarrow> ('s, 'r, rpc_error) io
     \<Rightarrow> ('s, 'v rpc_response, rpc_error) io" where
  "respond bad C m = (\<lambda>s. case m s of
     (Ok ret, s') \<Rightarrow> (case ret_to_value C ret of
         Ok v \<Rightarrow> (Ok (response_result v), s')
       | Err e \<Rightarrow> (Ok (bad e), s')
       | Panicked \<Rightarrow> (Panicked, s'))
   | (Err e, s') \<Rightarrow> (Ok (response_error (code e) (message e)), s')
   | (Panicked, s') \<Rightarrow> (Panicked, s'))"

definition handle_args ::
  "('v, 'a, 'r) method_codec \<Rightarrow> ('a \<Rightarrow> ('s, 'r, rpc_error) io) \<Rightarrow> 'v \<Rightarrow> ('s, 'v rpc_response, rpc_error) io" where
  "handle_args C method params = (case decode_args C params of
     None \<Rightarrow> io_lift (Ok (response_error (- 32602) ''Invalid params''))
   | Some args \<Rightarrow> respond (\<lambda>_. response_error (- 32603) ''Internal error'') C (method args))"

definition handle_no_args ::
  "('v, 'a, 'r) method_codec \<Rightarrow> ('s, 'r, rpc_error) io \<Rightarrow> ('s, 'v rpc_response, rpc_error) io" where
  "handle_no_args C method = respond (\<lambda>e. response_error 1003 e) C method"

section \<open>The handlers\<close>

definition handle_getProof :: "'s Rpc \<Rightarrow> 'v codecs \<Rightarrow> 'v \<Rightarrow> ('s, 'v rpc_response, rpc_error) io" where
  "handle_getProof R C params =
     handle_args (getProof_codec C) (\<lambda>(block_id, contract_address, keys). rpc_getProof R block_id contract_address keys) params"

definition handle_getTxStatus :: "'s Rpc \<Rightarrow> 'v codecs \<Rightarrow> 'v \<Rightarrow> ('s, 'v rpc_response, rpc_error) io" where
  "handle_getTxStatus R C params =
     handle_args (getTxStatus_codec C) (\<lambda>transaction_hash. rpc_getTxStatus R transaction_hash) params"

definition handle_version :: "'s Rpc \<Rightarrow> 'v codecs \<Rightarrow> 'v \<Rightarrow> ('s, 'v rpc_response, rpc_error) io" where
  "handle_version R C params = handle_no_args (version_codec C) (rpc_version R)"

definition handle_addDeclareTransaction :: "'s Rpc \<Rightarrow> 'v codecs \<Rightarrow> 'v \<Rightarrow> ('s, 'v rpc_response, rpc_error) io" where
  "handle_addDeclareTransaction R C params =
     handle_args (addDeclareTransaction_codec C) (\<lambda>declare_transaction. rpc_addDeclareTransaction R declare_transaction) params"

definition handle_addDeployAccountTransaction :: "'s Rpc \<Rightarrow> 'v codecs \<Rightarrow> 'v \<Rightarrow> ('s, 'v rpc_response, rpc_error) io" where
  "handle_addDeployAccountTransaction R C params =
     handle_args (addDeployAccountTransaction_codec C) (\<lambda>deploy_account_transaction. rpc_addDeployAccountTransaction R deploy_account_transaction) params"

definition handle_addInvokeTransaction :: "'s Rpc \<Rightarrow> 'v codecs \<Rightarrow> 'v \<Rightarrow> ('s, 'v rpc_response, rpc_error) io" where
  "handle_addInvokeTransaction R C params =
     handle_args (addInvokeTransaction_codec C) (\<lambda>invoke_transaction. rpc_addInvokeTransaction R invoke_transaction) params"

definition handle_blockHashAndNumber :: "'s Rpc \<Rightarrow> 'v codecs \<Rightarrow> 'v \<Rightarrow> ('s, 'v rpc_response, rpc_error) io" where
  "handle_blockHashAndNumber R C params = handle_no_args (blockHashAndNumber_codec C) (rpc_blockHashAndNumber R)"

definition handle_blockNumber :: "'s Rpc \<Rightarrow> 'v codecs \<Rightarrow> 'v \<Rightarrow> ('s, 'v rpc_response, rpc_error) io" where
  "handle_blockNumber R C params = handle_no_args (blockNumber_codec C) (rpc_blockNumber R)"

definition handle_call :: "'s Rpc \<Rightarrow> 'v codecs \<Rightarrow> 'v \<Rightarrow> ('s, 'v rpc_response, rpc_error) io" where
  "handle_call R C params =
     handle_args (call_codec C) (\<lambda>(request, block_id). rpc_call R request block_id) params"

definition handle_chainId :: "'s Rpc \<Rightarrow> 'v codecs \<Rightarrow> 'v \<Rightarrow> ('s, 'v rpc_response, rpc_error) io" where
  "handle_chainId R C params = handle_no_args (chainId_codec C) (rpc_chainId R)"

definition handle_estimateFee :: "'s Rpc \<Rightarrow> 'v codecs \<Rightarrow> 'v \<Rightarrow> ('s, 'v rpc_response, rpc_error) io" where
  "handle_estimateFee R C params =
     handle_args (estimateFee_codec C) (\<lambda>(request, simulation_flags, block_id). rpc_estimateFee R request simulation_flags block_id) params"

definition handle_estimateMessageFee :: "'s Rpc \<Rightarrow> 'v codecs \<Rightarrow> 'v \<Rightarrow> ('s, 'v rpc_response, rpc_error) io" where
  "handle_estimateMessageFee R C params =
     handle_args (estimateMessageFee_codec C) (\<lambda>(msg, block_id). rpc_estimateMessageFee R msg block_id) params"

definition handle_getBlockTransactionCount :: "'s Rpc \<Rightarrow> 'v codecs \<Rightarrow> 'v \<Rightarrow> ('s, 'v rpc_response, rpc_error) io" where
  "handle_getBlockTransactionCount R C params =
     handle_args (getBlockTransactionCount_codec C) (\<lambda>block_id. rpc_getBlockTransactionCount R block_id) params"

definition handle_getBlockWithReceipts :: "'s Rpc \<Rightarrow> 'v codecs \<Rightarrow> 'v \<Rightarrow> ('s, 'v rpc_response, rpc_error) io" where
  "handle_getBlockWithReceipts R C params =
     handle_args (getBlockWithReceipts_codec C) (\<lambda>block_id. rpc_getBlockWithReceipts R block_id) params"

definition handle_getBlockWithTxHashes :: "'s Rpc \<Rightarrow> 'v codecs \<Rightarrow> 'v \<Rightarrow> ('s, 'v rpc_response, rpc_error) io" where
  "handle_getBlockWithTxHashes R C params =
     handle_args (getBlockWithTxHashes_codec C) (\<lambda>block_id. rpc_getBlockWithTxHashes R block_id) params"

definition handle_getBlockWithTxs :: "'s Rpc \<Rightarrow> 'v codecs \<Rightarrow> 'v \<Rightarrow> ('s, 'v rpc_response, rpc_error) io" where
  "handle_getBlockWithTxs R C params =
     handle_args (getBlockWithTxs_codec C) (\<lambda>block_id. rpc_getBlockWithTxs R block_id) params"

definition handle_getClass :: "'s Rpc \<Rightarrow> 'v codecs \<Rightarrow> 'v \<Rightarrow> ('s, 'v rpc_response, rpc_error) io" where
  "handle_getClass R C params =
     handle_args (getClass_codec C) (\<lambda>(block_id, class_hash). rpc_getClass R block_id class_hash) params"

definition handle_getClassAt :: "'s Rpc \<Rightarrow> 'v codecs \<Rightarrow> 'v \<Rightarrow> ('s, 'v rpc_response, rpc_error) io" where
  "handle_getClassAt R C params =
     handle_args (getClassAt_codec C) (\<lambda>(block_id, contract_address). rpc_getClassAt R block_id contract_address) params"

definition handle_getClassHashAt :: "'s Rpc \<Rightarrow> 'v codecs \<Rightarrow> 'v \<Rightarrow> ('s, 'v rpc_response, rpc_error) io" where
  "handle_getClassHashAt R C params =
     handle_args (getClassHashAt_codec C) (\<lambda>(block_id, contract_address). rpc_getClassHashAt R block_id contract_address) params"

definition handle_getEvents :: "'s Rpc \<Rightarrow> 'v codecs \<Rightarrow> 'v \<Rightarrow> ('s, 'v rpc_response, rpc_error) io" where
  "handle_getEvents R C params =
     handle_args (getEvents_codec C) (\<lambda>events_filter. rpc_getEvents R events_filter) params"

definition handle_getNonce :: "'s Rpc \<Rightarrow> 'v codecs \<Rightarrow> 'v \<Rightarrow> ('s, 'v rpc_response, rpc_error) io" where
  "handle_getNonce R C params =
     handle_args (getNonce_codec C) (\<lambda>(block_id, contract_address). rpc_getNonce R block_id contract_address) params"

definition handle_getStateUpdate :: "'s Rpc \<Rightarrow> 'v codecs \<Rightarrow> 'v \<Rightarrow> ('s, 'v rpc_response, rpc_error) io" where
  "handle_getStateUpdate R C params =
     handle_args (getStateUpdate_codec C) (\<lambda>block_id. rpc_getStateUpdate R block_id) params"

definition handle_getStorageAt :: "'s Rpc \<Rightarrow> 'v codecs \<Rightarrow> 'v \<Rightarrow> ('s, 'v rpc_response, rpc_error) io" where
  "handle_getStorageAt R C params =
     handle_args (getStorageAt_codec C) (\<lambda>(contract_address, key, block_id). rpc_getStorageAt R contract_address key block_id) params"

definition handle_getTransactionByBlockIdAndIndex :: "'s Rpc \<Rightarrow> 'v codecs \<Rightarrow> 'v \<Rightarrow> ('s, 'v rpc_response, rpc_error) io" where
  "handle_getTransactionByBlockIdAndIndex R C params =
     handle_args (getTransactionByBlockIdAndIndex_codec C) (\<lambda>(block_id, index). rpc_getTransactionByBlockIdAndIndex R block_id index) params"

definition handle_getTransactionByHash :: "'s Rpc \<Rightarrow> 'v codecs \<Rightarrow> 'v \<Rightarrow> ('s, 'v rpc_response, rpc_error) io" where
  "handle_getTransactionByHash R C params =
     handle_args (getTransactionByHash_codec C) (\<lambda>transaction_hash. rpc_getTransactionByHash R transaction_hash) params"

definition handle_getTransactionReceipt :: "'s Rpc \<Rightarrow> 'v codecs \<Rightarrow> 'v \<Rightarrow> ('s, 'v rpc_response, rpc_error) io" where
  "handle_getTransactionReceipt R C params =
     handle_args (getTransactionReceipt_codec C) (\<lambda>transaction_hash. rpc_getTransactionReceipt R transaction_hash) params"

definition handle_getTransactionStatus :: "'s Rpc \<Rightarrow> 'v codecs \<Rightarrow> 'v \<Rightarrow> ('s, 'v rpc_response, rpc_error) io" where
  "handle_getTransactionStatus R C params =
     handle_args (getTransactionStatus_codec C) (\<lambda>transaction_hash. rpc_getTransactionStatus R transaction_hash) params"

definition handle_simulateTransactions :: "'s Rpc \<Rightarrow> 'v codecs \<Rightarrow> 'v \<Rightarrow> ('s, 'v rpc_response, rpc_error) io" where
  "handle_simulateTransactions R C params =
     handle_args (simulateTransactions_codec C) (\<lambda>(block_id, transactions, simulation_flags). rpc_simulateTransactions R block_id transactions simulation_flags) params"

definition handle_specVersion :: "'s Rpc \<Rightarrow> 'v codecs \<Rightarrow> 'v \<Rightarrow> ('s, 'v rpc_response, rpc_error) io" where
  "handle_specVersion R C params = handle_no_args (specVersion_codec C) (rpc_specVersion R)"

definition handle_syncing :: "'s Rpc \<Rightarrow> 'v codecs \<Rightarrow> 'v \<Rightarrow> ('s, 'v rpc_response, rpc_error) io" where
  "handle_syncing R C params = handle_no_args (syncing_codec C) (rpc_syncing R)"

definition handle_traceBlockTransactions :: "'s Rpc \<Rightarrow> 'v codecs \<Rightarrow> 'v \<Rightarrow> ('s, 'v rpc_response, rpc_error) io" where
  "handle_traceBlockTransactions R C params =
     handle_args (traceBlockTransactions_codec C) (\<lambda>block_id. rpc_traceBlockTransactions R block_id) params"

definition handle_traceTransaction :: "'s Rpc \<Rightarrow> 'v codecs \<Rightarrow> 'v \<Rightarrow> ('s, 'v rpc_response, rpc_error) io" where
  "handle_traceTransaction R C params =
     handle_args (traceTransaction_codec C) (\<lambda>transaction_hash. rpc_traceTransaction R transaction_hash) params"

definition handle_method :: "'s Rpc \<Rightarrow> 'v codecs \<Rightarrow> string \<Rightarrow> 'v \<Rightarrow> ('s, 'v rpc_response, rpc_error) io" where
  "handle_method R C method params =
     (if method = ''pathfinder_getProof'' then handle_getProof R C params
      else if method = ''pathfinder_getTxStatus'' then handle_getTxStatus R C params
      else if method = ''pathfinder_version'' then handle_version R C params
      else if method = ''starknet_addDeclareTransaction'' then handle_addDeclareTransaction R C params
      else if method = ''starknet_addDeployAccountTransaction'' then handle_addDeployAccountTransaction R C params
      else if method = ''starknet_addInvokeTransaction'' then handle_addInvokeTransaction R C params
      else if method = ''starknet_blockHashAndNumber'' then handle_blockHashAndNumber R C params
      else if method = ''starknet_blockNumber'' then handle_blockNumber R C params
      else if method = ''starknet_call'' then handle_call R C params
      else if method = ''starknet_chainId'' then handle_chainId R C params
      else if method = ''starknet_estimateFee'' then handle_estimateFee R C params
      else if method = ''starknet_estimateMessageFee'' then handle_estimateMessageFee R C params
      else if method = ''starknet_getBlockTransactionCount'' then handle_getBlockTransactionCount R C params
      else if method = ''starknet_getBlockWithReceipts'' then handle_getBlockWithReceipts R C params
      else if method = ''starknet_getBlockWithTxHashes'' then handle_getBlockWithTxHashes R C params
      else if method = ''starknet_getBlockWithTxs'' then handle_getBlockWithTxs R C params
      else if method = ''starknet_getClass'' then handle_getClass R C params
      else if method = ''starknet_getClassAt'' then handle_getClassAt R C params
      else if method = ''starknet_getClassHashAt'' then handle_getClassHashAt R C params
      else if method = ''starknet_getEvents'' then handle_getEvents R C params
      else if method = ''starknet_getNonce'' then handle_getNonce R C params
      else if method = ''starknet_getStateUpdate'' then handle_getStateUpdate R C params
      else if method = ''starknet_getStorageAt'' then handle_getStorageAt R C params
      else if method = ''starknet_getTransactionByBlockIdAndIndex'' then handle_getTransactionByBlockIdAndIndex R C params
      else if method = ''starknet_getTransactionByHash'' then handle_getTransactionByHash R C params
      else if method = ''starknet_getTransactionReceipt'' then handle_getTransactionReceipt R C params
      else if method = ''starknet_getTransactionStatus'' then handle_getTransactionStatus R C params
      else if method = ''starknet_simulateTransactions'' then handle_simulateTransactions R C params
      else if method = ''starknet_specVersion'' then handle_specVersion R C params
      else if method = ''starknet_syncing'' then handle_syncing R C params
      else if method = ''starknet_traceBlockTransactions'' then handle_traceBlockTransactions R C params
      else if method = ''starknet_traceTransaction'' then handle_traceTransaction R C params
      else io_lift (Ok (response_error (- 32601) ''Method not found'')))"

definition handle :: "'s Rpc \<Rightarrow> 'v codecs \<Rightarrow> 'v rpc_request \<Rightarrow> ('s, 'v rpc_response, rpc_error) io" where
  "handle R C req =
     (let params = (case req_params req of Some v \<Rightarrow> v | None \<Rightarrow> null_value C) in
      io_bind (handle_method R C (req_method req) params) (\<lambda>response.
      io_lift (Ok (case req_id req of Some i \<Rightarrow> with_id response i | None \<Rightarrow> response))))"

lemmas handle_defs =
  handle_getProof_def
  handle_getTxStatus_def
  handle_version_def
  handle_addDeclareTransaction_def
  handle_addDeployAccountTransaction_def
  handle_addInvokeTransaction_def
  handle_blockHashAndNumber_def
  handle_blockNumber_def
  handle_call_def
  handle_chainId_def
  handle_estimateFee_def
  handle_estimateMessageFee_def
  handle_getBlockTransactionCount_def
  handle_getBlockWithReceipts_def
  handle_getBlockWithTxHashes_def
  handle_getBlockWithTxs_def
  handle_getClass_def
  handle_getClassAt_def
  handle_getClassHashAt_def
  handle_getEvents_def
  handle_getNonce_def
  handle_getStateUpdate_def
  handle_getStorageAt_def
  handle_getTransactionByBlockIdAndIndex_def
  handle_getTransactionByHash_def
  handle_getTransactionReceipt_def
  handle_getTransactionStatus_def
  handle_simulateTransactions_def
  handle_specVersion_def
  handle_syncing_def
  handle_traceBlockTransactions_def
  handle_traceTransaction_def

section \<open>The blocking handlers\<close>

definition blocking_handle_getProof :: "'s BlockingRpc \<Rightarrow> 'v codecs \<Rightarrow> 'v \<Rightarrow> ('s, 'v rpc_response, rpc_error) io" where
  "blocking_handle_getProof R C params =
     handle_args (getProof_codec C) (\<lambda>(block_id, contract_address, keys). blocking_getProof R block_id contract_address keys) params"

definition blocking_handle_getTxStatus :: "'s BlockingRpc \<Rightarrow> 'v codecs \<Rightarrow> 'v \<Rightarrow> ('s, 'v rpc_response, rpc_error) io" where
  "blocking_handle_getTxStatus R C params =
     handle_args (getTxStatus_codec C) (\<lambda>transaction_hash. blocking_getTxStatus R transaction_hash) params"

definition blocking_handle_version :: "'s BlockingRpc \<Rightarrow> 'v codecs \<Rightarrow> 'v \<Rightarrow> ('s, 'v rpc_response, rpc_error) io" where
  "blocking_handle_version R C params = handle_no_args (version_codec C) (blocking_version R)"

definition blocking_handle_addDeclareTransaction :: "'s BlockingRpc \<Rightarrow> 'v codecs \<Rightarrow> 'v \<Rightarrow> ('s, 'v rpc_response, rpc_error) io" where
  "blocking_handle_addDeclareTransaction R C params =
     handle_args (addDeclareTransaction_codec C) (\<lambda>declare_transaction. blocking_addDeclareTransaction R declare_transaction) params"

definition blocking_handle_addDeployAccountTransaction :: "'s BlockingRpc \<Rightarrow> 'v codecs \<Rightarrow> 'v \<Rightarrow> ('s, 'v rpc_response, rpc_error) io" where
  "blocking_handle_addDeployAccountTransaction R C params =
     handle_args (addDeployAccountTransaction_codec C) (\<lambda>deploy_account_transaction. blocking_addDeployAccountTransaction R deploy_account_transaction) params"

definition blocking_handle_addInvokeTransaction :: "'s BlockingRpc \<Rightarrow> 'v codecs \<Rightarrow> 'v \<Rightarrow> ('s, 'v rpc_response, rpc_error) io" where
  "blocking_handle_addInvokeTransaction R C params =
     handle_args (addInvokeTransaction_codec C) (\<lambda>invoke_transaction. blocking_addInvokeTransaction R invoke_transaction) params"

definition blocking_handle_blockHashAndNumber :: "'s BlockingRpc \<Rightarrow> 'v codecs \<Rightarrow> 'v \<Rightarrow> ('s, 'v rpc_response, rpc_error) io" where
  "blocking_handle_blockHashAndNumber R C params = handle_no_args (blockHashAndNumber_codec C) (blocking_blockHashAndNumber R)"

definition blocking_handle_blockNumber :: "'s BlockingRpc \<Rightarrow> 'v codecs \<Rightarrow> 'v \<Rightarrow> ('s, 'v rpc_response, rpc_error) io" where
  "blocking_handle_blockNumber R C params = handle_no_args (blockNumber_codec C) (blocking_blockNumber R)"

definition blocking_handle_call :: "'s BlockingRpc \<Rightarrow> 'v codecs \<Rightarrow> 'v \<Rightarrow> ('s, 'v rpc_response, rpc_error) io" where
  "blocking_handle_call R C params =
     handle_args (call_codec C) (\<lambda>(request, block_id). blocking_call R request block_id) params"

definition blocking_handle_chainId :: "'s BlockingRpc \<Rightarrow> 'v codecs \<Rightarrow> 'v \<Rightarrow> ('s, 'v rpc_response, rpc_error) io" where
  "blocking_handle_chainId R C params = handle_no_args (chainId_codec C) (blocking_chainId R)"

definition blocking_handle_estimateFee :: "'s BlockingRpc \<Rightarrow> 'v codecs \<Rightarrow> 'v \<Rightarrow> ('s, 'v rpc_response, rpc_error) io" where
  "blocking_handle_estimateFee R C params =
     handle_args (estimateFee_codec C) (\<lambda>(request, simulation_flags, block_id). blocking_estimateFee R request simulation_flags block_id) params"

definition blocking_handle_estimateMessageFee :: "'s BlockingRpc \<Rightarrow> 'v codecs \<Rightarrow> 'v \<Rightarrow> ('s, 'v rpc_response, rpc_error) io" where
  "blocking_handle_estimateMessageFee R C params =
     handle_args (estimateMessageFee_codec C) (\<lambda>(msg, block_id). blocking_estimateMessageFee R msg block_id) params"

definition blocking_handle_getBlockTransactionCount :: "'s BlockingRpc \<Rightarrow> 'v codecs \<Rightarrow> 'v \<Rightarrow> ('s, 'v rpc_response, rpc_error) io" where
  "blocking_handle_getBlockTransactionCount R C params =
     handle_args (getBlockTransactionCount_codec C) (\<lambda>block_id. blocking_getBlockTransactionCount R block_id) params"

definition blocking_handle_getBlockWithReceipts :: "'s BlockingRpc \<Rightarrow> 'v codecs \<Rightarrow> 'v \<Rightarrow> ('s, 'v rpc_response, rpc_error) io" where
  "blocking_handle_getBlockWithReceipts R C params =
     handle_args (getBlockWithReceipts_codec C) (\<lambda>block_id. blocking_getBlockWithReceipts R block_id) params"

definition blocking_handle_getBlockWithTxHashes :: "'s BlockingRpc \<Rightarrow> 'v codecs \<Rightarrow> 'v \<Rightarrow> ('s, 'v rpc_response, rpc_error) io" where
  "blocking_handle_getBlockWithTxHashes R C params =
     handle_args (getBlockWithTxHashes_codec C) (\<lambda>block_id. blocking_getBlockWithTxHashes R block_id) params"

definition blocking_handle_getBlockWithTxs :: "'s BlockingRpc \<Rightarrow> 'v codecs \<Rightarrow> 'v \<Rightarrow> ('s, 'v rpc_response, rpc_error) io" where
  "blocking_handle_getBlockWithTxs R C params =
     handle_args (getBlockWithTxs_codec C) (\<lambda>block_id. blocking_getBlockWithTxs R block_id) params"

definition blocking_handle_getClass :: "'s BlockingRpc \<Rightarrow> 'v codecs \<Rightarrow> 'v \<Rightarrow> ('s, 'v rpc_response, rpc_error) io" where
  "blocking_handle_getClass R C params =
     handle_args (getClass_codec C) (\<lambda>(block_id, class_hash). blocking_getClass R block_id class_hash) params"

definition blocking_handle_getClassAt :: "'s BlockingRpc \<Rightarrow> 'v codecs \<Rightarrow> 'v \<Rightarrow> ('s, 'v rpc_response, rpc_error) io" where
  "blocking_handle_getClassAt R C params =
     handle_args (getClassAt_codec C) (\<lambda>(block_id, contract_address). blocking_getClassAt R block_id contract_address) params"

definition blocking_handle_getClassHashAt :: "'s BlockingRpc \<Rightarrow> 'v codecs \<Rightarrow> 'v \<Rightarrow> ('s, 'v rpc_response, rpc_error) io" where
  "blocking_handle_getClassHashAt R C params =
     handle_args (getClassHashAt_codec C) (\<lambda>(block_id, contract_address). blocking_getClassHashAt R block_id contract_address) params"

definition blocking_handle_getEvents :: "'s BlockingRpc \<Rightarrow> 'v codecs \<Rightarrow> 'v \<Rightarrow> ('s, 'v rpc_response, rpc_error) io" where
  "blocking_handle_getEvents R C params =
     handle_args (getEvents_codec C) (\<lambda>events_filter. blocking_getEvents R events_filter) params"

definition blocking_handle_getNonce :: "'s BlockingRpc \<Rightarrow> 'v codecs \<Rightarrow> 'v \<Rightarrow> ('s, 'v rpc_response, rpc_error) io" where
  "blocking_handle_getNonce R C params =
     handle_args (getNonce_codec C) (\<lambda>(block_id, contract_address). blocking_getNonce R block_id contract_address) params"

definition blocking_handle_getStateUpdate :: "'s BlockingRpc \<Rightarrow> 'v codecs \<Rightarrow> 'v \<Rightarrow> ('s, 'v rpc_response, rpc_error) io" where
  "blocking_handle_getStateUpdate R C params =
     handle_args (getStateUpdate_codec C) (\<lambda>block_id. blocking_getStateUpdate R block_id) params"

definition blocking_handle_getStorageAt :: "'s BlockingRpc \<Rightarrow> 'v codecs \<Rightarrow> 'v \<Rightarrow> ('s, 'v rpc_response, rpc_error) io" where
  "blocking_handle_getStorageAt R C params =
     handle_args (getStorageAt_codec C) (\<lambda>(contract_address, key, block_id). blocking_getStorageAt R contract_address key block_id) params"

definition blocking_handle_getTransactionByBlockIdAndIndex :: "'s BlockingRpc \<Rightarrow> 'v codecs \<Rightarrow> 'v \<Rightarrow> ('s, 'v rpc_response, rpc_error) io" where
  "blocking_handle_getTransactionByBlockIdAndIndex R C params =
     handle_args (getTransactionByBlockIdAndIndex_codec C) (\<lambda>(block_id, index). blocking_getTransactionByBlockIdAndIndex R block_id index) params"

definition blocking_handle_getTransactionByHash :: "'s BlockingRpc \<Rightarrow> 'v codecs \<Rightarrow> 'v \<Rightarrow> ('s, 'v rpc_response, rpc_error) io" where
  "blocking_handle_getTransactionByHash R C params =
     handle_args (getTransactionByHash_codec C) (\<lambda>transaction_hash. blocking_getTransactionByHash R transaction_hash) params"

definition blocking_handle_getTransactionReceipt :: "'s BlockingRpc \<Rightarrow> 'v codecs \<Rightarrow> 'v \<Rightarrow> ('s, 'v rpc_response, rpc_error) io" where
  "blocking_handle_getTransactionReceipt R C params =
     handle_args (getTransactionReceipt_codec C) (\<lambda>transaction_hash. blocking_getTransactionReceipt R transaction_hash) params"

definition blocking_handle_getTransactionStatus :: "'s BlockingRpc \<Rightarrow> 'v codecs \<Rightarrow> 'v \<Rightarrow> ('s, 'v rpc_response, rpc_error) io" where
  "blocking_handle_getTransactionStatus R C params =
     handle_args (getTransactionStatus_codec C) (\<lambda>transaction_hash. blocking_getTransactionStatus R transaction_hash) params"

definition blocking_handle_simulateTransactions :: "'s BlockingRpc \<Rightarrow> 'v codecs \<Rightarrow> 'v \<Rightarrow> ('s, 'v rpc_response, rpc_error) io" where
  "blocking_handle_simulateTransactions R C params =
     handle_args (simulateTransactions_codec C) (\<lambda>(block_id, transactions, simulation_flags). blocking_simulateTransactions R block_id transactions simulation_flags) params"

definition blocking_handle_specVersion :: "'s BlockingRpc \<Rightarrow> 'v codecs \<Rightarrow> 'v \<Rightarrow> ('s, 'v rpc_response, rpc_error) io" where
  "blocking_handle_specVersion R C params = handle_no_args (specVersion_codec C) (blocking_specVersion R)"

definition blocking_handle_syncing :: "'s BlockingRpc \<Rightarrow> 'v codecs \<Rightarrow> 'v \<Rightarrow> ('s, 'v rpc_response, rpc_error) io" where
  "blocking_handle_syncing R C params = handle_no_args (syncing_codec C) (blocking_syncing R)"

definition blocking_handle_traceBlockTransactions :: "'s BlockingRpc \<Rightarrow> 'v codecs \<Rightarrow> 'v \<Rightarrow> ('s, 'v rpc_response, rpc_error) io" where
  "blocking_handle_traceBlockTransactions R C params =
     handle_args (traceBlockTransactions_codec C) (\<lambda>block_id. blocking_traceBlockTransactions R block_id) params"

definition blocking_handle_traceTransaction :: "'s BlockingRpc \<Rightarrow> 'v codecs \<Rightarrow> 'v \<Rightarrow> ('s, 'v rpc_response, rpc_error) io" where
  "blocking_handle_traceTransaction R C params =
     handle_args (traceTransaction_codec C) (\<lambda>transaction_hash. blocking_traceTransaction R transaction_hash) params"

definition blocking_handle_method :: "'s BlockingRpc \<Rightarrow> 'v codecs \<Rightarrow> string \<Rightarrow> 'v \<Rightarrow> ('s, 'v rpc_response, rpc_error) io" where
  "blocking_handle_method R C method params =
     (if method = ''pathfinder_getProof'' then blocking_handle_getProof R C params
      else if method = ''pathfinder_getTxStatus'' then blocking_handle_getTxStatus R C params
      else if method = ''pathfinder_version'' then blocking_handle_version R C params
      else if method = ''starknet_addDeclareTransaction'' then blocking_handle_addDeclareTransaction R C params
      else if method = ''starknet_addDeployAccountTransaction'' then blocking_handle_addDeployAccountTransaction R C params
      else if method = ''starknet_addInvokeTransaction'' then blocking_handle_addInvokeTransaction R C params
      else if method = ''starknet_blockHashAndNumber'' then blocking_handle_blockHashAndNumber R C params
      else if method = ''starknet_blockNumber'' then blocking_handle_blockNumber R C params
      else if method = ''starknet_call'' then blocking_handle_call R C params
      else if method = ''starknet_chainId'' then blocking_handle_chainId R C params
      else if method = ''starknet_estimateFee'' then blocking_handle_estimateFee R C params
      else if method = ''starknet_estimateMessageFee'' then blocking_handle_estimateMessageFee R C params
      else if method = ''starknet_getBlockTransactionCount'' then blocking_handle_getBlockTransactionCount R C params
      else if method = ''starknet_getBlockWithReceipts'' then blocking_handle_getBlockWithReceipts R C params
      else if method = ''starknet_getBlockWithTxHashes'' then blocking_handle_getBlockWithTxHashes R C params
      else if method = ''starknet_getBlockWithTxs'' then blocking_handle_getBlockWithTxs R C params
      else if method = ''starknet_getClass'' then blocking_handle_getClass R C params
      else if method = ''starknet_getClassAt'' then blocking_handle_getClassAt R C params
      else if method = ''starknet_getClassHashAt'' then blocking_handle_getClassHashAt R C params
      else if method = ''starknet_getEvents'' then blocking_handle_getEvents R C params
      else if method = ''starknet_getNonce'' then blocking_handle_getNonce R C params
      else if method = ''starknet_getStateUpdate'' then blocking_handle_getStateUpdate R C params
      else if method = ''starknet_getStorageAt'' then blocking_handle_getStorageAt R C params
      else if method = ''starknet_getTransactionByBlockIdAndIndex'' then blocking_handle_getTransactionByBlockIdAndIndex R C params
      else if method = ''starknet_getTransactionByHash'' then blocking_handle_getTransactionByHash R C params
      else if method = ''starknet_getTransactionReceipt'' then blocking_handle_getTransactionReceipt R C params
      else if method = ''starknet_getTransactionStatus'' then blocking_handle_getTransactionStatus R C params
      else if method = ''starknet_simulateTransactions'' then blocking_handle_simulateTransactions R C params
      else if method = ''starknet_specVersion'' then blocking_handle_specVersion R C params
      else if method = ''starknet_syncing'' then blocking_handle_syncing R C params
      else if method = ''starknet_traceBlockTransactions'' then blocking_handle_traceBlockTransactions R C params
      else if method = ''starknet_traceTransaction'' then blocking_handle_traceTransaction R C params
      else io_lift (Ok (response_error (- 32601) ''Method not found'')))"

definition blocking_handle :: "'s BlockingRpc \<Rightarrow> 'v codecs \<Rightarrow> 'v rpc_request \<Rightarrow> ('s, 'v rpc_response, rpc_error) io" where
  "blocking_handle R C req =
     (let params = (case req_params req of Some v \<Rightarrow> v | None \<Rightarrow> null_value C) in
      io_bind (blocking_handle_method R C (req_method req) params) (\<lambda>response.
      io_lift (Ok (case req_id req of Some i \<Rightarrow> with_id response i | None \<Rightarrow> response))))"

lemmas blocking_handle_defs =
  blocking_handle_getProof_def
  blocking_handle_getTxStatus_def
  blocking_handle_version_def
  blocking_handle_addDeclareTransaction_def
  blocking_handle_addDeployAccountTransaction_def
  blocking_handle_addInvokeTransaction_def
  blocking_handle_blockHashAndNumber_def
  blocking_handle_blockNumber_def
  blocking_handle_call_def
  blocking_handle_chainId_def
  blocking_handle_estimateFee_def
  blocking_handle_estimateMessageFee_def
  blocking_handle_getBlockTransactionCount_def
  blocking_handle_getBlockWithReceipts_def
  blocking_handle_getBlockWithTxHashes_def
  blocking_handle_getBlockWithTxs_def
  blocking_handle_getClass_def
  blocking_handle_getClassAt_def
  blocking_handle_getClassHashAt_def
  blocking_handle_getEvents_def
  blocking_handle_getNonce_def
  blocking_handle_getStateUpdate_def
  blocking_handle_getStorageAt_def
  blocking_handle_getTransactionByBlockIdAndIndex_def
  blocking_handle_getTransactionByHash_def
  blocking_handle_getTransactionReceipt_def
  blocking_handle_getTransactionStatus_def
  blocking_handle_simulateTransactions_def
  blocking_handle_specVersion_def
  blocking_handle_syncing_def
  blocking_handle_traceBlockTransactions_def
  blocking_handle_traceTransaction_def

section \<open>The method names\<close>

definition method_names :: "string list" where
  "method_names =
    [''pathfinder_getProof'',
     ''pathfinder_getTxStatus'',
     ''pathfinder_version'',
     ''starknet_addDeclareTransaction'',
     ''starknet_addDeployAccountTransaction'',
     ''starknet_addInvokeTransaction'',
     ''starknet_blockHashAndNumber'',
     ''starknet_blockNumber'',
     ''starknet_call'',
     ''starknet_chainId'',
     ''starknet_estimateFee'',
     ''starknet_estimateMessageFee'',
     ''starknet_getBlockTransactionCount'',
     ''starknet_getBlockWithReceipts'',
     ''starknet_getBlockWithTxHashes'',
     ''starknet_getBlockWithTxs'',
     ''starknet_getClass'',
     ''starknet_getClassAt'',
     ''starknet_getClassHashAt'',
     ''starknet_getEvents'',
     ''starknet_getNonce'',
     ''starknet_getStateUpdate'',
     ''starknet_getStorageAt'',
     ''starknet_getTransactionByBlockIdAndIndex'',
     ''starknet_getTransactionByHash'',
     ''starknet_getTransactionReceipt'',
     ''starknet_getTransactionStatus'',
     ''starknet_simulateTransactions'',
     ''starknet_specVersion'',
     ''starknet_syncing'',
     ''starknet_traceBlockTransactions'',
     ''starknet_traceTransaction'']"

lemma handle_method_simps:
  "handle_method R C ''pathfinder_getProof'' params = handle_getProof R C params"
  "handle_method R C ''pathfinder_getTxStatus'' params = handle_getTxStatus R C params"
  "handle_method R C ''pathfinder_version'' params = handle_version R C params"
  "handle_method R C ''starknet_addDeclareTransaction'' params = handle_addDeclareTransaction R C params"
  "handle_method R C ''starknet_addDeployAccountTransaction'' params = handle_addDeployAccountTransaction R C params"
  "handle_method R C ''starknet_addInvokeTransaction'' params = handle_addInvokeTransaction R C params"
  "handle_method R C ''starknet_blockHashAndNumber'' params = handle_blockHashAndNumber R C params"
  "handle_method R C ''starknet_blockNumber'' params = handle_blockNumber R C params"
  "handle_method R C ''starknet_call'' params = handle_call R C params"
  "handle_method R C ''starknet_chainId'' params = handle_chainId R C params"
  "handle_method R C ''starknet_estimateFee'' params = handle_estimateFee R C params"
  "handle_method R C ''starknet_estimateMessageFee'' params = handle_estimateMessageFee R C params"
  "handle_method R C ''starknet_getBlockTransactionCount'' params = handle_getBlockTransactionCount R C params"
  "handle_method R C ''starknet_getBlockWithReceipts'' params = handle_getBlockWithReceipts R C params"
  "handle_method R C ''starknet_getBlockWithTxHashes'' params = handle_getBlockWithTxHashes R C params"
  "handle_method R C ''starknet_getBlockWithTxs'' params = handle_getBlockWithTxs R C params"
  "handle_method R C ''starknet_getClass'' params = handle_getClass R C params"
  "handle_method R C ''starknet_getClassAt'' params = handle_getClassAt R C params"
  "handle_method R C ''starknet_getClassHashAt'' params = handle_getClassHashAt R C params"
  "handle_method R C ''starknet_getEvents'' params = handle_getEvents R C params"
  "handle_method R C ''starknet_getNonce'' params = handle_getNonce R C params"
  "handle_method R C ''starknet_getStateUpdate'' params = handle_getStateUpdate R C params"
  "handle_method R C ''starknet_getStorageAt'' params = handle_getStorageAt R C params"
  "handle_method R C ''starknet_getTransactionByBlockIdAndIndex'' params = handle_getTransactionByBlockIdAndIndex R C params"
  "handle_method R C ''starknet_getTransactionByHash'' params = handle_getTransactionByHash R C params"
  "handle_method R C ''starknet_getTransactionReceipt'' params = handle_getTransactionReceipt R C params"
  "handle_method R C ''starknet_getTransactionStatus'' params = handle_getTransactionStatus R C params"
  "handle_method R C ''starknet_simulateTransactions'' params = handle_simulateTransactions R C params"
  "handle_method R C ''starknet_specVersion'' params = handle_specVersion R C params"
  "handle_method R C ''starknet_syncing'' params = handle_syncing R C params"
  "handle_method R C ''starknet_traceBlockTransactions'' params = handle_traceBlockTransactions R C params"
  "handle_method R C ''starknet_traceTransaction'' params = handle_traceTransaction R C params"
  by (simp_all add: handle_method_def)

lemma handle_method_unknown:
  "method \<notin> set method_names \<Longrightarrow>
     handle_method R C method params = io_lift (Ok (response_error (- 32601) ''Method not found''))"
  by (simp add: handle_method_def method_names_def)

end
