(* ===== verification/GenClient.thy ===== *)
theory GenClient
  imports Dispatch
begin

text \<open>
  The client side of \<open>src/src/gen.rs\<close>: \<open>client::Client\<close> implements \<open>Rpc\<close> by posting a
  request to a URL through the \<open>HttpClient\<close> it is given, and \<open>client::blocking::Client\<close>
  implements the blocking trait. All methods have one body: encode the argument tuple (or
  send an empty array), post with id 1, and read the answer, whose error wins over its
  result.
\<close>

section \<open>The body of a call\<close>

type_synonym ('s, 'v) http_post = "string \<Rightarrow> 'v rpc_request \<Rightarrow> ('s, 'v rpc_response, rpc_error) io"

record ('s, 'v) StarknetClient =
  client_http :: "('s, 'v) http_post"
  client_url :: string

definition StarknetClient_new :: "string \<Rightarrow> ('s, 'v) http_post \<Rightarrow> ('s, 'v) StarknetClient" where
  "StarknetClient_new url http = \<lparr>client_http = http, client_url = url\<rparr>"

definition client_answer :: "('v, 'a, 'r) method_codec \<Rightarrow> 'v rpc_response \<Rightarrow> ('r, rpc_error) outcome" where
  "client_answer C res = (case res_error res of
     Some err \<Rightarrow> Err err
   | None \<Rightarrow> (case res_result res of
       Some v \<Rightarrow> map_err (\<lambda>e. rpc_err 5002 (''Invalid response object: '' @ e @ ''.'')) (ret_from_value C v)
     | None \<Rightarrow> Err (rpc_err 5003 ''Response missing'')))"

definition client_send ::
  "('s, 'v) http_post \<Rightarrow> string \<Rightarrow> ('v, 'a, 'r) method_codec \<Rightarrow> string \<Rightarrow> 'v \<Rightarrow> ('s, 'r, rpc_error) io" where
  "client_send http url C method params =
     io_bind (http url \<lparr>req_method = method, req_params = Some params, req_id = Some (NumberId 1)\<rparr>)
       (\<lambda>res. io_lift (client_answer C res))"

definition call_method ::
  "('s, 'v) http_post \<Rightarrow> string \<Rightarrow> ('v, 'a, 'r) method_codec \<Rightarrow> string \<Rightarrow> 'a \<Rightarrow> ('s, 'r, rpc_error) io" where
  "call_method http url C method args =
     io_bind (io_lift (map_err (\<lambda>e. rpc_err 4001 (''Invalid params: '' @ e @ ''.'')) (args_to_value C args)))
       (\<lambda>params. client_send http url C method params)"

section \<open>The methods\<close>

definition client_getProof ::
  "('s, 'v) StarknetClient \<Rightarrow> 'v codecs \<Rightarrow> BlockId \<Rightarrow> Address \<Rightarrow> StorageKey list \<Rightarrow> ('s, GetProofResult, rpc_error) io" where
  "client_getProof self C block_id contract_address keys =
     call_method (client_http self) (client_url self) (getProof_codec C) ''pathfinder_getProof'' (block_id, contract_address, keys)"

definition client_getTxStatus ::
  "('s, 'v) StarknetClient \<Rightarrow> 'v codecs \<Rightarrow> TxnHash \<Rightarrow> ('s, TxGatewayStatus, rpc_error) io" where
  "client_getTxStatus self C transaction_hash =
     call_method (client_http self) (client_url self) (getTxStatus_codec C) ''pathfinder_getTxStatus'' transaction_hash"

definition client_version ::
  "('s, 'v) StarknetClient \<Rightarrow> 'v codecs \<Rightarrow> ('s, string, rpc_error) io" where
  "client_version self C =
     client_send (client_http self) (client_url self) (version_codec C) ''pathfinder_version'' (empty_array C)"

definition client_addDeclareTransaction ::
  "('s, 'v) StarknetClient \<Rightarrow> 'v codecs \<Rightarrow> BroadcastedDeclareTxn \<Rightarrow> ('s, AddDeclareTransactionResult, rpc_error) io" where
  "client_addDeclareTransaction self C declare_transaction =
     call_method (client_http self) (client_url self) (addDeclareTransaction_codec C) ''starknet_addDeclareTransaction'' declare_transaction"

definition client_addDeployAccountTransaction ::
  "('s, 'v) StarknetClient \<Rightarrow> 'v codecs \<Rightarrow> BroadcastedDeployAccountTxn \<Rightarrow> ('s, AddDeployAccountTransactionResult, rpc_error) io" where
  "client_addDeployAccountTransaction self C deploy_account_transaction =
     call_method (client_http self) (client_url self) (addDeployAccountTransaction_codec C) ''starknet_addDeployAccountTransaction'' deploy_account_transaction"

definition client_addInvokeTransaction ::
  "('s, 'v) StarknetClient \<Rightarrow> 'v codecs \<Rightarrow> BroadcastedInvokeTxn \<Rightarrow> ('s, AddInvokeTransactionResult, rpc_error) io" where
  "client_addInvokeTransaction self C invoke_transaction =
     call_method (client_http self) (client_url self) (addInvokeTransaction_codec C) ''starknet_addInvokeTransaction'' invoke_transaction"

definition client_blockHashAndNumber ::
  "('s, 'v) StarknetClient \<Rightarrow> 'v codecs \<Rightarrow> ('s, BlockHashAndNumberResult, rpc_error) io" where
  "client_blockHashAndNumber self C =
     client_send (client_http self) (client_url self) (blockHashAndNumber_codec C) ''starknet_blockHashAndNumber'' (empty_array C)"

definition client_blockNumber ::
  "('s, 'v) StarknetClient \<Rightarrow> 'v codecs \<Rightarrow> ('s, BlockNumber, rpc_error) io" where
  "client_blockNumber self C =
     client_send (client_http self) (client_url self) (blockNumber_codec C) ''starknet_blockNumber'' (empty_array C)"

definition client_call ::
  "('s, 'v) StarknetClient \<Rightarrow> 'v codecs \<Rightarrow> FunctionCall \<Rightarrow> BlockId \<Rightarrow> ('s, Felt list, rpc_error) io" where
  "client_call self C request block_id =
     call_method (client_http self) (client_url self) (call_codec C) ''starknet_call'' (request, block_id)"

definition client_chainId ::
  "('s, 'v) StarknetClient \<Rightarrow> 'v codecs \<Rightarrow> ('s, ChainId, rpc_error) io" where
  "client_chainId self C =
     client_send (client_http self) (client_url self) (chainId_codec C) ''starknet_chainId'' (empty_array C)"

definition client_estimateFee ::
  "('s, 'v) StarknetClient \<Rightarrow> 'v codecs \<Rightarrow> BroadcastedTxn list \<Rightarrow> SimulationFlagForEstimateFee list \<Rightarrow> BlockId \<Rightarrow> ('s, FeeEstimate list, rpc_error) io" where
  "client_estimateFee self C request simulation_flags block_id =
     call_method (client_http self) (client_url self) (estimateFee_codec C) ''starknet_estimateFee'' (request, simulation_flags, block_id)"

definition client_estimateMessageFee ::
  "('s, 'v) StarknetClient \<Rightarrow> 'v codecs \<Rightarrow> MsgFromL1 \<Rightarrow> BlockId \<Rightarrow> ('s, FeeEstimate, rpc_error) io" where
  "client_estimateMessageFee self C msg block_id =
     call_method (client_http self) (client_url self) (estimateMessageFee_codec C) ''starknet_estimateMessageFee'' (msg, block_id)"

definition client_getBlockTransactionCount ::
  "('s, 'v) StarknetClient \<Rightarrow> 'v codecs \<Rightarrow> BlockId \<Rightarrow> ('s, GetBlockTransactionCountResult, rpc_error) io" where
  "client_getBlockTransactionCount self C block_id =
     call_method (client_http self) (client_url self) (getBlockTransactionCount_codec C) ''starknet_getBlockTransactionCount'' block_id"

definition client_getBlockWithReceipts ::
  "('s, 'v) StarknetClient \<Rightarrow> 'v codecs \<Rightarrow> BlockId \<Rightarrow> ('s, GetBlockWithReceiptsResult, rpc_error) io" where
  "client_getBlockWithReceipts self C block_id =
     call_method (client_http self) (client_url self) (getBlockWithReceipts_codec C) ''starknet_getBlockWithReceipts'' block_id"

definition client_getBlockWithTxHashes ::
  "('s, 'v) StarknetClient \<Rightarrow> 'v codecs \<Rightarrow> BlockId \<Rightarrow> ('s, GetBlockWithTxHashesResult, rpc_error) io" where
  "client_getBlockWithTxHashes self C block_id =
     call_method (client_http self) (client_url self) (getBlockWithTxHashes_codec C) ''starknet_getBlockWithTxHashes'' block_id"

definition client_getBlockWithTxs ::
  "('s, 'v) StarknetClient \<Rightarrow> 'v codecs \<Rightarrow> BlockId \<Rightarrow> ('s, GetBlockWithTxsResult, rpc_error) io" where
  "client_getBlockWithTxs self C block_id =
     call_method (client_http self) (client_url self) (getBlockWithTxs_codec C) ''starknet_getBlockWithTxs'' block_id"

definition client_getClass ::
  "('s, 'v) StarknetClient \<Rightarrow> 'v codecs \<Rightarrow> BlockId \<Rightarrow> Felt \<Rightarrow> ('s, GetClassResult, rpc_error) io" where
  "client_getClass self C block_id class_hash =
     call_method (client_http self) (client_url self) (getClass_codec C) ''starknet_getClass'' (block_id, class_hash)"

definition client_getClassAt ::
  "('s, 'v) StarknetClient \<Rightarrow> 'v codecs \<Rightarrow> BlockId \<Rightarrow> Address \<Rightarrow> ('s, GetClassAtResult, rpc_error) io" where
  "client_getClassAt self C block_id contract_address =
     call_method (client_http self) (client_url self) (getClassAt_codec C) ''starknet_getClassAt'' (block_id, contract_address)"

definition client_getClassHashAt ::
  "('s, 'v) StarknetClient \<Rightarrow> 'v codecs \<Rightarrow> BlockId \<Rightarrow> Address \<Rightarrow> ('s, Felt, rpc_error) io" where
  "client_getClassHashAt self C block_id contract_address =
     call_method (client_http self) (client_url self) (getClassHashAt_codec C) ''starknet_getClassHashAt'' (block_id, contract_address)"

definition client_getEvents ::
  "('s, 'v) StarknetClient \<Rightarrow> 'v codecs \<Rightarrow> GetEventsFilter \<Rightarrow> ('s, EventsChunk, rpc_error) io" where
  "client_getEvents self C events_filter =
     call_method (client_http self) (client_url self) (getEvents_codec C) ''starknet_getEvents'' events_filter"

definition client_getNonce ::
  "('s, 'v) StarknetClient \<Rightarrow> 'v codecs \<Rightarrow> BlockId \<Rightarrow> Address \<Rightarrow> ('s, Felt, rpc_error) io" where
  "client_getNonce self C block_id contract_address =
     call_method (client_http self) (client_url self) (getNonce_codec C) ''starknet_getNonce'' (block_id, contract_address)"

definition client_getStateUpdate ::
  "('s, 'v) StarknetClient \<Rightarrow> 'v codecs \<Rightarrow> BlockId \<Rightarrow> ('s, GetStateUpdateResult, rpc_error) io" where
  "client_getStateUpdate self C block_id =
     call_method (client_http self) (client_url self) (getStateUpdate_codec C) ''starknet_getStateUpdate'' block_id"

definition client_getStorageAt ::
  "('s, 'v) StarknetClient \<Rightarrow> 'v codecs \<Rightarrow> Address \<Rightarrow> StorageKey \<Rightarrow> BlockId \<Rightarrow> ('s, Felt, rpc_error) io" where
  "client_getStorageAt self C contract_address key block_id =
     call_method (client_http self) (client_url self) (getStorageAt_codec C) ''starknet_getStorageAt'' (contract_address, key, block_id)"

definition client_getTransactionByBlockIdAndIndex ::
  "('s, 'v) StarknetClient \<Rightarrow> 'v codecs \<Rightarrow> BlockId \<Rightarrow> GetTransactionByBlockIdAndIndexIndex \<Rightarrow> ('s, GetTransactionByBlockIdAndIndexResult, rpc_error) io" where
  "client_getTransactionByBlockIdAndIndex self C block_id index =
     call_method (client_http self) (client_url self) (getTransactionByBlockIdAndIndex_codec C) ''starknet_getTransactionByBlockIdAndIndex'' (block_id, index)"

definition client_getTransactionByHash ::
  "('s, 'v) StarknetClient \<Rightarrow> 'v codecs \<Rightarrow> TxnHash \<Rightarrow> ('s, GetTransactionByHashResult, rpc_error) io" where
  "client_getTransactionByHash self C transaction_hash =
     call_method (client_http self) (client_url self) (getTransactionByHash_codec C) ''starknet_getTransactionByHash'' transaction_hash"

definition client_getTransactionReceipt ::
  "('s, 'v) StarknetClient \<Rightarrow> 'v codecs \<Rightarrow> TxnHash \<Rightarrow> ('s, TxnReceiptWithBlockInfo, rpc_error) io" where
  "client_getTransactionReceipt self C transaction_hash =
     call_method (client_http self) (client_url self) (getTransactionReceipt_codec C) ''starknet_getTransactionReceipt'' transaction_hash"

definition client_getTransactionStatus ::
  "('s, 'v) StarknetClient \<Rightarrow> 'v codecs \<Rightarrow> TxnHash \<Rightarrow> ('s, GetTransactionStatusResult, rpc_error) io" where
  "client_getTransactionStatus self C transaction_hash =
     call_method (client_http self) (client_url self) (getTransactionStatus_codec C) ''starknet_getTransactionStatus'' transaction_hash"

definition client_simulateTransactions ::
  "('s, 'v) StarknetClient \<Rightarrow> 'v codecs \<Rightarrow> BlockId \<Rightarrow> BroadcastedTxn list \<Rightarrow> SimulationFlag list \<Rightarrow> ('s, SimulatedTransaction list, rpc_error) io" where
  "client_simulateTransactions self C block_id transactions simulation_flags =
     call_method (client_http self) (client_url self) (simulateTransactions_codec C) ''starknet_simulateTransactions'' (block_id, transactions, simulation_flags)"

definition client_specVersion ::
  "('s, 'v) StarknetClient \<Rightarrow> 'v codecs \<Rightarrow> ('s, string, rpc_error) io" where
  "client_specVersion self C =
     client_send (client_http self) (client_url self) (specVersion_codec C) ''starknet_specVersion'' (empty_array C)"

definition client_syncing ::
  "('s, 'v) StarknetClient \<Rightarrow> 'v codecs \<Rightarrow> ('s, SyncingResult, rpc_error) io" where
  "client_syncing self C =
     client_send (client_http self) (client_url self) (syncing_codec C) ''starknet_syncing'' (empty_array C)"

definition client_traceBlockTransactions ::
  "('s, 'v) StarknetClient \<Rightarrow> 'v codecs \<Rightarrow> BlockId \<Rightarrow> ('s, BlockTransactionTrace list, rpc_error) io" where
  "client_traceBlockTransactions self C block_id =
     call_method (client_http self) (client_url self) (traceBlockTransactions_codec C) ''starknet_traceBlockTransactions'' block_id"

definition client_traceTransaction ::
  "('s, 'v) StarknetClient \<Rightarrow> 'v codecs \<Rightarrow> TxnHash \<Rightarrow> ('s, TransactionTrace, rpc_error) io" where
  "client_traceTransaction self C transaction_hash =
     call_method (client_http self) (client_url self) (traceTransaction_codec C) ''starknet_traceTransaction'' transaction_hash"

definition Client_Rpc :: "('s, 'v) StarknetClient \<Rightarrow> 'v codecs \<Rightarrow> 's Rpc" where
  "Client_Rpc self C = \<lparr>
     rpc_getProof = client_getProof self C,
     rpc_getTxStatus = client_getTxStatus self C,
     rpc_version = client_version self C,
     rpc_addDeclareTransaction = client_addDeclareTransaction self C,
     rpc_addDeployAccountTransaction = client_addDeployAccountTransaction self C,
     rpc_addInvokeTransaction = client_addInvokeTransaction self C,
     rpc_blockHashAndNumber = client_blockHashAndNumber self C,
     rpc_blockNumber = client_blockNumber self C,
     rpc_call = client_call self C,
     rpc_chainId = client_chainId self C,
     rpc_estimateFee = client_estimateFee self C,
     rpc_estimateMessageFee = client_estimateMessageFee self C,
     rpc_getBlockTransactionCount = client_getBlockTransactionCount self C,
     rpc_getBlockWithReceipts = client_getBlockWithReceipts self C,
     rpc_getBlockWithTxHashes = client_getBlockWithTxHashes self C,
     rpc_getBlockWithTxs = client_getBlockWithTxs self C,
     rpc_getClass = client_getClass self C,
     rpc_getClassAt = client_getClassAt self C,
     rpc_getClassHashAt = client_getClassHashAt self C,
     rpc_getEvents = client_getEvents self C,
     rpc_getNonce = client_getNonce self C,
     rpc_getStateUpdate = client_getStateUpdate self C,
     rpc_getStorageAt = client_getStorageAt self C,
     rpc_getTransactionByBlockIdAndIndex = client_getTransactionByBlockIdAndIndex self C,
     rpc_getTransactionByHash = client_getTransactionByHash self C,
     rpc_getTransactionReceipt = client_getTransactionReceipt self C,
     rpc_getTransactionStatus = client_getTransactionStatus self C,
     rpc_simulateTransactions = client_simulateTransactions self C,
     rpc_specVersion = client_specVersion self C,
     rpc_syncing = client_syncing self C,
     rpc_traceBlockTransactions = client_traceBlockTransactions self C,
     rpc_traceTransaction = client_traceTransaction self C\<rparr>"

lemmas client_defs =
  client_getProof_def
  client_getTxStatus_def
  client_version_def
  client_addDeclareTransaction_def
  client_addDeployAccountTransaction_def
  client_addInvokeTransaction_def
  client_blockHashAndNumber_def
  client_blockNumber_def
  client_call_def
  client_chainId_def
  client_estimateFee_def
  client_estimateMessageFee_def
  client_getBlockTransactionCount_def
  client_getBlockWithReceipts_def
  client_getBlockWithTxHashes_def
  client_getBlockWithTxs_def
  client_getClass_def
  client_getClassAt_def
  client_getClassHashAt_def
  client_getEvents_def
  client_getNonce_def
  client_getStateUpdate_def
  client_getStorageAt_def
  client_getTransactionByBlockIdAndIndex_def
  client_getTransactionByHash_def
  client_getTransactionReceipt_def
  client_getTransactionStatus_def
  client_simulateTransactions_def
  client_specVersion_def
  client_syncing_def
  client_traceBlockTransactions_def
  client_traceTransaction_def

section \<open>The blocking client\<close>

record ('s, 'v) BlockingClient =
  blocking_http :: "('s, 'v) http_post"
  blocking_url :: string

definition BlockingClient_new :: "string \<Rightarrow> ('s, 'v) http_post \<Rightarrow> ('s, 'v) BlockingClient" where
  "BlockingClient_new url http = \<lparr>blocking_http = http, blocking_url = url\<rparr>"

definition blocking_client_getProof ::
  "('s, 'v) BlockingClient \<Rightarrow> 'v codecs \<Rightarrow> BlockId \<Rightarrow> Address \<Rightarrow> StorageKey list \<Rightarrow> ('s, GetProofResult, rpc_error) io" where
  "blocking_client_getProof self C block_id contract_address keys =
     call_method (blocking_http self) (blocking_url self) (getProof_codec C) ''pathfinder_getProof'' (block_id, contract_address, keys)"

definition blocking_client_getTxStatus ::
  "('s, 'v) BlockingClient \<Rightarrow> 'v codecs \<Rightarrow> TxnHash \<Rightarrow> ('s, TxGatewayStatus, rpc_error) io" where
  "blocking_client_getTxStatus self C transaction_hash =
     call_method (blocking_http self) (blocking_url self) (getTxStatus_codec C) ''pathfinder_getTxStatus'' transaction_hash"

definition blocking_client_version ::
  "('s, 'v) BlockingClient \<Rightarrow> 'v codecs \<Rightarrow> ('s, string, rpc_error) io" where
  "blocking_client_version self C =
     client_send (blocking_http self) (blocking_url self) (version_codec C) ''pathfinder_version'' (empty_array C)"

definition blocking_client_addDeclareTransaction ::
  "('s, 'v) BlockingClient \<Rightarrow> 'v codecs \<Rightarrow> BroadcastedDeclareTxn \<Rightarrow> ('s, AddDeclareTransactionResult, rpc_error) io" where
  "blocking_client_addDeclareTransaction self C declare_transaction =
     call_method (blocking_http self) (blocking_url self) (addDeclareTransaction_codec C) ''starknet_addDeclareTransaction'' declare_transaction"

definition blocking_client_addDeployAccountTransaction ::
  "('s, 'v) BlockingClient \<Rightarrow> 'v codecs \<Rightarrow> BroadcastedDeployAccountTxn \<Rightarrow> ('s, AddDeployAccountTransactionResult, rpc_error) io" where
  "blocking_client_addDeployAccountTransaction self C deploy_account_transaction =
     call_method (blocking_http self) (blocking_url self) (addDeployAccountTransaction_codec C) ''starknet_addDeployAccountTransaction'' deploy_account_transaction"

definition blocking_client_addInvokeTransaction ::
  "('s, 'v) BlockingClient \<Rightarrow> 'v codecs \<Rightarrow> BroadcastedInvokeTxn \<Rightarrow> ('s, AddInvokeTransactionResult, rpc_error) io" where
  "blocking_client_addInvokeTransaction self C invoke_transaction =
     call_method (blocking_http self) (blocking_url self) (addInvokeTransaction_codec C) ''starknet_addInvokeTransaction'' invoke_transaction"

definition blocking_client_blockHashAndNumber ::
  "('s, 'v) BlockingClient \<Rightarrow> 'v codecs \<Rightarrow> ('s, BlockHashAndNumberResult, rpc_error) io" where
  "blocking_client_blockHashAndNumber self C =
     client_send (blocking_http self) (blocking_url self) (blockHashAndNumber_codec C) ''starknet_blockHashAndNumber'' (empty_array C)"

definition blocking_client_blockNumber ::
  "('s, 'v) BlockingClient \<Rightarrow> 'v codecs \<Rightarrow> ('s, BlockNumber, rpc_error) io" where
  "blocking_client_blockNumber self C =
     client_send (blocking_http self) (blocking_url self) (blockNumber_codec C) ''starknet_blockNumber'' (empty_array C)"

definition blocking_client_call ::
  "('s, 'v) BlockingClient \<Rightarrow> 'v codecs \<Rightarrow> FunctionCall \<Rightarrow> BlockId \<Rightarrow> ('s, Felt list, rpc_error) io" where
  "blocking_client_call self C request block_id =
     call_method (blocking_http self) (blocking_url self) (call_codec C) ''starknet_call'' (request, block_id)"

definition blocking_client_chainId ::
  "('s, 'v) BlockingClient \<Rightarrow> 'v codecs \<Rightarrow> ('s, ChainId, rpc_error) io" where
  "blocking_client_chainId self C =
     client_send (blocking_http self) (blocking_url self) (chainId_codec C) ''starknet_chainId'' (empty_array C)"

definition blocking_client_estimateFee ::
  "('s, 'v) BlockingClient \<Rightarrow> 'v codecs \<Rightarrow> BroadcastedTxn list \<Rightarrow> SimulationFlagForEstimateFee list \<Rightarrow> BlockId \<Rightarrow> ('s, FeeEstimate list, rpc_error) io" where
  "blocking_client_estimateFee self C request simulation_flags block_id =
     call_method (blocking_http self) (blocking_url self) (estimateFee_codec C) ''starknet_estimateFee'' (request, simulation_flags, block_id)"

definition blocking_client_estimateMessageFee ::
  "('s, 'v) BlockingClient \<Rightarrow> 'v codecs \<Rightarrow> MsgFromL1 \<Rightarrow> BlockId \<Rightarrow> ('s, FeeEstimate, rpc_error) io" where
  "blocking_client_estimateMessageFee self C msg block_id =
     call_method (blocking_http self) (blocking_url self) (estimateMessageFee_codec C) ''starknet_estimateMessageFee'' (msg, block_id)"

definition blocking_client_getBlockTransactionCount ::
  "('s, 'v) BlockingClient \<Rightarrow> 'v codecs \<Rightarrow> BlockId \<Rightarrow> ('s, GetBlockTransactionCountResult, rpc_error) io" where
  "blocking_client_getBlockTransactionCount self C block_id =
     call_method (blocking_http self) (blocking_url self) (getBlockTransactionCount_codec C) ''starknet_getBlockTransactionCount'' block_id"

definition blocking_client_getBlockWithReceipts ::
  "('s, 'v) BlockingClient \<Rightarrow> 'v codecs \<Rightarrow> BlockId \<Rightarrow> ('s, GetBlockWithReceiptsResult, rpc_error) io" where
  "blocking_client_getBlockWithReceipts self C block_id =
     call_method (blocking_http self) (blocking_url self) (getBlockWithReceipts_codec C) ''starknet_getBlockWithReceipts'' block_id"

definition blocking_client_getBlockWithTxHashes ::
  "('s, 'v) BlockingClient \<Rightarrow> 'v codecs \<Rightarrow> BlockId \<Rightarrow> ('s, GetBlockWithTxHashesResult, rpc_error) io" where
  "blocking_client_getBlockWithTxHashes self C block_id =
     call_method (blocking_http self) (blocking_url self) (getBlockWithTxHashes_codec C) ''starknet_getBlockWithTxHashes'' block_id"

definition blocking_client_getBlockWithTxs ::
  "('s, 'v) BlockingClient \<Rightarrow> 'v codecs \<Rightarrow> BlockId \<Rightarrow> ('s, GetBlockWithTxsResult, rpc_error) io" where
  "blocking_client_getBlockWithTxs self C block_id =
     call_method (blocking_http self) (blocking_url self) (getBlockWithTxs_codec C) ''starknet_getBlockWithTxs'' block_id"

definition blocking_client_getClass ::
  "('s, 'v) BlockingClient \<Rightarrow> 'v codecs \<Rightarrow> BlockId \<Rightarrow> Felt \<Rightarrow> ('s, GetClassResult, rpc_error) io" where
  "blocking_client_getClass self C block_id class_hash =
     call_method (blocking_http self) (blocking_url self) (getClass_codec C) ''starknet_getClass'' (block_id, class_hash)"

definition blocking_client_getClassAt ::
  "('s, 'v) BlockingClient \<Rightarrow> 'v codecs \<Rightarrow> BlockId \<Rightarrow> Address \<Rightarrow> ('s, GetClassAtResult, rpc_error) io" where
  "blocking_client_getClassAt self C block_id contract_address =
     call_method (blocking_http self) (blocking_url self) (getClassAt_codec C) ''starknet_getClassAt'' (block_id, contract_address)"

definition blocking_client_getClassHashAt ::
  "('s, 'v) BlockingClient \<Rightarrow> 'v codecs \<Rightarrow> BlockId \<Rightarrow> Address \<Rightarrow> ('s, Felt, rpc_error) io" where
  "blocking_client_getClassHashAt self C block_id contract_address =
     call_method (blocking_http self) (blocking_url self) (getClassHashAt_codec C) ''starknet_getClassHashAt'' (block_id, contract_address)"

definition blocking_client_getEvents ::
  "('s, 'v) BlockingClient \<Rightarrow> 'v codecs \<Rightarrow> GetEventsFilter \<Rightarrow> ('s, EventsChunk, rpc_error) io" where
  "blocking_client_getEvents self C events_filter =
     call_method (blocking_http self) (blocking_url self) (getEvents_codec C) ''starknet_getEvents'' events_filter"

definition blocking_client_getNonce ::
  "('s, 'v) BlockingClient \<Rightarrow> 'v codecs \<Rightarrow> BlockId \<Rightarrow> Address \<Rightarrow> ('s, Felt, rpc_error) io" where
  "blocking_client_getNonce self C block_id contract_address =
     call_method (blocking_http self) (blocking_url self) (getNonce_codec C) ''starknet_getNonce'' (block_id, contract_address)"

definition blocking_client_getStateUpdate ::
  "('s, 'v) BlockingClient \<Rightarrow> 'v codecs \<Rightarrow> BlockId \<Rightarrow> ('s, GetStateUpdateResult, rpc_error) io" where
  "blocking_client_getStateUpdate self C block_id =
     call_method (blocking_http self) (blocking_url self) (getStateUpdate_codec C) ''starknet_getStateUpdate'' block_id"

definition blocking_client_getStorageAt ::
  "('s, 'v) BlockingClient \<Rightarrow> 'v codecs \<Rightarrow> Address \<Rightarrow> StorageKey \<Rightarrow> BlockId \<Rightarrow> ('s, Felt, rpc_error) io" where
  "blocking_client_getStorageAt self C contract_address key block_id =
     call_method (blocking_http self) (blocking_url self) (getStorageAt_codec C) ''starknet_getStorageAt'' (contract_address, key, block_id)"

definition blocking_client_getTransactionByBlockIdAndIndex ::
  "('s, 'v) BlockingClient \<Rightarrow> 'v codecs \<Rightarrow> BlockId \<Rightarrow> GetTransactionByBlockIdAndIndexIndex \<Rightarrow> ('s, GetTransactionByBlockIdAndIndexResult, rpc_error) io" where
  "blocking_client_getTransactionByBlockIdAndIndex self C block_id index =
     call_method (blocking_http self) (blocking_url self) (getTransactionByBlockIdAndIndex_codec C) ''starknet_getTransactionByBlockIdAndIndex'' (block_id, index)"

definition blocking_client_getTransactionByHash ::
  "('s, 'v) BlockingClient \<Rightarrow> 'v codecs \<Rightarrow> TxnHash \<Rightarrow> ('s, GetTransactionByHashResult, rpc_error) io" where
  "blocking_client_getTransactionByHash self C transaction_hash =
     call_method (blocking_http self) (blocking_url self) (getTransactionByHash_codec C) ''starknet_getTransactionByHash'' transaction_hash"

definition blocking_client_getTransactionReceipt ::
  "('s, 'v) BlockingClient \<Rightarrow> 'v codecs \<Rightarrow> TxnHash \<Rightarrow> ('s, TxnReceiptWithBlockInfo, rpc_error) io" where
  "blocking_client_getTransactionReceipt self C transaction_hash =
     call_method (blocking_http self) (blocking_url self) (getTransactionReceipt_codec C) ''starknet_getTransactionReceipt'' transaction_hash"

definition blocking_client_getTransactionStatus ::
  "('s, 'v) BlockingClient \<Rightarrow> 'v codecs \<Rightarrow> TxnHash \<Rightarrow> ('s, GetTransactionStatusResult, rpc_error) io" where
  "blocking_client_getTransactionStatus self C transaction_hash =
     call_method (blocking_http self) (blocking_url self) (getTransactionStatus_codec C) ''starknet_getTransactionStatus'' transaction_hash"

definition blocking_client_simulateTransactions ::
  "('s, 'v) BlockingClient \<Rightarrow> 'v codecs \<Rightarrow> BlockId \<Rightarrow> BroadcastedTxn list \<Rightarrow> SimulationFlag list \<Rightarrow> ('s, SimulatedTransaction list, rpc_error) io" where
  "blocking_client_simulateTransactions self C block_id transactions simulation_flags =
     call_method (blocking_http self) (blocking_url self) (simulateTransactions_codec C) ''starknet_simulateTransactions'' (block_id, transactions, simulation_flags)"

definition blocking_client_specVersion ::
  "('s, 'v) BlockingClient \<Rightarrow> 'v codecs \<Rightarrow> ('s, string, rpc_error) io" where
  "blocking_client_specVersion self C =
     client_send (blocking_http self) (blocking_url self) (specVersion_codec C) ''starknet_specVersion'' (empty_array C)"

definition blocking_client_syncing ::
  "('s, 'v) BlockingClient \<Rightarrow> 'v codecs \<Rightarrow> ('s, SyncingResult, rpc_error) io" where
  "blocking_client_syncing self C =
     client_send (blocking_http self) (blocking_url self) (syncing_codec C) ''starknet_syncing'' (empty_array C)"

definition blocking_client_traceBlockTransactions ::
  "('s, 'v) BlockingClient \<Rightarrow> 'v codecs \<Rightarrow> BlockId \<Rightarrow> ('s, BlockTransactionTrace list, rpc_error) io" where
  "blocking_client_traceBlockTransactions self C block_id =
     call_method (blocking_http self) (blocking_url self) (traceBlockTransactions_codec C) ''starknet_traceBlockTransactions'' block_id"

definition blocking_client_traceTransaction ::
  "('s, 'v) BlockingClient \<Rightarrow> 'v codecs \<Rightarrow> TxnHash \<Rightarrow> ('s, TransactionTrace, rpc_error) io" where
  "blocking_client_traceTransaction self C transaction_hash =
     call_method (blocking_http self) (blocking_url self) (traceTransaction_codec C) ''starknet_traceTransaction'' transaction_hash"

definition BlockingClient_Rpc :: "('s, 'v) BlockingClient \<Rightarrow> 'v codecs \<Rightarrow> 's BlockingRpc" where
  "BlockingClient_Rpc self C = \<lparr>
     blocking_getProof = blocking_client_getProof self C,
     blocking_getTxStatus = blocking_client_getTxStatus self C,
     blocking_version = blocking_client_version self C,
     blocking_addDeclareTransaction = blocking_client_addDeclareTransaction self C,
     blocking_addDeployAccountTransaction = blocking_client_addDeployAccountTransaction self C,
     blocking_addInvokeTransaction = blocking_client_addInvokeTransaction self C,
     blocking_blockHashAndNumber = blocking_client_blockHashAndNumber self C,
     blocking_blockNumber = blocking_client_blockNumber self C,
     blocking_call = blocking_client_call self C,
     blocking_chainId = blocking_client_chainId self C,
     blocking_estimateFee = blocking_client_estimateFee self C,
     blocking_estimateMessageFee = blocking_client_estimateMessageFee self C,
     blocking_getBlockTransactionCount = blocking_client_getBlockTransactionCount self C,
     blocking_getBlockWithReceipts = blocking_client_getBlockWithReceipts self C,
     blocking_getBlockWithTxHashes = blocking_client_getBlockWithTxHashes self C,
     blocking_getBlockWithTxs = blocking_client_getBlockWithTxs self C,
     blocking_getClass = blocking_client_getClass self C,
     blocking_getClassAt = blocking_client_getClassAt self C,
     blocking_getClassHashAt = blocking_client_getClassHashAt self C,
     blocking_getEvents = blocking_client_getEvents self C,
     blocking_getNonce = blocking_client_getNonce self C,
     blocking_getStateUpdate = blocking_client_getStateUpdate self C,
     blocking_getStorageAt = blocking_client_getStorageAt self C,
     blocking_getTransactionByBlockIdAndIndex = blocking_client_getTransactionByBlockIdAndIndex self C,
     blocking_getTransactionByHash = blocking_client_getTransactionByHash self C,
     blocking_getTransactionReceipt = blocking_client_getTransactionReceipt self C,
     blocking_getTransactionStatus = blocking_client_getTransactionStatus self C,
     blocking_simulateTransactions = blocking_client_simulateTransactions self C,
     blocking_specVersion = blocking_client_specVersion self C,
     blocking_syncing = blocking_client_syncing self C,
     blocking_traceBlockTransactions = blocking_client_traceBlockTransactions self C,
     blocking_traceTransaction = blocking_client_traceTransaction self C\<rparr>"

lemmas blocking_client_defs =
  blocking_client_getProof_def
  blocking_client_getTxStatus_def
  blocking_client_version_def
  blocking_client_addDeclareTransaction_def
  blocking_client_addDeployAccountTransaction_def
  blocking_client_addInvokeTransaction_def
  blocking_client_blockHashAndNumber_def
  blocking_client_blockNumber_def
  blocking_client_call_def
  blocking_client_chainId_def
  blocking_client_estimateFee_def
  blocking_client_estimateMessageFee_def
  blocking_client_getBlockTransactionCount_def
  blocking_client_getBlockWithReceipts_def
  blocking_client_getBlockWithTxHashes_def
  blocking_client_getBlockWithTxs_def
  blocking_client_getClass_def
  blocking_client_getClassAt_def
  blocking_client_getClassHashAt_def
  blocking_client_getEvents_def
  blocking_client_getNonce_def
  blocking_client_getStateUpdate_def
  blocking_client_getStorageAt_def
  blocking_client_getTransactionByBlockIdAndIndex_def
  blocking_client_getTransactionByHash_def
  blocking_client_getTransactionReceipt_def
  blocking_client_getTransactionStatus_def
  blocking_client_simulateTransactions_def
  blocking_client_specVersion_def
  blocking_client_syncing_def
  blocking_client_traceBlockTransactions_def
  blocking_client_traceTransaction_def

end
