(* ===== verification/StateProxy.thy ===== *)
theory StateProxy
  imports ExeMap GenClient MerkleProof
begin

text \<open>
  \<open>StateProxy\<close> of \<open>src/src/exe/mod.rs\<close>: the state a contract call reads, served by the
  untrusted node over the blocking client at the block of a trusted \<open>State\<close>. A storage
  value is checked against the state root with a Merkle proof unless it is zero; nonces,
  class hashes and classes are taken as they come; nothing can be written. Addresses,
  storage keys, class hashes and nonces of the virtual machine are newtypes of a field
  element and are \<open>'f\<close> here.
\<close>

section \<open>The interface of the virtual machine\<close>

text \<open>The methods of blockifier's traits \<open>StateReader\<close> and \<open>State\<close>; \<open>'c\<close> is a contract
  class, a set of program counters is a \<open>nat set\<close>.\<close>

record ('s, 'f, 'c) state_api =
  api_get_storage_at :: "'f \<Rightarrow> 'f \<Rightarrow> ('s, 'f, 'f StateError) io"
  api_get_nonce_at :: "'f \<Rightarrow> ('s, 'f, 'f StateError) io"
  api_get_class_hash_at :: "'f \<Rightarrow> ('s, 'f, 'f StateError) io"
  api_get_compiled_contract_class :: "'f \<Rightarrow> ('s, 'c, 'f StateError) io"
  api_get_compiled_class_hash :: "'f \<Rightarrow> ('s, 'f, 'f StateError) io"
  api_set_storage_at :: "'f \<Rightarrow> 'f \<Rightarrow> 'f \<Rightarrow> ('s, unit, 'f StateError) io"
  api_increment_nonce :: "'f \<Rightarrow> ('s, unit, 'f StateError) io"
  api_set_class_hash_at :: "'f \<Rightarrow> 'f \<Rightarrow> ('s, unit, 'f StateError) io"
  api_set_contract_class :: "'f \<Rightarrow> 'c \<Rightarrow> ('s, unit, 'f StateError) io"
  api_set_compiled_class_hash :: "'f \<Rightarrow> 'f \<Rightarrow> ('s, unit, 'f StateError) io"
  api_add_visited_pcs :: "'f \<Rightarrow> nat set \<Rightarrow> 's \<Rightarrow> 's"

text \<open>The libraries an execution uses; \<open>key_text\<close> is the \<open>Display\<close> text of a storage key.\<close>

record ('v, 'f, 'v0, 'c) exe_env =
  env_field :: "'f field_ops"
  env_checks :: bool
  env_hex :: "u8 list \<Rightarrow> string"
  env_unchecked :: "string \<Rightarrow> 'f option"
  env_key_text :: "'f \<Rightarrow> string"
  env_debug :: "'f debug_texts"
  env_codecs :: "'v codecs"
  env_tools :: "('v, 'f, 'v0, 'c) class_tools"

section \<open>\<open>StateProxy\<close>\<close>

record ('s, 'v) StateProxy =
  proxy_client :: "('s, 'v) BlockingClient"
  proxy_state :: ClientState

definition proxy_block_id :: "('s, 'v) StateProxy \<Rightarrow> BlockId" where
  "proxy_block_id self = BlockId.BlockHash (BlockHash.BlockHash (block_hash (proxy_state self)))"

definition get_block_hash :: "('s, 'v) StateProxy \<Rightarrow> Felt" where
  "get_block_hash self = block_hash (proxy_state self)"

text \<open>\<open>?\<close> on an \<open>Error\<close>, and \<open>.map_err(Into::<Error>::into)?\<close> on an RPC error.\<close>

definition exe_lift :: "('v, 'f, 'v0, 'c) exe_env \<Rightarrow> ('a, 'f Error) outcome \<Rightarrow> ('s, 'a, 'f StateError) io" where
  "exe_lift E r = io_lift (map_err (StateError_from (env_debug E)) r)"

definition rpc_lift :: "('v, 'f, 'v0, 'c) exe_env \<Rightarrow> ('s, 'a, rpc_error) io \<Rightarrow> ('s, 'a, 'f StateError) io" where
  "rpc_lift E m = io_map_err (\<lambda>e. StateError_from (env_debug E) (IamGroot e)) m"

definition proxy_address :: "('v, 'f, 'v0, 'c) exe_env \<Rightarrow> 'f \<Rightarrow> (Address, 'f Error) outcome" where
  "proxy_address E a = bind (felt_from_stark_ref (env_hex E) (env_field E) a) (\<lambda>felt. Ok (Address.Address felt))"

definition proxy_get_storage_at ::
  "('v, 'f, 'v0, 'c) exe_env \<Rightarrow> ('s, 'v) StateProxy \<Rightarrow> 'f \<Rightarrow> 'f \<Rightarrow> ('s, 'f, 'f StateError) io" where
  "proxy_get_storage_at E self contract_address storage_key =
     io_bind (exe_lift E (proxy_address E contract_address)) (\<lambda>address.
     io_bind (exe_lift E (map_err IamGroot (StorageKey_try_new (env_key_text E storage_key)))) (\<lambda>k.
     let block_id = proxy_block_id self in
     io_bind (rpc_lift E (blocking_client_getStorageAt (proxy_client self) (env_codecs E) address k block_id)) (\<lambda>ret.
     if Felt_as_ref ret = ''0x0'' then exe_lift E (stark_from_felt (env_unchecked E) ret)
     else
       io_bind (rpc_lift E (blocking_client_getProof (proxy_client self) (env_codecs E) block_id address [k])) (\<lambda>proof.
       io_bind (io_lift (map_err
           (\<lambda>e. StateReadError (''Failed to verify merkle proof: '' @ debug_rpc_error (env_debug E) e))
           (verify (env_field E) (env_checks E) proof (root (proxy_state self)) address k ret))) (\<lambda>_.
       exe_lift E (stark_from_felt (env_unchecked E) ret))))))"

definition proxy_get_nonce_at ::
  "('v, 'f, 'v0, 'c) exe_env \<Rightarrow> ('s, 'v) StateProxy \<Rightarrow> 'f \<Rightarrow> ('s, 'f, 'f StateError) io" where
  "proxy_get_nonce_at E self contract_address =
     io_bind (exe_lift E (proxy_address E contract_address)) (\<lambda>address.
     io_bind (rpc_lift E (blocking_client_getNonce (proxy_client self) (env_codecs E) (proxy_block_id self) address)) (\<lambda>ret.
     exe_lift E (stark_from_felt (env_unchecked E) ret)))"

definition proxy_get_class_hash_at ::
  "('v, 'f, 'v0, 'c) exe_env \<Rightarrow> ('s, 'v) StateProxy \<Rightarrow> 'f \<Rightarrow> ('s, 'f, 'f StateError) io" where
  "proxy_get_class_hash_at E self contract_address =
     io_bind (exe_lift E (proxy_address E contract_address)) (\<lambda>address.
     io_bind (rpc_lift E (blocking_client_getClassHashAt (proxy_client self) (env_codecs E) (proxy_block_id self) address)) (\<lambda>ret.
     exe_lift E (stark_from_felt (env_unchecked E) ret)))"

definition proxy_get_compiled_contract_class ::
  "('v, 'f, 'v0, 'c) exe_env \<Rightarrow> ('s, 'v) StateProxy \<Rightarrow> 'f \<Rightarrow> ('s, 'c, 'f StateError) io" where
  "proxy_get_compiled_contract_class E self hash =
     io_bind (exe_lift E (felt_from_stark (env_hex E) (env_field E) hash)) (\<lambda>class_hash.
     io_bind (rpc_lift E (blocking_client_getClass (proxy_client self) (env_codecs E) (proxy_block_id self) class_hash)) (\<lambda>ret.
     exe_lift E (contract_class_from (env_tools E) ret)))"

definition proxy_get_compiled_class_hash :: "'f \<Rightarrow> ('s, 'f, 'f StateError) io" where
  "proxy_get_compiled_class_hash hash = io_lift (Err (UndeclaredClassHash hash))"

definition proxy_set_storage_at :: "'f \<Rightarrow> 'f \<Rightarrow> 'f \<Rightarrow> ('s, unit, 'f StateError) io" where
  "proxy_set_storage_at contract_address k v = io_lift (Ok ())"

definition proxy_increment_nonce :: "'f \<Rightarrow> ('s, unit, 'f StateError) io" where
  "proxy_increment_nonce contract_address = io_lift (Ok ())"

definition proxy_set_class_hash_at :: "'f \<Rightarrow> 'f \<Rightarrow> ('s, unit, 'f StateError) io" where
  "proxy_set_class_hash_at contract_address hash = io_lift (Ok ())"

definition proxy_set_contract_class :: "'f \<Rightarrow> 'c \<Rightarrow> ('s, unit, 'f StateError) io" where
  "proxy_set_contract_class hash contract_class = io_lift (Ok ())"

definition proxy_set_compiled_class_hash :: "'f \<Rightarrow> 'f \<Rightarrow> ('s, unit, 'f StateError) io" where
  "proxy_set_compiled_class_hash hash compiled = io_lift (Ok ())"

definition proxy_add_visited_pcs :: "'f \<Rightarrow> nat set \<Rightarrow> 's \<Rightarrow> 's" where
  "proxy_add_visited_pcs hash pcs = (\<lambda>s. s)"

definition StateProxy_api ::
  "('v, 'f, 'v0, 'c) exe_env \<Rightarrow> ('s, 'v) StateProxy \<Rightarrow> ('s, 'f, 'c) state_api" where
  "StateProxy_api E self = \<lparr>
     api_get_storage_at = proxy_get_storage_at E self,
     api_get_nonce_at = proxy_get_nonce_at E self,
     api_get_class_hash_at = proxy_get_class_hash_at E self,
     api_get_compiled_contract_class = proxy_get_compiled_contract_class E self,
     api_get_compiled_class_hash = proxy_get_compiled_class_hash,
     api_set_storage_at = proxy_set_storage_at,
     api_increment_nonce = proxy_increment_nonce,
     api_set_class_hash_at = proxy_set_class_hash_at,
     api_set_contract_class = proxy_set_contract_class,
     api_set_compiled_class_hash = proxy_set_compiled_class_hash,
     api_add_visited_pcs = proxy_add_visited_pcs\<rparr>"

section \<open>Trusted reads\<close>

text \<open>What it means for a value to be backed by a state: it is the element of a \<open>Felt\<close> that
  is zero, or that verifies at the address and key against the state's root.\<close>

definition value_backed ::
  "('v, 'f, 'v0, 'c) exe_env \<Rightarrow> Felt \<Rightarrow> 'f \<Rightarrow> 'f \<Rightarrow> 'f \<Rightarrow> bool" where
  "value_backed E state_root a k x \<longleftrightarrow>
     (\<exists>address sk v. proxy_address E a = Ok address \<and> StorageKey_try_new (env_key_text E k) = Ok sk \<and>
        env_unchecked E (Felt_as_ref v) = Some x \<and>
        (Felt_as_ref v = ''0x0'' \<or>
         (\<exists>proof. verify (env_field E) (env_checks E) proof state_root address sk v = Ok ())))"

text \<open>The contract of a state the virtual machine may read: under an invariant of the world
  that every read keeps, each storage value it returns satisfies \<open>backed\<close>.\<close>

locale trusted_reads =
  fixes api :: "('s, 'f, 'c) state_api"
    and inv :: "'s \<Rightarrow> bool"
    and backed :: "'f \<Rightarrow> 'f \<Rightarrow> 'f \<Rightarrow> bool"
  assumes read_backed: "inv s \<Longrightarrow> api_get_storage_at api a k s = (Ok x, s') \<Longrightarrow> backed a k x"
    and read_inv: "inv s \<Longrightarrow> api_get_storage_at api a k s = (r, s') \<Longrightarrow> inv s'"

text \<open>A run of reads, as the virtual machine makes them: the keys may depend on the values
  read so far.\<close>

primrec read_run :: "('s, 'f, 'c) state_api \<Rightarrow> ('f list \<Rightarrow> 'f \<times> 'f) \<Rightarrow> nat \<Rightarrow> ('f \<times> 'f \<times> 'f) list
    \<Rightarrow> ('s, ('f \<times> 'f \<times> 'f) list, 'f StateError) io" where
  "read_run api next 0 done = io_lift (Ok done)"
| "read_run api next (Suc n) done =
     (let (a, k) = next (map (snd \<circ> snd) done) in
      io_bind (api_get_storage_at api a k) (\<lambda>x. read_run api next n (done @ [(a, k, x)])))"

context trusted_reads
begin

lemma read_run_backed:
  assumes "inv s" and "read_run api nxt n acc s = (Ok res, s')" and "\<forall>(a, k, x) \<in> set acc. backed a k x"
  shows "(\<forall>(a, k, x) \<in> set res. backed a k x) \<and> inv s'"
  using assms
proof (induction n arbitrary: acc s)
  case 0
  then show ?case by (simp add: outcome_simps)
next
  case (Suc n)
  obtain a k where ak: "nxt (map (snd \<circ> snd) acc) = (a, k)" by fastforce
  from Suc.prems(2) obtain x s1 where r: "api_get_storage_at api a k s = (Ok x, s1)"
      "read_run api nxt n (acc @ [(a, k, x)]) s1 = (Ok res, s')"
    by (auto simp: ak outcome_simps)
  show ?case
    using Suc.IH [OF read_inv [OF Suc.prems(1) r(1)] r(2)] Suc.prems(3) read_backed [OF Suc.prems(1) r(1)]
    by auto
qed

end

lemma stark_from_felt_Ok [outcome_simps]:
  "stark_from_felt unchecked v = Ok x \<longleftrightarrow> unchecked (Felt_as_ref v) = Some x"
  by (auto simp: stark_from_felt_def split: option.splits)

lemma exe_lift_Ok [outcome_simps]: "exe_lift E r s = (Ok x, s') \<longleftrightarrow> r = Ok x \<and> s' = s"
  by (auto simp: exe_lift_def outcome_simps)

lemma rpc_lift_Ok [outcome_simps]: "rpc_lift E m s = (Ok x, s') \<longleftrightarrow> m s = (Ok x, s')"
  by (simp add: rpc_lift_def outcome_simps)

text \<open>A storage read that returns: the calls it made and what was checked.\<close>

lemma proxy_get_storage_at_Ok_cases:
  assumes "proxy_get_storage_at E self a k s = (Ok x, s')"
  obtains address sk v s1 where "proxy_address E a = Ok address"
    and "StorageKey_try_new (env_key_text E k) = Ok sk"
    and "blocking_client_getStorageAt (proxy_client self) (env_codecs E) address sk (proxy_block_id self) s = (Ok v, s1)"
    and "env_unchecked E (Felt_as_ref v) = Some x"
    and "Felt_as_ref v = ''0x0'' \<and> s' = s1 \<or> Felt_as_ref v \<noteq> ''0x0'' \<and>
      (\<exists>proof. blocking_client_getProof (proxy_client self) (env_codecs E) (proxy_block_id self) address [sk] s1
           = (Ok proof, s') \<and>
         verify (env_field E) (env_checks E) proof (root (proxy_state self)) address sk v = Ok ())"
proof -
  note step = assms [unfolded proxy_get_storage_at_def Let_def io_bind_eq_Ok exe_lift_Ok rpc_lift_Ok
      io_lift_eq map_err_eq_Ok]
  show thesis
    using step that by (auto simp: outcome_simps split: if_splits)
qed

lemma proxy_read_backed:
  assumes "proxy_get_storage_at E self a k s = (Ok x, s')"
  shows "value_backed E (root (proxy_state self)) a k x"
  by (rule proxy_get_storage_at_Ok_cases [OF assms]) (auto simp: value_backed_def)

interpretation proxy_reads: trusted_reads "StateProxy_api E self" "\<lambda>_. True"
    "value_backed E (root (proxy_state self))" for E self
  by unfold_locales (auto simp: StateProxy_api_def intro: proxy_read_backed)

section \<open>Properties\<close>

text \<open>
  C22. Exactly when a storage read of a contract call returns, and with what: the address and key
  convert, the node answers \<open>getStorageAt\<close> at the trusted block, and either the answer is
  the text \<open>0x0\<close>, which is returned without asking for a proof, or the node's proof for
  that address, key and value verifies against the root of the trusted state.
\<close>

theorem proxy_get_storage_at_Ok_iff:
  "proxy_get_storage_at E self a k s = (Ok x, s') \<longleftrightarrow>
     (\<exists>address sk v s1.
        proxy_address E a = Ok address \<and> StorageKey_try_new (env_key_text E k) = Ok sk \<and>
        blocking_client_getStorageAt (proxy_client self) (env_codecs E) address sk (proxy_block_id self) s = (Ok v, s1) \<and>
        env_unchecked E (Felt_as_ref v) = Some x \<and>
        (Felt_as_ref v = ''0x0'' \<and> s' = s1 \<or>
         Felt_as_ref v \<noteq> ''0x0'' \<and>
         (\<exists>proof. blocking_client_getProof (proxy_client self) (env_codecs E) (proxy_block_id self) address [sk] s1
              = (Ok proof, s') \<and>
            verify (env_field E) (env_checks E) proof (root (proxy_state self)) address sk v = Ok ())))"
    (is "_ \<longleftrightarrow> ?rhs")
proof
  assume "proxy_get_storage_at E self a k s = (Ok x, s')"
  then show ?rhs by (rule proxy_get_storage_at_Ok_cases) blast
next
  assume ?rhs
  then show "proxy_get_storage_at E self a k s = (Ok x, s')"
    by (auto simp: proxy_get_storage_at_def Let_def io_bind_eq_Ok exe_lift_Ok rpc_lift_Ok stark_from_felt_Ok
        io_lift_eq map_err_eq_Ok split: if_splits)
qed

end
