(* ===== verification/Cache.thy ===== *)
theory Cache
  imports StateProxy
begin

text \<open>
  \<open>src/src/exe/cache.rs\<close>: three process-wide LRU caches in front of the reads of a
  contract call, keyed by the block hash and the address, key or class hash. The caches are
  part of the world here (they outlive a call and are shared by all of them); each access
  is one step under a lock. The LRU map (crate \<open>lru\<close>) and the 256-bit integers of the keys
  (\<open>'u\<close>, crate \<open>alloy_primitives\<close>) are parameters; of the map the theorems use
  \<open>lru_laws\<close>: it returns what was put, and forgets at will.
\<close>

section \<open>The LRU map\<close>

record ('l, 'k, 'v) lru_ops =
  lru_get :: "'k \<Rightarrow> 'l \<Rightarrow> 'v option \<times> 'l"
  lru_put :: "'k \<Rightarrow> 'v \<Rightarrow> 'l \<Rightarrow> 'v option \<times> 'l"

definition lru_laws :: "('l, 'k, 'v) lru_ops \<Rightarrow> ('l \<Rightarrow> 'k \<rightharpoonup> 'v) \<Rightarrow> bool" where
  "lru_laws L contents \<longleftrightarrow>
     (\<forall>k l. fst (lru_get L k l) = contents l k \<and> contents (snd (lru_get L k l)) = contents l) \<and>
     (\<forall>k v l. contents (snd (lru_put L k v l)) k = Some v \<and>
        contents (snd (lru_put L k v l)) \<subseteq>\<^sub>m (contents l)(k \<mapsto> v))"

lemma lru_getD: "lru_laws L contents \<Longrightarrow> lru_get L k l = (r, l') \<Longrightarrow> r = contents l k \<and> contents l' = contents l"
  unfolding lru_laws_def by (metis fst_conv snd_conv)

lemma lru_putD:
  "lru_laws L contents \<Longrightarrow>
     contents (snd (lru_put L k v l)) k = Some v \<and> contents (snd (lru_put L k v l)) \<subseteq>\<^sub>m (contents l)(k \<mapsto> v)"
  unfolding lru_laws_def by blast

section \<open>Keys\<close>

record 'u u256_ops =
  u256_parse :: "string \<Rightarrow> 'u option"
  u256_from_be_bytes :: "u8 list \<Rightarrow> 'u"

text \<open>\<open>block_hash.as_ref().parse().unwrap()\<close> panics when the text does not parse.\<close>

definition block_u256 :: "'u u256_ops \<Rightarrow> Felt \<Rightarrow> ('u, 'e) outcome" where
  "block_u256 U h = (case u256_parse U (Felt_as_ref h) of Some u \<Rightarrow> Ok u | None \<Rightarrow> Panicked)"

definition storage_cache_key ::
  "'u u256_ops \<Rightarrow> 'f field_ops \<Rightarrow> Felt \<Rightarrow> 'f \<Rightarrow> 'f \<Rightarrow> ('u \<times> 'u \<times> 'u, 'f StateError) outcome" where
  "storage_cache_key U F h contract_address storage_key =
     bind (block_u256 U h) (\<lambda>b.
     Ok (b, u256_from_be_bytes U (to_bytes_be F contract_address), u256_from_be_bytes U (to_bytes_be F storage_key)))"

definition class_hash_cache_key ::
  "'u u256_ops \<Rightarrow> 'f field_ops \<Rightarrow> Felt \<Rightarrow> 'f \<Rightarrow> ('u \<times> 'u, 'f StateError) outcome" where
  "class_hash_cache_key U F h contract_address =
     bind (block_u256 U h) (\<lambda>b. Ok (b, u256_from_be_bytes U (to_bytes_be F contract_address)))"

definition contract_class_cache_key ::
  "'u u256_ops \<Rightarrow> 'f field_ops \<Rightarrow> Felt \<Rightarrow> 'f \<Rightarrow> ('u \<times> 'u, 'f StateError) outcome" where
  "contract_class_cache_key U F h class_hash =
     bind (block_u256 U h) (\<lambda>b. Ok (b, u256_from_be_bytes U (to_bytes_be F class_hash)))"

section \<open>\<open>CachedState\<close>\<close>

text \<open>The caches of the process: storage values, class hashes, classes.\<close>

record ('s, 'l1, 'l2, 'l3) cached_world =
  net :: 's
  storage_cache :: 'l1
  class_hash_cache :: 'l2
  contract_class_cache :: 'l3

record ('u, 'f, 'c, 'l1, 'l2, 'l3) cache_env =
  cache_u256 :: "'u u256_ops"
  cache_field :: "'f field_ops"
  storage_lru :: "('l1, 'u \<times> 'u \<times> 'u, 'f) lru_ops"
  class_hash_lru :: "('l2, 'u \<times> 'u, 'f) lru_ops"
  contract_class_lru :: "('l3, 'u \<times> 'u, 'c) lru_ops"

text \<open>A call of the inner state leaves the caches alone.\<close>

definition on_net :: "('s, 'a, 'e) io \<Rightarrow> (('s, 'l1, 'l2, 'l3) cached_world, 'a, 'e) io" where
  "on_net m = (\<lambda>w. case m (net w) of (r, s) \<Rightarrow> (r, w\<lparr>net := s\<rparr>))"

record ('s, 'f, 'c) CachedState =
  inner :: "('s, 'f, 'c) state_api"
  inner_block_hash :: Felt

definition CachedState_new :: "('s, 'f, 'c) state_api \<Rightarrow> Felt \<Rightarrow> ('s, 'f, 'c) CachedState" where
  "CachedState_new api h = \<lparr>inner = api, inner_block_hash = h\<rparr>"

definition storage_get ::
  "('u, 'f, 'c, 'l1, 'l2, 'l3) cache_env \<Rightarrow> 'u \<times> 'u \<times> 'u
     \<Rightarrow> (('s, 'l1, 'l2, 'l3) cached_world, 'f option, 'f StateError) io" where
  "storage_get V k = (\<lambda>w. case lru_get (storage_lru V) k (storage_cache w) of
     (r, l) \<Rightarrow> (Ok r, w\<lparr>storage_cache := l\<rparr>))"

definition storage_set ::
  "('u, 'f, 'c, 'l1, 'l2, 'l3) cache_env \<Rightarrow> 'u \<times> 'u \<times> 'u \<Rightarrow> 'f
     \<Rightarrow> (('s, 'l1, 'l2, 'l3) cached_world, 'f option, 'f StateError) io" where
  "storage_set V k v = (\<lambda>w. case lru_put (storage_lru V) k v (storage_cache w) of
     (r, l) \<Rightarrow> (Ok r, w\<lparr>storage_cache := l\<rparr>))"

definition class_hash_get ::
  "('u, 'f, 'c, 'l1, 'l2, 'l3) cache_env \<Rightarrow> 'u \<times> 'u
     \<Rightarrow> (('s, 'l1, 'l2, 'l3) cached_world, 'f option, 'f StateError) io" where
  "class_hash_get V k = (\<lambda>w. case lru_get (class_hash_lru V) k (class_hash_cache w) of
     (r, l) \<Rightarrow> (Ok r, w\<lparr>class_hash_cache := l\<rparr>))"

definition class_hash_set ::
  "('u, 'f, 'c, 'l1, 'l2, 'l3) cache_env \<Rightarrow> 'u \<times> 'u \<Rightarrow> 'f
     \<Rightarrow> (('s, 'l1, 'l2, 'l3) cached_world, 'f option, 'f StateError) io" where
  "class_hash_set V k v = (\<lambda>w. case lru_put (class_hash_lru V) k v (class_hash_cache w) of
     (r, l) \<Rightarrow> (Ok r, w\<lparr>class_hash_cache := l\<rparr>))"

definition contract_class_get ::
  "('u, 'f, 'c, 'l1, 'l2, 'l3) cache_env \<Rightarrow> 'u \<times> 'u
     \<Rightarrow> (('s, 'l1, 'l2, 'l3) cached_world, 'c option, 'f StateError) io" where
  "contract_class_get V k = (\<lambda>w. case lru_get (contract_class_lru V) k (contract_class_cache w) of
     (r, l) \<Rightarrow> (Ok r, w\<lparr>contract_class_cache := l\<rparr>))"

definition contract_class_set ::
  "('u, 'f, 'c, 'l1, 'l2, 'l3) cache_env \<Rightarrow> 'u \<times> 'u \<Rightarrow> 'c
     \<Rightarrow> (('s, 'l1, 'l2, 'l3) cached_world, 'c option, 'f StateError) io" where
  "contract_class_set V k v = (\<lambda>w. case lru_put (contract_class_lru V) k v (contract_class_cache w) of
     (r, l) \<Rightarrow> (Ok r, w\<lparr>contract_class_cache := l\<rparr>))"

definition cached_get_storage_at ::
  "('u, 'f, 'c, 'l1, 'l2, 'l3) cache_env \<Rightarrow> ('s, 'f, 'c) CachedState \<Rightarrow> 'f \<Rightarrow> 'f
     \<Rightarrow> (('s, 'l1, 'l2, 'l3) cached_world, 'f, 'f StateError) io" where
  "cached_get_storage_at V self a k =
     io_bind (io_lift (storage_cache_key (cache_u256 V) (cache_field V) (inner_block_hash self) a k)) (\<lambda>ck.
     io_bind (storage_get V ck) (\<lambda>hit.
     case hit of
       Some ret \<Rightarrow> io_lift (Ok ret)
     | None \<Rightarrow>
         io_bind (on_net (api_get_storage_at (inner self) a k)) (\<lambda>ret.
         io_bind (io_lift (storage_cache_key (cache_u256 V) (cache_field V) (inner_block_hash self) a k)) (\<lambda>ck.
         io_bind (storage_set V ck ret) (\<lambda>_. io_lift (Ok ret))))))"

definition cached_get_nonce_at ::
  "('s, 'f, 'c) CachedState \<Rightarrow> 'f \<Rightarrow> (('s, 'l1, 'l2, 'l3) cached_world, 'f, 'f StateError) io" where
  "cached_get_nonce_at self a = on_net (api_get_nonce_at (inner self) a)"

definition cached_get_class_hash_at ::
  "('u, 'f, 'c, 'l1, 'l2, 'l3) cache_env \<Rightarrow> ('s, 'f, 'c) CachedState \<Rightarrow> 'f
     \<Rightarrow> (('s, 'l1, 'l2, 'l3) cached_world, 'f, 'f StateError) io" where
  "cached_get_class_hash_at V self a =
     io_bind (io_lift (class_hash_cache_key (cache_u256 V) (cache_field V) (inner_block_hash self) a)) (\<lambda>ck.
     io_bind (class_hash_get V ck) (\<lambda>hit.
     case hit of
       Some ret \<Rightarrow> io_lift (Ok ret)
     | None \<Rightarrow>
         io_bind (on_net (api_get_class_hash_at (inner self) a)) (\<lambda>ret.
         io_bind (io_lift (class_hash_cache_key (cache_u256 V) (cache_field V) (inner_block_hash self) a)) (\<lambda>ck.
         io_bind (class_hash_set V ck ret) (\<lambda>_. io_lift (Ok ret))))))"

definition cached_get_compiled_contract_class ::
  "('u, 'f, 'c, 'l1, 'l2, 'l3) cache_env \<Rightarrow> ('s, 'f, 'c) CachedState \<Rightarrow> 'f
     \<Rightarrow> (('s, 'l1, 'l2, 'l3) cached_world, 'c, 'f StateError) io" where
  "cached_get_compiled_contract_class V self h =
     io_bind (io_lift (contract_class_cache_key (cache_u256 V) (cache_field V) (inner_block_hash self) h)) (\<lambda>ck.
     io_bind (contract_class_get V ck) (\<lambda>hit.
     case hit of
       Some ret \<Rightarrow> io_lift (Ok ret)
     | None \<Rightarrow>
         io_bind (on_net (api_get_compiled_contract_class (inner self) h)) (\<lambda>ret.
         io_bind (io_lift (contract_class_cache_key (cache_u256 V) (cache_field V) (inner_block_hash self) h)) (\<lambda>ck.
         io_bind (contract_class_set V ck ret) (\<lambda>_. io_lift (Ok ret))))))"

text \<open>The remaining methods only forward.\<close>

definition CachedState_api ::
  "('u, 'f, 'c, 'l1, 'l2, 'l3) cache_env \<Rightarrow> ('s, 'f, 'c) CachedState
     \<Rightarrow> (('s, 'l1, 'l2, 'l3) cached_world, 'f, 'c) state_api" where
  "CachedState_api V self = \<lparr>
     api_get_storage_at = cached_get_storage_at V self,
     api_get_nonce_at = cached_get_nonce_at self,
     api_get_class_hash_at = cached_get_class_hash_at V self,
     api_get_compiled_contract_class = cached_get_compiled_contract_class V self,
     api_get_compiled_class_hash = (\<lambda>h. on_net (api_get_compiled_class_hash (inner self) h)),
     api_set_storage_at = (\<lambda>a k v. on_net (api_set_storage_at (inner self) a k v)),
     api_increment_nonce = (\<lambda>a. on_net (api_increment_nonce (inner self) a)),
     api_set_class_hash_at = (\<lambda>a h. on_net (api_set_class_hash_at (inner self) a h)),
     api_set_contract_class = (\<lambda>h c. on_net (api_set_contract_class (inner self) h c)),
     api_set_compiled_class_hash = (\<lambda>h c. on_net (api_set_compiled_class_hash (inner self) h c)),
     api_add_visited_pcs = (\<lambda>h pcs w. w\<lparr>net := api_add_visited_pcs (inner self) h pcs (net w)\<rparr>)\<rparr>"

end
