(* ===== verification/RpcFacts.thy ===== *)
theory RpcFacts
  imports GenClient
begin

text \<open>
  What holds of the generated RPC code as a whole: what \<open>handle\<close> answers to any request,
  what a client accepts as an answer, that the blocking code does the same as the async
  code, and that a client in front of a dispatcher is the implementation behind it.
\<close>

section \<open>What a dispatcher promises\<close>

text \<open>The contract of \<open>handle\<close> its callers rely on: it always answers, with the id of the
  request and exactly one of a result and an error.\<close>

locale dispatcher =
  fixes dispatch :: "'v rpc_request \<Rightarrow> ('s, 'v rpc_response, rpc_error) io"
  assumes dispatch_id: "dispatch req s = (Ok res, s') \<Longrightarrow> res_id res = req_id req"
    and dispatch_result_or_error:
      "dispatch req s = (Ok res, s') \<Longrightarrow> (res_result res = None) \<noteq> (res_error res = None)"
    and dispatch_not_err: "dispatch req s \<noteq> (Err e, s')"
begin

lemma dispatch_cases:
  obtains (answer) res s' where "dispatch req s = (Ok res, s')" "res_id res = req_id req"
      "(res_result res = None) \<noteq> (res_error res = None)"
    | (panic) s' where "dispatch req s = (Panicked, s')"
proof (cases "dispatch req s")
  case (Pair r s')
  then show thesis
    using dispatch_id dispatch_result_or_error dispatch_not_err [of req s] answer panic
    by (cases r) auto
qed

end

definition well_shaped :: "('s, 'v rpc_response, rpc_error) io \<Rightarrow> bool" where
  "well_shaped m \<longleftrightarrow> (\<forall>s. case m s of
     (Ok res, _) \<Rightarrow> (res_result res = None) \<noteq> (res_error res = None) \<and> res_id res = None
   | (Err e, _) \<Rightarrow> False
   | (Panicked, _) \<Rightarrow> True)"

lemma well_shaped_if: "well_shaped m \<Longrightarrow> well_shaped n \<Longrightarrow> well_shaped (if P then m else n)"
  by simp

lemma well_shaped_error: "well_shaped (io_lift (Ok (response_error c e)))"
  by (simp add: well_shaped_def)

lemma well_shaped_args: "well_shaped (handle_args C f params)"
  by (auto simp: well_shaped_def handle_args_def respond_def split: option.split prod.split outcome.split)

lemma well_shaped_no_args: "well_shaped (handle_no_args C m)"
  by (auto simp: well_shaped_def handle_no_args_def respond_def split: prod.split outcome.split)

lemmas well_shaped_intros = well_shaped_if well_shaped_error well_shaped_args well_shaped_no_args

lemma well_shaped_method: "well_shaped (handle_method R C method params)"
  unfolding handle_method_def handle_defs by (intro well_shaped_intros)

lemma handle_run:
  "handle R C req s =
     (case handle_method R C (req_method req) (case req_params req of Some v \<Rightarrow> v | None \<Rightarrow> null_value C) s of
        (Ok res, s') \<Rightarrow> (Ok (case req_id req of Some i \<Rightarrow> with_id res i | None \<Rightarrow> res), s')
      | (Err e, s') \<Rightarrow> (Err e, s')
      | (Panicked, s') \<Rightarrow> (Panicked, s'))"
  by (simp add: handle_def Let_def io_bind_def split: prod.split outcome.split)

lemma handle_shape:
  "case handle R C req s of
     (Ok res, _) \<Rightarrow> (res_result res = None) \<noteq> (res_error res = None) \<and> res_id res = req_id req
   | (Err e, _) \<Rightarrow> False
   | (Panicked, _) \<Rightarrow> True"
  using well_shaped_method [of R C "req_method req" "case req_params req of Some v \<Rightarrow> v | None \<Rightarrow> null_value C"]
  unfolding well_shaped_def handle_run
  by (auto dest: spec [where x = s] split: prod.splits outcome.splits option.splits)

lemma handle_Ok_shape:
  "handle R C req s = (Ok res, s') \<Longrightarrow>
     (res_result res = None) \<noteq> (res_error res = None) \<and> res_id res = req_id req"
  using handle_shape [where R = R and C = C and req = req and s = s] by simp

lemma handle_not_Err: "handle R C req s \<noteq> (Err e, s')"
  using handle_shape [where R = R and C = C and req = req and s = s] by auto

interpretation rpc_dispatch: dispatcher "handle R C" for R C
  by unfold_locales (simp_all add: handle_Ok_shape handle_not_Err)

section \<open>The blocking dispatcher\<close>

lemma blocking_handle_method: "blocking_handle_method (blocking_of R) C method params = handle_method R C method params"
  by (simp only: blocking_handle_method_def handle_method_def blocking_handle_defs handle_defs blocking_of_fields)

lemma blocking_handle_eq: "blocking_handle (blocking_of R) C = handle R C"
  by (simp add: fun_eq_iff blocking_handle_def handle_def blocking_handle_method)

interpretation blocking_dispatch: dispatcher "blocking_handle (blocking_of R) C" for R C
  unfolding blocking_handle_eq by (rule rpc_dispatch.dispatcher_axioms)

section \<open>A client in front of a dispatcher\<close>

definition args_ok :: "('v, 'a, 'r) method_codec \<Rightarrow> bool" where
  "args_ok C \<longleftrightarrow> (\<forall>a. \<exists>v. args_to_value C a = Ok v \<and> decode_args C v = Some a)"

definition ret_ok :: "('v, 'a, 'r) method_codec \<Rightarrow> bool" where
  "ret_ok C \<longleftrightarrow> (\<forall>r. \<exists>v. ret_to_value C r = Ok v \<and> ret_from_value C v = Ok r)"

text \<open>Encoding never fails and decoding gives back what was encoded, for the arguments and
  the result of every method. The names of the arguments (\<open>ArgByName\<close>) and their order
  (\<open>ArgByPos\<close>) are part of the conversions. The type of a newtype is wider here than in the
  sources, whose values are all valid: of a text that no value can hold, the laws only say that
  it would be carried unchanged.\<close>

definition codecs_ok :: "'v codecs \<Rightarrow> bool" where
  "codecs_ok C \<longleftrightarrow>
     args_ok (getProof_codec C) \<and> ret_ok (getProof_codec C) \<and>
     args_ok (getTxStatus_codec C) \<and> ret_ok (getTxStatus_codec C) \<and>
     ret_ok (version_codec C) \<and>
     args_ok (addDeclareTransaction_codec C) \<and> ret_ok (addDeclareTransaction_codec C) \<and>
     args_ok (addDeployAccountTransaction_codec C) \<and> ret_ok (addDeployAccountTransaction_codec C) \<and>
     args_ok (addInvokeTransaction_codec C) \<and> ret_ok (addInvokeTransaction_codec C) \<and>
     ret_ok (blockHashAndNumber_codec C) \<and>
     ret_ok (blockNumber_codec C) \<and>
     args_ok (call_codec C) \<and> ret_ok (call_codec C) \<and>
     ret_ok (chainId_codec C) \<and>
     args_ok (estimateFee_codec C) \<and> ret_ok (estimateFee_codec C) \<and>
     args_ok (estimateMessageFee_codec C) \<and> ret_ok (estimateMessageFee_codec C) \<and>
     args_ok (getBlockTransactionCount_codec C) \<and> ret_ok (getBlockTransactionCount_codec C) \<and>
     args_ok (getBlockWithReceipts_codec C) \<and> ret_ok (getBlockWithReceipts_codec C) \<and>
     args_ok (getBlockWithTxHashes_codec C) \<and> ret_ok (getBlockWithTxHashes_codec C) \<and>
     args_ok (getBlockWithTxs_codec C) \<and> ret_ok (getBlockWithTxs_codec C) \<and>
     args_ok (getClass_codec C) \<and> ret_ok (getClass_codec C) \<and>
     args_ok (getClassAt_codec C) \<and> ret_ok (getClassAt_codec C) \<and>
     args_ok (getClassHashAt_codec C) \<and> ret_ok (getClassHashAt_codec C) \<and>
     args_ok (getEvents_codec C) \<and> ret_ok (getEvents_codec C) \<and>
     args_ok (getNonce_codec C) \<and> ret_ok (getNonce_codec C) \<and>
     args_ok (getStateUpdate_codec C) \<and> ret_ok (getStateUpdate_codec C) \<and>
     args_ok (getStorageAt_codec C) \<and> ret_ok (getStorageAt_codec C) \<and>
     args_ok (getTransactionByBlockIdAndIndex_codec C) \<and> ret_ok (getTransactionByBlockIdAndIndex_codec C) \<and>
     args_ok (getTransactionByHash_codec C) \<and> ret_ok (getTransactionByHash_codec C) \<and>
     args_ok (getTransactionReceipt_codec C) \<and> ret_ok (getTransactionReceipt_codec C) \<and>
     args_ok (getTransactionStatus_codec C) \<and> ret_ok (getTransactionStatus_codec C) \<and>
     args_ok (simulateTransactions_codec C) \<and> ret_ok (simulateTransactions_codec C) \<and>
     ret_ok (specVersion_codec C) \<and>
     ret_ok (syncing_codec C) \<and>
     args_ok (traceBlockTransactions_codec C) \<and> ret_ok (traceBlockTransactions_codec C) \<and>
     args_ok (traceTransaction_codec C) \<and> ret_ok (traceTransaction_codec C)"

lemma client_answer_Ok:
  "client_answer C res = Ok r \<longleftrightarrow>
     res_error res = None \<and> (\<exists>v. res_result res = Some v \<and> ret_from_value C v = Ok r)"
  by (auto simp: client_answer_def outcome_simps split: option.splits)

lemma answer_respond:
  assumes "ret_ok C"
  shows "io_bind (respond bad C m) (\<lambda>res. io_lift (client_answer C (with_id res i))) = m"
proof
  fix s
  obtain r s' where m: "m s = (r, s')" by fastforce
  show "io_bind (respond bad C m) (\<lambda>res. io_lift (client_answer C (with_id res i))) s = m s"
  proof (cases r)
    case (Ok x)
    with assms obtain v where "ret_to_value C x = Ok v" "ret_from_value C v = Ok x"
      by (auto simp: ret_ok_def)
    then show ?thesis using m Ok by (simp add: io_bind_def respond_def client_answer_def)
  qed (use m in \<open>simp_all add: io_bind_def respond_def client_answer_def\<close>)
qed

lemma send_handle:
  "client_send (\<lambda>_. handle R C) url Cd method params =
     io_bind (handle_method R C method params) (\<lambda>res. io_lift (client_answer Cd (with_id res (NumberId 1))))"
  by (auto simp: client_send_def handle_run io_bind_def fun_eq_iff split: prod.split outcome.split)

lemma send_serves:
  assumes "handle_method R C method params = handle_no_args Cd m" and "ret_ok Cd"
  shows "client_send (\<lambda>_. handle R C) url Cd method params = m"
  using assms(2) by (simp add: send_handle assms(1) handle_no_args_def answer_respond)

lemma call_serves:
  assumes "\<And>params. handle_method R C method params = handle_args Cd f params" and "args_ok Cd" and "ret_ok Cd"
  shows "call_method (\<lambda>_. handle R C) url Cd method args = f args"
proof -
  obtain v where "args_to_value Cd args = Ok v" "decode_args Cd v = Some args"
    using assms(2) by (auto simp: args_ok_def)
  then show ?thesis
    using assms(3) by (simp add: call_method_def send_handle assms(1) handle_args_def answer_respond)
qed

lemma codecs_okD:
  assumes "codecs_ok C"
  shows
    "args_ok (getProof_codec C)" "ret_ok (getProof_codec C)"
    "args_ok (getTxStatus_codec C)" "ret_ok (getTxStatus_codec C)"
    "ret_ok (version_codec C)"
    "args_ok (addDeclareTransaction_codec C)" "ret_ok (addDeclareTransaction_codec C)"
    "args_ok (addDeployAccountTransaction_codec C)" "ret_ok (addDeployAccountTransaction_codec C)"
    "args_ok (addInvokeTransaction_codec C)" "ret_ok (addInvokeTransaction_codec C)"
    "ret_ok (blockHashAndNumber_codec C)"
    "ret_ok (blockNumber_codec C)"
    "args_ok (call_codec C)" "ret_ok (call_codec C)"
    "ret_ok (chainId_codec C)"
    "args_ok (estimateFee_codec C)" "ret_ok (estimateFee_codec C)"
    "args_ok (estimateMessageFee_codec C)" "ret_ok (estimateMessageFee_codec C)"
    "args_ok (getBlockTransactionCount_codec C)" "ret_ok (getBlockTransactionCount_codec C)"
    "args_ok (getBlockWithReceipts_codec C)" "ret_ok (getBlockWithReceipts_codec C)"
    "args_ok (getBlockWithTxHashes_codec C)" "ret_ok (getBlockWithTxHashes_codec C)"
    "args_ok (getBlockWithTxs_codec C)" "ret_ok (getBlockWithTxs_codec C)"
    "args_ok (getClass_codec C)" "ret_ok (getClass_codec C)"
    "args_ok (getClassAt_codec C)" "ret_ok (getClassAt_codec C)"
    "args_ok (getClassHashAt_codec C)" "ret_ok (getClassHashAt_codec C)"
    "args_ok (getEvents_codec C)" "ret_ok (getEvents_codec C)"
    "args_ok (getNonce_codec C)" "ret_ok (getNonce_codec C)"
    "args_ok (getStateUpdate_codec C)" "ret_ok (getStateUpdate_codec C)"
    "args_ok (getStorageAt_codec C)" "ret_ok (getStorageAt_codec C)"
    "args_ok (getTransactionByBlockIdAndIndex_codec C)" "ret_ok (getTransactionByBlockIdAndIndex_codec C)"
    "args_ok (getTransactionByHash_codec C)" "ret_ok (getTransactionByHash_codec C)"
    "args_ok (getTransactionReceipt_codec C)" "ret_ok (getTransactionReceipt_codec C)"
    "args_ok (getTransactionStatus_codec C)" "ret_ok (getTransactionStatus_codec C)"
    "args_ok (simulateTransactions_codec C)" "ret_ok (simulateTransactions_codec C)"
    "ret_ok (specVersion_codec C)"
    "ret_ok (syncing_codec C)"
    "args_ok (traceBlockTransactions_codec C)" "ret_ok (traceBlockTransactions_codec C)"
    "args_ok (traceTransaction_codec C)" "ret_ok (traceTransaction_codec C)"
  using assms by (simp_all add: codecs_ok_def)

lemma handle_method_args:
  "handle_method R C ''pathfinder_getProof'' params =
     handle_args (getProof_codec C) (\<lambda>(block_id, contract_address, keys). rpc_getProof R block_id contract_address keys) params"
  "handle_method R C ''pathfinder_getTxStatus'' params =
     handle_args (getTxStatus_codec C) (\<lambda>transaction_hash. rpc_getTxStatus R transaction_hash) params"
  "handle_method R C ''starknet_addDeclareTransaction'' params =
     handle_args (addDeclareTransaction_codec C) (\<lambda>declare_transaction. rpc_addDeclareTransaction R declare_transaction) params"
  "handle_method R C ''starknet_addDeployAccountTransaction'' params =
     handle_args (addDeployAccountTransaction_codec C) (\<lambda>deploy_account_transaction. rpc_addDeployAccountTransaction R deploy_account_transaction) params"
  "handle_method R C ''starknet_addInvokeTransaction'' params =
     handle_args (addInvokeTransaction_codec C) (\<lambda>invoke_transaction. rpc_addInvokeTransaction R invoke_transaction) params"
  "handle_method R C ''starknet_call'' params =
     handle_args (call_codec C) (\<lambda>(request, block_id). rpc_call R request block_id) params"
  "handle_method R C ''starknet_estimateFee'' params =
     handle_args (estimateFee_codec C) (\<lambda>(request, simulation_flags, block_id). rpc_estimateFee R request simulation_flags block_id) params"
  "handle_method R C ''starknet_estimateMessageFee'' params =
     handle_args (estimateMessageFee_codec C) (\<lambda>(msg, block_id). rpc_estimateMessageFee R msg block_id) params"
  "handle_method R C ''starknet_getBlockTransactionCount'' params =
     handle_args (getBlockTransactionCount_codec C) (\<lambda>block_id. rpc_getBlockTransactionCount R block_id) params"
  "handle_method R C ''starknet_getBlockWithReceipts'' params =
     handle_args (getBlockWithReceipts_codec C) (\<lambda>block_id. rpc_getBlockWithReceipts R block_id) params"
  "handle_method R C ''starknet_getBlockWithTxHashes'' params =
     handle_args (getBlockWithTxHashes_codec C) (\<lambda>block_id. rpc_getBlockWithTxHashes R block_id) params"
  "handle_method R C ''starknet_getBlockWithTxs'' params =
     handle_args (getBlockWithTxs_codec C) (\<lambda>block_id. rpc_getBlockWithTxs R block_id) params"
  "handle_method R C ''starknet_getClass'' params =
     handle_args (getClass_codec C) (\<lambda>(block_id, class_hash). rpc_getClass R block_id class_hash) params"
  "handle_method R C ''starknet_getClassAt'' params =
     handle_args (getClassAt_codec C) (\<lambda>(block_id, contract_address). rpc_getClassAt R block_id contract_address) params"
  "handle_method R C ''starknet_getClassHashAt'' params =
     handle_args (getClassHashAt_codec C) (\<lambda>(block_id, contract_address). rpc_getClassHashAt R block_id contract_address) params"
  "handle_method R C ''starknet_getEvents'' params =
     handle_args (getEvents_codec C) (\<lambda>events_filter. rpc_getEvents R events_filter) params"
  "handle_method R C ''starknet_getNonce'' params =
     handle_args (getNonce_codec C) (\<lambda>(block_id, contract_address). rpc_getNonce R block_id contract_address) params"
  "handle_method R C ''starknet_getStateUpdate'' params =
     handle_args (getStateUpdate_codec C) (\<lambda>block_id. rpc_getStateUpdate R block_id) params"
  "handle_method R C ''starknet_getStorageAt'' params =
     handle_args (getStorageAt_codec C) (\<lambda>(contract_address, key, block_id). rpc_getStorageAt R contract_address key block_id) params"
  "handle_method R C ''starknet_getTransactionByBlockIdAndIndex'' params =
     handle_args (getTransactionByBlockIdAndIndex_codec C) (\<lambda>(block_id, index). rpc_getTransactionByBlockIdAndIndex R block_id index) params"
  "handle_method R C ''starknet_getTransactionByHash'' params =
     handle_args (getTransactionByHash_codec C) (\<lambda>transaction_hash. rpc_getTransactionByHash R transaction_hash) params"
  "handle_method R C ''starknet_getTransactionReceipt'' params =
     handle_args (getTransactionReceipt_codec C) (\<lambda>transaction_hash. rpc_getTransactionReceipt R transaction_hash) params"
  "handle_method R C ''starknet_getTransactionStatus'' params =
     handle_args (getTransactionStatus_codec C) (\<lambda>transaction_hash. rpc_getTransactionStatus R transaction_hash) params"
  "handle_method R C ''starknet_simulateTransactions'' params =
     handle_args (simulateTransactions_codec C) (\<lambda>(block_id, transactions, simulation_flags). rpc_simulateTransactions R block_id transactions simulation_flags) params"
  "handle_method R C ''starknet_traceBlockTransactions'' params =
     handle_args (traceBlockTransactions_codec C) (\<lambda>block_id. rpc_traceBlockTransactions R block_id) params"
  "handle_method R C ''starknet_traceTransaction'' params =
     handle_args (traceTransaction_codec C) (\<lambda>transaction_hash. rpc_traceTransaction R transaction_hash) params"
  by (simp_all only: handle_method_simps handle_defs)

lemma handle_method_no_args:
  "handle_method R C ''pathfinder_version'' params =
     handle_no_args (version_codec C) (rpc_version R)"
  "handle_method R C ''starknet_blockHashAndNumber'' params =
     handle_no_args (blockHashAndNumber_codec C) (rpc_blockHashAndNumber R)"
  "handle_method R C ''starknet_blockNumber'' params =
     handle_no_args (blockNumber_codec C) (rpc_blockNumber R)"
  "handle_method R C ''starknet_chainId'' params =
     handle_no_args (chainId_codec C) (rpc_chainId R)"
  "handle_method R C ''starknet_specVersion'' params =
     handle_no_args (specVersion_codec C) (rpc_specVersion R)"
  "handle_method R C ''starknet_syncing'' params =
     handle_no_args (syncing_codec C) (rpc_syncing R)"
  by (simp_all only: handle_method_simps handle_defs)

lemmas call_serves_all =
  call_serves [OF handle_method_args(1)]
  call_serves [OF handle_method_args(2)]
  call_serves [OF handle_method_args(3)]
  call_serves [OF handle_method_args(4)]
  call_serves [OF handle_method_args(5)]
  call_serves [OF handle_method_args(6)]
  call_serves [OF handle_method_args(7)]
  call_serves [OF handle_method_args(8)]
  call_serves [OF handle_method_args(9)]
  call_serves [OF handle_method_args(10)]
  call_serves [OF handle_method_args(11)]
  call_serves [OF handle_method_args(12)]
  call_serves [OF handle_method_args(13)]
  call_serves [OF handle_method_args(14)]
  call_serves [OF handle_method_args(15)]
  call_serves [OF handle_method_args(16)]
  call_serves [OF handle_method_args(17)]
  call_serves [OF handle_method_args(18)]
  call_serves [OF handle_method_args(19)]
  call_serves [OF handle_method_args(20)]
  call_serves [OF handle_method_args(21)]
  call_serves [OF handle_method_args(22)]
  call_serves [OF handle_method_args(23)]
  call_serves [OF handle_method_args(24)]
  call_serves [OF handle_method_args(25)]
  call_serves [OF handle_method_args(26)]

lemmas send_serves_all =
  send_serves [OF handle_method_no_args(1)]
  send_serves [OF handle_method_no_args(2)]
  send_serves [OF handle_method_no_args(3)]
  send_serves [OF handle_method_no_args(4)]
  send_serves [OF handle_method_no_args(5)]
  send_serves [OF handle_method_no_args(6)]

lemma StarknetClient_new_fields [simp]:
  "client_http (StarknetClient_new url http) = http" "client_url (StarknetClient_new url http) = url"
  by (simp_all add: StarknetClient_new_def)

lemma client_of_handle:
  assumes "codecs_ok C"
  shows
    "client_getProof (StarknetClient_new url (\<lambda>_. handle R C)) C = rpc_getProof R"
    "client_getTxStatus (StarknetClient_new url (\<lambda>_. handle R C)) C = rpc_getTxStatus R"
    "client_version (StarknetClient_new url (\<lambda>_. handle R C)) C = rpc_version R"
    "client_addDeclareTransaction (StarknetClient_new url (\<lambda>_. handle R C)) C = rpc_addDeclareTransaction R"
    "client_addDeployAccountTransaction (StarknetClient_new url (\<lambda>_. handle R C)) C = rpc_addDeployAccountTransaction R"
    "client_addInvokeTransaction (StarknetClient_new url (\<lambda>_. handle R C)) C = rpc_addInvokeTransaction R"
    "client_blockHashAndNumber (StarknetClient_new url (\<lambda>_. handle R C)) C = rpc_blockHashAndNumber R"
    "client_blockNumber (StarknetClient_new url (\<lambda>_. handle R C)) C = rpc_blockNumber R"
    "client_call (StarknetClient_new url (\<lambda>_. handle R C)) C = rpc_call R"
    "client_chainId (StarknetClient_new url (\<lambda>_. handle R C)) C = rpc_chainId R"
    "client_estimateFee (StarknetClient_new url (\<lambda>_. handle R C)) C = rpc_estimateFee R"
    "client_estimateMessageFee (StarknetClient_new url (\<lambda>_. handle R C)) C = rpc_estimateMessageFee R"
    "client_getBlockTransactionCount (StarknetClient_new url (\<lambda>_. handle R C)) C = rpc_getBlockTransactionCount R"
    "client_getBlockWithReceipts (StarknetClient_new url (\<lambda>_. handle R C)) C = rpc_getBlockWithReceipts R"
    "client_getBlockWithTxHashes (StarknetClient_new url (\<lambda>_. handle R C)) C = rpc_getBlockWithTxHashes R"
    "client_getBlockWithTxs (StarknetClient_new url (\<lambda>_. handle R C)) C = rpc_getBlockWithTxs R"
    "client_getClass (StarknetClient_new url (\<lambda>_. handle R C)) C = rpc_getClass R"
    "client_getClassAt (StarknetClient_new url (\<lambda>_. handle R C)) C = rpc_getClassAt R"
    "client_getClassHashAt (StarknetClient_new url (\<lambda>_. handle R C)) C = rpc_getClassHashAt R"
    "client_getEvents (StarknetClient_new url (\<lambda>_. handle R C)) C = rpc_getEvents R"
    "client_getNonce (StarknetClient_new url (\<lambda>_. handle R C)) C = rpc_getNonce R"
    "client_getStateUpdate (StarknetClient_new url (\<lambda>_. handle R C)) C = rpc_getStateUpdate R"
    "client_getStorageAt (StarknetClient_new url (\<lambda>_. handle R C)) C = rpc_getStorageAt R"
    "client_getTransactionByBlockIdAndIndex (StarknetClient_new url (\<lambda>_. handle R C)) C = rpc_getTransactionByBlockIdAndIndex R"
    "client_getTransactionByHash (StarknetClient_new url (\<lambda>_. handle R C)) C = rpc_getTransactionByHash R"
    "client_getTransactionReceipt (StarknetClient_new url (\<lambda>_. handle R C)) C = rpc_getTransactionReceipt R"
    "client_getTransactionStatus (StarknetClient_new url (\<lambda>_. handle R C)) C = rpc_getTransactionStatus R"
    "client_simulateTransactions (StarknetClient_new url (\<lambda>_. handle R C)) C = rpc_simulateTransactions R"
    "client_specVersion (StarknetClient_new url (\<lambda>_. handle R C)) C = rpc_specVersion R"
    "client_syncing (StarknetClient_new url (\<lambda>_. handle R C)) C = rpc_syncing R"
    "client_traceBlockTransactions (StarknetClient_new url (\<lambda>_. handle R C)) C = rpc_traceBlockTransactions R"
    "client_traceTransaction (StarknetClient_new url (\<lambda>_. handle R C)) C = rpc_traceTransaction R"
  by (simp_all only: fun_eq_iff client_defs StarknetClient_new_fields call_serves_all send_serves_all
      codecs_okD [OF assms] prod.case simp_thms)

section \<open>Sample conversions\<close>

text \<open>Conversions that satisfy \<open>codecs_ok\<close>, for the witness: a JSON value is a tagged
  argument tuple or a tagged result.\<close>

datatype sample_args =
    Sample_args0 "BlockId \<times> Address \<times> StorageKey list"
  | Sample_args1 "TxnHash"
  | Sample_args2 "BroadcastedDeclareTxn"
  | Sample_args3 "BroadcastedDeployAccountTxn"
  | Sample_args4 "BroadcastedInvokeTxn"
  | Sample_args5 "FunctionCall \<times> BlockId"
  | Sample_args6 "BroadcastedTxn list \<times> SimulationFlagForEstimateFee list \<times> BlockId"
  | Sample_args7 "MsgFromL1 \<times> BlockId"
  | Sample_args8 "BlockId"
  | Sample_args9 "BlockId \<times> Felt"
  | Sample_args10 "BlockId \<times> Address"
  | Sample_args11 "GetEventsFilter"
  | Sample_args12 "Address \<times> StorageKey \<times> BlockId"
  | Sample_args13 "BlockId \<times> GetTransactionByBlockIdAndIndexIndex"
  | Sample_args14 "BlockId \<times> BroadcastedTxn list \<times> SimulationFlag list"
  | Sample_args15 "unit"

datatype sample_rets =
    Sample_rets0 "GetProofResult"
  | Sample_rets1 "TxGatewayStatus"
  | Sample_rets2 "string"
  | Sample_rets3 "AddDeclareTransactionResult"
  | Sample_rets4 "AddDeployAccountTransactionResult"
  | Sample_rets5 "AddInvokeTransactionResult"
  | Sample_rets6 "BlockHashAndNumberResult"
  | Sample_rets7 "BlockNumber"
  | Sample_rets8 "Felt list"
  | Sample_rets9 "ChainId"
  | Sample_rets10 "FeeEstimate list"
  | Sample_rets11 "FeeEstimate"
  | Sample_rets12 "GetBlockTransactionCountResult"
  | Sample_rets13 "GetBlockWithReceiptsResult"
  | Sample_rets14 "GetBlockWithTxHashesResult"
  | Sample_rets15 "GetBlockWithTxsResult"
  | Sample_rets16 "GetClassResult"
  | Sample_rets17 "GetClassAtResult"
  | Sample_rets18 "Felt"
  | Sample_rets19 "EventsChunk"
  | Sample_rets20 "GetStateUpdateResult"
  | Sample_rets21 "GetTransactionByBlockIdAndIndexResult"
  | Sample_rets22 "GetTransactionByHashResult"
  | Sample_rets23 "TxnReceiptWithBlockInfo"
  | Sample_rets24 "GetTransactionStatusResult"
  | Sample_rets25 "SimulatedTransaction list"
  | Sample_rets26 "SyncingResult"
  | Sample_rets27 "BlockTransactionTrace list"
  | Sample_rets28 "TransactionTrace"

definition sample_codec ::
  "('a \<Rightarrow> sample_args) \<Rightarrow> (sample_args \<Rightarrow> 'a option) \<Rightarrow> ('r \<Rightarrow> sample_rets) \<Rightarrow> (sample_rets \<Rightarrow> 'r option)
     \<Rightarrow> (sample_args + sample_rets, 'a, 'r) method_codec" where
  "sample_codec ea da er dr = \<lparr>
     args_by_name = (\<lambda>_. None),
     args_by_pos = (\<lambda>v. case v of Inl x \<Rightarrow> da x | Inr _ \<Rightarrow> None),
     args_to_value = (\<lambda>a. Ok (Inl (ea a))),
     ret_to_value = (\<lambda>r. Ok (Inr (er r))),
     ret_from_value = (\<lambda>v. case v of Inl _ \<Rightarrow> Err ''no result'' | Inr x \<Rightarrow> ok_or (dr x) ''no result'')\<rparr>"

definition sample_codecs :: "(sample_args + sample_rets) codecs" where
  "sample_codecs = \<lparr>
     null_value = Inl (Sample_args15 ()), empty_array = Inl (Sample_args15 ()),
     getProof_codec = sample_codec Sample_args0 (\<lambda>x. case x of Sample_args0 a \<Rightarrow> Some a | _ \<Rightarrow> None)
       Sample_rets0 (\<lambda>x. case x of Sample_rets0 r \<Rightarrow> Some r | _ \<Rightarrow> None),
     getTxStatus_codec = sample_codec Sample_args1 (\<lambda>x. case x of Sample_args1 a \<Rightarrow> Some a | _ \<Rightarrow> None)
       Sample_rets1 (\<lambda>x. case x of Sample_rets1 r \<Rightarrow> Some r | _ \<Rightarrow> None),
     version_codec = sample_codec Sample_args15 (\<lambda>x. case x of Sample_args15 a \<Rightarrow> Some a | _ \<Rightarrow> None)
       Sample_rets2 (\<lambda>x. case x of Sample_rets2 r \<Rightarrow> Some r | _ \<Rightarrow> None),
     addDeclareTransaction_codec = sample_codec Sample_args2 (\<lambda>x. case x of Sample_args2 a \<Rightarrow> Some a | _ \<Rightarrow> None)
       Sample_rets3 (\<lambda>x. case x of Sample_rets3 r \<Rightarrow> Some r | _ \<Rightarrow> None),
     addDeployAccountTransaction_codec = sample_codec Sample_args3 (\<lambda>x. case x of Sample_args3 a \<Rightarrow> Some a | _ \<Rightarrow> None)
       Sample_rets4 (\<lambda>x. case x of Sample_rets4 r \<Rightarrow> Some r | _ \<Rightarrow> None),
     addInvokeTransaction_codec = sample_codec Sample_args4 (\<lambda>x. case x of Sample_args4 a \<Rightarrow> Some a | _ \<Rightarrow> None)
       Sample_rets5 (\<lambda>x. case x of Sample_rets5 r \<Rightarrow> Some r | _ \<Rightarrow> None),
     blockHashAndNumber_codec = sample_codec Sample_args15 (\<lambda>x. case x of Sample_args15 a \<Rightarrow> Some a | _ \<Rightarrow> None)
       Sample_rets6 (\<lambda>x. case x of Sample_rets6 r \<Rightarrow> Some r | _ \<Rightarrow> None),
     blockNumber_codec = sample_codec Sample_args15 (\<lambda>x. case x of Sample_args15 a \<Rightarrow> Some a | _ \<Rightarrow> None)
       Sample_rets7 (\<lambda>x. case x of Sample_rets7 r \<Rightarrow> Some r | _ \<Rightarrow> None),
     call_codec = sample_codec Sample_args5 (\<lambda>x. case x of Sample_args5 a \<Rightarrow> Some a | _ \<Rightarrow> None)
       Sample_rets8 (\<lambda>x. case x of Sample_rets8 r \<Rightarrow> Some r | _ \<Rightarrow> None),
     chainId_codec = sample_codec Sample_args15 (\<lambda>x. case x of Sample_args15 a \<Rightarrow> Some a | _ \<Rightarrow> None)
       Sample_rets9 (\<lambda>x. case x of Sample_rets9 r \<Rightarrow> Some r | _ \<Rightarrow> None),
     estimateFee_codec = sample_codec Sample_args6 (\<lambda>x. case x of Sample_args6 a \<Rightarrow> Some a | _ \<Rightarrow> None)
       Sample_rets10 (\<lambda>x. case x of Sample_rets10 r \<Rightarrow> Some r | _ \<Rightarrow> None),
     estimateMessageFee_codec = sample_codec Sample_args7 (\<lambda>x. case x of Sample_args7 a \<Rightarrow> Some a | _ \<Rightarrow> None)
       Sample_rets11 (\<lambda>x. case x of Sample_rets11 r \<Rightarrow> Some r | _ \<Rightarrow> None),
     getBlockTransactionCount_codec = sample_codec Sample_args8 (\<lambda>x. case x of Sample_args8 a \<Rightarrow> Some a | _ \<Rightarrow> None)
       Sample_rets12 (\<lambda>x. case x of Sample_rets12 r \<Rightarrow> Some r | _ \<Rightarrow> None),
     getBlockWithReceipts_codec = sample_codec Sample_args8 (\<lambda>x. case x of Sample_args8 a \<Rightarrow> Some a | _ \<Rightarrow> None)
       Sample_rets13 (\<lambda>x. case x of Sample_rets13 r \<Rightarrow> Some r | _ \<Rightarrow> None),
     getBlockWithTxHashes_codec = sample_codec Sample_args8 (\<lambda>x. case x of Sample_args8 a \<Rightarrow> Some a | _ \<Rightarrow> None)
       Sample_rets14 (\<lambda>x. case x of Sample_rets14 r \<Rightarrow> Some r | _ \<Rightarrow> None),
     getBlockWithTxs_codec = sample_codec Sample_args8 (\<lambda>x. case x of Sample_args8 a \<Rightarrow> Some a | _ \<Rightarrow> None)
       Sample_rets15 (\<lambda>x. case x of Sample_rets15 r \<Rightarrow> Some r | _ \<Rightarrow> None),
     getClass_codec = sample_codec Sample_args9 (\<lambda>x. case x of Sample_args9 a \<Rightarrow> Some a | _ \<Rightarrow> None)
       Sample_rets16 (\<lambda>x. case x of Sample_rets16 r \<Rightarrow> Some r | _ \<Rightarrow> None),
     getClassAt_codec = sample_codec Sample_args10 (\<lambda>x. case x of Sample_args10 a \<Rightarrow> Some a | _ \<Rightarrow> None)
       Sample_rets17 (\<lambda>x. case x of Sample_rets17 r \<Rightarrow> Some r | _ \<Rightarrow> None),
     getClassHashAt_codec = sample_codec Sample_args10 (\<lambda>x. case x of Sample_args10 a \<Rightarrow> Some a | _ \<Rightarrow> None)
       Sample_rets18 (\<lambda>x. case x of Sample_rets18 r \<Rightarrow> Some r | _ \<Rightarrow> None),
     getEvents_codec = sample_codec Sample_args11 (\<lambda>x. case x of Sample_args11 a \<Rightarrow> Some a | _ \<Rightarrow> None)
       Sample_rets19 (\<lambda>x. case x of Sample_rets19 r \<Rightarrow> Some r | _ \<Rightarrow> None),
     getNonce_codec = sample_codec Sample_args10 (\<lambda>x. case x of Sample_args10 a \<Rightarrow> Some a | _ \<Rightarrow> None)
       Sample_rets18 (\<lambda>x. case x of Sample_rets18 r \<Rightarrow> Some r | _ \<Rightarrow> None),
     getStateUpdate_codec = sample_codec Sample_args8 (\<lambda>x. case x of Sample_args8 a \<Rightarrow> Some a | _ \<Rightarrow> None)
       Sample_rets20 (\<lambda>x. case x of Sample_rets20 r \<Rightarrow> Some r | _ \<Rightarrow> None),
     getStorageAt_codec = sample_codec Sample_args12 (\<lambda>x. case x of Sample_args12 a \<Rightarrow> Some a | _ \<Rightarrow> None)
       Sample_rets18 (\<lambda>x. case x of Sample_rets18 r \<Rightarrow> Some r | _ \<Rightarrow> None),
     getTransactionByBlockIdAndIndex_codec = sample_codec Sample_args13 (\<lambda>x. case x of Sample_args13 a \<Rightarrow> Some a | _ \<Rightarrow> None)
       Sample_rets21 (\<lambda>x. case x of Sample_rets21 r \<Rightarrow> Some r | _ \<Rightarrow> None),
     getTransactionByHash_codec = sample_codec Sample_args1 (\<lambda>x. case x of Sample_args1 a \<Rightarrow> Some a | _ \<Rightarrow> None)
       Sample_rets22 (\<lambda>x. case x of Sample_rets22 r \<Rightarrow> Some r | _ \<Rightarrow> None),
     getTransactionReceipt_codec = sample_codec Sample_args1 (\<lambda>x. case x of Sample_args1 a \<Rightarrow> Some a | _ \<Rightarrow> None)
       Sample_rets23 (\<lambda>x. case x of Sample_rets23 r \<Rightarrow> Some r | _ \<Rightarrow> None),
     getTransactionStatus_codec = sample_codec Sample_args1 (\<lambda>x. case x of Sample_args1 a \<Rightarrow> Some a | _ \<Rightarrow> None)
       Sample_rets24 (\<lambda>x. case x of Sample_rets24 r \<Rightarrow> Some r | _ \<Rightarrow> None),
     simulateTransactions_codec = sample_codec Sample_args14 (\<lambda>x. case x of Sample_args14 a \<Rightarrow> Some a | _ \<Rightarrow> None)
       Sample_rets25 (\<lambda>x. case x of Sample_rets25 r \<Rightarrow> Some r | _ \<Rightarrow> None),
     specVersion_codec = sample_codec Sample_args15 (\<lambda>x. case x of Sample_args15 a \<Rightarrow> Some a | _ \<Rightarrow> None)
       Sample_rets2 (\<lambda>x. case x of Sample_rets2 r \<Rightarrow> Some r | _ \<Rightarrow> None),
     syncing_codec = sample_codec Sample_args15 (\<lambda>x. case x of Sample_args15 a \<Rightarrow> Some a | _ \<Rightarrow> None)
       Sample_rets26 (\<lambda>x. case x of Sample_rets26 r \<Rightarrow> Some r | _ \<Rightarrow> None),
     traceBlockTransactions_codec = sample_codec Sample_args8 (\<lambda>x. case x of Sample_args8 a \<Rightarrow> Some a | _ \<Rightarrow> None)
       Sample_rets27 (\<lambda>x. case x of Sample_rets27 r \<Rightarrow> Some r | _ \<Rightarrow> None),
     traceTransaction_codec = sample_codec Sample_args1 (\<lambda>x. case x of Sample_args1 a \<Rightarrow> Some a | _ \<Rightarrow> None)
       Sample_rets28 (\<lambda>x. case x of Sample_rets28 r \<Rightarrow> Some r | _ \<Rightarrow> None)\<rparr>"

lemma sample_codec_ok:
  "(\<And>a. da (ea a) = Some a) \<Longrightarrow> args_ok (sample_codec ea da er dr)"
  "(\<And>r. dr (er r) = Some r) \<Longrightarrow> ret_ok (sample_codec ea da er dr)"
  by (simp_all add: args_ok_def ret_ok_def sample_codec_def decode_args_def)

lemma sample_codecs_ok: "codecs_ok sample_codecs"
  unfolding codecs_ok_def sample_codecs_def by (simp add: sample_codec_ok)

section \<open>Properties\<close>

text \<open>
  C27. Every answer of \<open>handle\<close> carries the id of the request and exactly one of a result
  and an error; \<open>handle\<close> itself never fails, whatever the method, the parameters and the
  implementation behind it.
\<close>

theorem handle_answers:
  "case handle R C req s of
     (Ok res, _) \<Rightarrow> res_id res = req_id req \<and> (res_result res = None) \<noteq> (res_error res = None)
   | (Err e, _) \<Rightarrow> False
   | (Panicked, _) \<Rightarrow> True"
  by (rule rpc_dispatch.dispatch_cases [of R C req s]) simp_all

text \<open>A method that is not one of the 32 names is answered with -32601 and the request's id,
  and the implementation is not called: the world is as it was.\<close>

lemma handle_unknown_method:
  assumes "req_method req \<notin> set method_names"
  shows "handle R C req s =
    (Ok \<lparr>res_result = None, res_error = Some (rpc_err (- 32601) ''Method not found''), res_id = req_id req\<rparr>, s)"
  by (auto simp: handle_run handle_method_unknown [OF assms] response_error_def with_id_def split: option.split)

text \<open>A call of the generated client returns a value only if the arguments could be encoded,
  the post went through, the answer has no error, and its result decodes to that value;
  an error in the answer wins over a result.\<close>

lemma call_method_Ok_iff:
  "call_method http url C method args s = (Ok r, s') \<longleftrightarrow>
     (\<exists>params res v. args_to_value C args = Ok params \<and>
        http url \<lparr>req_method = method, req_params = Some params, req_id = Some (NumberId 1)\<rparr> s = (Ok res, s') \<and>
        res_error res = None \<and> res_result res = Some v \<and> ret_from_value C v = Ok r)"
  by (auto simp: call_method_def client_send_def client_answer_Ok outcome_simps)

text \<open>
  C24. A client whose posts are answered by \<open>handle\<close> is the implementation behind it: for
  every one of the 32 methods the names, the order of the arguments and the errors agree
  on both sides, when encoding and decoding are inverse.
\<close>

theorem client_of_server:
  assumes "codecs_ok C"
  shows "Client_Rpc (StarknetClient_new url (\<lambda>_. handle R C)) C = R"
  by (rule Rpc.equality) (simp_all add: Client_Rpc_def client_of_handle [OF assms])

theorem client_of_server_witness:
  "\<forall>R :: nat Rpc. Client_Rpc (StarknetClient_new ''http://localhost'' (\<lambda>_. handle R sample_codecs)) sample_codecs = R"
  by (intro allI client_of_server sample_codecs_ok)

end
