(* ===== verification/CacheFacts.thy ===== *)
theory CacheFacts
  imports Cache RpcFacts ProofProps
begin

text \<open>
  What the caches keep: a value read once is read again without a call, and every value a
  contract call reads through the cache is backed by a trusted state of the same block
  hash, however many calls with different states have filled the cache before.
\<close>

section \<open>Reading through the cache\<close>

lemma storage_get_run:
  assumes "lru_laws (storage_lru V) contents"
  shows "\<exists>l. storage_get V ck w = (Ok (contents (storage_cache w) ck), w\<lparr>storage_cache := l\<rparr>) \<and>
    contents l = contents (storage_cache w)"
  using lru_getD [OF assms, of ck "storage_cache w"]
  by (cases "lru_get (storage_lru V) ck (storage_cache w)") (auto simp: storage_get_def)

lemma storage_set_run:
  assumes "lru_laws (storage_lru V) contents"
  shows "\<exists>r l. storage_set V ck v w = (Ok r, w\<lparr>storage_cache := l\<rparr>) \<and>
    contents l ck = Some v \<and> contents l \<subseteq>\<^sub>m (contents (storage_cache w))(ck \<mapsto> v)"
  using lru_putD [OF assms, of ck v "storage_cache w"]
  by (cases "lru_put (storage_lru V) ck v (storage_cache w)") (auto simp: storage_set_def)

lemma cached_hit:
  assumes "lru_laws (storage_lru V) contents"
    and "storage_cache_key (cache_u256 V) (cache_field V) (inner_block_hash self) a k = Ok ck"
    and "contents (storage_cache w) ck = Some x"
  shows "\<exists>l. cached_get_storage_at V self a k w = (Ok x, w\<lparr>storage_cache := l\<rparr>) \<and>
    contents l = contents (storage_cache w)"
  using storage_get_run [OF assms(1), of ck w] assms(2,3)
  by (auto simp: cached_get_storage_at_def io_bind_def)

lemma cached_miss:
  assumes "lru_laws (storage_lru V) contents"
    and "storage_cache_key (cache_u256 V) (cache_field V) (inner_block_hash self) a k = Ok ck"
    and "contents (storage_cache w) ck = None"
    and "api_get_storage_at (inner self) a k (net w) = (r, s)"
  shows "\<exists>l. cached_get_storage_at V self a k w = (r, w\<lparr>net := s, storage_cache := l\<rparr>) \<and>
    (\<forall>x. r = Ok x \<longrightarrow> contents l ck = Some x \<and> contents l \<subseteq>\<^sub>m (contents (storage_cache w))(ck \<mapsto> x)) \<and>
    (is_ok r \<or> contents l = contents (storage_cache w))"
proof -
  obtain l where l: "storage_get V ck w = (Ok None, w\<lparr>storage_cache := l\<rparr>)"
      "contents l = contents (storage_cache w)"
    using storage_get_run [OF assms(1), of ck w] assms(3) by auto
  let ?w = "w\<lparr>net := s, storage_cache := l\<rparr>"
  have net: "on_net (api_get_storage_at (inner self) a k) (w\<lparr>storage_cache := l\<rparr>) = (r, ?w)"
    using assms(4) by (simp add: on_net_def)
  show ?thesis
  proof (cases r)
    case (Ok x)
    obtain r' l' where "storage_set V ck x ?w = (Ok r', ?w\<lparr>storage_cache := l'\<rparr>)"
        "contents l' ck = Some x" "contents l' \<subseteq>\<^sub>m (contents (storage_cache w))(ck \<mapsto> x)"
      using storage_set_run [OF assms(1), of ck x ?w] l(2) by auto
    then show ?thesis
      using l net Ok assms(2) by (auto simp: cached_get_storage_at_def io_bind_def)
  qed (use l net assms(2) in \<open>auto simp: cached_get_storage_at_def io_bind_def\<close>)
qed

section \<open>Backed by a trusted state\<close>

text \<open>The relation between a value and the numbers in its cache key; \<open>G b a k x\<close> says
  that \<open>x\<close> is a good value at address \<open>a\<close> and key \<open>k\<close> for the block with hash \<open>b\<close>.\<close>

definition storage_coherent ::
  "('u, 'f, 'c, 'l1, 'l2, 'l3) cache_env \<Rightarrow> ('l1 \<Rightarrow> 'u \<times> 'u \<times> 'u \<rightharpoonup> 'f) \<Rightarrow> ('u \<Rightarrow> 'f \<Rightarrow> 'f \<Rightarrow> 'f \<Rightarrow> bool)
     \<Rightarrow> ('s, 'l1, 'l2, 'l3) cached_world \<Rightarrow> bool" where
  "storage_coherent V contents G w \<longleftrightarrow>
     (\<forall>b ua uk x. contents (storage_cache w) (b, ua, uk) = Some x \<longrightarrow>
        (\<exists>a k. ua = u256_from_be_bytes (cache_u256 V) (to_bytes_be (cache_field V) a) \<and>
               uk = u256_from_be_bytes (cache_u256 V) (to_bytes_be (cache_field V) k) \<and> G b a k x))"

definition u256_law :: "('u, 'f, 'c, 'l1, 'l2, 'l3) cache_env \<Rightarrow> bool" where
  "u256_law V \<longleftrightarrow> inj (\<lambda>a. u256_from_be_bytes (cache_u256 V) (to_bytes_be (cache_field V) a))"

lemma u256_lawD:
  "u256_law V \<Longrightarrow>
     u256_from_be_bytes (cache_u256 V) (to_bytes_be (cache_field V) a)
       = u256_from_be_bytes (cache_u256 V) (to_bytes_be (cache_field V) a') \<Longrightarrow> a = a'"
  unfolding u256_law_def by (rule injD)

definition block_good ::
  "'u u256_ops \<Rightarrow> Felt \<Rightarrow> ('u \<Rightarrow> 'f \<Rightarrow> 'f \<Rightarrow> 'f \<Rightarrow> bool) \<Rightarrow> 'f \<Rightarrow> 'f \<Rightarrow> 'f \<Rightarrow> bool" where
  "block_good U h G a k x \<longleftrightarrow> (\<exists>b. u256_parse U (Felt_as_ref h) = Some b \<and> G b a k x)"

lemma storage_cache_key_eq:
  "storage_cache_key U F h a k = (case u256_parse U (Felt_as_ref h) of
     Some b \<Rightarrow> Ok (b, u256_from_be_bytes U (to_bytes_be F a), u256_from_be_bytes U (to_bytes_be F k))
   | None \<Rightarrow> Panicked)"
  by (simp add: storage_cache_key_def block_u256_def split: option.split)

lemma map_le_update_cases:
  assumes "m \<subseteq>\<^sub>m f(c \<mapsto> v)" and "m d = Some y"
  shows "f d = Some y \<or> d = c \<and> y = v"
proof -
  have "(f(c \<mapsto> v)) d = Some y" using assms by (force simp: map_le_def)
  then show ?thesis by (auto split: if_splits)
qed

lemma storage_coherent_update:
  assumes "storage_coherent V contents G w" and "G b a k x"
    and "contents l \<subseteq>\<^sub>m (contents (storage_cache w))(
      (b, u256_from_be_bytes (cache_u256 V) (to_bytes_be (cache_field V) a),
       u256_from_be_bytes (cache_u256 V) (to_bytes_be (cache_field V) k)) \<mapsto> x)"
  shows "storage_coherent V contents G (w\<lparr>net := s, storage_cache := l\<rparr>)"
  unfolding storage_coherent_def
proof (intro allI impI)
  fix b' ua uk y
  assume "contents (storage_cache (w\<lparr>net := s, storage_cache := l\<rparr>)) (b', ua, uk) = Some y"
  then consider "contents (storage_cache w) (b', ua, uk) = Some y"
    | "b' = b" "ua = u256_from_be_bytes (cache_u256 V) (to_bytes_be (cache_field V) a)"
      "uk = u256_from_be_bytes (cache_u256 V) (to_bytes_be (cache_field V) k)" "y = x"
    using map_le_update_cases [OF assms(3), of "(b', ua, uk)" y] by auto
  then show "\<exists>a k. ua = u256_from_be_bytes (cache_u256 V) (to_bytes_be (cache_field V) a) \<and>
      uk = u256_from_be_bytes (cache_u256 V) (to_bytes_be (cache_field V) k) \<and> G b' a k y"
    using assms(1,2) by cases (auto simp: storage_coherent_def)
qed

text \<open>A state that may be trusted stays so behind the cache.\<close>

lemma cached_trusted:
  assumes laws: "lru_laws (storage_lru V) contents" "u256_law V"
    and trusted: "trusted_reads api ok (block_good (cache_u256 V) h G)"
  shows "trusted_reads (CachedState_api V (CachedState_new api h))
      (\<lambda>w. ok (net w) \<and> storage_coherent V contents G w) (block_good (cache_u256 V) h G)"
proof -
  let ?u = "\<lambda>a. u256_from_be_bytes (cache_u256 V) (to_bytes_be (cache_field V) a)"
  let ?self = "CachedState_new api h"
  have main: "(\<forall>x. r = Ok x \<longrightarrow> block_good (cache_u256 V) h G a k x) \<and>
      ok (net w') \<and> storage_coherent V contents G w'"
    if ok: "ok (net w)" and coh: "storage_coherent V contents G w"
      and run: "cached_get_storage_at V ?self a k w = (r, w')" for a k r w w'
  proof (cases "u256_parse (cache_u256 V) (Felt_as_ref h)")
    case None
    then show ?thesis
      using run ok coh
      by (auto simp: cached_get_storage_at_def CachedState_new_def storage_cache_key_eq)
  next
    case (Some b)
    let ?ck = "(b, ?u a, ?u k)"
    have ck: "storage_cache_key (cache_u256 V) (cache_field V) (inner_block_hash ?self) a k = Ok ?ck"
      using Some by (simp add: CachedState_new_def storage_cache_key_eq)
    show ?thesis
    proof (cases "contents (storage_cache w) ?ck")
      case hit: (Some x)
      then obtain l where "r = Ok x" "w' = w\<lparr>storage_cache := l\<rparr>" "contents l = contents (storage_cache w)"
        using cached_hit [OF laws(1) ck hit] run by auto
      moreover have "G b a k x"
        using coh hit u256_lawD [OF laws(2)] unfolding storage_coherent_def by metis
      ultimately show ?thesis
        using ok coh Some by (auto simp: block_good_def storage_coherent_def)
    next
      case miss: None
      obtain r0 s where inner: "api_get_storage_at api a k (net w) = (r0, s)" by fastforce
      then obtain l where l: "r = r0" "w' = w\<lparr>net := s, storage_cache := l\<rparr>"
          "\<forall>x. r = Ok x \<longrightarrow> contents l ?ck = Some x \<and> contents l \<subseteq>\<^sub>m (contents (storage_cache w))(?ck \<mapsto> x)"
          "is_ok r \<or> contents l = contents (storage_cache w)"
        using cached_miss [OF laws(1) ck miss, of r0 s] run by (auto simp: CachedState_new_def)
      have s: "ok s" using trusted_reads.read_inv [OF trusted ok inner] .
      have good: "block_good (cache_u256 V) h G a k x" if "r = Ok x" for x
        using trusted_reads.read_backed [OF trusted ok] inner l(1) that by blast
      show ?thesis
      proof (cases r)
        case (Ok x)
        have "G b a k x" using good [OF Ok] Some by (auto simp: block_good_def)
        then have "storage_coherent V contents G w'"
          unfolding l(2) using l(3) Ok by (intro storage_coherent_update [OF coh]) auto
        then show ?thesis using s good l(2) by simp
      qed (use l(2,4) coh s in \<open>auto simp: storage_coherent_def\<close>)
    qed
  qed
  show ?thesis
  proof
    fix w a k x w'
    assume w: "ok (net w) \<and> storage_coherent V contents G w"
      and "api_get_storage_at (CachedState_api V ?self) a k w = (Ok x, w')"
    then show "block_good (cache_u256 V) h G a k x"
      using main [of w a k "Ok x" w'] by (simp add: CachedState_api_def)
  next
    fix w a k r w'
    assume w: "ok (net w) \<and> storage_coherent V contents G w"
      and "api_get_storage_at (CachedState_api V ?self) a k w = (r, w')"
    then show "ok (net w') \<and> storage_coherent V contents G w'"
      using main [of w a k r w'] by (simp add: CachedState_api_def)
  qed
qed

section \<open>The state a contract call runs on\<close>

text \<open>\<open>let mut state_proxy = cache::CachedState::new(state_proxy)\<close> in \<open>exe::call\<close>.\<close>

definition call_state ::
  "('u, 'f, 'c, 'l1, 'l2, 'l3) cache_env \<Rightarrow> ('v, 'f, 'v0, 'c) exe_env \<Rightarrow> ('s, 'v) StateProxy
     \<Rightarrow> (('s, 'l1, 'l2, 'l3) cached_world, 'f, 'c) state_api" where
  "call_state V E self = CachedState_api V (CachedState_new (StateProxy_api E self) (get_block_hash self))"

text \<open>A value backed by one of the states of \<open>T\<close> with block hash number \<open>b\<close>.\<close>

definition trusted_value ::
  "'u u256_ops \<Rightarrow> ('v, 'f, 'v0, 'c) exe_env \<Rightarrow> ClientState set \<Rightarrow> 'u \<Rightarrow> 'f \<Rightarrow> 'f \<Rightarrow> 'f \<Rightarrow> bool" where
  "trusted_value U E T b a k x \<longleftrightarrow>
     (\<exists>st \<in> T. u256_parse U (Felt_as_ref (block_hash st)) = Some b \<and> value_backed E (root st) a k x)"

lemma call_state_trusted:
  assumes "lru_laws (storage_lru V) contents" and "u256_law V" and "proxy_state self \<in> T"
    and "u256_parse (cache_u256 V) (Felt_as_ref (get_block_hash self)) = Some b"
  shows "trusted_reads (call_state V E self)
      (\<lambda>w. True \<and> storage_coherent V contents (trusted_value (cache_u256 V) E T) w)
      (block_good (cache_u256 V) (get_block_hash self) (trusted_value (cache_u256 V) E T))"
proof -
  have "trusted_reads (StateProxy_api E self) (\<lambda>_. True)
      (block_good (cache_u256 V) (get_block_hash self) (trusted_value (cache_u256 V) E T))"
  proof
    fix s a k x s'
    assume "api_get_storage_at (StateProxy_api E self) a k s = (Ok x, s')"
    then have "value_backed E (root (proxy_state self)) a k x"
      by (intro proxy_reads.read_backed) simp_all
    then show "block_good (cache_u256 V) (get_block_hash self) (trusted_value (cache_u256 V) E T) a k x"
      using assms(3,4) by (auto simp: block_good_def trusted_value_def get_block_hash_def)
  qed simp
  then show ?thesis unfolding call_state_def by (rule cached_trusted [OF assms(1,2)])
qed

section \<open>Samples\<close>

text \<open>A least-recently-used list, a node that answers every request with the felt \<open>0x0\<close> and
  counts the requests, and the other parameters of the witnesses.\<close>

definition list_lru :: "nat \<Rightarrow> (('k \<times> 'v) list, 'k, 'v) lru_ops" where
  "list_lru n = \<lparr>
     lru_get = (\<lambda>k l. case map_of l k of
        Some v \<Rightarrow> (Some v, (k, v) # filter (\<lambda>e. fst e \<noteq> k) l) | None \<Rightarrow> (None, l)),
     lru_put = (\<lambda>k v l. (map_of l k, take n ((k, v) # filter (\<lambda>e. fst e \<noteq> k) l)))\<rparr>"

lemma map_of_filter_other: "map_of (filter (\<lambda>e. fst e \<noteq> k) l) = (map_of l)(k := None)"
  by (induction l) (auto simp: fun_eq_iff)

lemma map_of_take: "map_of (take n l) \<subseteq>\<^sub>m map_of l"
proof (induction l arbitrary: n)
  case Nil
  show ?case by simp
next
  case (Cons e l)
  show ?case using Cons.IH [of "n - 1"] by (cases n; cases e) (auto simp: map_le_def split: if_splits)
qed

lemma list_lru_laws: "0 < n \<Longrightarrow> lru_laws (list_lru n) map_of"
proof -
  assume n: "0 < n"
  then obtain m where m: "n = Suc m" by (cases n) auto
  have base: "map_of (take m (filter (\<lambda>e. fst e \<noteq> k) l)) \<subseteq>\<^sub>m (map_of l)(k := None)" for k l
    using map_of_take [of m "filter (\<lambda>e. fst e \<noteq> k) l"] by (simp add: map_of_filter_other)
  have put: "(map_of (take m (filter (\<lambda>e. fst e \<noteq> k) l)))(k \<mapsto> v) \<subseteq>\<^sub>m (map_of l)(k \<mapsto> v)" for k v l
    using map_le_upd [OF base [of k l], of k "Some v"] by simp
  show ?thesis
    unfolding lru_laws_def list_lru_def m
    by (auto simp: map_of_filter_other fun_eq_iff put split: option.split)
qed

definition zero_answer :: "sample_args + sample_rets" where
  "zero_answer = (case ret_to_value (getStorageAt_codec sample_codecs) (Felt ''0x0'') of
     Ok v \<Rightarrow> v | _ \<Rightarrow> null_value sample_codecs)"

definition zero_node :: "(nat, sample_args + sample_rets) http_post" where
  "zero_node url req = (\<lambda>n. (Ok (response_result zero_answer), Suc n))"

definition sample_debug :: "'f debug_texts" where
  "sample_debug = \<lparr>debug_rpc_error = message, debug_state_error = (\<lambda>_. ''state error''), debug_error = (\<lambda>_. ''error'')\<rparr>"

definition sample_tools :: "('v, 'f, unit, unit) class_tools" where
  "sample_tools = \<lparr>json_of_class = (\<lambda>_. Err []), json_of_deprecated = (\<lambda>_. Err []), json_from_str = (\<lambda>_. Err []),
     json_to_string = (\<lambda>_. Err []), json_set = (\<lambda>v _ _. v), compile_sierra = (\<lambda>_. Ok ()),
     v0_from_json = (\<lambda>_. Ok ()), class_v0 = (\<lambda>_. ()), base64_decode = (\<lambda>_. Err []), gunzip = (\<lambda>_. Err [])\<rparr>"

definition sample_env :: "(sample_args + sample_rets, 252 word, unit, unit) exe_env" where
  "sample_env = \<lparr>env_field = word_field, env_checks = True, env_hex = hex_encode, env_unchecked = word_unchecked,
     env_key_text = hex_text word_field, env_debug = sample_debug, env_codecs = sample_codecs, env_tools = sample_tools\<rparr>"

definition sample_proxy :: "(nat, sample_args + sample_rets) StateProxy" where
  "sample_proxy = \<lparr>proxy_client = BlockingClient_new ''http://node'' zero_node,
     proxy_state = \<lparr>block_number = 7, block_hash = Felt ''0xabc'', root = Felt ''0x123''\<rparr>\<rparr>"

definition sample_cache_env :: "(nat, 252 word, unit, ((nat \<times> nat \<times> nat) \<times> 252 word) list,
    ((nat \<times> nat) \<times> 252 word) list, ((nat \<times> nat) \<times> unit) list) cache_env" where
  "sample_cache_env = \<lparr>cache_u256 = \<lparr>u256_parse = (\<lambda>s. Some (hex_value (hex_part s))), u256_from_be_bytes = be_nat\<rparr>,
     cache_field = word_field, storage_lru = list_lru 1024, class_hash_lru = list_lru 256,
     contract_class_lru = list_lru 256\<rparr>"

lemma word_field_bytes_nat: "be_nat (to_bytes_be word_field x) = unat x"
proof -
  have "unat x < 2 ^ 252" using unsigned_less [of x, where ?'a = nat] by simp
  then show ?thesis by (simp add: word_field_def be_nat_nat_bytes)
qed

lemma sample_u256_law: "u256_law sample_cache_env"
  by (simp add: u256_law_def sample_cache_env_def word_field_bytes_nat inj_def word_unat_eq_iff)

lemma sample_zero_address: "proxy_address sample_env 0 = Ok (Address.Address (Felt ''0x0''))"
proof -
  let ?h = "trim_zeros (hex_encode (to_bytes_be word_field (0 :: 252 word)))"
  have "?h = []"
  proof (rule ccontr)
    assume ne: "?h \<noteq> []"
    have "list_all hex_digit ?h" "hex_value ?h < 16 ^ 0"
      using hex_law_encode
      by (simp_all add: hex_law_def trim_zeros_digits trim_zeros_value word_field_bytes_nat)
    then have "length ?h \<le> 0" using ne trim_zeros_head [OF ne] by (intro hex_length_bound)
    then show False using ne by simp
  qed
  then show ?thesis by (simp add: proxy_address_def sample_env_def felt_from_stark_ref_def try_new_zero)
qed

lemma sample_zero_key: "StorageKey_try_new (env_key_text sample_env 0) = Ok (StorageKey ''0x0'')"
proof -
  have "env_key_text sample_env 0 = ''0x0''"
    by (simp add: sample_env_def hex_text_def word_field_def show_hex.simps digit_char_def char_of_eq_iff)
  moreover have "StorageKey_try_new ''0x0'' = Ok (StorageKey ''0x0'')" by code_simp
  ultimately show ?thesis by simp
qed

lemma sample_zero_answer:
  "blocking_client_getStorageAt (proxy_client sample_proxy) (env_codecs sample_env) a k b n = (Ok (Felt ''0x0''), Suc n)"
  by (simp add: blocking_client_getStorageAt_def sample_proxy_def BlockingClient_new_def sample_env_def
      call_method_def client_send_def io_bind_def zero_node_def zero_answer_def sample_codecs_def sample_codec_def
      client_answer_def)

lemma sample_zero_read: "proxy_get_storage_at sample_env sample_proxy 0 0 n = (Ok 0, Suc n)"
proof -
  have "env_unchecked sample_env ''0x0'' = Some 0"
    using sample_key by (simp add: word_unchecked_def sample_env_def)
  then show ?thesis
    by (simp add: proxy_get_storage_at_def exe_lift_def sample_zero_address sample_zero_key rpc_lift_def io_bind_def
        io_map_err_def sample_zero_answer stark_from_felt_def)
qed

section \<open>Properties\<close>

text \<open>
  C5. Every storage value a contract call reads, through the cache and however the next key
  depends on the values read before, is backed by a trusted state with the block hash the
  call runs on: it is zero or has a Merkle proof against that state's root. The caches stay
  coherent, so values cached by earlier calls with other states are covered too.
\<close>

theorem call_reads_backed:
  assumes "lru_laws (storage_lru V) contents" and "u256_law V" and "proxy_state self \<in> T"
    and "u256_parse (cache_u256 V) (Felt_as_ref (get_block_hash self)) = Some b"
    and "storage_coherent V contents (trusted_value (cache_u256 V) E T) w"
    and "read_run (call_state V E self) nxt n [] w = (Ok res, w')"
  shows "(\<forall>(a, k, x) \<in> set res. trusted_value (cache_u256 V) E T b a k x) \<and>
    storage_coherent V contents (trusted_value (cache_u256 V) E T) w'"
proof -
  have "(\<forall>(a, k, x) \<in> set res. block_good (cache_u256 V) (get_block_hash self) (trusted_value (cache_u256 V) E T) a k x) \<and>
      (True \<and> storage_coherent V contents (trusted_value (cache_u256 V) E T) w')"
    using trusted_reads.read_run_backed [OF call_state_trusted [OF assms(1-4), of E], of w nxt n "[]" res w']
      assms(5,6) by simp
  then show ?thesis using assms(4) by (auto simp: block_good_def)
qed

theorem call_reads_backed_witness:
  "trusted_value (cache_u256 sample_cache_env) sample_env {proxy_state sample_proxy} (hex_value ''abc'') 0 0 0"
proof -
  let ?w = "\<lparr>net = 0, storage_cache = [], class_hash_cache = [], contract_class_cache = []\<rparr>"
  have lru: "lru_laws (storage_lru sample_cache_env) map_of"
    by (simp add: sample_cache_env_def list_lru_laws)
  have parse: "u256_parse (cache_u256 sample_cache_env) (Felt_as_ref (get_block_hash sample_proxy)) = Some (hex_value ''abc'')"
    by (simp add: sample_cache_env_def sample_proxy_def get_block_hash_def)
  obtain ck where ck: "storage_cache_key (cache_u256 sample_cache_env) (cache_field sample_cache_env)
      (inner_block_hash (CachedState_new (StateProxy_api sample_env sample_proxy) (get_block_hash sample_proxy))) 0 0 = Ok ck"
    using parse by (auto simp: storage_cache_key_eq CachedState_new_def)
  obtain l where "cached_get_storage_at sample_cache_env
      (CachedState_new (StateProxy_api sample_env sample_proxy) (get_block_hash sample_proxy)) 0 0 ?w
      = (Ok 0, ?w\<lparr>net := 1, storage_cache := l\<rparr>)"
    using cached_miss [OF lru ck, of ?w "Ok 0" 1] sample_zero_read [of 0]
    by (auto simp: CachedState_new_def StateProxy_api_def)
  then have run: "read_run (call_state sample_cache_env sample_env sample_proxy) (\<lambda>_. (0, 0)) 1 [] ?w
      = (Ok [(0, 0, 0)], ?w\<lparr>net := 1, storage_cache := l\<rparr>)"
    by (simp add: call_state_def CachedState_api_def io_bind_def)
  have "storage_coherent sample_cache_env map_of
      (trusted_value (cache_u256 sample_cache_env) sample_env {proxy_state sample_proxy}) ?w"
    by (simp add: storage_coherent_def)
  from call_reads_backed [OF lru sample_u256_law _ parse this run] show ?thesis by simp
qed

text \<open>A value read through the cache is read again without a call: the second read returns the
  same value, leaves the network alone and keeps every entry of the cache.\<close>

lemma cached_read_again:
  assumes "lru_laws (storage_lru V) contents"
    and "cached_get_storage_at V self a k w = (Ok x, w1)"
  shows "\<exists>l. cached_get_storage_at V self a k w1 = (Ok x, w1\<lparr>storage_cache := l\<rparr>) \<and>
    contents l = contents (storage_cache w1)"
proof -
  obtain ck where ck: "storage_cache_key (cache_u256 V) (cache_field V) (inner_block_hash self) a k = Ok ck"
    using assms(2) by (auto simp: cached_get_storage_at_def outcome_simps)
  have "contents (storage_cache w1) ck = Some x"
  proof (cases "contents (storage_cache w) ck")
    case (Some y)
    then show ?thesis using cached_hit [OF assms(1) ck Some] assms(2) by auto
  next
    case None
    obtain r s where inner: "api_get_storage_at (inner self) a k (net w) = (r, s)" by fastforce
    show ?thesis using cached_miss [OF assms(1) ck None inner] assms(2) by auto
  qed
  then show ?thesis by (rule cached_hit [OF assms(1) ck])
qed

text \<open>
  C32. A zero is not proved: whatever the trusted root and whatever the trie stores, a node that
  answers \<open>0x0\<close> makes the read return zero after that one request; no proof is asked for.
\<close>

theorem zero_read_unproved:
  assumes "proxy_address E a = Ok address" and "StorageKey_try_new (env_key_text E k) = Ok sk"
    and "blocking_client_getStorageAt (proxy_client self) (env_codecs E) address sk (proxy_block_id self) s
      = (Ok (Felt ''0x0''), s')"
    and "env_unchecked E ''0x0'' = Some z"
  shows "proxy_get_storage_at E (self\<lparr>proxy_state := (proxy_state self)\<lparr>root := any_root\<rparr>\<rparr>) a k s = (Ok z, s')"
  using assms
  by (simp add: proxy_get_storage_at_def exe_lift_def rpc_lift_def io_bind_def io_map_err_def stark_from_felt_def
      proxy_block_id_def Let_def)

theorem zero_read_unproved_witness:
  "proxy_get_storage_at sample_env (sample_proxy\<lparr>proxy_state := (proxy_state sample_proxy)\<lparr>root := Felt ''0x5''\<rparr>\<rparr>) 0 0 3
     = (Ok 0, 4)"
  using zero_read_unproved [OF sample_zero_address sample_zero_key sample_zero_answer, of 0 "Felt ''0x5''" 3] sample_key
  by (simp add: sample_env_def word_unchecked_def)

end
