(* ===== verification/Config.thy ===== *)
theory Config
  imports Gateway
begin

text \<open>
  \<open>src/src/config.rs\<close> and \<open>get_config\<close> of \<open>src/src/bin/beerus.rs\<close>: where the server's
  settings come from, what is checked of them before it starts, and how the gateway's URL
  is found from the chain id. Parameters are the environment, the file system, the TOML
  reader, the parser of socket addresses, the URL check of the validator crate and the HTTP
  client.
\<close>

definition DEFAULT_DATA_DIR :: string where "DEFAULT_DATA_DIR = ''tmp''"
definition DEFAULT_POLL_SECS :: u64 where "DEFAULT_POLL_SECS = 30"
definition MAINNET_STARKNET_CHAINID :: string where "MAINNET_STARKNET_CHAINID = ''0x534e5f4d41494e''"
definition SEPOLIA_STARKNET_CHAINID :: string where "SEPOLIA_STARKNET_CHAINID = ''0x534e5f5345504f4c4941''"

record ConfigClient =
  starknet_rpc :: string
  gateway_url :: "string option"
  data_dir :: string

record 'addr ServerConfig =
  client_config :: ConfigClient
  poll_secs :: u64
  rpc_addr :: 'addr

definition default_data_dir :: string where
  "default_data_dir = DEFAULT_DATA_DIR"

definition default_poll_secs :: u64 where
  "default_poll_secs = DEFAULT_POLL_SECS"

text \<open>A socket address is built from four bytes and a port by \<open>from_v4\<close>.\<close>

definition default_rpc_addr :: "(nat list \<Rightarrow> nat \<Rightarrow> 'addr) \<Rightarrow> 'addr" where
  "default_rpc_addr from_v4 = from_v4 [0, 0, 0, 0] 3030"

section \<open>Reading the settings\<close>

text \<open>\<open>str::parse::<u64>\<close>: an optional plus sign, at least one digit, no overflow.\<close>

definition digit :: "char \<Rightarrow> bool" where
  "digit c = (let n = of_char c :: nat in 48 \<le> n \<and> n \<le> 57)"

definition decimal_value :: "string \<Rightarrow> nat" where
  "decimal_value s = foldl (\<lambda>a c. 10 * a + (of_char c - 48)) 0 s"

definition parse_u64 :: "string \<Rightarrow> (u64, report) outcome" where
  "parse_u64 s =
     (let ds = (case s of c # t \<Rightarrow> if c = CHR ''+'' then t else s | [] \<Rightarrow> s) in
      if s = [] then Err (Source ''cannot parse integer from empty string'')
      else if ds = [] \<or> \<not> list_all digit ds then Err (Source ''invalid digit found in string'')
      else if 2 ^ 64 \<le> decimal_value ds then Err (Source ''number too large to fit in target type'')
      else Ok (of_nat (decimal_value ds)))"

record 'addr addr_ops =
  from_v4 :: "nat list \<Rightarrow> nat \<Rightarrow> 'addr"
  parse_addr :: "string \<Rightarrow> ('addr, string) outcome"

definition ServerConfig_from_env ::
  "(string \<Rightarrow> string option) \<Rightarrow> 'addr addr_ops \<Rightarrow> ('addr ServerConfig, report) outcome" where
  "ServerConfig_from_env env A =
     bind (case env ''POLL_SECS'' of Some s \<Rightarrow> parse_u64 s | None \<Rightarrow> Ok DEFAULT_POLL_SECS) (\<lambda>secs.
     bind (case env ''RPC_ADDR'' of
             Some s \<Rightarrow> map_err Source (parse_addr A s) | None \<Rightarrow> Ok (default_rpc_addr (from_v4 A))) (\<lambda>addr.
     bind (ok_or (env ''STARKNET_RPC'') (Context ''STARKNET_RPC env var missing'' ''environment variable not found'')) (\<lambda>rpc.
     Ok \<lparr>client_config = \<lparr>starknet_rpc = rpc, gateway_url = env ''GATEWAY_URL'',
           data_dir = (case env ''DATA_DIR'' of Some d \<Rightarrow> d | None \<Rightarrow> default_data_dir)\<rparr>,
         poll_secs = secs, rpc_addr = addr\<rparr>)))"

text \<open>What the TOML reader finds: the fields with a serde default may be missing.\<close>

record 'addr toml_config =
  toml_starknet_rpc :: string
  toml_gateway_url :: "string option"
  toml_data_dir :: "string option"
  toml_poll_secs :: "u64 option"
  toml_rpc_addr :: "'addr option"

record 'addr file_ops =
  read_to_string :: "string \<Rightarrow> (string, string) outcome"
  toml_from_str :: "string \<Rightarrow> ('addr toml_config, string) outcome"
  path_exists :: "string \<Rightarrow> bool"
  path_readonly :: "string \<Rightarrow> (bool, string) outcome"

definition ServerConfig_from_file ::
  "'addr file_ops \<Rightarrow> 'addr addr_ops \<Rightarrow> string \<Rightarrow> ('addr ServerConfig, report) outcome" where
  "ServerConfig_from_file fs A path =
     bind (map_err Source (read_to_string fs path)) (\<lambda>content.
     bind (map_err Source (toml_from_str fs content)) (\<lambda>t.
     Ok \<lparr>client_config = \<lparr>starknet_rpc = toml_starknet_rpc t, gateway_url = toml_gateway_url t,
           data_dir = (case toml_data_dir t of Some d \<Rightarrow> d | None \<Rightarrow> default_data_dir)\<rparr>,
         poll_secs = (case toml_poll_secs t of Some n \<Rightarrow> n | None \<Rightarrow> default_poll_secs),
         rpc_addr = (case toml_rpc_addr t of Some a \<Rightarrow> a | None \<Rightarrow> default_rpc_addr (from_v4 A))\<rparr>))"

section \<open>Checking them\<close>

text \<open>The checks the two \<open>Validate\<close> attributes ask for. The field \<open>client\<close> of
  \<open>ServerConfig\<close> has no attribute, so validating a \<open>ServerConfig\<close> does not look inside it.\<close>

definition Config_validate :: "(string \<Rightarrow> bool) \<Rightarrow> ConfigClient \<Rightarrow> (unit, report) outcome" where
  "Config_validate is_url c =
     (if is_url (starknet_rpc c) \<and> (case gateway_url c of Some u \<Rightarrow> is_url u | None \<Rightarrow> True)
      then Ok () else Err (Source ''starknet_rpc or gateway_url''))"

definition ServerConfig_validate :: "'addr ServerConfig \<Rightarrow> (unit, report) outcome" where
  "ServerConfig_validate c =
     (if 1 \<le> poll_secs c \<and> poll_secs c \<le> 3600 then Ok () else Err (Source ''poll_secs''))"

definition check_data_dir :: "'addr file_ops \<Rightarrow> string \<Rightarrow> (unit, report) outcome" where
  "check_data_dir fs path =
     (if \<not> path_exists fs path then Err (Message ''path does not exist'')
      else bind (map_err (Context ''path metadata is missing'') (path_readonly fs path)) (\<lambda>readonly.
      if readonly then Err (Message ''path is readonly'') else Ok ()))"

text \<open>\<open>get_config\<close>: \<open>arg\<close> is the first command line argument.\<close>

definition get_config ::
  "(string \<Rightarrow> string option) \<Rightarrow> 'addr file_ops \<Rightarrow> 'addr addr_ops \<Rightarrow> string option
     \<Rightarrow> ('addr ServerConfig, report) outcome" where
  "get_config env fs A arg =
     bind (case arg of Some path \<Rightarrow> ServerConfig_from_file fs A path | None \<Rightarrow> ServerConfig_from_env env A) (\<lambda>config.
     bind (ServerConfig_validate config) (\<lambda>_.
     bind (check_data_dir fs (data_dir (client_config config))) (\<lambda>_.
     Ok config)))"

section \<open>The gateway of a chain\<close>

definition method_result :: "'v json_ops \<Rightarrow> string \<Rightarrow> 'v \<Rightarrow> (string, report) outcome" where
  "method_result J method response =
     (case as_str J (index_str J response ''error'') of
        Some e \<Rightarrow> Err (Message (''rpc error: '' @ e))
      | None \<Rightarrow> (case as_object J (index_str J response ''error'') of
          Some obj \<Rightarrow> bind (map_err Source (object_to_string J obj)) (\<lambda>e. Err (Message (''rpc error: '' @ e)))
        | None \<Rightarrow> ok_or (as_str J (index_str J response ''result''))
                   (Message (''Result missing for method='' @ method))))"

text \<open>\<open>body\<close> builds the request \<open>json!({"jsonrpc": "2.0", "method": method, "params": [], "id": 0})\<close>.\<close>

definition config_call_method ::
  "('s, 'q, 'resp, 'v) reqwest \<Rightarrow> 'v json_ops \<Rightarrow> (string \<Rightarrow> 'q) \<Rightarrow> string \<Rightarrow> string \<Rightarrow> ('s, string, report) io" where
  "config_call_method rq J body url method =
     io_bind (io_map_err Source (rq_post rq url (body method))) (\<lambda>resp.
     io_bind (io_map_err Source (resp_json rq resp)) (\<lambda>response.
     io_lift (method_result J method response)))"

definition gateway_of_chain :: "string \<Rightarrow> (string, report) outcome" where
  "gateway_of_chain chain_id =
     (if chain_id = MAINNET_STARKNET_CHAINID then Ok ''https://alpha-mainnet.starknet.io''
      else if chain_id = SEPOLIA_STARKNET_CHAINID then Ok ''https://alpha-sepolia.starknet.io''
      else Err (Message (''Unexpected chain id: '' @ chain_id)))"

definition get_gateway_url ::
  "('s, 'q, 'resp, 'v) reqwest \<Rightarrow> 'v json_ops \<Rightarrow> (string \<Rightarrow> 'q) \<Rightarrow> string \<Rightarrow> ('s, string, report) io" where
  "get_gateway_url rq J body rpc =
     io_bind (config_call_method rq J body rpc ''starknet_chainId'') (\<lambda>chain_id.
     io_lift (gateway_of_chain chain_id))"

section \<open>Properties\<close>

text \<open>The server starts with settings exactly when they could be read, the polling interval is
  between 1 and 3600 seconds, and the data directory exists and is writable. The URLs are
  not among the conditions: \<open>validate\<close> is derived without descending into the client's
  settings, so the \<open>url\<close> attributes of \<open>Config\<close> are not checked here.\<close>

lemma get_config_Ok_iff:
  "get_config env fs A arg = Ok config \<longleftrightarrow>
     (case arg of Some path \<Rightarrow> ServerConfig_from_file fs A path | None \<Rightarrow> ServerConfig_from_env env A) = Ok config \<and>
     1 \<le> unat (poll_secs config) \<and> unat (poll_secs config) \<le> 3600 \<and>
     path_exists fs (data_dir (client_config config)) \<and>
     path_readonly fs (data_dir (client_config config)) = Ok False"
proof -
  have "1 \<le> unat w \<longleftrightarrow> 1 \<le> w" "unat w \<le> 3600 \<longleftrightarrow> w \<le> 3600" for w :: u64
    by (simp_all add: word_le_nat_alt)
  then show ?thesis
    unfolding get_config_def ServerConfig_validate_def check_data_dir_def
    by (auto simp: outcome_simps split: if_splits)
qed

text \<open>
  C37. The URL of the node is not validated: with every other setting left to its default the
  server accepts any text at all as \<open>STARKNET_RPC\<close>, while \<open>Config::validate\<close> refuses it.
\<close>

theorem get_config_unchecked_url:
  assumes "\<not> is_url u" and "path_exists fs ''tmp''" and "path_readonly fs ''tmp'' = Ok False"
  shows "\<exists>config. get_config [''STARKNET_RPC'' \<mapsto> u] fs A None = Ok config \<and>
      starknet_rpc (client_config config) = u \<and> is_err (Config_validate is_url (client_config config))"
  using assms
  by (simp add: get_config_def ServerConfig_from_env_def ServerConfig_validate_def check_data_dir_def
      default_data_dir_def DEFAULT_DATA_DIR_def DEFAULT_POLL_SECS_def Config_validate_def)

theorem get_config_unchecked_url_witness:
  "\<exists>config. get_config [''STARKNET_RPC'' \<mapsto> ''bar'']
       \<lparr>read_to_string = (\<lambda>_. Err ''no file''), toml_from_str = (\<lambda>_. Err ''no file''),
        path_exists = (\<lambda>p. p = ''tmp''), path_readonly = (\<lambda>_. Ok False)\<rparr>
       \<lparr>from_v4 = (\<lambda>ip port. (ip, port)), parse_addr = (\<lambda>_. Err ''bad address'')\<rparr> None = Ok config \<and>
      starknet_rpc (client_config config) = ''bar'' \<and>
      is_err (Config_validate (\<lambda>u. take 4 u = ''http'') (client_config config))"
  by (rule get_config_unchecked_url) simp_all

text \<open>The gateway is chosen by the chain id the node reports, and only the two known chains have
  one: an error in the node's answer, a missing result or any other id fails.\<close>

lemma get_gateway_url_Ok_iff:
  "get_gateway_url rq J body rpc s = (Ok url, s') \<longleftrightarrow>
     (\<exists>resp s1 response chain_id. rq_post rq rpc (body ''starknet_chainId'') s = (Ok resp, s1) \<and>
        resp_json rq resp s1 = (Ok response, s') \<and>
        as_str J (index_str J response ''error'') = None \<and> as_object J (index_str J response ''error'') = None \<and>
        as_str J (index_str J response ''result'') = Some chain_id \<and>
        (chain_id = MAINNET_STARKNET_CHAINID \<and> url = ''https://alpha-mainnet.starknet.io'' \<or>
         chain_id = SEPOLIA_STARKNET_CHAINID \<and> url = ''https://alpha-sepolia.starknet.io''))"
proof -
  have chain: "gateway_of_chain c = Ok url \<longleftrightarrow>
      c = MAINNET_STARKNET_CHAINID \<and> url = ''https://alpha-mainnet.starknet.io'' \<or>
      c = SEPOLIA_STARKNET_CHAINID \<and> url = ''https://alpha-sepolia.starknet.io''" for c
    by (auto simp: gateway_of_chain_def MAINNET_STARKNET_CHAINID_def SEPOLIA_STARKNET_CHAINID_def)
  have result: "method_result J m response = Ok c \<longleftrightarrow>
      as_str J (index_str J response ''error'') = None \<and> as_object J (index_str J response ''error'') = None \<and>
      as_str J (index_str J response ''result'') = Some c" for m response c
    by (auto simp: method_result_def outcome_simps split: option.splits)
  show ?thesis
    unfolding get_gateway_url_def config_call_method_def io_bind_eq_Ok io_map_err_eq_Ok io_lift_eq chain result
    by blast
qed

end
