(* ===== verification/ExeCall.thy ===== *)
theory ExeCall
  imports CacheFacts Config
begin

text \<open>
  \<open>call\<close> of \<open>src/src/exe/mod.rs\<close>, which sets up the virtual machine and runs one entry
  point on the cached state, and the library's \<open>Client\<close> of \<open>src/src/client.rs\<close> around it:
  the HTTP posts, the construction with its version check, \<open>execute\<close> and \<open>get_state\<close>. The
  virtual machine itself (blockifier) is a parameter that gets the state as a \<open>state_api\<close>.
\<close>

section \<open>The virtual machine\<close>

text \<open>The block and transaction a call runs under. Every field the code sets is here; fields
  left to \<open>Default\<close> are zero or empty.\<close>

datatype chain_id = Mainnet | Sepolia

record 'f call_context =
  ctx_block_number :: u64
  ctx_block_timestamp :: u64
  ctx_sequencer_address :: 'f
  ctx_gas_prices :: "nat list"   \<comment> \<open>eth and strk L1 gas, eth and strk L1 data gas\<close>
  ctx_use_kzg_da :: bool
  ctx_chain_id :: chain_id
  ctx_strk_fee_token_address :: 'f
  ctx_eth_fee_token_address :: 'f
  ctx_transaction_hash :: 'f
  ctx_version :: 'f
  ctx_signature :: "'f list"
  ctx_nonce :: 'f
  ctx_sender_address :: 'f
  ctx_only_query :: bool
  ctx_max_fee :: nat
  ctx_limit_steps_by_resources :: bool

datatype entry_point_type = Constructor | External | L1Handler
datatype call_type = Call | Delegate

record 'f entry_point_call =
  ep_class_hash :: "'f option"
  ep_code_address :: "'f option"
  ep_type :: entry_point_type
  ep_selector :: 'f
  ep_calldata :: "'f list"
  ep_storage_address :: 'f
  ep_caller_address :: 'f
  ep_call_type :: call_type
  ep_initial_gas :: u64

record ('w, 'f, 'c, 'ctx, 'ci) machine =
  new_context :: "'f call_context \<Rightarrow> ('ctx, string) outcome"
  patricia_key :: "'f \<Rightarrow> ('f, string) outcome"   \<comment> \<open>the range check of a contract address\<close>
  run_entry_point :: "'f entry_point_call \<Rightarrow> ('w, 'f, 'c) state_api \<Rightarrow> 'ctx \<Rightarrow> ('w, 'ci, string) io"
  retdata :: "'ci \<Rightarrow> 'f list"
  fe_one :: 'f

definition call_context_of :: "('w, 'f, 'c, 'ctx, 'ci) machine \<Rightarrow> 'f field_ops \<Rightarrow> 'f call_context" where
  "call_context_of M F = \<lparr>
     ctx_block_number = 0, ctx_block_timestamp = 0, ctx_sequencer_address = fe_zero F,
     ctx_gas_prices = [1, 1, 1, 1], ctx_use_kzg_da = False,
     ctx_chain_id = Mainnet,
     ctx_strk_fee_token_address = fe_zero F, ctx_eth_fee_token_address = fe_zero F,
     ctx_transaction_hash = fe_zero F, ctx_version = fe_one M, ctx_signature = [fe_zero F, fe_zero F],
     ctx_nonce = fe_zero F, ctx_sender_address = fe_zero F, ctx_only_query = True, ctx_max_fee = 0,
     ctx_limit_steps_by_resources = False\<rparr>"

text \<open>The conversion of the calldata runs first, but its error is reported only when the entry
  point is built; a panic in it is immediate.\<close>

definition exe_call ::
  "(('s, 'l1, 'l2, 'l3) cached_world, 'f, 'c, 'ctx, 'ci) machine \<Rightarrow> ('u, 'f, 'c, 'l1, 'l2, 'l3) cache_env
     \<Rightarrow> ('v, 'f, 'v0, 'c) exe_env \<Rightarrow> ('s, 'v) BlockingClient \<Rightarrow> FunctionCall \<Rightarrow> ClientState
     \<Rightarrow> (('s, 'l1, 'l2, 'l3) cached_world, 'ci, 'f Error) io" where
  "exe_call M V E client function_call state =
     (let calldata = try_map (stark_from_felt (env_unchecked E)) (function_call_calldata function_call) in
      if calldata = Panicked then io_lift Panicked
      else
        io_bind (io_lift (case function_call_contract_address function_call of
            Address.Address a \<Rightarrow> stark_from_felt (env_unchecked E) a)) (\<lambda>contract_address.
        io_bind (io_lift (stark_from_felt (env_unchecked E) (function_call_entry_point_selector function_call))) (\<lambda>selector.
        io_bind (io_lift (map_err Error.Transaction (new_context M (call_context_of M (env_field E))))) (\<lambda>context.
        io_bind (io_lift calldata) (\<lambda>data.
        io_bind (io_lift (map_err StarknetApi (patricia_key M contract_address))) (\<lambda>storage_address.
        let call_entry_point = \<lparr>
              ep_class_hash = None, ep_code_address = None, ep_type = External, ep_selector = selector,
              ep_calldata = data, ep_storage_address = storage_address,
              ep_caller_address = fe_zero (env_field E), ep_call_type = Call, ep_initial_gas = - 1\<rparr>;
            state_proxy = \<lparr>proxy_client = client, proxy_state = state\<rparr> in
        io_map_err EntryPoint (run_entry_point M call_entry_point (call_state V E state_proxy) context)))))))"

section \<open>\<open>Http\<close>\<close>

text \<open>The generic \<open>post\<close>: \<open>'resp\<close> is reqwest's response, read as a JSON-RPC response.\<close>

definition http_post_with ::
  "('s, 'q, 'resp, 'r) reqwest \<Rightarrow> string \<Rightarrow> 'q \<Rightarrow> ('s, 'r, rpc_error) io" where
  "http_post_with rq url request =
     io_bind (io_map_err (\<lambda>e. rpc_err 32101 (''request failed: '' @ e)) (rq_post rq url request)) (\<lambda>resp.
     io_map_err (\<lambda>e. rpc_err 32102 (''invalid response: '' @ e)) (resp_json rq resp))"

definition Http_post :: "('s, 'v rpc_request, 'resp, 'v rpc_response) reqwest \<Rightarrow> ('s, 'v) http_post" where
  "Http_post rq url request = http_post_with rq url request"

text \<open>The blocking implementation uses the crate \<open>ureq\<close>, here two functions; on wasm32 it
  panics (\<open>unreachable!\<close>).\<close>

definition Http_blocking_post ::
  "bool \<Rightarrow> (string \<Rightarrow> 'v rpc_request \<Rightarrow> ('s, 'resp, string) io) \<Rightarrow> ('resp \<Rightarrow> ('s, 'v rpc_response, string) io)
     \<Rightarrow> ('s, 'v) http_post" where
  "Http_blocking_post wasm send_json into_json url request =
     (if wasm then io_lift Panicked
      else io_bind (io_map_err (\<lambda>e. rpc_err 33101 e) (send_json url request)) (\<lambda>resp.
           io_map_err (\<lambda>e. rpc_err 33102 e) (into_json resp)))"

section \<open>The library's \<open>Client\<close>\<close>

record ('s, 'v) LibClient =
  lib_starknet :: "('s, 'v) StarknetClient"
  lib_gateway :: GatewayClient
  lib_http :: "('s, 'v) http_post"             \<comment> \<open>\<open>HttpClient\<close>\<close>
  lib_blocking_http :: "('s, 'v) http_post"    \<comment> \<open>\<open>blocking::HttpClient\<close> of the same value\<close>

definition RPC_SPEC_VERSION :: string where
  "RPC_SPEC_VERSION = ''0.7.1''"

definition version_mismatch :: "string \<Rightarrow> report" where
  "version_mismatch got =
     Message (''RPC spec version mismatch: expected '' @ RPC_SPEC_VERSION @ '' but got '' @ got)"

definition LibClient_new ::
  "('s, 'q, 'resp, 'j) reqwest \<Rightarrow> 'j json_ops \<Rightarrow> (string \<Rightarrow> 'q) \<Rightarrow> 'v codecs \<Rightarrow> ConfigClient
     \<Rightarrow> ('s, 'v) http_post \<Rightarrow> ('s, 'v) http_post \<Rightarrow> ('s, ('s, 'v) LibClient, report) io" where
  "LibClient_new rq J body C config http blocking =
     (let starknet = StarknetClient_new (starknet_rpc config) http in
      io_bind (io_map_err RpcReport (client_specVersion starknet C)) (\<lambda>version.
      if version \<noteq> RPC_SPEC_VERSION then io_lift (Err (version_mismatch version))
      else
        io_bind (case gateway_url config of
                   Some url \<Rightarrow> io_lift (Ok url)
                 | None \<Rightarrow> get_gateway_url rq J body (starknet_rpc config)) (\<lambda>url.
        io_bind (io_lift (GatewayClient_new url)) (\<lambda>gateway.
        io_lift (Ok \<lparr>lib_starknet = starknet, lib_gateway = gateway, lib_http = http, lib_blocking_http = blocking\<rparr>)))))"

definition LibClient_starknet :: "('s, 'v) LibClient \<Rightarrow> ('s, 'v) StarknetClient" where
  "LibClient_starknet self = lib_starknet self"

definition LibClient_execute ::
  "(('s, 'l1, 'l2, 'l3) cached_world, 'f, 'c, 'ctx, 'ci) machine \<Rightarrow> ('u, 'f, 'c, 'l1, 'l2, 'l3) cache_env
     \<Rightarrow> ('v, 'f, 'v0, 'c) exe_env \<Rightarrow> ('s, 'v) LibClient \<Rightarrow> FunctionCall \<Rightarrow> ClientState
     \<Rightarrow> (('s, 'l1, 'l2, 'l3) cached_world, Felt list, report) io" where
  "LibClient_execute M V E self request state =
     (let client = BlockingClient_new (client_url (lib_starknet self)) (lib_blocking_http self) in
      io_bind (io_map_err (\<lambda>e. Source (Error_to_string (env_debug E) e)) (exe_call M V E client request state)) (\<lambda>call_info.
      io_lift (try_map (\<lambda>felt. as_felt (env_hex E) (to_bytes_be (env_field E) felt)) (retdata M call_info))))"

definition LibClient_get_state ::
  "('s, 'q, 'resp, 'j) reqwest \<Rightarrow> 'j json_ops \<Rightarrow> ('s, 'v) LibClient \<Rightarrow> ('s, ClientState, report) io" where
  "LibClient_get_state rq J self = gateway_get_state rq J (lib_gateway self)"

section \<open>Properties\<close>

text \<open>A client is built only in front of a node that reports the RPC version 0.7.1, and it talks
  to that node: its gateway is the configured one, or the one of the chain the node
  reports, and does not end with a slash.\<close>

lemma LibClient_new_Ok_iff:
  "LibClient_new rq J body C config http blocking s = (Ok self, s') \<longleftrightarrow>
     (\<exists>s1 url. client_specVersion (StarknetClient_new (starknet_rpc config) http) C s = (Ok ''0.7.1'', s1) \<and>
        (case gateway_url config of
           Some u \<Rightarrow> url = u \<and> s' = s1
         | None \<Rightarrow> get_gateway_url rq J body (starknet_rpc config) s1 = (Ok url, s')) \<and>
        \<not> (url \<noteq> [] \<and> last url = CHR ''/'') \<and>
        self = \<lparr>lib_starknet = StarknetClient_new (starknet_rpc config) http, lib_gateway = \<lparr>gw_url = url\<rparr>,
                lib_http = http, lib_blocking_http = blocking\<rparr>)"
proof -
  have gateway: "GatewayClient_new url = Ok g \<longleftrightarrow> \<not> (url \<noteq> [] \<and> last url = CHR ''/'') \<and> g = \<lparr>gw_url = url\<rparr>" for url g
    by (auto simp: GatewayClient_new_def)
  show ?thesis
    by (cases "gateway_url config")
      (auto simp: LibClient_new_def RPC_SPEC_VERSION_def Let_def outcome_simps gateway split: if_splits)
qed

text \<open>A call never runs on inputs that do not convert: if it returns, every calldata felt, the
  address and the selector were read as field elements, and the machine ran that entry
  point, as an external call without fee and with all the gas, on the cached state of
  exactly the trusted state it was given.\<close>

lemma exe_call_Ok_iff:
  "exe_call M V E client request state w = (Ok info, w') \<longleftrightarrow>
     (\<exists>data a addr selector context target.
        list_all2 (\<lambda>felt x. env_unchecked E (Felt_as_ref felt) = Some x) (function_call_calldata request) data \<and>
        function_call_contract_address request = Address.Address a \<and>
        env_unchecked E (Felt_as_ref a) = Some addr \<and>
        env_unchecked E (Felt_as_ref (function_call_entry_point_selector request)) = Some selector \<and>
        new_context M (call_context_of M (env_field E)) = Ok context \<and> patricia_key M addr = Ok target \<and>
        run_entry_point M
          \<lparr>ep_class_hash = None, ep_code_address = None, ep_type = External, ep_selector = selector, ep_calldata = data,
           ep_storage_address = target, ep_caller_address = fe_zero (env_field E), ep_call_type = Call, ep_initial_gas = - 1\<rparr>
          (call_state V E \<lparr>proxy_client = client, proxy_state = state\<rparr>) context w = (Ok info, w'))"
proof -
  have data: "try_map (stark_from_felt (env_unchecked E)) fs = Ok ds \<longleftrightarrow>
      list_all2 (\<lambda>felt x. env_unchecked E (Felt_as_ref felt) = Some x) fs ds" for fs ds
    by (simp add: try_map_Ok_iff stark_from_felt_Ok)
  show ?thesis
    by (cases "function_call_contract_address request")
      (auto simp: exe_call_def Let_def outcome_simps data [symmetric])
qed

end
