(* ===== verification/RpcServer.thy ===== *)
theory RpcServer
  imports ExeCall
begin

text \<open>
  \<open>src/src/rpc.rs\<close>: the RPC server. Its \<open>Context\<close> implements the trait \<open>Rpc\<close>: storage
  reads are resolved to a block, answered by the node and verified, \<open>call\<close> runs locally,
  and the other 30 methods are passed to the node unchecked. \<open>handle_request\<close> serves one
  request or a batch. The shared state (\<open>Arc<RwLock<State>>\<close>) is a view \<open>ctx_state\<close> of the
  world, because the update loop may change it between two steps; a method reads it
  once, under the lock. How the server is started and stopped is in
  \<open>Serve\<close>.
\<close>

section \<open>\<open>Context\<close>\<close>

record ('s, 'l1, 'l2, 'l3, 'v) Context =
  ctx_url :: string
  ctx_client :: "(('s, 'l1, 'l2, 'l3) cached_world, 'v) StarknetClient"
  ctx_state :: "('s, 'l1, 'l2, 'l3) cached_world \<Rightarrow> ClientState"
  ctx_blocking_http :: "('s, 'v) http_post"   \<comment> \<open>\<open>Http::new()\<close> as a blocking client\<close>
  ctx_join_error :: string                     \<comment> \<open>the text of a \<open>JoinError\<close>\<close>

section \<open>The methods that are passed on\<close>

definition Context_getProof ::
  "('s, 'l1, 'l2, 'l3, 'v) Context \<Rightarrow> 'v codecs \<Rightarrow> BlockId \<Rightarrow> Address \<Rightarrow> StorageKey list \<Rightarrow> (('s, 'l1, 'l2, 'l3) cached_world, GetProofResult, rpc_error) io" where
  "Context_getProof self C block_id contract_address keys = client_getProof (ctx_client self) C block_id contract_address keys"

definition Context_getTxStatus ::
  "('s, 'l1, 'l2, 'l3, 'v) Context \<Rightarrow> 'v codecs \<Rightarrow> TxnHash \<Rightarrow> (('s, 'l1, 'l2, 'l3) cached_world, TxGatewayStatus, rpc_error) io" where
  "Context_getTxStatus self C transaction_hash = client_getTxStatus (ctx_client self) C transaction_hash"

definition Context_version ::
  "('s, 'l1, 'l2, 'l3, 'v) Context \<Rightarrow> 'v codecs \<Rightarrow> (('s, 'l1, 'l2, 'l3) cached_world, string, rpc_error) io" where
  "Context_version self C = client_version (ctx_client self) C"

definition Context_addDeclareTransaction ::
  "('s, 'l1, 'l2, 'l3, 'v) Context \<Rightarrow> 'v codecs \<Rightarrow> BroadcastedDeclareTxn \<Rightarrow> (('s, 'l1, 'l2, 'l3) cached_world, AddDeclareTransactionResult, rpc_error) io" where
  "Context_addDeclareTransaction self C declare_transaction = client_addDeclareTransaction (ctx_client self) C declare_transaction"

definition Context_addDeployAccountTransaction ::
  "('s, 'l1, 'l2, 'l3, 'v) Context \<Rightarrow> 'v codecs \<Rightarrow> BroadcastedDeployAccountTxn \<Rightarrow> (('s, 'l1, 'l2, 'l3) cached_world, AddDeployAccountTransactionResult, rpc_error) io" where
  "Context_addDeployAccountTransaction self C deploy_account_transaction = client_addDeployAccountTransaction (ctx_client self) C deploy_account_transaction"

definition Context_addInvokeTransaction ::
  "('s, 'l1, 'l2, 'l3, 'v) Context \<Rightarrow> 'v codecs \<Rightarrow> BroadcastedInvokeTxn \<Rightarrow> (('s, 'l1, 'l2, 'l3) cached_world, AddInvokeTransactionResult, rpc_error) io" where
  "Context_addInvokeTransaction self C invoke_transaction = client_addInvokeTransaction (ctx_client self) C invoke_transaction"

definition Context_blockHashAndNumber ::
  "('s, 'l1, 'l2, 'l3, 'v) Context \<Rightarrow> 'v codecs \<Rightarrow> (('s, 'l1, 'l2, 'l3) cached_world, BlockHashAndNumberResult, rpc_error) io" where
  "Context_blockHashAndNumber self C = client_blockHashAndNumber (ctx_client self) C"

definition Context_blockNumber ::
  "('s, 'l1, 'l2, 'l3, 'v) Context \<Rightarrow> 'v codecs \<Rightarrow> (('s, 'l1, 'l2, 'l3) cached_world, BlockNumber, rpc_error) io" where
  "Context_blockNumber self C = client_blockNumber (ctx_client self) C"

definition Context_chainId ::
  "('s, 'l1, 'l2, 'l3, 'v) Context \<Rightarrow> 'v codecs \<Rightarrow> (('s, 'l1, 'l2, 'l3) cached_world, ChainId, rpc_error) io" where
  "Context_chainId self C = client_chainId (ctx_client self) C"

definition Context_estimateFee ::
  "('s, 'l1, 'l2, 'l3, 'v) Context \<Rightarrow> 'v codecs \<Rightarrow> BroadcastedTxn list \<Rightarrow> SimulationFlagForEstimateFee list \<Rightarrow> BlockId \<Rightarrow> (('s, 'l1, 'l2, 'l3) cached_world, FeeEstimate list, rpc_error) io" where
  "Context_estimateFee self C request simulation_flags block_id = client_estimateFee (ctx_client self) C request simulation_flags block_id"

definition Context_estimateMessageFee ::
  "('s, 'l1, 'l2, 'l3, 'v) Context \<Rightarrow> 'v codecs \<Rightarrow> MsgFromL1 \<Rightarrow> BlockId \<Rightarrow> (('s, 'l1, 'l2, 'l3) cached_world, FeeEstimate, rpc_error) io" where
  "Context_estimateMessageFee self C msg block_id = client_estimateMessageFee (ctx_client self) C msg block_id"

definition Context_getBlockTransactionCount ::
  "('s, 'l1, 'l2, 'l3, 'v) Context \<Rightarrow> 'v codecs \<Rightarrow> BlockId \<Rightarrow> (('s, 'l1, 'l2, 'l3) cached_world, GetBlockTransactionCountResult, rpc_error) io" where
  "Context_getBlockTransactionCount self C block_id = client_getBlockTransactionCount (ctx_client self) C block_id"

definition Context_getBlockWithReceipts ::
  "('s, 'l1, 'l2, 'l3, 'v) Context \<Rightarrow> 'v codecs \<Rightarrow> BlockId \<Rightarrow> (('s, 'l1, 'l2, 'l3) cached_world, GetBlockWithReceiptsResult, rpc_error) io" where
  "Context_getBlockWithReceipts self C block_id = client_getBlockWithReceipts (ctx_client self) C block_id"

definition Context_getBlockWithTxHashes ::
  "('s, 'l1, 'l2, 'l3, 'v) Context \<Rightarrow> 'v codecs \<Rightarrow> BlockId \<Rightarrow> (('s, 'l1, 'l2, 'l3) cached_world, GetBlockWithTxHashesResult, rpc_error) io" where
  "Context_getBlockWithTxHashes self C block_id = client_getBlockWithTxHashes (ctx_client self) C block_id"

definition Context_getBlockWithTxs ::
  "('s, 'l1, 'l2, 'l3, 'v) Context \<Rightarrow> 'v codecs \<Rightarrow> BlockId \<Rightarrow> (('s, 'l1, 'l2, 'l3) cached_world, GetBlockWithTxsResult, rpc_error) io" where
  "Context_getBlockWithTxs self C block_id = client_getBlockWithTxs (ctx_client self) C block_id"

definition Context_getClass ::
  "('s, 'l1, 'l2, 'l3, 'v) Context \<Rightarrow> 'v codecs \<Rightarrow> BlockId \<Rightarrow> Felt \<Rightarrow> (('s, 'l1, 'l2, 'l3) cached_world, GetClassResult, rpc_error) io" where
  "Context_getClass self C block_id class_hash = client_getClass (ctx_client self) C block_id class_hash"

definition Context_getClassAt ::
  "('s, 'l1, 'l2, 'l3, 'v) Context \<Rightarrow> 'v codecs \<Rightarrow> BlockId \<Rightarrow> Address \<Rightarrow> (('s, 'l1, 'l2, 'l3) cached_world, GetClassAtResult, rpc_error) io" where
  "Context_getClassAt self C block_id contract_address = client_getClassAt (ctx_client self) C block_id contract_address"

definition Context_getClassHashAt ::
  "('s, 'l1, 'l2, 'l3, 'v) Context \<Rightarrow> 'v codecs \<Rightarrow> BlockId \<Rightarrow> Address \<Rightarrow> (('s, 'l1, 'l2, 'l3) cached_world, Felt, rpc_error) io" where
  "Context_getClassHashAt self C block_id contract_address = client_getClassHashAt (ctx_client self) C block_id contract_address"

definition Context_getEvents ::
  "('s, 'l1, 'l2, 'l3, 'v) Context \<Rightarrow> 'v codecs \<Rightarrow> GetEventsFilter \<Rightarrow> (('s, 'l1, 'l2, 'l3) cached_world, EventsChunk, rpc_error) io" where
  "Context_getEvents self C events_filter = client_getEvents (ctx_client self) C events_filter"

definition Context_getNonce ::
  "('s, 'l1, 'l2, 'l3, 'v) Context \<Rightarrow> 'v codecs \<Rightarrow> BlockId \<Rightarrow> Address \<Rightarrow> (('s, 'l1, 'l2, 'l3) cached_world, Felt, rpc_error) io" where
  "Context_getNonce self C block_id contract_address = client_getNonce (ctx_client self) C block_id contract_address"

definition Context_getStateUpdate ::
  "('s, 'l1, 'l2, 'l3, 'v) Context \<Rightarrow> 'v codecs \<Rightarrow> BlockId \<Rightarrow> (('s, 'l1, 'l2, 'l3) cached_world, GetStateUpdateResult, rpc_error) io" where
  "Context_getStateUpdate self C block_id = client_getStateUpdate (ctx_client self) C block_id"

definition Context_getTransactionByBlockIdAndIndex ::
  "('s, 'l1, 'l2, 'l3, 'v) Context \<Rightarrow> 'v codecs \<Rightarrow> BlockId \<Rightarrow> GetTransactionByBlockIdAndIndexIndex \<Rightarrow> (('s, 'l1, 'l2, 'l3) cached_world, GetTransactionByBlockIdAndIndexResult, rpc_error) io" where
  "Context_getTransactionByBlockIdAndIndex self C block_id index = client_getTransactionByBlockIdAndIndex (ctx_client self) C block_id index"

definition Context_getTransactionByHash ::
  "('s, 'l1, 'l2, 'l3, 'v) Context \<Rightarrow> 'v codecs \<Rightarrow> TxnHash \<Rightarrow> (('s, 'l1, 'l2, 'l3) cached_world, GetTransactionByHashResult, rpc_error) io" where
  "Context_getTransactionByHash self C transaction_hash = client_getTransactionByHash (ctx_client self) C transaction_hash"

definition Context_getTransactionReceipt ::
  "('s, 'l1, 'l2, 'l3, 'v) Context \<Rightarrow> 'v codecs \<Rightarrow> TxnHash \<Rightarrow> (('s, 'l1, 'l2, 'l3) cached_world, TxnReceiptWithBlockInfo, rpc_error) io" where
  "Context_getTransactionReceipt self C transaction_hash = client_getTransactionReceipt (ctx_client self) C transaction_hash"

definition Context_getTransactionStatus ::
  "('s, 'l1, 'l2, 'l3, 'v) Context \<Rightarrow> 'v codecs \<Rightarrow> TxnHash \<Rightarrow> (('s, 'l1, 'l2, 'l3) cached_world, GetTransactionStatusResult, rpc_error) io" where
  "Context_getTransactionStatus self C transaction_hash = client_getTransactionStatus (ctx_client self) C transaction_hash"

definition Context_simulateTransactions ::
  "('s, 'l1, 'l2, 'l3, 'v) Context \<Rightarrow> 'v codecs \<Rightarrow> BlockId \<Rightarrow> BroadcastedTxn list \<Rightarrow> SimulationFlag list \<Rightarrow> (('s, 'l1, 'l2, 'l3) cached_world, SimulatedTransaction list, rpc_error) io" where
  "Context_simulateTransactions self C block_id transactions simulation_flags = client_simulateTransactions (ctx_client self) C block_id transactions simulation_flags"

definition Context_specVersion ::
  "('s, 'l1, 'l2, 'l3, 'v) Context \<Rightarrow> 'v codecs \<Rightarrow> (('s, 'l1, 'l2, 'l3) cached_world, string, rpc_error) io" where
  "Context_specVersion self C = client_specVersion (ctx_client self) C"

definition Context_syncing ::
  "('s, 'l1, 'l2, 'l3, 'v) Context \<Rightarrow> 'v codecs \<Rightarrow> (('s, 'l1, 'l2, 'l3) cached_world, SyncingResult, rpc_error) io" where
  "Context_syncing self C = client_syncing (ctx_client self) C"

definition Context_traceBlockTransactions ::
  "('s, 'l1, 'l2, 'l3, 'v) Context \<Rightarrow> 'v codecs \<Rightarrow> BlockId \<Rightarrow> (('s, 'l1, 'l2, 'l3) cached_world, BlockTransactionTrace list, rpc_error) io" where
  "Context_traceBlockTransactions self C block_id = client_traceBlockTransactions (ctx_client self) C block_id"

definition Context_traceTransaction ::
  "('s, 'l1, 'l2, 'l3, 'v) Context \<Rightarrow> 'v codecs \<Rightarrow> TxnHash \<Rightarrow> (('s, 'l1, 'l2, 'l3) cached_world, TransactionTrace, rpc_error) io" where
  "Context_traceTransaction self C transaction_hash = client_traceTransaction (ctx_client self) C transaction_hash"

lemmas Context_proxy_defs =
  Context_getProof_def
  Context_getTxStatus_def
  Context_version_def
  Context_addDeclareTransaction_def
  Context_addDeployAccountTransaction_def
  Context_addInvokeTransaction_def
  Context_blockHashAndNumber_def
  Context_blockNumber_def
  Context_chainId_def
  Context_estimateFee_def
  Context_estimateMessageFee_def
  Context_getBlockTransactionCount_def
  Context_getBlockWithReceipts_def
  Context_getBlockWithTxHashes_def
  Context_getBlockWithTxs_def
  Context_getClass_def
  Context_getClassAt_def
  Context_getClassHashAt_def
  Context_getEvents_def
  Context_getNonce_def
  Context_getStateUpdate_def
  Context_getTransactionByBlockIdAndIndex_def
  Context_getTransactionByHash_def
  Context_getTransactionReceipt_def
  Context_getTransactionStatus_def
  Context_simulateTransactions_def
  Context_specVersion_def
  Context_syncing_def
  Context_traceBlockTransactions_def
  Context_traceTransaction_def

section \<open>Resolving a block\<close>

definition state_of_block :: "BlockWithTxHashes \<Rightarrow> ClientState" where
  "state_of_block b =
     (let header = block_with_tx_hashes_block_header b in
      \<lparr>block_number = BlockNumber_as_ref (block_header_block_number header),
       block_hash = (case block_header_block_hash header of BlockHash.BlockHash h \<Rightarrow> h),
       root = block_header_new_root header\<rparr>)"

definition Context_get_state ::
  "('s, 'l1, 'l2, 'l3, 'v) Context \<Rightarrow> 'v codecs \<Rightarrow> BlockId
     \<Rightarrow> (('s, 'l1, 'l2, 'l3) cached_world, ClientState, rpc_error) io" where
  "Context_get_state self C block_id =
     io_bind (Context_getBlockWithTxHashes self C block_id) (\<lambda>block.
     case block of
       GetBlockWithTxHashesResult.BlockWithTxHashes b \<Rightarrow> io_lift (Ok (state_of_block b))
     | _ \<Rightarrow> io_lift (Err (rpc_err (- 1) ''Pending block received'')))"

definition resolve_block_by_number ::
  "('s, 'l1, 'l2, 'l3, 'v) Context \<Rightarrow> 'v codecs \<Rightarrow> BlockNumber \<Rightarrow> ClientState
     \<Rightarrow> (('s, 'l1, 'l2, 'l3) cached_world, BlockId \<times> Felt, rpc_error) io" where
  "resolve_block_by_number self C number current_state =
     (let req_block_number = BlockNumber_as_ref number in
      if req_block_number \<ge> block_number current_state
      then io_bind (io_lift (BlockNumber_try_new (block_number current_state))) (\<lambda>n.
           io_lift (Ok (BlockId.BlockNumber n, root current_state)))
      else io_bind (Context_get_state self C (BlockId.BlockNumber number)) (\<lambda>state.
           if block_number state \<noteq> req_block_number
           then io_lift (Err (rpc_err (- 1) ''Failed to verify requested block by number''))
           else io_lift (Ok (BlockId.BlockNumber number, root state))))"

definition resolve_block_by_hash ::
  "('s, 'l1, 'l2, 'l3, 'v) Context \<Rightarrow> 'v codecs \<Rightarrow> BlockHash \<Rightarrow> ClientState
     \<Rightarrow> (('s, 'l1, 'l2, 'l3) cached_world, BlockId \<times> Felt, rpc_error) io" where
  "resolve_block_by_hash self C hash current_state =
     (let h = (case hash of BlockHash.BlockHash f \<Rightarrow> Felt_as_ref f) in
      if h = Felt_as_ref (block_hash current_state)
      then io_lift (Ok (BlockId.BlockHash hash, root current_state))
      else io_bind (Context_get_state self C (BlockId.BlockHash hash)) (\<lambda>state.
           if h \<noteq> Felt_as_ref (block_hash state) \<or> block_number state \<ge> block_number current_state
           then io_lift (Err (rpc_err (- 1) ''Failed to verify requested block by hash''))
           else io_lift (Ok (BlockId.BlockHash hash, root state))))"

definition resolve_block_id ::
  "('s, 'l1, 'l2, 'l3, 'v) Context \<Rightarrow> 'v codecs \<Rightarrow> BlockId
     \<Rightarrow> (('s, 'l1, 'l2, 'l3) cached_world, BlockId \<times> Felt, rpc_error) io" where
  "resolve_block_id self C block_id = (\<lambda>w.
     let state = ctx_state self w in
     (case block_id of
        BlockId.BlockNumber number \<Rightarrow> resolve_block_by_number self C number state
      | BlockId.BlockHash hash \<Rightarrow> resolve_block_by_hash self C hash state
      | BlockId.BlockTag BlockTag.Latest \<Rightarrow>
          io_bind (io_lift (BlockNumber_try_new (block_number state))) (\<lambda>n.
          io_lift (Ok (BlockId.BlockNumber n, root state)))
      | BlockId.BlockTag BlockTag.Pending \<Rightarrow> io_lift (Err (rpc_err (- 1) ''Pending block is not supported''))) w)"

section \<open>The methods that are checked or run locally\<close>

definition Context_getStorageAt ::
  "('v, 'f, 'v0, 'c) exe_env \<Rightarrow> ('s, 'l1, 'l2, 'l3, 'v) Context \<Rightarrow> Address \<Rightarrow> StorageKey \<Rightarrow> BlockId
     \<Rightarrow> (('s, 'l1, 'l2, 'l3) cached_world, Felt, rpc_error) io" where
  "Context_getStorageAt E self contract_address key block_id =
     io_bind (resolve_block_id self (env_codecs E) block_id) (\<lambda>(block_id, state_root).
     io_bind (client_getStorageAt (ctx_client self) (env_codecs E) contract_address key block_id) (\<lambda>result.
     io_bind (client_getProof (ctx_client self) (env_codecs E) block_id contract_address [key]) (\<lambda>proof.
     io_bind (io_lift (verify (env_field E) (env_checks E) proof state_root contract_address key result)) (\<lambda>_.
     io_lift (Ok result)))))"

text \<open>\<open>spawn_blocking\<close> reports a panic of its closure as a \<open>JoinError\<close>.\<close>

definition spawn_blocking ::
  "string \<Rightarrow> ('w, 'a, 'e) io \<Rightarrow> ('w, ('a, 'e) outcome, rpc_error) io" where
  "spawn_blocking join_error m = (\<lambda>w. case m w of
     (Panicked, w') \<Rightarrow> (Err (rpc_err 500 (''join error: '' @ join_error)), w')
   | (r, w') \<Rightarrow> (Ok r, w'))"

definition Context_call ::
  "(('s, 'l1, 'l2, 'l3) cached_world, 'f, 'c, 'ctx, 'ci) machine \<Rightarrow> ('u, 'f, 'c, 'l1, 'l2, 'l3) cache_env
     \<Rightarrow> ('v, 'f, 'v0, 'c) exe_env \<Rightarrow> ('s, 'l1, 'l2, 'l3, 'v) Context \<Rightarrow> FunctionCall \<Rightarrow> BlockId
     \<Rightarrow> (('s, 'l1, 'l2, 'l3) cached_world, Felt list, rpc_error) io" where
  "Context_call M V E self request block_id = (\<lambda>w.
     let client = BlockingClient_new (ctx_url self) (ctx_blocking_http self); state = ctx_state self w in
     io_bind (spawn_blocking (ctx_join_error self) (exe_call M V E client request state)) (\<lambda>r.
     io_bind (io_lift (map_err (rpc_error_from (env_debug E)) r)) (\<lambda>call_info.
     io_lift (map_err (rpc_error_from (env_debug E))
       (try_map (felt_from_stark (env_hex E) (env_field E)) (retdata M call_info))))) w)"

definition Context_Rpc ::
  "(('s, 'l1, 'l2, 'l3) cached_world, 'f, 'c, 'ctx, 'ci) machine \<Rightarrow> ('u, 'f, 'c, 'l1, 'l2, 'l3) cache_env
     \<Rightarrow> ('v, 'f, 'v0, 'c) exe_env \<Rightarrow> ('s, 'l1, 'l2, 'l3, 'v) Context \<Rightarrow> ('s, 'l1, 'l2, 'l3) cached_world Rpc" where
  "Context_Rpc M V E self = \<lparr>
     rpc_getProof = Context_getProof self (env_codecs E),
     rpc_getTxStatus = Context_getTxStatus self (env_codecs E),
     rpc_version = Context_version self (env_codecs E),
     rpc_addDeclareTransaction = Context_addDeclareTransaction self (env_codecs E),
     rpc_addDeployAccountTransaction = Context_addDeployAccountTransaction self (env_codecs E),
     rpc_addInvokeTransaction = Context_addInvokeTransaction self (env_codecs E),
     rpc_blockHashAndNumber = Context_blockHashAndNumber self (env_codecs E),
     rpc_blockNumber = Context_blockNumber self (env_codecs E),
     rpc_call = Context_call M V E self,
     rpc_chainId = Context_chainId self (env_codecs E),
     rpc_estimateFee = Context_estimateFee self (env_codecs E),
     rpc_estimateMessageFee = Context_estimateMessageFee self (env_codecs E),
     rpc_getBlockTransactionCount = Context_getBlockTransactionCount self (env_codecs E),
     rpc_getBlockWithReceipts = Context_getBlockWithReceipts self (env_codecs E),
     rpc_getBlockWithTxHashes = Context_getBlockWithTxHashes self (env_codecs E),
     rpc_getBlockWithTxs = Context_getBlockWithTxs self (env_codecs E),
     rpc_getClass = Context_getClass self (env_codecs E),
     rpc_getClassAt = Context_getClassAt self (env_codecs E),
     rpc_getClassHashAt = Context_getClassHashAt self (env_codecs E),
     rpc_getEvents = Context_getEvents self (env_codecs E),
     rpc_getNonce = Context_getNonce self (env_codecs E),
     rpc_getStateUpdate = Context_getStateUpdate self (env_codecs E),
     rpc_getStorageAt = Context_getStorageAt E self,
     rpc_getTransactionByBlockIdAndIndex = Context_getTransactionByBlockIdAndIndex self (env_codecs E),
     rpc_getTransactionByHash = Context_getTransactionByHash self (env_codecs E),
     rpc_getTransactionReceipt = Context_getTransactionReceipt self (env_codecs E),
     rpc_getTransactionStatus = Context_getTransactionStatus self (env_codecs E),
     rpc_simulateTransactions = Context_simulateTransactions self (env_codecs E),
     rpc_specVersion = Context_specVersion self (env_codecs E),
     rpc_syncing = Context_syncing self (env_codecs E),
     rpc_traceBlockTransactions = Context_traceBlockTransactions self (env_codecs E),
     rpc_traceTransaction = Context_traceTransaction self (env_codecs E)\<rparr>"

section \<open>Requests and batches\<close>

datatype 'v server_request = SingleRequest "'v rpc_request" | BatchRequest "'v rpc_request list"
datatype 'v server_response = Empty | SingleResponse "'v rpc_response" | BatchResponse "'v rpc_response list"

primrec run_batch ::
  "('v rpc_request \<Rightarrow> ('w, 'v rpc_response, rpc_error) io) \<Rightarrow> 'v rpc_request list \<Rightarrow> 'v rpc_response list
     \<Rightarrow> ('w, 'v rpc_response list, rpc_error) io" where
  "run_batch dispatch [] ret = io_lift (Ok ret)"
| "run_batch dispatch (req # reqs) ret =
     io_bind (dispatch req) (\<lambda>res.
     run_batch dispatch reqs (if req_id req \<noteq> None then ret @ [res] else ret))"

definition serve_request ::
  "('v rpc_request \<Rightarrow> ('w, 'v rpc_response, rpc_error) io) \<Rightarrow> 'v server_request
     \<Rightarrow> ('w, 'v server_response, rpc_error) io" where
  "serve_request dispatch req =
     (case req of
        SingleRequest r \<Rightarrow> io_bind (dispatch r) (\<lambda>res.
          io_lift (Ok (if req_id r \<noteq> None then SingleResponse res else Empty)))
      | BatchRequest rs \<Rightarrow> io_bind (run_batch dispatch rs []) (\<lambda>ret. io_lift (Ok (BatchResponse ret))))"

definition handle_request ::
  "(('s, 'l1, 'l2, 'l3) cached_world, 'f, 'c, 'ctx, 'ci) machine \<Rightarrow> ('u, 'f, 'c, 'l1, 'l2, 'l3) cache_env
     \<Rightarrow> ('v, 'f, 'v0, 'c) exe_env \<Rightarrow> ('s, 'l1, 'l2, 'l3, 'v) Context \<Rightarrow> 'v server_request
     \<Rightarrow> (('s, 'l1, 'l2, 'l3) cached_world, 'v server_response, rpc_error) io" where
  "handle_request M V E ctx req = serve_request (handle (Context_Rpc M V E ctx) (env_codecs E)) req"

end
