(* ===== verification/RpcServerFacts.thy ===== *)
theory RpcServerFacts
  imports RpcServer VerifyProps
begin

text \<open>
  What the RPC server guarantees: to which block and root a request is resolved, that a
  storage value is returned only with a proof against that root and always is by an honest
  node, that a call gives what the
  library's \<open>execute\<close> gives and never panics, that everything else is the node's answer,
  and how requests, notifications and batches are answered.
\<close>

section \<open>Resolving a block\<close>

lemma BlockNumber_try_new_Ok [outcome_simps]:
  "BlockNumber_try_new w = Ok n \<longleftrightarrow> unat w < 2 ^ 63 \<and> n = BlockNumber.BlockNumber w"
proof -
  have small: "0 \<le> sint w \<longleftrightarrow> unat w < 2 ^ 63" for w :: i64
  proof -
    have "0 \<le> sint w \<longleftrightarrow> \<not> bit w 63"
      using bit_last_iff [of w] by (simp add: not_less)
    also have "\<dots> \<longleftrightarrow> unat w < 2 ^ 63"
    proof -
      have "unat w = take_bit 64 (unat w)"
        using unsigned_less [of w, where ?'a = nat] by (simp add: take_bit_nat_eq_self)
      then have "unat w = (if bit w 63 then 2 ^ 63 else 0) + take_bit 63 (unat w)"
        using take_bit_Suc_from_most [of 63 "unat w"] by (cases "bit w 63") (simp_all add: bit_unsigned_iff)
      then show ?thesis
        using take_bit_nat_less_exp [of 63 "unat w"] by (auto split: if_splits)
    qed
    finally show ?thesis .
  qed
  have top: "sint w \<le> sint BlockNumber_MAX"
    using sint_lt [of w] by (simp add: BlockNumber_MAX_def)
  show ?thesis
    using small [of w] top by (auto simp: BlockNumber_try_new_def BlockNumber_MIN_def)
qed

lemma Context_get_state_Ok [outcome_simps]:
  "Context_get_state self C b w = (Ok st, w') \<longleftrightarrow>
     (\<exists>blk. client_getBlockWithTxHashes (ctx_client self) C b w
        = (Ok (GetBlockWithTxHashesResult.BlockWithTxHashes blk), w') \<and> st = state_of_block blk)"
proof -
  have "(case block of GetBlockWithTxHashesResult.BlockWithTxHashes b \<Rightarrow> io_lift (Ok (state_of_block b))
      | _ \<Rightarrow> io_lift (Err (rpc_err (- 1) ''Pending block received''))) t = (Ok st, w') \<longleftrightarrow>
    (\<exists>blk. block = GetBlockWithTxHashesResult.BlockWithTxHashes blk \<and> st = state_of_block blk \<and> t = w')" for block t
    by (cases block) (auto simp: outcome_simps)
  then show ?thesis
    by (auto simp: Context_get_state_def Context_getBlockWithTxHashes_def io_bind_eq_Ok)
qed

text \<open>The current block, named by its number as far as an \<open>i64\<close> can name it.\<close>

definition current_block :: "ClientState \<Rightarrow> BlockId \<Rightarrow> Felt \<Rightarrow> bool" where
  "current_block st b r \<longleftrightarrow>
     unat (block_number st) < 2 ^ 63 \<and> b = BlockId.BlockNumber (BlockNumber.BlockNumber (block_number st)) \<and> r = root st"

section \<open>Batches\<close>

context dispatcher
begin

lemma run_batch_shape:
  "case run_batch dispatch reqs ret s of
     (Ok rs, _) \<Rightarrow> map res_id rs = map res_id ret @ map req_id (filter (\<lambda>r. req_id r \<noteq> None) reqs)
   | (Err e, _) \<Rightarrow> False
   | (Panicked, _) \<Rightarrow> True"
proof (induction reqs arbitrary: ret s)
  case Nil
  show ?case by simp
next
  case (Cons req reqs)
  show ?case
  proof (cases rule: dispatch_cases [of req s])
    case (answer res s')
    have "run_batch dispatch (req # reqs) ret s
        = run_batch dispatch reqs (if req_id req \<noteq> None then ret @ [res] else ret) s'"
      by (simp only: run_batch.simps io_bind_def answer(1) prod.case outcome.case)
    then show ?thesis
      using Cons.IH [of "ret @ [res]" s'] Cons.IH [of ret s'] answer(2)
      by (cases "req_id req = None") (auto split: prod.splits outcome.splits)
  next
    case (panic s')
    then show ?thesis by (simp add: io_bind_def)
  qed
qed

lemma serve_request_shape:
  "case serve_request dispatch req s of
     (Ok (SingleResponse res), _) \<Rightarrow> \<exists>r. req = SingleRequest r \<and> req_id r \<noteq> None \<and> res_id res = req_id r
   | (Ok Empty, _) \<Rightarrow> \<exists>r. req = SingleRequest r \<and> req_id r = None
   | (Ok (BatchResponse rs), _) \<Rightarrow> \<exists>reqs. req = BatchRequest reqs \<and>
       map res_id rs = map req_id (filter (\<lambda>r. req_id r \<noteq> None) reqs)
   | (Err e, _) \<Rightarrow> False
   | (Panicked, _) \<Rightarrow> True"
proof (cases req)
  case (SingleRequest r)
  show ?thesis
    by (cases rule: dispatch_cases [of r s]) (auto simp: serve_request_def SingleRequest io_bind_def)
next
  case (BatchRequest reqs)
  then show ?thesis
    using run_batch_shape [where reqs = reqs and ret = "[]" and s = s]
    by (auto simp: serve_request_def io_bind_def split: prod.splits outcome.splits)
qed

end

section \<open>Sample server\<close>

text \<open>A server for the witnesses: its node implements the trait with the two answers given
  and is reached through the generated client and dispatcher, its trusted state is fixed,
  and its virtual machine returns the calldata.\<close>

type_synonym sample_world =
  "(nat, ((nat \<times> nat \<times> nat) \<times> 252 word) list, ((nat \<times> nat) \<times> 252 word) list, ((nat \<times> nat) \<times> unit) list) cached_world"

definition sample_world :: sample_world where
  "sample_world = \<lparr>net = 0, storage_cache = [], class_hash_cache = [], contract_class_cache = []\<rparr>"

definition answering_node :: "'w Rpc \<Rightarrow> Felt \<Rightarrow> GetProofResult \<Rightarrow> 'w Rpc" where
  "answering_node R v answer =
     R\<lparr>rpc_getStorageAt := \<lambda>_ _ _ w. (Ok v, w), rpc_getProof := \<lambda>_ _ _ w. (Ok answer, w)\<rparr>"

definition sample_state :: ClientState where
  "sample_state = \<lparr>block_number = 7, block_hash = Felt ''0xabc'',
     root = felt_text word_field (global_root_of word_field 581337 9)\<rparr>"

definition sample_context ::
  "sample_world Rpc \<Rightarrow> (nat, ((nat \<times> nat \<times> nat) \<times> 252 word) list, ((nat \<times> nat) \<times> 252 word) list,
     ((nat \<times> nat) \<times> unit) list, sample_args + sample_rets) Context" where
  "sample_context R = \<lparr>ctx_url = ''http://node'',
     ctx_client = StarknetClient_new ''http://node''
       (\<lambda>_. handle (answering_node R (felt_text word_field 5) sample_answer) sample_codecs),
     ctx_state = (\<lambda>_. sample_state), ctx_blocking_http = zero_node, ctx_join_error = ''panic''\<rparr>"

definition echo_machine :: "(sample_world, 252 word, unit, unit, 252 word list) machine" where
  "echo_machine = \<lparr>new_context = (\<lambda>_. Ok ()), patricia_key = Ok,
     run_entry_point = (\<lambda>c _ _. io_lift (Ok (ep_calldata c))), retdata = (\<lambda>ci. ci), fe_one = 1\<rparr>"

lemma sample_env_fields: "env_codecs sample_env = sample_codecs" "env_field sample_env = word_field"
  "env_checks sample_env = True" "env_hex sample_env = hex_encode" "env_unchecked sample_env = word_unchecked"
  by (simp_all add: sample_env_def)

lemma sample_block_number: "BlockNumber_try_new 7 = Ok (BlockNumber.BlockNumber 7)"
  by (simp add: BlockNumber_try_new_Ok)

lemma sample_served:
  "Context_getStorageAt sample_env (sample_context R) (Address.Address (Felt ''0x0'')) (StorageKey ''0x0'')
     (BlockId.BlockTag BlockTag.Latest) sample_world = (Ok (felt_text word_field 5), sample_world)"
  using sample_verified [of True]
  by (simp add: Context_getStorageAt_def resolve_block_id_def Let_def io_bind_def sample_context_def sample_env_fields
      client_of_handle [OF sample_codecs_ok] answering_node_def sample_state_def sample_block_number)

section \<open>Properties\<close>

text \<open>How requests are answered: a request with an id gets one response with that id, a
  notification gets none, and a batch gets, in order, one response for each of its requests
  with an id and none for the notifications in it. The server never answers with an error
  of its own.\<close>

lemma handle_request_answers:
  "case handle_request M V E ctx req w of
     (Ok (SingleResponse res), _) \<Rightarrow> \<exists>r. req = SingleRequest r \<and> req_id r \<noteq> None \<and> res_id res = req_id r
   | (Ok Empty, _) \<Rightarrow> \<exists>r. req = SingleRequest r \<and> req_id r = None
   | (Ok (BatchResponse rs), _) \<Rightarrow> \<exists>reqs. req = BatchRequest reqs \<and>
       map res_id rs = map req_id (filter (\<lambda>r. req_id r \<noteq> None) reqs)
   | (Err e, _) \<Rightarrow> False
   | (Panicked, _) \<Rightarrow> True"
  unfolding handle_request_def by (rule rpc_dispatch.serve_request_shape)

text \<open>
  C12. To which block and root a request is resolved. The tag \<open>latest\<close>, a number at or above the
  current one and the current hash give the root of the trusted state without any request
  (a number is replaced by the current one); \<open>pending\<close> is refused. Any other block is
  fetched from the node and accepted if its number is the one asked for, or its hash is and
  its number is below the current one: the root is then the node's own \<open>new_root\<close>.
\<close>

theorem resolve_block_id_Ok_iff:
  "resolve_block_id self C b w = (Ok (b', r), w') \<longleftrightarrow>
     (let st = ctx_state self w;
          fetched = (\<lambda>accept. b' = b \<and> (\<exists>blk. client_getBlockWithTxHashes (ctx_client self) C b w
              = (Ok (GetBlockWithTxHashesResult.BlockWithTxHashes blk), w') \<and>
              r = root (state_of_block blk) \<and> accept (state_of_block blk))) in
      case b of
        BlockId.BlockTag BlockTag.Latest \<Rightarrow> current_block st b' r \<and> w' = w
      | BlockId.BlockTag BlockTag.Pending \<Rightarrow> False
      | BlockId.BlockNumber n \<Rightarrow>
          if block_number st \<le> BlockNumber_as_ref n then current_block st b' r \<and> w' = w
          else fetched (\<lambda>old. block_number old = BlockNumber_as_ref n)
      | BlockId.BlockHash (BlockHash.BlockHash h) \<Rightarrow>
          if h = block_hash st then b' = b \<and> r = root st \<and> w' = w
          else fetched (\<lambda>old. block_hash old = h \<and> block_number old < block_number st))"
proof (cases b)
  case (BlockNumber n)
  then show ?thesis
    by (auto simp: resolve_block_id_def resolve_block_by_number_def Let_def current_block_def outcome_simps
        split: if_splits)
next
  case (BlockHash hash)
  obtain h where h: "hash = BlockHash.BlockHash h" by (cases hash)
  have eq: "Felt_as_ref x = Felt_as_ref y \<longleftrightarrow> x = y" for x y by (cases x; cases y) simp
  show ?thesis
    by (auto simp: BlockHash h resolve_block_id_def resolve_block_by_hash_def Let_def outcome_simps eq not_le
        split: if_splits)
next
  case (BlockTag tag)
  then show ?thesis
    by (cases tag) (auto simp: resolve_block_id_def Let_def current_block_def outcome_simps)
qed

text \<open>A storage value is returned exactly when the node's value for the resolved block comes
  with a proof that verifies against the resolved root at that address and key; any other
  outcome is an error.\<close>

lemma Context_getStorageAt_Ok_iff:
  "Context_getStorageAt E self a k b w = (Ok v, w') \<longleftrightarrow>
     (\<exists>b' r w1 w2 proof. resolve_block_id self (env_codecs E) b w = (Ok (b', r), w1) \<and>
        client_getStorageAt (ctx_client self) (env_codecs E) a k b' w1 = (Ok v, w2) \<and>
        client_getProof (ctx_client self) (env_codecs E) b' a [k] w2 = (Ok proof, w') \<and>
        verify (env_field E) (env_checks E) proof r a k v = Ok ())"
  by (auto simp: Context_getStorageAt_def outcome_simps split_def)

text \<open>
  C4. An honest node is enough: when the node answers \<open>getStorageAt\<close> and \<open>getProof\<close> from a
  storage trie and a contract trie whose global root is the one of the trusted state,
  \<open>starknet_getStorageAt\<close> for the latest block returns the value the storage trie holds,
  through the generated client and dispatcher.
\<close>

theorem Context_getStorageAt_honest_node:
  assumes "codecs_ok (env_codecs E)" and "field_laws (env_field E)"
    and "ctx_client self = StarknetClient_new url (\<lambda>_. handle R (env_codecs E))"
    and "BlockNumber_try_new (block_number (ctx_state self w)) = Ok n"
    and "root (ctx_state self w) = felt_text (env_field E) (global_root_of (env_field E) (root_hash (env_field E) contracts) cc)"
    and "rpc_getStorageAt R (Address.Address a) sk (BlockId.BlockNumber n) w = (Ok (felt_text (env_field E) x), w1)"
    and "rpc_getProof R (BlockId.BlockNumber n) (Address.Address a) [sk] w1
      = (Ok (honest_answer (env_field E) contracts storage class_hash nonce cc address k), w2)"
    and "from_hex (env_field E) (StorageKey_as_ref sk) = Some k" and "from_hex (env_field E) (Felt_as_ref a) = Some address"
    and "trie_wf 251 storage" and "trie_lookup storage (key_bits (env_field E) k) = Some x"
    and "trie_wf 251 contracts"
    and "trie_lookup contracts (key_bits (env_field E) address)
      = Some (contract_state_hash (env_field E) class_hash (root_hash (env_field E) storage) nonce)"
  shows "Context_getStorageAt E self (Address.Address a) sk (BlockId.BlockTag BlockTag.Latest) w
    = (Ok (felt_text (env_field E) x), w2)"
  using assms(4-7) verify_honest [OF assms(2,8-13), of "env_checks E" cc]
  by (simp add: Context_getStorageAt_def resolve_block_id_def Let_def io_bind_def assms(3)
      client_of_handle [OF assms(1)])

theorem Context_getStorageAt_honest_node_witness:
  "\<forall>R. Context_getStorageAt sample_env (sample_context R) (Address.Address (Felt ''0x0'')) (StorageKey ''0x0'')
     (BlockId.BlockTag BlockTag.Latest) sample_world = (Ok (felt_text word_field 5), sample_world)"
proof
  fix R
  show "Context_getStorageAt sample_env (sample_context R) (Address.Address (Felt ''0x0'')) (StorageKey ''0x0'')
     (BlockId.BlockTag BlockTag.Latest) sample_world = (Ok (felt_text word_field 5), sample_world)"
    unfolding sample_env_fields(2) [symmetric]
    by (rule Context_getStorageAt_honest_node [where R = "answering_node R (felt_text word_field 5) sample_answer"
          and contracts = sample_contracts and storage = sample_trie and class_hash = 1 and nonce = 2 and cc = 9
          and address = 0 and k = 0 and url = "''http://node''" and n = "BlockNumber.BlockNumber 7" and ?w1.0 = sample_world])
      (simp_all add: sample_env_fields sample_codecs_ok word_field_laws sample_context_def sample_state_def
        sample_contracts_facts answering_node_def BlockNumber_try_new_Ok sample_key sample_key_bits sample_wf sample_lookup
        sample_state_hash)
qed

text \<open>The value \<open>starknet_getStorageAt\<close> returns for the latest block, for a number at or above
  the current one or for the current block's hash is proved against the root of the
  trusted state held when the request was resolved.\<close>

lemma Context_getStorageAt_current:
  assumes "Context_getStorageAt E self a k b w = (Ok v, w')"
    and "b = BlockId.BlockTag BlockTag.Latest \<or>
      (\<exists>n. b = BlockId.BlockNumber n \<and> block_number (ctx_state self w) \<le> BlockNumber_as_ref n) \<or>
      b = BlockId.BlockHash (BlockHash.BlockHash (block_hash (ctx_state self w)))"
  shows "\<exists>proof. verify (env_field E) (env_checks E) proof (root (ctx_state self w)) a k v = Ok ()"
proof -
  from assms(1) obtain b' r w1 pf where res: "resolve_block_id self (env_codecs E) b w = (Ok (b', r), w1)"
      and ok: "verify (env_field E) (env_checks E) pf r a k v = Ok ()"
    by (auto simp: Context_getStorageAt_Ok_iff)
  have "r = root (ctx_state self w)"
    using assms(2) res
    by (auto simp: resolve_block_id_def resolve_block_by_number_def resolve_block_by_hash_def Let_def outcome_simps)
  then show ?thesis using ok by blast
qed

lemma printed_no_panic: "try_map (felt_from_stark hex F) xs \<noteq> Panicked"
  by (induction xs)
    (auto simp: outcome_simps felt_from_stark_def felt_from_stark_ref_def Let_def felt_t.try_new_no_panic)

lemma Context_call_not_panicked: "fst (Context_call M V E self request b w) \<noteq> Panicked"
  by (auto simp: Context_call_def Let_def spawn_blocking_def io_bind_def printed_no_panic outcome_simps
      split: prod.splits outcome.splits)

text \<open>
  C23. Exactly what a call answers: a panic of the execution, in the virtual machine or in a
  conversion before it, becomes the error 500 with the join error's text, an error is converted
  to its RPC error, and a result is converted felt by felt. Nothing in it can panic the server.
\<close>

theorem Context_call_contains_panics:
  "Context_call M V E self request b w =
     (case exe_call M V E (BlockingClient_new (ctx_url self) (ctx_blocking_http self)) request (ctx_state self w) w of
        (Ok info, w') \<Rightarrow>
          (map_err (rpc_error_from (env_debug E)) (try_map (felt_from_stark (env_hex E) (env_field E)) (retdata M info)), w')
      | (Err e, w') \<Rightarrow> (Err (rpc_error_from (env_debug E) e), w')
      | (Panicked, w') \<Rightarrow> (Err (rpc_err 500 (''join error: '' @ ctx_join_error self)), w')) \<and>
   fst (Context_call M V E self request b w) \<noteq> Panicked"
  using Context_call_not_panicked [of M V E self request b w]
  by (auto simp: Context_call_def Let_def spawn_blocking_def io_bind_def split: prod.splits outcome.splits)

text \<open>The 30 other methods are the node's answers, unchecked: as an implementation of \<open>Rpc\<close>,
  the server is its node's client with \<open>getStorageAt\<close> and \<open>call\<close> replaced.\<close>

lemma Context_Rpc_proxies:
  "Context_Rpc M V E self = (Client_Rpc (ctx_client self) (env_codecs E))
     \<lparr>rpc_getStorageAt := Context_getStorageAt E self, rpc_call := Context_call M V E self\<rparr>"
  by (simp add: Context_Rpc_def Client_Rpc_def fun_eq_iff Context_proxy_defs)

text \<open>
  C13. The server's \<open>starknet_call\<close> and the library's \<open>execute\<close> agree: with the same node, the
  same HTTP client and the same trusted state they return the same felts and leave the same
  world. The server ignores the block the caller asks for.
\<close>

theorem Context_call_execute:
  assumes "hex_law (env_hex E)" and "small_law (env_field E)"
    and "client_url (lib_starknet lib) = ctx_url self" and "lib_blocking_http lib = ctx_blocking_http self"
  shows "Context_call M V E self request b w = (Ok vs, w') \<longleftrightarrow>
    LibClient_execute M V E lib request (ctx_state self w) w = (Ok vs, w')"
proof -
  let ?convert = "\<lambda>x. SOME v. felt_from_stark (env_hex E) (env_field E) x = Ok v \<and>
      as_felt (env_hex E) (to_bytes_be (env_field E) x) = Ok v"
  have both: "felt_from_stark (env_hex E) (env_field E) x = Ok (?convert x)"
    "as_felt (env_hex E) (to_bytes_be (env_field E) x) = Ok (?convert x)" for x
    using someI_ex [of "\<lambda>v. felt_from_stark (env_hex E) (env_field E) x = Ok v \<and>
        as_felt (env_hex E) (to_bytes_be (env_field E) x) = Ok v"]
      felt_from_stark_Ok [OF assms(1,2), of x] by blast+
  have "try_map (felt_from_stark (env_hex E) (env_field E)) xs = Ok (map ?convert xs)"
    "try_map (\<lambda>x. as_felt (env_hex E) (to_bytes_be (env_field E) x)) xs = Ok (map ?convert xs)" for xs
    using both by (intro try_map_total; simp)+
  then show ?thesis
    by (auto simp: Context_call_def LibClient_execute_def Let_def assms(3,4) spawn_blocking_def io_bind_def
        io_map_err_def split: prod.splits outcome.splits)
qed

theorem Context_call_execute_witness:
  "Context_call echo_machine sample_cache_env sample_env (sample_context undefined)
      \<lparr>function_call_calldata = [Felt ''0x0''], function_call_contract_address = Address.Address (Felt ''0x0''),
       function_call_entry_point_selector = Felt ''0x0''\<rparr> (BlockId.BlockTag BlockTag.Latest) sample_world
   = (Ok [Felt ''0x0''], sample_world)"
proof -
  let ?self = "sample_context undefined"
  let ?lib = "\<lparr>lib_starknet = StarknetClient_new ''http://node'' zero_node, lib_gateway = \<lparr>gw_url = ''http://gateway''\<rparr>,
     lib_http = zero_node, lib_blocking_http = zero_node\<rparr>"
  have zero: "stark_from_felt word_unchecked (Felt ''0x0'') = Ok 0"
    using sample_key by (simp add: stark_from_felt_def word_unchecked_def)
  have "felt_from_stark_ref hex_encode word_field 0 = Ok (Felt ''0x0'')"
    using sample_zero_address
    by (cases "felt_from_stark_ref hex_encode word_field (0 :: 252 word)") (simp_all add: proxy_address_def sample_env_fields)
  then have printed: "as_felt hex_encode (to_bytes_be word_field (0 :: 252 word)) = Ok (Felt ''0x0'')"
    using felt_from_stark_Ok [OF hex_law_encode word_small_law, of 0] by (auto simp: felt_from_stark_def)
  have "LibClient_execute echo_machine sample_cache_env sample_env ?lib
      \<lparr>function_call_calldata = [Felt ''0x0''], function_call_contract_address = Address.Address (Felt ''0x0''),
       function_call_entry_point_selector = Felt ''0x0''\<rparr> (ctx_state ?self sample_world) sample_world
     = (Ok [Felt ''0x0''], sample_world)"
    by (simp add: LibClient_execute_def exe_call_def Let_def zero printed sample_env_fields echo_machine_def io_bind_def
        io_map_err_def)
  then show ?thesis
    by (subst Context_call_execute [where lib = ?lib])
      (simp_all add: sample_env_fields hex_law_encode word_small_law sample_context_def StarknetClient_new_def)
qed

end
