(* ===== verification/CacheRefine.thy ===== *)
theory CacheRefine
  imports CacheFacts
begin

text \<open>
  The caches against the state without them. \<open>functional_state\<close> is the contract of a state
  whose answers do not depend on the world: a node that keeps answering the same for a
  block. The cached state over such a state has the same contract with the same answers,
  as long as what the caches hold for the block agrees with them, which every read keeps;
  so any program of reads gets the same replies with and without the caches.
\<close>

section \<open>Programs of reads\<close>

datatype 'f query = StorageAt 'f 'f | NonceAt 'f | ClassHashAt 'f | CompiledClass 'f
datatype ('f, 'c) reply = Element 'f | Code 'c

primrec ask :: "('s, 'f, 'c) state_api \<Rightarrow> 'f query \<Rightarrow> ('s, ('f, 'c) reply, 'f StateError) io" where
  "ask api (StorageAt a k) = io_bind (api_get_storage_at api a k) (\<lambda>x. io_lift (Ok (Element x)))"
| "ask api (NonceAt a) = io_bind (api_get_nonce_at api a) (\<lambda>x. io_lift (Ok (Element x)))"
| "ask api (ClassHashAt a) = io_bind (api_get_class_hash_at api a) (\<lambda>x. io_lift (Ok (Element x)))"
| "ask api (CompiledClass h) = io_bind (api_get_compiled_contract_class api h) (\<lambda>c. io_lift (Ok (Code c)))"

text \<open>The next query may depend on the replies so far.\<close>

primrec query_run :: "('s, 'f, 'c) state_api \<Rightarrow> (('f, 'c) reply list \<Rightarrow> 'f query) \<Rightarrow> nat \<Rightarrow> ('f, 'c) reply list
    \<Rightarrow> ('s, ('f, 'c) reply list, 'f StateError) io" where
  "query_run api nxt 0 replies = io_lift (Ok replies)"
| "query_run api nxt (Suc n) replies =
     io_bind (ask api (nxt replies)) (\<lambda>r. query_run api nxt n (replies @ [r]))"

text \<open>The answers as functions, and the run as a function of them.\<close>

record ('f, 'c) answers_of =
  storage_of :: "'f \<Rightarrow> 'f \<Rightarrow> ('f, 'f StateError) outcome"
  nonce_of :: "'f \<Rightarrow> ('f, 'f StateError) outcome"
  class_hash_of :: "'f \<Rightarrow> ('f, 'f StateError) outcome"
  class_of :: "'f \<Rightarrow> ('c, 'f StateError) outcome"

primrec reply_of :: "('f, 'c) answers_of \<Rightarrow> 'f query \<Rightarrow> (('f, 'c) reply, 'f StateError) outcome" where
  "reply_of A (StorageAt a k) = bind (storage_of A a k) (\<lambda>x. Ok (Element x))"
| "reply_of A (NonceAt a) = bind (nonce_of A a) (\<lambda>x. Ok (Element x))"
| "reply_of A (ClassHashAt a) = bind (class_hash_of A a) (\<lambda>x. Ok (Element x))"
| "reply_of A (CompiledClass h) = bind (class_of A h) (\<lambda>c. Ok (Code c))"

primrec reply_run :: "('f, 'c) answers_of \<Rightarrow> (('f, 'c) reply list \<Rightarrow> 'f query) \<Rightarrow> nat \<Rightarrow> ('f, 'c) reply list
    \<Rightarrow> (('f, 'c) reply list, 'f StateError) outcome" where
  "reply_run A nxt 0 replies = Ok replies"
| "reply_run A nxt (Suc n) replies = bind (reply_of A (nxt replies)) (\<lambda>r. reply_run A nxt n (replies @ [r]))"

section \<open>States with fixed answers\<close>

definition answers_with :: "('s \<Rightarrow> bool) \<Rightarrow> ('s, 'a, 'e) io \<Rightarrow> ('a, 'e) outcome \<Rightarrow> bool" where
  "answers_with good m r \<longleftrightarrow> (\<forall>s. good s \<longrightarrow> (\<exists>s'. m s = (r, s') \<and> good s'))"

lemma answers_withD: "answers_with good m r \<Longrightarrow> good s \<Longrightarrow> \<exists>s'. m s = (r, s') \<and> good s'"
  unfolding answers_with_def by blast

lemma answers_with_lift: "answers_with good (io_lift r) r"
  by (simp add: answers_with_def)

lemma answers_with_bind:
  assumes "answers_with good m r" and "\<And>x. r = Ok x \<Longrightarrow> answers_with good (f x) (g x)"
  shows "answers_with good (io_bind m f) (bind r g)"
  unfolding answers_with_def
proof (intro allI impI)
  fix s
  assume "good s"
  then obtain s' where s': "m s = (r, s')" "good s'" using answers_withD [OF assms(1)] by blast
  show "\<exists>s'. io_bind m f s = (bind r g, s') \<and> good s'"
  proof (cases r)
    case (Ok x)
    then show ?thesis using s' answers_withD [OF assms(2) s'(2)] by (simp add: io_bind_def)
  qed (use s' in \<open>simp_all add: io_bind_def\<close>)
qed

locale functional_state =
  fixes api :: "('s, 'f, 'c) state_api"
    and good :: "'s \<Rightarrow> bool"
    and A :: "('f, 'c) answers_of"
  assumes storage_answer: "answers_with good (api_get_storage_at api a k) (storage_of A a k)"
    and nonce_answer: "answers_with good (api_get_nonce_at api a) (nonce_of A a)"
    and class_hash_answer: "answers_with good (api_get_class_hash_at api a) (class_hash_of A a)"
    and class_answer: "answers_with good (api_get_compiled_contract_class api h) (class_of A h)"
begin

lemma ask_answer: "answers_with good (ask api q) (reply_of A q)"
  by (cases q)
    (simp_all add: answers_with_bind answers_with_lift storage_answer nonce_answer class_hash_answer class_answer)

lemma run_answer: "answers_with good (query_run api nxt n replies) (reply_run A nxt n replies)"
  by (induction n arbitrary: replies) (simp_all add: answers_with_lift answers_with_bind ask_answer)

end

section \<open>A node that answers the same to the same request\<close>

definition steady :: "('s, 'a, 'e) io \<Rightarrow> bool" where
  "steady m \<longleftrightarrow> (\<exists>r. \<forall>s. m s = (r, s))"

lemma steady_lift: "steady (io_lift r)"
  by (auto simp: steady_def)

lemma steady_map_err: "steady m \<Longrightarrow> steady (io_map_err h m)"
  by (auto simp: steady_def io_map_err_def)

lemma steady_bind: "steady m \<Longrightarrow> (\<And>x. steady (f x)) \<Longrightarrow> steady (io_bind m f)"
proof -
  assume "steady m" and f: "\<And>x. steady (f x)"
  then obtain r where r: "\<And>s. m s = (r, s)" by (auto simp: steady_def)
  show "steady (io_bind m f)"
  proof (cases r)
    case (Ok x)
    obtain q where "\<And>s. f x s = (q, s)" using f [of x] by (auto simp: steady_def)
    then show ?thesis using r Ok by (auto simp: steady_def io_bind_def)
  qed (use r in \<open>auto simp: steady_def io_bind_def\<close>)
qed

lemma steady_if: "steady m \<Longrightarrow> steady n \<Longrightarrow> steady (if P then m else n)"
  by simp

lemma steady_exe_lift: "steady (exe_lift E r)"
  by (simp add: exe_lift_def steady_lift)

lemma steady_rpc_lift: "steady m \<Longrightarrow> steady (rpc_lift E m)"
  by (simp add: rpc_lift_def steady_map_err)

lemma steady_call: "(\<And>u req. steady (http u req)) \<Longrightarrow> steady (call_method http url C method args)"
  unfolding call_method_def client_send_def by (intro steady_bind steady_lift)

lemmas steady_intros = steady_lift steady_map_err steady_bind steady_if steady_exe_lift steady_rpc_lift steady_call

lemma steady_answers: "steady m \<Longrightarrow> answers_with (\<lambda>_. True) m (fst (m s))"
  unfolding steady_def answers_with_def by (metis fst_conv)

definition steady_proxy :: "string \<Rightarrow> (string \<Rightarrow> 'v rpc_request \<Rightarrow> ('v rpc_response, rpc_error) outcome)
    \<Rightarrow> ClientState \<Rightarrow> ('s, 'v) StateProxy" where
  "steady_proxy url node st = \<lparr>proxy_client = BlockingClient_new url (\<lambda>u req. io_lift (node u req)), proxy_state = st\<rparr>"

lemma steady_proxy_reads:
  "steady (proxy_get_storage_at E (steady_proxy url node st) a k)"
  "steady (proxy_get_nonce_at E (steady_proxy url node st) a)"
  "steady (proxy_get_class_hash_at E (steady_proxy url node st) a)"
  "steady (proxy_get_compiled_contract_class E (steady_proxy url node st) h)"
  unfolding proxy_get_storage_at_def proxy_get_nonce_at_def proxy_get_class_hash_at_def
    proxy_get_compiled_contract_class_def Let_def blocking_client_getStorageAt_def blocking_client_getProof_def
    blocking_client_getNonce_def blocking_client_getClassHashAt_def blocking_client_getClass_def
    steady_proxy_def BlockingClient_new_def
  by (intro steady_intros; simp add: steady_lift)+

lemma get_block_hash_steady: "get_block_hash (steady_proxy url node st) = block_hash st"
  by (simp add: get_block_hash_def steady_proxy_def)

text \<open>What the state answers in some world, which for a steady node is every world.\<close>

definition answers_in :: "('s, 'f, 'c) state_api \<Rightarrow> 's \<Rightarrow> ('f, 'c) answers_of" where
  "answers_in api s = \<lparr>
     storage_of = (\<lambda>a k. fst (api_get_storage_at api a k s)), nonce_of = (\<lambda>a. fst (api_get_nonce_at api a s)),
     class_hash_of = (\<lambda>a. fst (api_get_class_hash_at api a s)),
     class_of = (\<lambda>h. fst (api_get_compiled_contract_class api h s))\<rparr>"

interpretation steady_node: functional_state "StateProxy_api E (steady_proxy url node st)" "\<lambda>_ :: 's. True"
    "answers_in (StateProxy_api E (steady_proxy url node st)) (s :: 's)" for E url node st s
  by unfold_locales
    (simp_all add: answers_in_def StateProxy_api_def steady_answers steady_proxy_reads)

section \<open>One cached read\<close>

text \<open>The shape of the three cached methods, over the part \<open>view\<close> of the world the cache
  holds and the part \<open>frame\<close> it leaves alone.\<close>

lemma cached_read_answer:
  assumes get: "\<And>w. \<exists>w1. get ck w = (Ok (view w ck), w1) \<and> view w1 = view w \<and> frame w1 = frame w"
    and set: "\<And>x w. \<exists>y w1. put ck x w = (Ok y, w1) \<and> view w1 \<subseteq>\<^sub>m (view w)(ck \<mapsto> x) \<and> frame w1 = frame w"
    and miss: "\<And>w. good (frame w) \<Longrightarrow> \<exists>w1. m w = (r, w1) \<and> view w1 = view w \<and> good (frame w1)"
    and hit: "\<And>x. view w ck = Some x \<Longrightarrow> r = Ok x" and start: "good (frame w)"
  shows "\<exists>w1. io_bind (io_lift (Ok ck)) (\<lambda>key. io_bind (get key) (\<lambda>found. case found of
        Some ret \<Rightarrow> io_lift (Ok ret)
      | None \<Rightarrow> io_bind m (\<lambda>ret. io_bind (io_lift (Ok ck)) (\<lambda>key. io_bind (put key ret) (\<lambda>_. io_lift (Ok ret)))))) w
      = (r, w1) \<and> good (frame w1) \<and> (\<forall>k x. view w1 k = Some x \<longrightarrow> view w k = Some x \<or> k = ck \<and> r = Ok x)"
proof -
  obtain w1 where w1: "get ck w = (Ok (view w ck), w1)" "view w1 = view w" "frame w1 = frame w"
    using get by blast
  show ?thesis
  proof (cases "view w ck")
    case (Some x)
    then show ?thesis using w1 hit [OF Some] start by (auto simp: io_bind_def)
  next
    case None
    obtain w2 where w2: "m w1 = (r, w2)" "view w2 = view w" "good (frame w2)"
      using miss [of w1] w1 start by auto
    show ?thesis
    proof (cases r)
      case (Ok x)
      obtain y w3 where w3: "put ck x w2 = (Ok y, w3)" "view w3 \<subseteq>\<^sub>m (view w2)(ck \<mapsto> x)" "frame w3 = frame w2"
        using set by blast
      have "view w k = Some z \<or> k = ck \<and> z = x" if "view w3 k = Some z" for k z
        using map_le_update_cases [OF w3(2) that] w2(2) by simp
      then show ?thesis using w1 w2 w3 None Ok by (auto simp: io_bind_def)
    qed (use w1 w2 None in \<open>auto simp: io_bind_def\<close>)
  qed
qed

section \<open>The cached state\<close>

lemma class_hash_get_run:
  assumes "lru_laws (class_hash_lru V) contents"
  shows "\<exists>l. class_hash_get V ck w = (Ok (contents (class_hash_cache w) ck), w\<lparr>class_hash_cache := l\<rparr>) \<and>
    contents l = contents (class_hash_cache w)"
  using lru_getD [OF assms, of ck "class_hash_cache w"]
  by (cases "lru_get (class_hash_lru V) ck (class_hash_cache w)") (auto simp: class_hash_get_def)

lemma class_hash_set_run:
  assumes "lru_laws (class_hash_lru V) contents"
  shows "\<exists>r l. class_hash_set V ck v w = (Ok r, w\<lparr>class_hash_cache := l\<rparr>) \<and>
    contents l ck = Some v \<and> contents l \<subseteq>\<^sub>m (contents (class_hash_cache w))(ck \<mapsto> v)"
  using lru_putD [OF assms, of ck v "class_hash_cache w"]
  by (cases "lru_put (class_hash_lru V) ck v (class_hash_cache w)") (auto simp: class_hash_set_def)

lemma contract_class_get_run:
  assumes "lru_laws (contract_class_lru V) contents"
  shows "\<exists>l. contract_class_get V ck w = (Ok (contents (contract_class_cache w) ck), w\<lparr>contract_class_cache := l\<rparr>) \<and>
    contents l = contents (contract_class_cache w)"
  using lru_getD [OF assms, of ck "contract_class_cache w"]
  by (cases "lru_get (contract_class_lru V) ck (contract_class_cache w)") (auto simp: contract_class_get_def)

lemma contract_class_set_run:
  assumes "lru_laws (contract_class_lru V) contents"
  shows "\<exists>r l. contract_class_set V ck v w = (Ok r, w\<lparr>contract_class_cache := l\<rparr>) \<and>
    contents l ck = Some v \<and> contents l \<subseteq>\<^sub>m (contents (contract_class_cache w))(ck \<mapsto> v)"
  using lru_putD [OF assms, of ck v "contract_class_cache w"]
  by (cases "lru_put (contract_class_lru V) ck v (contract_class_cache w)") (auto simp: contract_class_set_def)

text \<open>The laws of the three maps with their contents, and what it means for the entries of a
  block (number \<open>b\<close>) to agree with the answers.\<close>

definition cache_laws ::
  "('u, 'f, 'c, 'l1, 'l2, 'l3) cache_env \<Rightarrow> ('l1 \<Rightarrow> 'u \<times> 'u \<times> 'u \<rightharpoonup> 'f) \<Rightarrow> ('l2 \<Rightarrow> 'u \<times> 'u \<rightharpoonup> 'f)
     \<Rightarrow> ('l3 \<Rightarrow> 'u \<times> 'u \<rightharpoonup> 'c) \<Rightarrow> bool" where
  "cache_laws V c1 c2 c3 \<longleftrightarrow> lru_laws (storage_lru V) c1 \<and> lru_laws (class_hash_lru V) c2 \<and>
     lru_laws (contract_class_lru V) c3 \<and> u256_law V"

definition cache_number :: "('u, 'f, 'c, 'l1, 'l2, 'l3) cache_env \<Rightarrow> 'f \<Rightarrow> 'u" where
  "cache_number V a = u256_from_be_bytes (cache_u256 V) (to_bytes_be (cache_field V) a)"

definition cache_agrees ::
  "('u, 'f, 'c, 'l1, 'l2, 'l3) cache_env \<Rightarrow> ('l1 \<Rightarrow> 'u \<times> 'u \<times> 'u \<rightharpoonup> 'f) \<Rightarrow> ('l2 \<Rightarrow> 'u \<times> 'u \<rightharpoonup> 'f)
     \<Rightarrow> ('l3 \<Rightarrow> 'u \<times> 'u \<rightharpoonup> 'c) \<Rightarrow> 'u \<Rightarrow> ('f, 'c) answers_of \<Rightarrow> ('s, 'l1, 'l2, 'l3) cached_world \<Rightarrow> bool" where
  "cache_agrees V c1 c2 c3 b A w \<longleftrightarrow>
     (\<forall>a k x. c1 (storage_cache w) (b, cache_number V a, cache_number V k) = Some x \<longrightarrow> storage_of A a k = Ok x) \<and>
     (\<forall>a x. c2 (class_hash_cache w) (b, cache_number V a) = Some x \<longrightarrow> class_hash_of A a = Ok x) \<and>
     (\<forall>h x. c3 (contract_class_cache w) (b, cache_number V h) = Some x \<longrightarrow> class_of A h = Ok x)"

lemma cache_keys:
  assumes "u256_parse (cache_u256 V) (Felt_as_ref h) = Some b"
  shows "storage_cache_key (cache_u256 V) (cache_field V) h a k = Ok (b, cache_number V a, cache_number V k)"
    and "class_hash_cache_key (cache_u256 V) (cache_field V) h a = Ok (b, cache_number V a)"
    and "contract_class_cache_key (cache_u256 V) (cache_field V) h a = Ok (b, cache_number V a)"
  using assms
  by (simp_all add: storage_cache_key_def class_hash_cache_key_def contract_class_cache_key_def block_u256_def
      cache_number_def)

lemma cache_number_inject: "u256_law V \<Longrightarrow> cache_number V a = cache_number V a' \<longleftrightarrow> a = a'"
  using u256_lawD [of V a a'] by (auto simp: cache_number_def)

lemma on_net_answer:
  assumes "answers_with good m r" and "good (net w)"
  shows "\<exists>s. on_net m w = (r, w\<lparr>net := s\<rparr>) \<and> good s"
  using answers_withD [OF assms] by (auto simp: on_net_def)

context functional_state
begin

abbreviation cached_good where
  "cached_good V c1 c2 c3 b w \<equiv> good (net w) \<and> cache_agrees V c1 c2 c3 b A w"

lemma cached_storage_answer:
  assumes "cache_laws V c1 c2 c3" and "u256_parse (cache_u256 V) (Felt_as_ref h) = Some b"
  shows "answers_with (cached_good V c1 c2 c3 b) (cached_get_storage_at V (CachedState_new api h) a k) (storage_of A a k)"
  unfolding answers_with_def
proof (intro allI impI)
  fix w assume start: "cached_good V c1 c2 c3 b w"
  let ?ck = "(b, cache_number V a, cache_number V k)"
  let ?frame = "\<lambda>w. (net w, class_hash_cache w, contract_class_cache w)"
  have lru: "lru_laws (storage_lru V) c1" and u: "u256_law V" using assms(1) by (simp_all add: cache_laws_def)
  have "\<exists>w1. cached_get_storage_at V (CachedState_new api h) a k w = (storage_of A a k, w1) \<and>
      (\<lambda>(n, l2, l3). good n \<and> l2 = class_hash_cache w \<and> l3 = contract_class_cache w) (?frame w1) \<and>
      (\<forall>key x. c1 (storage_cache w1) key = Some x \<longrightarrow>
         c1 (storage_cache w) key = Some x \<or> key = ?ck \<and> storage_of A a k = Ok x)"
    unfolding cached_get_storage_at_def CachedState_new_def CachedState.simps cache_keys [OF assms(2)]
  proof (rule cached_read_answer [where view = "\<lambda>w. c1 (storage_cache w)" and frame = ?frame
        and good = "\<lambda>(n, l2, l3). good n \<and> l2 = class_hash_cache w \<and> l3 = contract_class_cache w"])
    show "\<exists>w1. storage_get V ?ck w = (Ok (c1 (storage_cache w) ?ck), w1) \<and>
        c1 (storage_cache w1) = c1 (storage_cache w) \<and> ?frame w1 = ?frame w" for w
      using storage_get_run [OF lru, of ?ck w] by auto
    show "\<exists>y w1. storage_set V ?ck x w = (Ok y, w1) \<and>
        c1 (storage_cache w1) \<subseteq>\<^sub>m (c1 (storage_cache w))(?ck \<mapsto> x) \<and> ?frame w1 = ?frame w" for x w
      using storage_set_run [OF lru, of ?ck x w] by auto
    show "\<exists>w1. on_net (api_get_storage_at api a k) w' = (storage_of A a k, w1) \<and>
        c1 (storage_cache w1) = c1 (storage_cache w') \<and>
        (\<lambda>(n, l2, l3). good n \<and> l2 = class_hash_cache w \<and> l3 = contract_class_cache w) (?frame w1)"
      if "(\<lambda>(n, l2, l3). good n \<and> l2 = class_hash_cache w \<and> l3 = contract_class_cache w) (?frame w')" for w'
      using on_net_answer [OF storage_answer, of w' a k] that by auto
  qed (use start in \<open>auto simp: cache_agrees_def\<close>)
  then show "\<exists>w1. cached_get_storage_at V (CachedState_new api h) a k w = (storage_of A a k, w1) \<and>
      cached_good V c1 c2 c3 b w1"
    using start u by (fastforce simp: cache_agrees_def cache_number_inject)
qed

lemma cached_class_hash_answer:
  assumes "cache_laws V c1 c2 c3" and "u256_parse (cache_u256 V) (Felt_as_ref h) = Some b"
  shows "answers_with (cached_good V c1 c2 c3 b) (cached_get_class_hash_at V (CachedState_new api h) a) (class_hash_of A a)"
  unfolding answers_with_def
proof (intro allI impI)
  fix w assume start: "cached_good V c1 c2 c3 b w"
  let ?ck = "(b, cache_number V a)"
  let ?frame = "\<lambda>w. (net w, storage_cache w, contract_class_cache w)"
  have lru: "lru_laws (class_hash_lru V) c2" and u: "u256_law V" using assms(1) by (simp_all add: cache_laws_def)
  have "\<exists>w1. cached_get_class_hash_at V (CachedState_new api h) a w = (class_hash_of A a, w1) \<and>
      (\<lambda>(n, l1, l2). good n \<and> l1 = storage_cache w \<and> l2 = contract_class_cache w) (?frame w1) \<and>
      (\<forall>key x. c2 (class_hash_cache w1) key = Some x \<longrightarrow>
         c2 (class_hash_cache w) key = Some x \<or> key = ?ck \<and> class_hash_of A a = Ok x)"
    unfolding cached_get_class_hash_at_def CachedState_new_def CachedState.simps cache_keys [OF assms(2)]
  proof (rule cached_read_answer [where view = "\<lambda>w. c2 (class_hash_cache w)" and frame = ?frame
        and good = "\<lambda>(n, l1, l2). good n \<and> l1 = storage_cache w \<and> l2 = contract_class_cache w"])
    show "\<exists>w1. class_hash_get V ?ck w = (Ok (c2 (class_hash_cache w) ?ck), w1) \<and>
        c2 (class_hash_cache w1) = c2 (class_hash_cache w) \<and> ?frame w1 = ?frame w" for w
      using class_hash_get_run [OF lru, of ?ck w] by auto
    show "\<exists>y w1. class_hash_set V ?ck x w = (Ok y, w1) \<and>
        c2 (class_hash_cache w1) \<subseteq>\<^sub>m (c2 (class_hash_cache w))(?ck \<mapsto> x) \<and> ?frame w1 = ?frame w" for x w
      using class_hash_set_run [OF lru, of ?ck x w] by auto
    show "\<exists>w1. on_net (api_get_class_hash_at api a) w' = (class_hash_of A a, w1) \<and> c2 (class_hash_cache w1) = c2 (class_hash_cache w') \<and>
        (\<lambda>(n, l1, l2). good n \<and> l1 = storage_cache w \<and> l2 = contract_class_cache w) (?frame w1)"
      if "(\<lambda>(n, l1, l2). good n \<and> l1 = storage_cache w \<and> l2 = contract_class_cache w) (?frame w')" for w'
      using on_net_answer [OF class_hash_answer, of w' a] that by auto
  qed (use start in \<open>auto simp: cache_agrees_def\<close>)
  then show "\<exists>w1. cached_get_class_hash_at V (CachedState_new api h) a w = (class_hash_of A a, w1) \<and> cached_good V c1 c2 c3 b w1"
    using start u by (fastforce simp: cache_agrees_def cache_number_inject)
qed

lemma cached_class_answer:
  assumes "cache_laws V c1 c2 c3" and "u256_parse (cache_u256 V) (Felt_as_ref h) = Some b"
  shows "answers_with (cached_good V c1 c2 c3 b) (cached_get_compiled_contract_class V (CachedState_new api h) a) (class_of A a)"
  unfolding answers_with_def
proof (intro allI impI)
  fix w assume start: "cached_good V c1 c2 c3 b w"
  let ?ck = "(b, cache_number V a)"
  let ?frame = "\<lambda>w. (net w, storage_cache w, class_hash_cache w)"
  have lru: "lru_laws (contract_class_lru V) c3" and u: "u256_law V" using assms(1) by (simp_all add: cache_laws_def)
  have "\<exists>w1. cached_get_compiled_contract_class V (CachedState_new api h) a w = (class_of A a, w1) \<and>
      (\<lambda>(n, l1, l2). good n \<and> l1 = storage_cache w \<and> l2 = class_hash_cache w) (?frame w1) \<and>
      (\<forall>key x. c3 (contract_class_cache w1) key = Some x \<longrightarrow>
         c3 (contract_class_cache w) key = Some x \<or> key = ?ck \<and> class_of A a = Ok x)"
    unfolding cached_get_compiled_contract_class_def CachedState_new_def CachedState.simps cache_keys [OF assms(2)]
  proof (rule cached_read_answer [where view = "\<lambda>w. c3 (contract_class_cache w)" and frame = ?frame
        and good = "\<lambda>(n, l1, l2). good n \<and> l1 = storage_cache w \<and> l2 = class_hash_cache w"])
    show "\<exists>w1. contract_class_get V ?ck w = (Ok (c3 (contract_class_cache w) ?ck), w1) \<and>
        c3 (contract_class_cache w1) = c3 (contract_class_cache w) \<and> ?frame w1 = ?frame w" for w
      using contract_class_get_run [OF lru, of ?ck w] by auto
    show "\<exists>y w1. contract_class_set V ?ck x w = (Ok y, w1) \<and>
        c3 (contract_class_cache w1) \<subseteq>\<^sub>m (c3 (contract_class_cache w))(?ck \<mapsto> x) \<and> ?frame w1 = ?frame w" for x w
      using contract_class_set_run [OF lru, of ?ck x w] by auto
    show "\<exists>w1. on_net (api_get_compiled_contract_class api a) w' = (class_of A a, w1) \<and> c3 (contract_class_cache w1) = c3 (contract_class_cache w') \<and>
        (\<lambda>(n, l1, l2). good n \<and> l1 = storage_cache w \<and> l2 = class_hash_cache w) (?frame w1)"
      if "(\<lambda>(n, l1, l2). good n \<and> l1 = storage_cache w \<and> l2 = class_hash_cache w) (?frame w')" for w'
      using on_net_answer [OF class_answer, of w' a] that by auto
  qed (use start in \<open>auto simp: cache_agrees_def\<close>)
  then show "\<exists>w1. cached_get_compiled_contract_class V (CachedState_new api h) a w = (class_of A a, w1) \<and> cached_good V c1 c2 c3 b w1"
    using start u by (fastforce simp: cache_agrees_def cache_number_inject)
qed

lemma cached_functional:
  assumes "cache_laws V c1 c2 c3" and "u256_parse (cache_u256 V) (Felt_as_ref h) = Some b"
  shows "functional_state (CachedState_api V (CachedState_new api h)) (cached_good V c1 c2 c3 b) A"
proof unfold_locales
  fix a
  have "cache_agrees V c1 c2 c3 b A (w\<lparr>net := s\<rparr>) = cache_agrees V c1 c2 c3 b A w" for w s
    by (simp add: cache_agrees_def)
  then show "answers_with (cached_good V c1 c2 c3 b)
      (api_get_nonce_at (CachedState_api V (CachedState_new api h)) a) (nonce_of A a)"
    using on_net_answer [OF nonce_answer, of _ a]
    by (fastforce simp: answers_with_def CachedState_api_def cached_get_nonce_at_def CachedState_new_def)
qed (simp_all add: CachedState_api_def cached_storage_answer cached_class_hash_answer cached_class_answer assms)

end

section \<open>Properties\<close>

text \<open>
  C6. The caches are transparent: on a node that answers the same to the same request, any
  program of reads (storage, nonces, class hashes, classes, each chosen by the replies so
  far) gets through the caches exactly the replies it gets without them, errors and panics
  included, when what the caches hold for the block agrees with the node; and it leaves
  them so, for the next call. Entries of other blocks do not matter.
\<close>

theorem cached_state_refines:
  fixes w :: "('s, 'l1, 'l2, 'l3) cached_world"
  assumes "cache_laws V c1 c2 c3"
    and "u256_parse (cache_u256 V) (Felt_as_ref (block_hash st)) = Some b"
    and "cache_agrees V c1 c2 c3 b (answers_in (StateProxy_api E (steady_proxy url node st)) (net w)) w"
  shows "\<exists>w'. query_run (call_state V E (steady_proxy url node st)) nxt n [] w
      = (fst (query_run (StateProxy_api E (steady_proxy url node st)) nxt n [] (net w)), w') \<and>
    cache_agrees V c1 c2 c3 b (answers_in (StateProxy_api E (steady_proxy url node st)) (net w)) w'"
proof -
  let ?api = "StateProxy_api E (steady_proxy url node st)"
  let ?A = "answers_in ?api (net w)"
  have bare: "fst (query_run ?api nxt n [] (net w)) = reply_run ?A nxt n []"
    using answers_withD [OF steady_node.run_answer [where E = E and url = url and node = node and st = st and s = "net w"
        and nxt = nxt and n = n and replies = "[]"], of "net w"] by auto
  have "functional_state (call_state V E (steady_proxy url node st))
      (\<lambda>w' :: ('s, 'l1, 'l2, 'l3) cached_world. True \<and> cache_agrees V c1 c2 c3 b ?A w') ?A"
    unfolding call_state_def get_block_hash_steady by (rule steady_node.cached_functional [OF assms(1,2)])
  then have "answers_with (\<lambda>w' :: ('s, 'l1, 'l2, 'l3) cached_world. True \<and> cache_agrees V c1 c2 c3 b ?A w')
      (query_run (call_state V E (steady_proxy url node st)) nxt n []) (reply_run ?A nxt n [])"
    by (rule functional_state.run_answer)
  from answers_withD [OF this, of w] show ?thesis using assms(3) bare by auto
qed

text \<open>The instance: a node that answers every request with the felt \<open>0x0\<close>, and empty caches.\<close>

abbreviation sample_steady :: "(nat, sample_args + sample_rets) StateProxy" where
  "sample_steady \<equiv> steady_proxy ''http://node'' (\<lambda>_ _. Ok (response_result zero_answer))
     \<lparr>block_number = 7, block_hash = Felt ''0xabc'', root = Felt ''0x123''\<rparr>"

abbreviation sample_empty :: "(nat, ((nat \<times> nat \<times> nat) \<times> 252 word) list, ((nat \<times> nat) \<times> 252 word) list,
    ((nat \<times> nat) \<times> unit) list) cached_world" where
  "sample_empty \<equiv> \<lparr>net = 0, storage_cache = [], class_hash_cache = [], contract_class_cache = []\<rparr>"

lemma sample_steady_read: "proxy_get_storage_at sample_env sample_steady 0 0 s = (Ok 0, s)"
proof -
  have "blocking_client_getStorageAt (proxy_client sample_steady) (env_codecs sample_env) a k b s = (Ok (Felt ''0x0''), s)" for a k b s
    by (simp add: blocking_client_getStorageAt_def steady_proxy_def BlockingClient_new_def sample_env_def
        call_method_def client_send_def io_bind_def zero_answer_def sample_codecs_def sample_codec_def client_answer_def)
  moreover have "env_unchecked sample_env ''0x0'' = Some 0"
    using sample_key by (simp add: word_unchecked_def sample_env_def)
  ultimately show ?thesis
    by (simp add: proxy_get_storage_at_def exe_lift_def sample_zero_address sample_zero_key rpc_lift_def io_bind_def
        io_map_err_def stark_from_felt_def)
qed

lemma sample_cache_laws: "cache_laws sample_cache_env map_of map_of map_of"
  using sample_u256_law by (simp add: cache_laws_def sample_cache_env_def list_lru_laws)

theorem cached_state_refines_witness:
  "fst (query_run (call_state sample_cache_env sample_env sample_steady) (\<lambda>_. StorageAt 0 0) 2 [] sample_empty)
     = Ok [Element 0, Element 0]"
proof -
  have parse: "u256_parse (cache_u256 sample_cache_env) (Felt_as_ref (Felt ''0xabc'')) = Some (hex_value ''abc'')"
    by (simp add: sample_cache_env_def)
  have agrees: "cache_agrees sample_cache_env map_of map_of map_of (hex_value ''abc'')
      (answers_in (StateProxy_api sample_env sample_steady) (net sample_empty)) sample_empty"
    by (simp add: cache_agrees_def)
  have "fst (query_run (StateProxy_api sample_env sample_steady) (\<lambda>_. StorageAt 0 0) 2 [] 0) = Ok [Element 0, Element 0]"
    by (simp add: numeral_2_eq_2 StateProxy_api_def sample_steady_read io_bind_def)
  then show ?thesis
    using cached_state_refines [OF sample_cache_laws _ agrees, where nxt = "\<lambda>_. StorageAt 0 0" and n = 2] parse by auto
qed

end
