(* ===== verification/Requests.thy ===== *)
theory Requests
  imports CacheRefine RpcServerFacts
begin

text \<open>
  How many requests reach the node. \<open>costs \<mu> n m\<close> is a small cost logic over effects, with a
  rule per combinator; \<open>counted\<close> is any HTTP client with a counter of its posts. The RPC
  server posts at most three times for a storage value, and a contract call at most twice
  for each read of its state, and never for what it writes.
\<close>

section \<open>Costs of effects\<close>

definition costs :: "('w \<Rightarrow> nat) \<Rightarrow> nat \<Rightarrow> ('w, 'a, 'e) io \<Rightarrow> bool" where
  "costs \<mu> n m \<longleftrightarrow> (\<forall>w. \<mu> w \<le> \<mu> (snd (m w)) \<and> \<mu> (snd (m w)) \<le> \<mu> w + n)"

lemma costsD: "costs \<mu> n m \<Longrightarrow> \<mu> w \<le> \<mu> (snd (m w)) \<and> \<mu> (snd (m w)) \<le> \<mu> w + n"
  by (simp add: costs_def)

lemma costs_weaken: "costs \<mu> n m \<Longrightarrow> n \<le> n' \<Longrightarrow> costs \<mu> n' m"
  unfolding costs_def by (meson add_left_mono order_trans)

lemma costs_lift [intro, simp]: "costs \<mu> n (io_lift r)"
  by (simp add: costs_def)

lemma costs_bind:
  assumes "costs \<mu> n m" and "\<And>x. costs \<mu> n' (f x)"
  shows "costs \<mu> (n + n') (io_bind m f)"
  unfolding costs_def
proof
  fix w
  obtain r w1 where m: "m w = (r, w1)" by fastforce
  have 1: "\<mu> w \<le> \<mu> w1" "\<mu> w1 \<le> \<mu> w + n" using costsD [OF assms(1), of w] by (simp_all add: m)
  show "\<mu> w \<le> \<mu> (snd (io_bind m f w)) \<and> \<mu> (snd (io_bind m f w)) \<le> \<mu> w + (n + n')"
  proof (cases r)
    case (Ok x)
    then show ?thesis using 1 costsD [OF assms(2), of w1 x] by (simp add: io_bind_def m)
  qed (use 1 in \<open>simp_all add: io_bind_def m\<close>)
qed

lemma costs_then_pure: "costs \<mu> n m \<Longrightarrow> (\<And>x. costs \<mu> 0 (f x)) \<Longrightarrow> costs \<mu> n (io_bind m f)"
  using costs_bind [of \<mu> n m 0 f] by simp

lemma costs_two: "costs \<mu> 1 m \<Longrightarrow> (\<And>x. costs \<mu> 1 (f x)) \<Longrightarrow> costs \<mu> 2 (io_bind m f)"
  using costs_bind [of \<mu> 1 m 1 f] by (simp add: numeral_2_eq_2)

lemma costs_free_bind: "costs \<mu> 0 m \<Longrightarrow> (\<And>x. costs \<mu> n (f x)) \<Longrightarrow> costs \<mu> n (io_bind m f)"
  using costs_bind [of \<mu> 0 m n f] by simp

lemma costs_map_err [intro]: "costs \<mu> n m \<Longrightarrow> costs \<mu> n (io_map_err h m)"
  unfolding costs_def io_map_err_def by (metis (mono_tags, lifting) case_prod_beta snd_conv)

lemma costs_exe_lift [intro, simp]: "costs \<mu> n (exe_lift E r)"
  by (simp add: exe_lift_def)

lemma costs_rpc_lift [intro]: "costs \<mu> n m \<Longrightarrow> costs \<mu> n (rpc_lift E m)"
  by (auto simp: rpc_lift_def)

lemma costs_call: "(\<And>req. costs \<mu> 1 (http url req)) \<Longrightarrow> costs \<mu> 1 (call_method http url C method args)"
  unfolding call_method_def client_send_def
  by (rule costs_free_bind, rule costs_lift, rule costs_then_pure) simp_all

lemma costs_on_net: "costs \<mu> n m \<Longrightarrow> costs (\<lambda>w. \<mu> (net w)) n (on_net m)"
  by (auto simp: costs_def on_net_def split: prod.split) (metis snd_conv)+

section \<open>Counting posts\<close>

text \<open>Any HTTP client, with the number of posts so far in front of its world.\<close>

definition counted :: "('s, 'v) http_post \<Rightarrow> (nat \<times> 's, 'v) http_post" where
  "counted http url req = (\<lambda>(n, s). case http url req s of (r, s') \<Rightarrow> (r, (Suc n, s')))"

lemma costs_counted: "costs fst 1 (counted http url req)"
  by (auto simp: costs_def counted_def split: prod.split)

definition counted_proxy :: "string \<Rightarrow> ('s, 'v) http_post \<Rightarrow> ClientState \<Rightarrow> (nat \<times> 's, 'v) StateProxy" where
  "counted_proxy url http st = \<lparr>proxy_client = BlockingClient_new url (counted http), proxy_state = st\<rparr>"

lemma counted_calls:
  "costs fst 1 (blocking_client_getStorageAt (proxy_client (counted_proxy url http st)) C a k b)"
  "costs fst 1 (blocking_client_getProof (proxy_client (counted_proxy url http st)) C b a ks)"
  "costs fst 1 (blocking_client_getNonce (proxy_client (counted_proxy url http st)) C b a)"
  "costs fst 1 (blocking_client_getClassHashAt (proxy_client (counted_proxy url http st)) C b a)"
  "costs fst 1 (blocking_client_getClass (proxy_client (counted_proxy url http st)) C b h)"
  unfolding blocking_client_getStorageAt_def blocking_client_getProof_def blocking_client_getNonce_def
    blocking_client_getClassHashAt_def blocking_client_getClass_def counted_proxy_def BlockingClient_new_def
  by (simp_all only: BlockingClient.simps StateProxy.simps, (rule costs_call, rule costs_counted)+)

lemma proxy_costs:
  "costs fst 2 (proxy_get_storage_at E (counted_proxy url http st) a k)"
  "costs fst 1 (proxy_get_nonce_at E (counted_proxy url http st) a)"
  "costs fst 1 (proxy_get_class_hash_at E (counted_proxy url http st) a)"
  "costs fst 1 (proxy_get_compiled_contract_class E (counted_proxy url http st) h)"
proof -
  show "costs fst 2 (proxy_get_storage_at E (counted_proxy url http st) a k)"
    unfolding proxy_get_storage_at_def Let_def
    by (rule costs_free_bind, rule costs_exe_lift, rule costs_free_bind, rule costs_exe_lift, rule costs_two,
        rule costs_rpc_lift, rule counted_calls)
      (auto intro!: costs_then_pure costs_rpc_lift counted_calls [unfolded One_nat_def])
  show "costs fst 1 (proxy_get_nonce_at E (counted_proxy url http st) a)"
    "costs fst 1 (proxy_get_class_hash_at E (counted_proxy url http st) a)"
    "costs fst 1 (proxy_get_compiled_contract_class E (counted_proxy url http st) h)"
    unfolding proxy_get_nonce_at_def proxy_get_class_hash_at_def proxy_get_compiled_contract_class_def
    by (rule costs_free_bind, rule costs_exe_lift, rule costs_then_pure, rule costs_rpc_lift, rule counted_calls,
        rule costs_exe_lift)+
qed

section \<open>The state of a contract call\<close>

lemma cache_costs:
  "costs (\<lambda>w. \<mu> (net w)) 0 (storage_get V k1)" "costs (\<lambda>w. \<mu> (net w)) 0 (storage_set V k1 x)"
  "costs (\<lambda>w. \<mu> (net w)) 0 (class_hash_get V k2)" "costs (\<lambda>w. \<mu> (net w)) 0 (class_hash_set V k2 x)"
  "costs (\<lambda>w. \<mu> (net w)) 0 (contract_class_get V k2)" "costs (\<lambda>w. \<mu> (net w)) 0 (contract_class_set V k2 c)"
  by (auto simp: costs_def storage_get_def storage_set_def class_hash_get_def class_hash_set_def
      contract_class_get_def contract_class_set_def split: prod.split)

text \<open>The three cached methods have one shape.\<close>

lemma costs_cached:
  assumes "\<And>k. costs \<mu> 0 (get k)" and "\<And>k x. costs \<mu> 0 (put k x)" and "costs \<mu> n m"
  shows "costs \<mu> n (io_bind (io_lift r) (\<lambda>ck. io_bind (get ck) (\<lambda>hit. case hit of
      Some ret \<Rightarrow> io_lift (Ok ret)
    | None \<Rightarrow> io_bind m (\<lambda>ret. io_bind (io_lift r) (\<lambda>ck. io_bind (put ck ret) (\<lambda>_. io_lift (Ok ret)))))))"
proof (rule costs_free_bind [OF costs_lift])
  fix ck
  have miss: "costs \<mu> n (io_bind m (\<lambda>ret. io_bind (io_lift r) (\<lambda>ck. io_bind (put ck ret) (\<lambda>_. io_lift (Ok ret)))))"
    using assms(2) by (intro costs_then_pure [OF assms(3)] costs_free_bind [OF costs_lift]) (auto intro: costs_free_bind)
  show "costs \<mu> n (io_bind (get ck) (\<lambda>hit. case hit of
      Some ret \<Rightarrow> io_lift (Ok ret)
    | None \<Rightarrow> io_bind m (\<lambda>ret. io_bind (io_lift r) (\<lambda>ck. io_bind (put ck ret) (\<lambda>_. io_lift (Ok ret))))))"
    by (rule costs_free_bind [OF assms(1)]) (auto split: option.split intro: miss)
qed

text \<open>What a contract call may rely on: reads and writes of bounded cost.\<close>

locale metered_state =
  fixes api :: "('w, 'f, 'c) state_api" and \<mu> :: "'w \<Rightarrow> nat"
  assumes storage_cost: "costs \<mu> 2 (api_get_storage_at api a k)"
    and nonce_cost: "costs \<mu> 1 (api_get_nonce_at api a)"
    and class_hash_cost: "costs \<mu> 1 (api_get_class_hash_at api a)"
    and class_cost: "costs \<mu> 1 (api_get_compiled_contract_class api h)"
begin

lemma ask_cost: "costs \<mu> 2 (ask api q)"
proof -
  have "costs \<mu> 2 (api_get_nonce_at api a)" "costs \<mu> 2 (api_get_class_hash_at api a)"
    "costs \<mu> 2 (api_get_compiled_contract_class api a)" for a
    by (rule costs_weaken, rule nonce_cost class_hash_cost class_cost, simp)+
  then show ?thesis using storage_cost by (cases q) (auto intro!: costs_then_pure)
qed

lemma run_cost: "costs \<mu> (2 * n) (query_run api nxt n replies)"
proof (induction n arbitrary: replies)
  case (Suc n)
  have "costs \<mu> (2 + 2 * n) (query_run api nxt (Suc n) replies)"
    unfolding query_run.simps by (rule costs_bind [OF ask_cost Suc.IH])
  then show ?case by simp
qed simp

end

interpretation counted_call: metered_state "call_state V E (counted_proxy url http st)"
    "\<lambda>w :: (nat \<times> 's, 'l1, 'l2, 'l3) cached_world. fst (net w)" for V E url st and http :: "('s, 'v) http_post"
  by unfold_locales
    (simp_all only: call_state_def CachedState_api_def state_api.simps cached_get_storage_at_def cached_get_nonce_at_def
      cached_get_class_hash_at_def cached_get_compiled_contract_class_def CachedState_new_def CachedState.simps
      StateProxy_api_def costs_cached cache_costs costs_on_net proxy_costs)

section \<open>The server\<close>

definition counted_client :: "string \<Rightarrow> ('s, 'v) http_post \<Rightarrow> ((nat \<times> 's, 'l1, 'l2, 'l3) cached_world, 'v) StarknetClient" where
  "counted_client url http = StarknetClient_new url (\<lambda>u req. on_net (counted http u req))"

lemma counted_client_calls:
  "costs (\<lambda>w. fst (net w)) 1 (client_getStorageAt (counted_client url http) C a k b)"
  "costs (\<lambda>w. fst (net w)) 1 (client_getProof (counted_client url http) C b a ks)"
  "costs (\<lambda>w. fst (net w)) 1 (client_getBlockWithTxHashes (counted_client url http) C b)"
  unfolding client_getStorageAt_def client_getProof_def client_getBlockWithTxHashes_def counted_client_def
    StarknetClient_new_fields
  by (rule costs_call, rule costs_on_net, rule costs_counted)+

lemma costs_reading: "(\<And>x. costs \<mu> n (m x)) \<Longrightarrow> costs \<mu> n (\<lambda>w. m (g w) w)"
  by (simp add: costs_def)

lemma state_cost:
  "ctx_client self = counted_client url http \<Longrightarrow> costs (\<lambda>w. fst (net w)) 1 (Context_get_state self C b)"
  unfolding Context_get_state_def Context_getBlockWithTxHashes_def
  by (rule costs_then_pure) (auto simp: counted_client_calls [unfolded One_nat_def] split: GetBlockWithTxHashesResult.split)

definition resolve_bound :: "BlockId \<Rightarrow> nat" where
  "resolve_bound b = (case b of BlockId.BlockTag _ \<Rightarrow> 0 | _ \<Rightarrow> 1)"

lemma resolve_cost:
  assumes "ctx_client self = counted_client url http"
  shows "costs (\<lambda>w. fst (net w)) (resolve_bound b) (resolve_block_id self C b)"
proof -
  note one = costs_then_pure [OF state_cost [OF assms]]
  have number: "costs (\<lambda>w. fst (net w)) 1 (resolve_block_by_number self C n st)" for n st
    by (auto simp: resolve_block_by_number_def Let_def intro: costs_free_bind one [unfolded One_nat_def])
  have hash: "costs (\<lambda>w. fst (net w)) 1 (resolve_block_by_hash self C h st)" for h st
    by (auto simp: resolve_block_by_hash_def Let_def intro: one [unfolded One_nat_def])
  show ?thesis
    unfolding resolve_block_id_def Let_def
  proof (rule costs_reading [where g = "ctx_state self"])
    fix st
    show "costs (\<lambda>w. fst (net w)) (resolve_bound b) (case b of
        BlockId.BlockNumber number \<Rightarrow> resolve_block_by_number self C number st
      | BlockId.BlockHash hash \<Rightarrow> resolve_block_by_hash self C hash st
      | BlockId.BlockTag BlockTag.Latest \<Rightarrow>
          io_bind (io_lift (BlockNumber_try_new (block_number st))) (\<lambda>n. io_lift (Ok (BlockId.BlockNumber n, root st)))
      | BlockId.BlockTag BlockTag.Pending \<Rightarrow> io_lift (Err (rpc_err (- 1) ''Pending block is not supported'')))"
      using number hash
      by (auto simp: resolve_bound_def intro: costs_free_bind split: BlockId.split BlockTag.split)
  qed
qed

section \<open>Properties\<close>

text \<open>
  C18. Requests per storage value: \<open>starknet_getStorageAt\<close> posts at most three requests to the node,
  at most two for a block named by a tag, whatever the node answers; there is no retry.
\<close>

theorem getStorageAt_requests:
  "fst (net (snd (Context_getStorageAt E (self\<lparr>ctx_client := counted_client url http\<rparr>) a k b w)))
     \<le> fst (net w) + (case b of BlockId.BlockTag tag \<Rightarrow> 2 | _ \<Rightarrow> 3)"
proof -
  let ?self = "self\<lparr>ctx_client := counted_client url http\<rparr>"
  have client: "ctx_client ?self = counted_client url http" by simp
  have "costs (\<lambda>w. fst (net w)) (resolve_bound b + 2) (Context_getStorageAt E ?self a k b)"
    unfolding Context_getStorageAt_def
  proof (rule costs_bind [OF resolve_cost [OF client]])
    fix x :: "BlockId \<times> Felt"
    show "costs (\<lambda>w. fst (net w)) 2 (case x of (block_id, state_root) \<Rightarrow>
        io_bind (client_getStorageAt (ctx_client ?self) (env_codecs E) a k block_id) (\<lambda>result.
        io_bind (client_getProof (ctx_client ?self) (env_codecs E) block_id a [k]) (\<lambda>proof.
        io_bind (io_lift (verify (env_field E) (env_checks E) proof state_root a k result)) (\<lambda>_.
        io_lift (Ok result)))))"
      unfolding split_def client
      by (rule costs_two, rule counted_client_calls, rule costs_then_pure, rule counted_client_calls)
        (auto intro: costs_free_bind)
  qed
  from costsD [OF this, of w] show ?thesis by (simp add: resolve_bound_def split: BlockId.splits)
qed

text \<open>
  C19. Requests per contract call: when the virtual machine makes \<open>n\<close> reads of any kind, each possibly
  chosen by the answers before it, at most two requests per read are posted to the node.
\<close>

theorem call_requests:
  "fst (net (snd (query_run (call_state V E (counted_proxy url http st)) nxt n [] w))) \<le> fst (net w) + 2 * n"
  by (rule costsD [OF counted_call.run_cost, THEN conjunct2])

end
