(* ===== verification/Daemon.thy ===== *)
theory Daemon
  imports ExeCall
begin

text \<open>
  \<open>src/src/bin/beerus.rs\<close>: the process. \<open>main\<close> reads the settings, builds the client, takes a
  first state from the gateway and shares it (\<open>Arc<RwLock<State>>\<close>) between the RPC server
  and a task that polls the gateway. The task and the readers are a step relation: the task
  can be overtaken by any number of reads at each of its \<open>await\<close>s. Its local variable
  \<open>current\<close> is part of its phase. Not modelled: the timer's period and the logging.
\<close>

section \<open>Starting\<close>

text \<open>The phases of the task: before its first read of the shared state, waiting for the tick,
  for the gateway, or for the write lock with an update in hand; \<open>Dead\<close> after a panic.\<close>

datatype phase = Starting | Waiting ClientState | Fetching ClientState | Updating ClientState ClientState | Dead

record daemon =
  shared :: ClientState
  phase :: phase

definition daemon_start :: "ClientState \<Rightarrow> daemon" where
  "daemon_start state = \<lparr>shared = state, phase = Starting\<rparr>"

definition daemon_main ::
  "('s, 'q, 'resp, 'j) reqwest \<Rightarrow> 'j json_ops \<Rightarrow> (string \<Rightarrow> 'q) \<Rightarrow> 'v codecs \<Rightarrow> (string \<Rightarrow> string option)
     \<Rightarrow> 'addr file_ops \<Rightarrow> 'addr addr_ops \<Rightarrow> string option \<Rightarrow> ('s, 'v) http_post \<Rightarrow> ('s, 'v) http_post
     \<Rightarrow> ('s, 'addr ServerConfig \<times> ('s, 'v) LibClient \<times> daemon, report) io" where
  "daemon_main rq J body C env fs A arg http blocking =
     io_bind (io_lift (get_config env fs A arg)) (\<lambda>config.
     io_bind (LibClient_new rq J body C (client_config config) http blocking) (\<lambda>beerus.
     io_bind (LibClient_get_state rq J beerus) (\<lambda>state.
     io_lift (Ok (config, beerus, daemon_start state)))))"

section \<open>Running\<close>

datatype event = Started | Ticked | Answered "(ClientState, report) outcome" | Written | Served ClientState

text \<open>The \<open>match\<close> on the gateway's answer.\<close>

definition after_answer :: "ClientState \<Rightarrow> (ClientState, report) outcome \<Rightarrow> phase" where
  "after_answer current r = (case r of
     Ok update \<Rightarrow> if \<not> ClientState_eq update current then Updating current update else Waiting current
   | Err e \<Rightarrow> Waiting current
   | Panicked \<Rightarrow> Dead)"

inductive daemon_step :: "daemon \<Rightarrow> event \<Rightarrow> daemon \<Rightarrow> bool" where
  start: "phase d = Starting \<Longrightarrow> daemon_step d Started (d\<lparr>phase := Waiting (shared d)\<rparr>)"
| tick: "phase d = Waiting current \<Longrightarrow> daemon_step d Ticked (d\<lparr>phase := Fetching current\<rparr>)"
| answer: "phase d = Fetching current \<Longrightarrow> daemon_step d (Answered r) (d\<lparr>phase := after_answer current r\<rparr>)"
| publish: "phase d = Updating current update
    \<Longrightarrow> daemon_step d Written (d\<lparr>shared := update, phase := Waiting update\<rparr>)"
| serve: "daemon_step d (Served (shared d)) d"

inductive_cases daemon_stepE: "daemon_step d e d'"
inductive_simps daemon_step_simps:
  "daemon_step d Started d'" "daemon_step d Ticked d'" "daemon_step d (Answered r) d'"
  "daemon_step d Written d'" "daemon_step d (Served st) d'"

inductive daemon_run :: "daemon \<Rightarrow> event list \<Rightarrow> daemon \<Rightarrow> bool" where
  refl: "daemon_run d [] d"
| step: "daemon_run d es d' \<Longrightarrow> daemon_step d' e d'' \<Longrightarrow> daemon_run d (es @ [e]) d''"

inductive_cases daemon_run_snocE: "daemon_run d (es @ [e]) d'"

lemma daemon_run_snoc: "daemon_run d (es @ [e]) d'' \<longleftrightarrow> (\<exists>d'. daemon_run d es d' \<and> daemon_step d' e d'')"
  by (auto intro: daemon_run.step elim: daemon_run.cases)

lemma daemon_run_trans: "daemon_run d' fs d'' \<Longrightarrow> daemon_run d es d' \<Longrightarrow> daemon_run d (es @ fs) d''"
  by (induction rule: daemon_run.induct) (auto simp: daemon_run_snoc simp flip: append_assoc)

lemma daemon_run_single: "daemon_step d e d' \<Longrightarrow> daemon_run d [e] d'"
  using daemon_run.step [OF daemon_run.refl, of d e d'] by simp

text \<open>The states the gateway answered, in order.\<close>

primrec outcomes :: "event list \<Rightarrow> (ClientState, report) outcome list" where
  "outcomes [] = []"
| "outcomes (e # es) = (case e of Answered r \<Rightarrow> [r] | _ \<Rightarrow> []) @ outcomes es"

definition answers :: "event list \<Rightarrow> ClientState list" where
  "answers es = concat (map (\<lambda>r. case r of Ok st \<Rightarrow> [st] | _ \<Rightarrow> []) (outcomes es))"

lemma outcomes_append [simp]: "outcomes (es @ fs) = outcomes es @ outcomes fs"
  by (induction es) simp_all

lemma answers_snoc [simp]:
  "answers [] = []"
  "answers (es @ [Started]) = answers es" "answers (es @ [Ticked]) = answers es"
  "answers (es @ [Written]) = answers es" "answers (es @ [Served st]) = answers es"
  "answers (es @ [Answered (Ok st)]) = answers es @ [st]"
  "answers (es @ [Answered (Err e)]) = answers es" "answers (es @ [Answered Panicked]) = answers es"
  by (simp_all add: answers_def)

section \<open>The invariant\<close>

text \<open>Between two iterations the shared state is the last one the gateway answered (the first
  one, before any answer); with an update in hand it is the one before.\<close>

definition fresh :: "ClientState \<Rightarrow> ClientState list \<Rightarrow> ClientState" where
  "fresh init sts = last (init # sts)"

lemma fresh_simps [simp]: "fresh init [] = init" "fresh init (sts @ [st]) = st"
  by (simp_all add: fresh_def)

lemma fresh_in: "fresh init sts \<in> set (init # sts)"
  unfolding fresh_def by (rule last_in_set) simp

primrec daemon_inv :: "phase \<Rightarrow> ClientState \<Rightarrow> ClientState \<Rightarrow> ClientState list \<Rightarrow> bool" where
  "daemon_inv Starting st init sts \<longleftrightarrow> st = init \<and> sts = []"
| "daemon_inv (Waiting current) st init sts \<longleftrightarrow> current = st \<and> st = fresh init sts"
| "daemon_inv (Fetching current) st init sts \<longleftrightarrow> current = st \<and> st = fresh init sts"
| "daemon_inv (Updating current update) st init sts \<longleftrightarrow>
     current = st \<and> update \<noteq> st \<and> (\<exists>before. sts = before @ [update] \<and> st = fresh init before)"
| "daemon_inv Dead st init sts \<longleftrightarrow> st = fresh init sts"

lemma daemon_step_inv:
  assumes "daemon_step d e d'" and "daemon_inv (phase d) (shared d) init (answers es)"
  shows "daemon_inv (phase d') (shared d') init (answers (es @ [e]))"
  using assms
proof (cases rule: daemon_step.cases)
  case (answer current r)
  then show ?thesis
    using assms(2) by (cases r) (auto simp: after_answer_def ClientState_eq_iff)
qed auto

lemma daemon_run_inv:
  assumes "daemon_run (daemon_start init) es d"
  shows "daemon_inv (phase d) (shared d) init (answers es)"
  using assms
proof (induction "daemon_start init" es d rule: daemon_run.induct)
  case refl
  show ?case by (simp add: daemon_start_def)
next
  case (step es d' e d'')
  then show ?case by (intro daemon_step_inv [of d'])
qed

lemma daemon_inv_shared:
  "daemon_inv p st init sts \<Longrightarrow>
     st = fresh init sts \<or> (\<exists>before update. sts = before @ [update] \<and> st = fresh init before)"
  by (cases p) auto

lemma shared_from_gateway:
  assumes "daemon_run (daemon_start init) es d"
  shows "shared d \<in> set (init # answers es)"
proof -
  have "fresh init sts = init \<or> fresh init sts \<in> set sts" for sts using fresh_in [of init sts] by auto
  then show ?thesis using daemon_inv_shared [OF daemon_run_inv [OF assms]] by fastforce
qed

section \<open>Iterations\<close>

text \<open>The loop as a function of the answers it gets.\<close>

primrec update_loop :: "ClientState \<Rightarrow> (ClientState, report) outcome list \<Rightarrow> ClientState" where
  "update_loop current [] = current"
| "update_loop current (r # rs) = update_loop (case r of Ok st \<Rightarrow> st | _ \<Rightarrow> current) rs"

lemma daemon_iteration:
  assumes "r \<noteq> Panicked"
  shows "\<exists>es. daemon_run \<lparr>shared = st, phase = Waiting st\<rparr> es
      \<lparr>shared = update_loop st [r], phase = Waiting (update_loop st [r])\<rparr> \<and> outcomes es = [r]"
proof -
  let ?d = "\<lambda>p. \<lparr>shared = st, phase = p\<rparr>"
  have "daemon_step (?d (Waiting st)) Ticked (?d (Fetching st))"
    "daemon_step (?d (Fetching st)) (Answered r) (?d (after_answer st r))"
    by (auto simp: daemon_step_simps)
  then have two: "daemon_run (?d (Waiting st)) [Ticked, Answered r] (?d (after_answer st r))"
    using daemon_run_trans [OF daemon_run_single daemon_run_single] by fastforce
  show ?thesis
  proof (cases "after_answer st r = Waiting st")
    case True
    then have "update_loop st [r] = st"
      using assms by (cases r) (auto simp: after_answer_def ClientState_eq_iff split: if_splits)
    then show ?thesis using two True by (intro exI [of _ "[Ticked, Answered r]"]) simp
  next
    case False
    then obtain u where u: "r = Ok u" "after_answer st r = Updating st u"
      using assms by (cases r) (auto simp: after_answer_def split: if_splits)
    have "daemon_step (?d (Updating st u)) Written \<lparr>shared = u, phase = Waiting u\<rparr>"
      by (auto simp: daemon_step_simps)
    then have "daemon_run (?d (Waiting st)) ([Ticked, Answered r] @ [Written]) \<lparr>shared = u, phase = Waiting u\<rparr>"
      using two u(2) by (intro daemon_run.step) simp_all
    then show ?thesis using u(1) by (intro exI [of _ "[Ticked, Answered r] @ [Written]"]) simp
  qed
qed

lemma daemon_iterations:
  assumes "Panicked \<notin> set rs"
  shows "\<exists>es. daemon_run \<lparr>shared = st, phase = Waiting st\<rparr> es
      \<lparr>shared = update_loop st rs, phase = Waiting (update_loop st rs)\<rparr> \<and> outcomes es = rs"
  using assms
proof (induction rs arbitrary: st)
  case Nil
  then show ?case using daemon_run.refl by (intro exI [of _ "[]"]) simp
next
  case (Cons r rs)
  then have "r \<noteq> Panicked" by auto
  from daemon_iteration [OF this, of st] obtain es where es: "outcomes es = [r]"
      "daemon_run \<lparr>shared = st, phase = Waiting st\<rparr> es
        \<lparr>shared = update_loop st [r], phase = Waiting (update_loop st [r])\<rparr>"
    by blast
  from Cons obtain fs where "outcomes fs = rs"
      "daemon_run \<lparr>shared = update_loop st [r], phase = Waiting (update_loop st [r])\<rparr> fs
        \<lparr>shared = update_loop st (r # rs), phase = Waiting (update_loop st (r # rs))\<rparr>"
    by (metis list.set_intros(2) update_loop.simps)
  then show ?case
    using daemon_run_trans es by (intro exI [of _ "es @ fs"]) auto
qed

lemma update_loop_last: "update_loop st rs = fresh st (concat (map (\<lambda>r. case r of Ok st \<Rightarrow> [st] | _ \<Rightarrow> []) rs))"
  by (induction rs arbitrary: st) (auto simp: fresh_def split: outcome.split)

lemma gateway_get_state_no_panic:
  assumes "\<And>url s. fst (rq_get rq url s) \<noteq> Panicked" and "\<And>resp s. fst (resp_json rq resp s) \<noteq> Panicked"
  shows "fst (gateway_get_state rq J self s) \<noteq> Panicked"
proof -
  have pure: "state_of_json J json \<noteq> Panicked" for json
    by (auto simp: state_of_json_def outcome_simps felt_t.try_new_no_panic)
  show ?thesis
    using assms(1) [of "gw_url self @ ''/feeder_gateway/get_block?blockNumber=latest''" s] assms(2) pure
    by (auto simp: gateway_get_state_def gateway_send_def io_bind_def io_map_err_def io_lift_def map_err_def
        split: prod.splits outcome.splits)
      (metis fst_conv)+
qed

abbreviation sample_one :: ClientState where
  "sample_one \<equiv> \<lparr>block_number = 1, block_hash = Felt ''0x1'', root = Felt ''0x2''\<rparr>"

abbreviation sample_two :: ClientState where
  "sample_two \<equiv> \<lparr>block_number = 2, block_hash = Felt ''0x3'', root = Felt ''0x4''\<rparr>"

section \<open>Properties\<close>

text \<open>The process starts exactly when the settings are accepted, the client can be built in
  front of the node they name, and the gateway answers; the state it shares first is that
  answer, and the task has not read it yet.\<close>

lemma daemon_main_Ok_iff:
  "daemon_main rq J body C env fs A arg http blocking s = (Ok (config, beerus, d), s') \<longleftrightarrow>
     (\<exists>s1. get_config env fs A arg = Ok config \<and>
        LibClient_new rq J body C (client_config config) http blocking s = (Ok beerus, s1) \<and>
        gateway_get_state rq J (lib_gateway beerus) s1 = (Ok (shared d), s') \<and> phase d = Starting)"
  by (cases d) (auto simp: daemon_main_def LibClient_get_state_def daemon_start_def outcome_simps)

text \<open>
  C25. What the RPC server reads: whatever the interleaving of the task and the readers, every
  state served is one the gateway gave, and never older than the last but one: it is the
  last answer before the read, or, while an update is in hand, the answer before that.
\<close>

theorem daemon_serves_answers:
  assumes "daemon_run (daemon_start init) es d" and "daemon_step d (Served st) d'"
  shows "st = fresh init (answers es) \<or>
    (\<exists>before update. answers es = before @ [update] \<and> st = fresh init before \<and> phase d = Updating st update)"
proof -
  have "st = shared d" using assms(2) by (auto elim: daemon_stepE)
  then show ?thesis using daemon_run_inv [OF assms(1)] by (cases "phase d") auto
qed

theorem daemon_serves_answers_witness:
  "daemon_run (daemon_start sample_one) [Started, Ticked, Answered (Err (Message ''timeout''))]
     \<lparr>shared = sample_one, phase = Waiting sample_one\<rparr> \<and>
   sample_one = fresh sample_one (answers [Started, Ticked, Answered (Err (Message ''timeout''))])"
proof -
  let ?d = "\<lparr>shared = sample_one, phase = Waiting sample_one\<rparr>"
  have run: "daemon_run (daemon_start sample_one) ((([] @ [Started]) @ [Ticked]) @ [Answered (Err (Message ''timeout''))]) ?d"
    unfolding daemon_run_snoc
    by (intro exI conjI, rule daemon_run.refl) (auto simp: daemon_start_def daemon_step_simps after_answer_def)
  from daemon_serves_answers [OF run serve] run show ?thesis by simp
qed

text \<open>
  C26. The task makes progress: for any answers of the gateway, none of them a panic, it has a run
  that consumes exactly these and ends waiting for the next tick with the last successful
  answer shared; failed requests change nothing.
\<close>

theorem daemon_follows_gateway:
  assumes "Panicked \<notin> set rs"
  shows "\<exists>es d. daemon_run (daemon_start init) es d \<and> outcomes es = rs \<and>
    shared d = fresh init (answers es) \<and> phase d = Waiting (shared d)"
proof -
  let ?w = "\<lparr>shared = init, phase = Waiting init\<rparr>"
  have start: "daemon_run (daemon_start init) [Started] ?w"
    by (rule daemon_run_single) (auto simp: daemon_step_simps daemon_start_def)
  obtain es where es: "daemon_run ?w es \<lparr>shared = update_loop init rs, phase = Waiting (update_loop init rs)\<rparr>"
      "outcomes es = rs"
    using daemon_iterations [OF assms] by blast
  show ?thesis
    using daemon_run_trans [OF es(1) start] es(2)
    by (intro exI [of _ "[Started] @ es"] exI conjI) (auto simp: answers_def update_loop_last)
qed

theorem daemon_follows_gateway_witness:
  "\<exists>es d. daemon_run (daemon_start sample_one) es d \<and>
     outcomes es = [Err (Message ''timeout''), Ok sample_two] \<and> shared d = sample_two"
proof -
  have "Panicked \<notin> set [Err (Message ''timeout''), Ok sample_two]" by simp
  from daemon_follows_gateway [OF this, of sample_one] obtain es d where
    "daemon_run (daemon_start sample_one) es d" "outcomes es = [Err (Message ''timeout''), Ok sample_two]"
    "shared d = fresh sample_one (answers es)" by blast
  then show ?thesis by (intro exI [of _ es] exI [of _ d]) (simp add: answers_def fresh_def)
qed

text \<open>The task cannot be killed by an answer: when the HTTP client reports failures as values,
  fetching the state from the gateway never panics, whatever the JSON in the answer.\<close>

lemma daemon_gateway_no_panic:
  assumes "\<And>url s. fst (rq_get rq url s) \<noteq> Panicked" and "\<And>resp s. fst (resp_json rq resp s) \<noteq> Panicked"
  shows "fst (LibClient_get_state rq J self s) \<noteq> Panicked"
  unfolding LibClient_get_state_def by (rule gateway_get_state_no_panic [OF assms])

end
