(* ===== verification/DaemonRefine.thy ===== *)
theory DaemonRefine
  imports Daemon
begin

text \<open>
  The polling task against what it promises its readers. The specification is a log: the
  states the gateway answered, in order, and a position readers see, which only moves
  forward and lags behind the end by at most one entry. \<open>daemon_step\<close> is simulated by it, so
  two reads never see states in the wrong order. Between two ticks the task does a bounded
  number of steps.
\<close>

section \<open>The specification\<close>

record log =
  entries :: "ClientState list"
  position :: nat

definition visible :: "log \<Rightarrow> ClientState" where
  "visible l = entries l ! position l"

definition log_start :: "ClientState \<Rightarrow> log" where
  "log_start st = \<lparr>entries = [st], position = 0\<rparr>"

text \<open>An answer that equals what readers see is taken over at once.\<close>

inductive log_step :: "log \<Rightarrow> event \<Rightarrow> log \<Rightarrow> bool" where
  silent: "e \<in> {Started, Ticked} \<Longrightarrow> log_step l e l"
| failed: "\<forall>st. r \<noteq> Ok st \<Longrightarrow> log_step l (Answered r) l"
| confirm: "st = visible l \<Longrightarrow> log_step l (Answered (Ok st)) \<lparr>entries = entries l @ [st], position = length (entries l)\<rparr>"
| append: "st \<noteq> visible l \<Longrightarrow> log_step l (Answered (Ok st)) (l\<lparr>entries := entries l @ [st]\<rparr>)"
| advance: "log_step l Written (l\<lparr>position := length (entries l) - 1\<rparr>)"
| observe: "log_step l (Served (visible l)) l"

inductive_cases log_stepE: "log_step l e l'"

inductive log_run :: "log \<Rightarrow> event list \<Rightarrow> log \<Rightarrow> bool" where
  log_refl: "log_run l [] l"
| log_snoc: "log_run l es l' \<Longrightarrow> log_step l' e l'' \<Longrightarrow> log_run l (es @ [e]) l''"

definition log_ok :: "log \<Rightarrow> bool" where
  "log_ok l \<longleftrightarrow> position l < length (entries l)"

lemma log_step_forward:
  assumes "log_step l e l'" and "log_ok l"
  shows "log_ok l' \<and> position l \<le> position l' \<and> (\<exists>more. entries l' = entries l @ more)"
  using assms by (cases rule: log_step.cases) (auto simp: log_ok_def)

lemma log_run_forward:
  assumes "log_run l es l'" and "log_ok l"
  shows "log_ok l' \<and> position l \<le> position l' \<and> (\<exists>more. entries l' = entries l @ more)"
  using assms
proof (induction rule: log_run.induct)
  case (log_snoc l es l' e l'')
  then show ?case using log_step_forward [of l' e l''] by fastforce
qed auto

lemma log_run_entries: "log_run l es l' \<Longrightarrow> entries l' = entries l @ answers es"
proof (induction rule: log_run.induct)
  case (log_snoc l es l' e l'')
  have "answers (es @ [Answered r]) = answers es" if "\<forall>st. r \<noteq> Ok st" for r
    using that by (cases r) simp_all
  with log_snoc show ?case by (auto elim!: log_stepE)
qed simp

section \<open>The simulation\<close>

text \<open>Readers see what the log shows; with an update in hand the log has it as its last entry
  and shows the one before, otherwise it shows the last.\<close>

fun lag :: "phase \<Rightarrow> log \<Rightarrow> bool" where
  "lag (Updating current update) l \<longleftrightarrow>
     position l + 2 = length (entries l) \<and> last (entries l) = update \<and> current = visible l"
| "lag (Waiting current) l \<longleftrightarrow> position l + 1 = length (entries l) \<and> current = visible l"
| "lag (Fetching current) l \<longleftrightarrow> position l + 1 = length (entries l) \<and> current = visible l"
| "lag p l \<longleftrightarrow> position l + 1 = length (entries l)"

definition simulates :: "daemon \<Rightarrow> log \<Rightarrow> bool" where
  "simulates d l \<longleftrightarrow> visible l = shared d \<and> lag (phase d) l"

lemma simulates_ok: "simulates d l \<Longrightarrow> log_ok l \<and> length (entries l) \<le> position l + 2"
  by (cases "phase d") (auto simp: simulates_def log_ok_def)

lemma answer_simulated:
  assumes "phase d = Fetching current" and "simulates d l"
  shows "\<exists>l'. log_step l (Answered r) l' \<and> simulates (d\<lparr>phase := after_answer current r\<rparr>) l'"
proof -
  have now: "current = visible l" "position l + 1 = length (entries l)"
    using assms by (auto simp: simulates_def)
  show ?thesis
  proof (cases "\<exists>st. r = Ok st")
    case False
    then show ?thesis
      using assms
      by (intro exI [of _ l]) (cases r; auto simp: simulates_def after_answer_def intro: log_step.failed)
  next
    case True
    then obtain st where r: "r = Ok st" by blast
    show ?thesis
    proof (cases "st = visible l")
      case True
      then show ?thesis
        using assms now r log_step.confirm [OF True]
        by (intro exI [of _ "\<lparr>entries = entries l @ [st], position = length (entries l)\<rparr>"])
          (auto simp: simulates_def after_answer_def ClientState_eq_iff visible_def)
    next
      case False
      then show ?thesis
        using assms now r log_step.append [OF False]
        by (intro exI [of _ "l\<lparr>entries := entries l @ [st]\<rparr>"])
          (auto simp: simulates_def after_answer_def ClientState_eq_iff visible_def nth_append)
    qed
  qed
qed

lemma daemon_step_simulated:
  assumes "daemon_step d e d'" and "simulates d l"
  shows "\<exists>l'. log_step l e l' \<and> simulates d' l'"
  using assms(1)
proof (cases rule: daemon_step.cases)
  case start
  then show ?thesis using assms(2) by (intro exI [of _ l]) (auto simp: simulates_def intro: log_step.silent)
next
  case (tick current)
  then show ?thesis using assms(2) by (intro exI [of _ l]) (auto simp: simulates_def intro: log_step.silent)
next
  case (answer current r)
  then show ?thesis
    using answer_simulated [of d current l r] assms(2) by (simp add: simulates_def)
next
  case (publish current update)
  then have "position l + 2 = length (entries l)" "last (entries l) = update"
    using assms(2) by (auto simp: simulates_def)
  moreover from this have "entries l \<noteq> []" by auto
  ultimately show ?thesis
    using publish log_step.advance [of l]
    by (intro exI [of _ "l\<lparr>position := length (entries l) - 1\<rparr>"]) (auto simp: simulates_def visible_def last_conv_nth)
next
  case serve
  then show ?thesis
    using assms(2) log_step.observe [of l] by (intro exI [of _ l]) (auto simp: simulates_def)
qed

lemma daemon_run_simulated:
  assumes "daemon_run d es d'" and "simulates d l"
  shows "\<exists>l'. log_run l es l' \<and> simulates d' l'"
  using assms
proof (induction rule: daemon_run.induct)
  case refl
  then show ?case using log_run.log_refl by blast
next
  case (step d es d' e d'')
  then show ?case using daemon_step_simulated log_run.log_snoc by meson
qed

lemma simulates_start: "simulates (daemon_start st) (log_start st)"
  by (simp add: simulates_def daemon_start_def log_start_def visible_def)

section \<open>Bounded work between ticks\<close>

text \<open>The steps of the task itself; \<open>busy\<close> counts what it has left to do before the next tick.\<close>

definition task_event :: "event \<Rightarrow> bool" where
  "task_event e \<longleftrightarrow> e \<noteq> Ticked \<and> (\<forall>st. e \<noteq> Served st)"

primrec busy :: "phase \<Rightarrow> nat" where
  "busy Starting = 1"
| "busy (Waiting current) = 0"
| "busy (Fetching current) = 2"
| "busy (Updating current update) = 1"
| "busy Dead = 0"

lemma task_step_decreases: "daemon_step d e d' \<Longrightarrow> task_event e \<Longrightarrow> busy (phase d') < busy (phase d)"
  by (cases rule: daemon_step.cases)
    (auto simp: task_event_def after_answer_def split: outcome.splits)

text \<open>Two runs for the witnesses.\<close>

lemma daemon_started: "daemon_run (daemon_start st) [Started] \<lparr>shared = st, phase = Waiting st\<rparr>"
  by (rule daemon_run_single) (auto simp: daemon_start_def daemon_step_simps)

lemma daemon_updated:
  assumes "u \<noteq> st"
  shows "daemon_run \<lparr>shared = st, phase = Waiting st\<rparr> [Ticked, Answered (Ok u), Written] \<lparr>shared = u, phase = Waiting u\<rparr>"
proof -
  let ?d = "\<lparr>shared = st, phase = Fetching st\<rparr>" and ?d' = "\<lparr>shared = st, phase = Updating st u\<rparr>"
  have "daemon_step \<lparr>shared = st, phase = Waiting st\<rparr> Ticked ?d" "daemon_step ?d (Answered (Ok u)) ?d'"
    "daemon_step ?d' Written \<lparr>shared = u, phase = Waiting u\<rparr>"
    using assms by (simp_all add: daemon_step_simps after_answer_def ClientState_eq_iff)
  note steps = this [THEN daemon_run_single]
  show ?thesis using daemon_run_trans [OF daemon_run_trans [OF steps(3,2)] steps(1)] by simp
qed

section \<open>Properties\<close>

text \<open>
  C7. The process refines the log: every run from the start is a run of the specification with
  the same events, in which readers see the shared state, the entries are the first state
  and the gateway's answers, and readers lag behind by at most one entry.
\<close>

theorem daemon_refines_log:
  assumes "daemon_run (daemon_start init) es d"
  shows "\<exists>l. log_run (log_start init) es l \<and> visible l = shared d \<and> entries l = init # answers es \<and>
    length (entries l) \<le> position l + 2 \<and> position l < length (entries l)"
proof -
  from daemon_run_simulated [OF assms simulates_start] obtain l where l:
    "log_run (log_start init) es l" "simulates d l" by blast
  then show ?thesis
    using simulates_ok [OF l(2)] log_run_entries [OF l(1)]
    by (auto simp: simulates_def log_ok_def log_start_def)
qed

theorem daemon_refines_log_witness:
  "\<exists>l. log_run (log_start sample_one) [Started, Ticked, Answered (Ok sample_two), Written] l \<and>
     entries l = [sample_one, sample_two] \<and> visible l = sample_two"
proof -
  have "daemon_run (daemon_start sample_one) ([Started] @ [Ticked, Answered (Ok sample_two), Written])
      \<lparr>shared = sample_two, phase = Waiting sample_two\<rparr>"
    by (rule daemon_run_trans [OF daemon_updated daemon_started]) simp
  from daemon_refines_log [OF this] obtain l where
    "log_run (log_start sample_one) ([Started] @ [Ticked, Answered (Ok sample_two), Written]) l"
    "visible l = sample_two" "entries l = [sample_one, sample_two]"
    by (elim exE conjE) (simp add: answers_def)
  then show ?thesis by (intro exI [of _ l]) simp
qed

text \<open>
  C16. Reads are monotone: whatever happens between two reads, the second sees the same entry of
  the gateway's answers as the first or a later one, never an older state.
\<close>

theorem daemon_reads_monotone:
  assumes "daemon_run (daemon_start init) es d" and "daemon_run d fs d'"
  shows "\<exists>i j. i \<le> j \<and> i < length (init # answers es) \<and> j < length (init # answers (es @ fs)) \<and>
    shared d = (init # answers (es @ fs)) ! i \<and> shared d' = (init # answers (es @ fs)) ! j"
proof -
  from daemon_run_simulated [OF assms(1) simulates_start] obtain l where l:
    "log_run (log_start init) es l" "simulates d l" by blast
  from daemon_run_simulated [OF assms(2) l(2)] obtain l' where l': "log_run l fs l'" "simulates d' l'" by blast
  have ok: "log_ok l" "log_ok l'" using l(2) l'(2) simulates_ok by blast+
  have e: "entries l = init # answers es" "entries l' = entries l @ answers fs"
    using log_run_entries [OF l(1)] log_run_entries [OF l'(1)] by (simp_all add: log_start_def)
  have all: "init # answers (es @ fs) = entries l'" by (simp add: e answers_def)
  have "shared d = entries l' ! position l" "shared d' = entries l' ! position l'"
    using l(2) l'(2) ok(1) e(2) by (simp_all add: simulates_def visible_def log_ok_def nth_append)
  moreover have "position l \<le> position l'" using log_run_forward [OF l'(1) ok(1)] by blast
  ultimately show ?thesis
    unfolding all using ok e(1) by (intro exI [of _ "position l"] exI [of _ "position l'"]) (simp add: log_ok_def)
qed

theorem daemon_reads_monotone_witness:
  "\<exists>i j. i \<le> j \<and> j < 2 \<and> sample_one = [sample_one, sample_two] ! i \<and> sample_two = [sample_one, sample_two] ! j"
proof -
  have run: "daemon_run \<lparr>shared = sample_one, phase = Waiting sample_one\<rparr> [Ticked, Answered (Ok sample_two), Written]
      \<lparr>shared = sample_two, phase = Waiting sample_two\<rparr>"
    by (rule daemon_updated) simp
  let ?log = "sample_one # answers ([Started] @ [Ticked, Answered (Ok sample_two), Written])"
  from daemon_reads_monotone [OF daemon_started run] obtain i j where
    "i \<le> j" "j < length ?log" "sample_one = ?log ! i" "sample_two = ?log ! j"
    by (metis daemon.select_convs(1))
  then show ?thesis by (intro exI [of _ i] exI [of _ j]) (simp add: answers_def)
qed

text \<open>
  C17. The task always comes to rest: between two ticks it cannot work forever, and it is stuck
  only when dead; in every other phase a step of its own is possible.
\<close>

theorem daemon_iteration_terminates:
  "wf {(d', d). \<exists>e. task_event e \<and> daemon_step d e d'} \<and>
   (phase d = Dead \<or> (\<exists>e d'. (task_event e \<or> e = Ticked) \<and> daemon_step d e d'))"
proof
  have "{(d', d). \<exists>e. task_event e \<and> daemon_step d e d'} \<subseteq> measure (\<lambda>d. busy (phase d))"
    using task_step_decreases by auto
  then show "wf {(d', d). \<exists>e. task_event e \<and> daemon_step d e d'}" by (rule wf_subset [OF wf_measure])
  show "phase d = Dead \<or> (\<exists>e d'. (task_event e \<or> e = Ticked) \<and> daemon_step d e d')"
    by (cases "phase d") (auto simp: task_event_def intro: daemon_step.intros)
qed

end
