(* ===== verification/Serve.thy ===== *)
theory Serve
  imports RpcServerFacts Daemon
begin

text \<open>
  Starting and stopping the server: \<open>serve\<close>, \<open>serve_on\<close> and \<open>Server\<close> of \<open>src/src/rpc.rs\<close>, the
  HTTP answers of its one route, and the rest of \<open>main\<close> of \<open>src/src/bin/beerus.rs\<close>. Sockets,
  tasks, channels and the construction of an HTTP client belong to tokio, axum and reqwest
  and are a parameter \<open>runtime\<close>; what axum does with the task it is given (the accept loop,
  requests without a route) is not modelled.
\<close>

section \<open>The HTTP answers\<close>

text \<open>An answer is a JSON body with status 200, or a status with a text.\<close>

datatype 'v http_answer = JsonAnswer "'v server_response" | TextAnswer nat string

definition RpcError_into_response :: "rpc_error \<Rightarrow> 'v http_answer" where
  "RpcError_into_response e = TextAnswer 500 (message e)"

definition http_answer_of :: "('w, 'v server_response, rpc_error) io \<Rightarrow> ('w, 'v http_answer, unit) io" where
  "http_answer_of m = (\<lambda>w. case m w of
     (Ok res, w') \<Rightarrow> (Ok (JsonAnswer res), w')
   | (Err e, w') \<Rightarrow> (Ok (RpcError_into_response e), w')
   | (Panicked, w') \<Rightarrow> (Panicked, w'))"

text \<open>The router: what handles a method and a path, if anything does.\<close>

type_synonym ('w, 'v) router = "string \<Rightarrow> string \<Rightarrow> ('v server_request \<Rightarrow> ('w, 'v http_answer, unit) io) option"

definition serve_app ::
  "(('s, 'l1, 'l2, 'l3) cached_world, 'f, 'c, 'ctx, 'ci) machine \<Rightarrow> ('u, 'f, 'c, 'l1, 'l2, 'l3) cache_env
     \<Rightarrow> ('v, 'f, 'v0, 'c) exe_env \<Rightarrow> ('s, 'l1, 'l2, 'l3, 'v) Context \<Rightarrow> (('s, 'l1, 'l2, 'l3) cached_world, 'v) router" where
  "serve_app M V E ctx method path =
     (if path = ''/rpc'' \<and> method = ''POST'' then Some (\<lambda>req. http_answer_of (handle_request M V E ctx req)) else None)"

section \<open>\<open>Server\<close>\<close>

type_synonym u16 = "16 word"

text \<open>The task \<open>serve_on\<close> spawns: axum on the listener with the router, until the receiving end
  of the channel resolves.\<close>

record ('w, 'v, 'listener, 'rx) server_task =
  task_listener :: 'listener
  task_router :: "('w, 'v) router"
  task_shutdown :: 'rx

text \<open>\<open>rt_join\<close> waits for a task and is \<open>None\<close> when it never ends. \<open>rt_spawn_poll\<close> shares a first
  state and spawns the polling task with it (\<open>daemon_step\<close>); it returns the shared state as
  a view of the world.\<close>

record ('w, 'addr, 'v, 'resp, 'listener, 'tx, 'rx, 'jh, 'lib) runtime =
  rt_bind :: "'addr \<Rightarrow> ('w, 'listener, string) io"
  rt_build_http :: "nat \<Rightarrow> nat \<Rightarrow> ('w, ('w, 'v rpc_request, 'resp, 'v rpc_response) reqwest, string) io"
  rt_channel :: "'w \<Rightarrow> ('tx \<times> 'rx) \<times> 'w"
  rt_local_port :: "'listener \<Rightarrow> ('w, u16, string) io"
  rt_spawn :: "('w, 'v, 'listener, 'rx) server_task \<Rightarrow> 'w \<Rightarrow> 'jh \<times> 'w"
  rt_send :: "'tx \<Rightarrow> 'w \<Rightarrow> 'w"
  rt_join :: "'jh \<Rightarrow> 'w \<Rightarrow> 'w option"
  rt_spawn_poll :: "u64 \<Rightarrow> 'lib \<Rightarrow> daemon \<Rightarrow> 'w \<Rightarrow> ('w \<Rightarrow> ClientState) \<times> 'w"

datatype ('tx, 'jh) Server = Server 'tx 'jh u16

fun Server_stop :: "('w, 'addr, 'v, 'resp, 'listener, 'tx, 'rx, 'jh, 'lib) runtime \<Rightarrow> ('tx, 'jh) Server \<Rightarrow> 'w \<Rightarrow> 'w option" where
  "Server_stop R (Server tx jh p) w = rt_join R jh (rt_send R tx w)"

fun Server_done :: "('w, 'addr, 'v, 'resp, 'listener, 'tx, 'rx, 'jh, 'lib) runtime \<Rightarrow> ('tx, 'jh) Server \<Rightarrow> 'w \<Rightarrow> 'w option" where
  "Server_done R (Server tx jh p) w = rt_join R jh w"

fun Server_port :: "('tx, 'jh) Server \<Rightarrow> u16" where
  "Server_port (Server tx jh p) = p"

definition io_of :: "('w \<Rightarrow> 'a \<times> 'w) \<Rightarrow> ('w, 'a, 'e) io" where
  "io_of m = (\<lambda>w. case m w of (x, w') \<Rightarrow> (Ok x, w'))"

lemma io_of_eq [outcome_simps]: "io_of m w = (r, w') \<longleftrightarrow> (\<exists>x. m w = (x, w') \<and> r = Ok x)"
  by (auto simp: io_of_def split: prod.splits)

section \<open>\<open>serve\<close>\<close>

text \<open>Seconds, for connecting and for a whole request.\<close>

definition DEFAULT_TIMEOUT :: nat where
  "DEFAULT_TIMEOUT = 30"

definition server_context ::
  "string \<Rightarrow> (('s, 'l1, 'l2, 'l3) cached_world, 'v rpc_request, 'resp, 'v rpc_response) reqwest
     \<Rightarrow> (('s, 'l1, 'l2, 'l3) cached_world \<Rightarrow> ClientState) \<Rightarrow> ('s, 'v) http_post \<Rightarrow> string
     \<Rightarrow> ('s, 'l1, 'l2, 'l3, 'v) Context" where
  "server_context url client state blocking join_error =
     \<lparr>ctx_url = url, ctx_client = StarknetClient_new url (Http_post client), ctx_state = state,
      ctx_blocking_http = blocking, ctx_join_error = join_error\<rparr>"

definition serve_on ::
  "(('s, 'l1, 'l2, 'l3) cached_world, 'f, 'c, 'ctx, 'ci) machine \<Rightarrow> ('u, 'f, 'c, 'l1, 'l2, 'l3) cache_env
     \<Rightarrow> ('v, 'f, 'v0, 'c) exe_env
     \<Rightarrow> (('s, 'l1, 'l2, 'l3) cached_world, 'addr, 'v, 'resp, 'listener, 'tx, 'rx, 'jh, 'lib) runtime
     \<Rightarrow> ('s, 'v) http_post \<Rightarrow> string \<Rightarrow> string \<Rightarrow> 'listener \<Rightarrow> (('s, 'l1, 'l2, 'l3) cached_world \<Rightarrow> ClientState)
     \<Rightarrow> (('s, 'l1, 'l2, 'l3) cached_world, ('tx, 'jh) Server, 'f Error) io" where
  "serve_on M V E R blocking join_error url listener state =
     io_bind (io_map_err Reqwest (rt_build_http R DEFAULT_TIMEOUT DEFAULT_TIMEOUT)) (\<lambda>client.
     let ctx = server_context url client state blocking join_error; app = serve_app M V E ctx in
     io_bind (io_of (rt_channel R)) (\<lambda>(tx, rx).
     io_bind (io_map_err Io (rt_local_port R listener)) (\<lambda>port.
     io_bind (io_of (rt_spawn R \<lparr>task_listener = listener, task_router = app, task_shutdown = rx\<rparr>)) (\<lambda>jh.
     io_lift (Ok (Server tx jh port))))))"

definition serve ::
  "(('s, 'l1, 'l2, 'l3) cached_world, 'f, 'c, 'ctx, 'ci) machine \<Rightarrow> ('u, 'f, 'c, 'l1, 'l2, 'l3) cache_env
     \<Rightarrow> ('v, 'f, 'v0, 'c) exe_env
     \<Rightarrow> (('s, 'l1, 'l2, 'l3) cached_world, 'addr, 'v, 'resp, 'listener, 'tx, 'rx, 'jh, 'lib) runtime
     \<Rightarrow> ('s, 'v) http_post \<Rightarrow> string \<Rightarrow> string \<Rightarrow> 'addr \<Rightarrow> (('s, 'l1, 'l2, 'l3) cached_world \<Rightarrow> ClientState)
     \<Rightarrow> (('s, 'l1, 'l2, 'l3) cached_world, ('tx, 'jh) Server, 'f Error) io" where
  "serve M V E R blocking join_error url addr state =
     io_bind (io_map_err Io (rt_bind R addr)) (\<lambda>listener.
     serve_on M V E R blocking join_error url listener state)"

section \<open>\<open>main\<close>\<close>

text \<open>\<open>beerus_start\<close> is \<open>main\<close> up to the running server, \<open>beerus_main\<close> waits for it to end: the
  result is \<open>None\<close> when it never does. An \<open>Error\<close> becomes a report by its text.\<close>

definition beerus_start ::
  "(('s, 'l1, 'l2, 'l3) cached_world, 'f, 'c, 'ctx, 'ci) machine \<Rightarrow> ('u, 'f, 'c, 'l1, 'l2, 'l3) cache_env
     \<Rightarrow> ('v, 'f, 'v0, 'c) exe_env
     \<Rightarrow> (('s, 'l1, 'l2, 'l3) cached_world, 'addr, 'v, 'resp, 'listener, 'tx, 'rx, 'jh,
          (('s, 'l1, 'l2, 'l3) cached_world, 'v) LibClient) runtime
     \<Rightarrow> (('s, 'l1, 'l2, 'l3) cached_world, 'q, 'r, 'j) reqwest \<Rightarrow> 'j json_ops \<Rightarrow> (string \<Rightarrow> 'q)
     \<Rightarrow> (string \<Rightarrow> string option) \<Rightarrow> 'addr file_ops \<Rightarrow> 'addr addr_ops \<Rightarrow> string option
     \<Rightarrow> (('s, 'l1, 'l2, 'l3) cached_world, 'v) http_post \<Rightarrow> (('s, 'l1, 'l2, 'l3) cached_world, 'v) http_post
     \<Rightarrow> ('s, 'v) http_post \<Rightarrow> string
     \<Rightarrow> (('s, 'l1, 'l2, 'l3) cached_world, ('tx, 'jh) Server, report) io" where
  "beerus_start M V E R rq J body env fs A arg http lib_blocking blocking join_error =
     io_bind (daemon_main rq J body (env_codecs E) env fs A arg http lib_blocking) (\<lambda>(config, beerus, d).
     io_bind (io_of (rt_spawn_poll R (poll_secs config) beerus d)) (\<lambda>state.
     io_map_err (\<lambda>e. Source (Error_to_string (env_debug E) e))
       (serve M V E R blocking join_error (starknet_rpc (client_config config)) (rpc_addr config) state)))"

definition beerus_main where
  "beerus_main M V E R rq J body env fs A arg http lib_blocking blocking join_error w =
     (case beerus_start M V E R rq J body env fs A arg http lib_blocking blocking join_error w of
        (Ok server, w') \<Rightarrow> (case Server_done R server w' of Some w'' \<Rightarrow> Some (Ok (), w'') | None \<Rightarrow> None)
      | (Err e, w') \<Rightarrow> Some (Err e, w')
      | (Panicked, w') \<Rightarrow> Some (Panicked, w'))"

section \<open>A wallet in front of the server\<close>



lemma http_of_handle_request:
  "http_answer_of (handle_request M V E ctx (SingleRequest req)) w =
     (case handle (Context_Rpc M V E ctx) (env_codecs E) req w of
        (Ok res, w') \<Rightarrow> (Ok (JsonAnswer (if req_id req \<noteq> None then SingleResponse res else Empty)), w')
      | (Err e, w') \<Rightarrow> (Ok (RpcError_into_response e), w')
      | (Panicked, w') \<Rightarrow> (Panicked, w'))"
  by (auto simp: http_answer_of_def handle_request_def serve_request_def io_bind_def split: prod.splits outcome.splits)













section \<open>Properties\<close>



text \<open>
  C20. Over HTTP only \<open>POST /rpc\<close> is routed, and it is never answered with the status 500 of an
  \<open>RpcError\<close>: the answer is a JSON body, a single response with the request's id, nothing for a
  notification, or the responses of a batch in order. So the request the README gives to check
  that the server is up fails twice: its URL has the path \<open>/\<close>, which is not routed, and at
  \<open>/rpc\<close> its method \<open>starknet_getStateRoot\<close> is answered with -32601.
\<close>

theorem serve_app_answers:
  "(case serve_app M V E ctx method path of
     None \<Rightarrow> (method, path) \<noteq> (''POST'', ''/rpc'')
   | Some handler \<Rightarrow> (method, path) = (''POST'', ''/rpc'') \<and>
       (case handler req w of
          (Ok (JsonAnswer res), _) \<Rightarrow> (case res of
              SingleResponse r \<Rightarrow> \<exists>q. req = SingleRequest q \<and> req_id q \<noteq> None \<and> res_id r = req_id q
            | Empty \<Rightarrow> \<exists>q. req = SingleRequest q \<and> req_id q = None
            | BatchResponse rs \<Rightarrow> \<exists>qs. req = BatchRequest qs \<and>
                map res_id rs = map req_id (filter (\<lambda>q. req_id q \<noteq> None) qs))
        | (Ok (TextAnswer status t), _) \<Rightarrow> False
        | (Err e, _) \<Rightarrow> False
        | (Panicked, _) \<Rightarrow> True)) \<and>
   serve_app M V E ctx ''POST'' ''/'' = None \<and>
   (\<exists>handler. serve_app M V E ctx ''POST'' ''/rpc'' = Some handler \<and>
      handler (SingleRequest \<lparr>req_method = ''starknet_getStateRoot'', req_params = Some (empty_array (env_codecs E)),
          req_id = Some (NumberId 1)\<rparr>) w
        = (Ok (JsonAnswer (SingleResponse \<lparr>res_result = None, res_error = Some (rpc_err (- 32601) ''Method not found''),
            res_id = Some (NumberId 1)\<rparr>)), w))"
proof (intro conjI)
  show "case serve_app M V E ctx method path of
     None \<Rightarrow> (method, path) \<noteq> (''POST'', ''/rpc'')
   | Some handler \<Rightarrow> (method, path) = (''POST'', ''/rpc'') \<and>
       (case handler req w of
          (Ok (JsonAnswer res), _) \<Rightarrow> (case res of
              SingleResponse r \<Rightarrow> \<exists>q. req = SingleRequest q \<and> req_id q \<noteq> None \<and> res_id r = req_id q
            | Empty \<Rightarrow> \<exists>q. req = SingleRequest q \<and> req_id q = None
            | BatchResponse rs \<Rightarrow> \<exists>qs. req = BatchRequest qs \<and>
                map res_id rs = map req_id (filter (\<lambda>q. req_id q \<noteq> None) qs))
        | (Ok (TextAnswer status t), _) \<Rightarrow> False
        | (Err e, _) \<Rightarrow> False
        | (Panicked, _) \<Rightarrow> True)"
    using handle_request_answers [where M = M and V = V and E = E and ctx = ctx and req = req and w = w]
    by (auto simp: serve_app_def http_answer_of_def split: prod.splits outcome.splits server_response.splits)
  show "serve_app M V E ctx ''POST'' ''/'' = None" by (simp add: serve_app_def)
  have "''starknet_getStateRoot'' \<notin> set method_names" by (simp add: method_names_def)
  then show "\<exists>handler. serve_app M V E ctx ''POST'' ''/rpc'' = Some handler \<and>
      handler (SingleRequest \<lparr>req_method = ''starknet_getStateRoot'', req_params = Some (empty_array (env_codecs E)),
          req_id = Some (NumberId 1)\<rparr>) w
        = (Ok (JsonAnswer (SingleResponse \<lparr>res_result = None, res_error = Some (rpc_err (- 32601) ''Method not found''),
            res_id = Some (NumberId 1)\<rparr>)), w)"
    by (simp add: serve_app_def http_of_handle_request handle_unknown_method)
qed

text \<open>Starting the server step by step: the address is bound, a client with both timeouts at 30
  seconds is built, and the only task spawned serves the bound listener with the router of a
  context that talks to the given node and reads the given state; the port reported is the
  listener's. A step that fails ends it there with an I/O or an HTTP client error, and
  then no task has been spawned.\<close>

lemma serve_steps:
  "case serve M V E R blocking join_error url addr state w of
     (Ok server, w') \<Rightarrow> \<exists>listener client tx rx jh port w1 w2 w3 w4.
        rt_bind R addr w = (Ok listener, w1) \<and> rt_build_http R 30 30 w1 = (Ok client, w2) \<and>
        rt_channel R w2 = ((tx, rx), w3) \<and> rt_local_port R listener w3 = (Ok port, w4) \<and>
        rt_spawn R \<lparr>task_listener = listener,
            task_router = serve_app M V E (server_context url client state blocking join_error),
            task_shutdown = rx\<rparr> w4 = (jh, w') \<and>
        Server_port server = port \<and> Server_done R server = rt_join R jh \<and>
        Server_stop R server = (\<lambda>w. rt_join R jh (rt_send R tx w))
   | (Err e, w') \<Rightarrow> (\<exists>t.
        rt_bind R addr w = (Err t, w') \<and> e = Io t \<or>
        (\<exists>listener w1. rt_bind R addr w = (Ok listener, w1) \<and>
          (rt_build_http R 30 30 w1 = (Err t, w') \<and> e = Reqwest t \<or>
           (\<exists>client w2. rt_build_http R 30 30 w1 = (Ok client, w2) \<and>
              rt_local_port R listener (snd (rt_channel R w2)) = (Err t, w') \<and> e = Io t))))
   | (Panicked, _) \<Rightarrow> True"
  by (auto simp: serve_def serve_on_def DEFAULT_TIMEOUT_def Let_def io_bind_def io_map_err_def io_of_def fun_eq_iff
      map_err_eq_Ok map_err_eq_Err map_err_eq_Panicked split: prod.splits outcome.splits)

text \<open>
  C21. The process ends well only after this: the settings were accepted, so that the polling
  interval is between 1 and 3600 seconds, the node and the gateway answered, the task polls
  with the gateway's first state as the shared one, the server runs in front of the same node
  and reads that shared state, and its task has ended.
\<close>

theorem beerus_main_Ok_iff:
  "beerus_main M V E R rq J body env fs A arg http lib_blocking blocking join_error w = Some (Ok (), w') \<longleftrightarrow>
     (\<exists>config beerus d state server w1 w2 w3 w4.
        get_config env fs A arg = Ok config \<and> 1 \<le> unat (poll_secs config) \<and> unat (poll_secs config) \<le> 3600 \<and>
        LibClient_new rq J body (env_codecs E) (client_config config) http lib_blocking w = (Ok beerus, w1) \<and>
        gateway_get_state rq J (lib_gateway beerus) w1 = (Ok (shared d), w2) \<and> phase d = Starting \<and>
        rt_spawn_poll R (poll_secs config) beerus d w2 = (state, w3) \<and>
        serve M V E R blocking join_error (client_url (lib_starknet beerus)) (rpc_addr config) state w3 = (Ok server, w4) \<and>
        Server_done R server w4 = Some w')"
proof -
  have secs: "get_config env fs A arg = Ok config \<Longrightarrow> 1 \<le> unat (poll_secs config) \<and> unat (poll_secs config) \<le> 3600" for config
    by (simp add: get_config_Ok_iff)
  have url: "LibClient_new rq J body C c http lib_blocking v = (Ok beerus, v') \<Longrightarrow> client_url (lib_starknet beerus) = starknet_rpc c"
    for C c v v' beerus
    by (auto simp: LibClient_new_Ok_iff)
  have start: "beerus_main M V E R rq J body env fs A arg http lib_blocking blocking join_error w = Some (Ok (), w') \<longleftrightarrow>
      (\<exists>server w4. beerus_start M V E R rq J body env fs A arg http lib_blocking blocking join_error w = (Ok server, w4) \<and>
         Server_done R server w4 = Some w')"
    by (auto simp: beerus_main_def split: prod.splits outcome.splits option.splits)
  have begun: "beerus_start M V E R rq J body env fs A arg http lib_blocking blocking join_error w = (Ok server, w4) \<longleftrightarrow>
      (\<exists>config beerus d w2 state w3. daemon_main rq J body (env_codecs E) env fs A arg http lib_blocking w
           = (Ok (config, beerus, d), w2) \<and>
         rt_spawn_poll R (poll_secs config) beerus d w2 = (state, w3) \<and>
         serve M V E R blocking join_error (starknet_rpc (client_config config)) (rpc_addr config) state w3 = (Ok server, w4))"
    for server w4
    by (simp add: beerus_start_def io_bind_eq_Ok io_of_eq io_map_err_eq_Ok)
  show ?thesis
    unfolding start begun daemon_main_Ok_iff by (rule iffI; elim exE conjE; frule secs; frule url) (metis)+
qed

end
