(* ===== verification/Typing.thy ===== *)
theory Typing
  imports RpcServerFacts Daemon
begin

text \<open>
  The type of field elements in the RPC. \<open>Felt\<close> is a newtype with a private text: a value made
  by \<open>try_new\<close> matches the pattern, and here it is followed from the gateway's JSON to the state
  the server reads. The pattern bounds the number: at most 63 digits, so below \<open>2 ^ 252\<close>.
\<close>

definition felt_ok :: "Felt \<Rightarrow> bool" where
  "felt_ok v \<longleftrightarrow> is_match FELT_REGEX (Felt_as_ref v)"

definition state_ok :: "ClientState \<Rightarrow> bool" where
  "state_ok st \<longleftrightarrow> felt_ok (block_hash st) \<and> felt_ok (root st)"

lemma Felt_try_new_ok: "Felt_try_new t = Ok v \<Longrightarrow> felt_ok v"
  by (simp add: felt_ok_def felt_t.try_new_valid)

lemma gateway_state_ok: "gateway_get_state rq J g s = (Ok st, s') \<Longrightarrow> state_ok st"
  by (auto simp: gateway_get_state_def state_of_json_Ok_iff state_ok_def outcome_simps intro: Felt_try_new_ok)

lemma hex_value_bound: "list_all hex_digit h \<Longrightarrow> hex_value h < 16 ^ length h"
proof (induction h rule: rev_induct)
  case (snoc c h)
  have "hex_digit_value c < 16" using snoc.prems by (auto simp: hex_digit_def hex_digit_value_def Let_def)
  moreover have "hex_value (h @ [c]) = 16 * hex_value h + hex_digit_value c" by (simp add: hex_value_def)
  moreover have "hex_value h < 16 ^ length h" using snoc by simp
  ultimately show ?case by simp
qed simp

lemma try_new_one: "Felt_try_new ''0x1'' = Ok (Felt ''0x1'')"
  using FELT_REGEX_hex [of "''1''"] by (simp add: felt_t.try_new_Ok_iff Felt_fix_valid hex_digit_def)

text \<open>A gateway for the witness: every text field is \<open>0x1\<close>.\<close>

definition one_json :: "string json_ops" where
  "one_json = \<lparr>index_str = (\<lambda>_ k. k), as_str = (\<lambda>k. Some (if k = ''status'' then ''ACCEPTED_ON_L2'' else ''0x1'')),
     as_u64 = (\<lambda>_. Some 1), as_array = (\<lambda>_. None), as_object = (\<lambda>_. None), object_to_string = (\<lambda>_. Err [])\<rparr>"

definition one_http :: "(nat, unit, unit, string) reqwest" where
  "one_http = \<lparr>rq_get = (\<lambda>_ s. (Ok (), s)), rq_post = (\<lambda>_ _ s. (Ok (), s)), resp_json = (\<lambda>_ s. (Ok [], s)),
     resp_text = (\<lambda>_ s. (Ok [], s))\<rparr>"

abbreviation one_state :: ClientState where
  "one_state \<equiv> \<lparr>block_number = 1, block_hash = Felt ''0x1'', root = Felt ''0x1''\<rparr>"

lemma one_gateway: "gateway_get_state one_http one_json g s = (Ok one_state, s)"
  by (simp add: gateway_get_state_def gateway_send_def one_http_def one_json_def state_of_json_def io_bind_def
      io_map_err_def try_new_one)

section \<open>Properties\<close>

text \<open>
  C15. The state the server shares is well typed at every moment: when the first state and the
  answers of the polling task come from the gateway client, the hash and the root that
  readers see match the pattern, however reads, answers and writes interleave.
\<close>

theorem shared_state_well_typed:
  assumes "daemon_run (daemon_start init) es d"
    and "\<And>st. st \<in> set (init # answers es) \<Longrightarrow> \<exists>s s'. gateway_get_state rq J g s = (Ok st, s')"
  shows "is_match FELT_REGEX (Felt_as_ref (root (shared d))) \<and> is_match FELT_REGEX (Felt_as_ref (block_hash (shared d)))"
  using assms(2) [OF shared_from_gateway [OF assms(1)]]
  by (auto simp: state_ok_def felt_ok_def dest: gateway_state_ok)

theorem shared_state_well_typed_witness:
  "is_match FELT_REGEX ''0x1'' \<and>
   daemon_run (daemon_start one_state) [Started, Ticked, Answered (Ok one_state)] \<lparr>shared = one_state, phase = Waiting one_state\<rparr>"
proof
  let ?d = "\<lparr>shared = one_state, phase = Waiting one_state\<rparr>"
  have run: "daemon_run (daemon_start one_state) ((([] @ [Started]) @ [Ticked]) @ [Answered (Ok one_state)]) ?d"
    unfolding daemon_run_snoc
    by (intro exI conjI, rule daemon_run.refl)
      (auto simp: daemon_start_def daemon_step_simps after_answer_def ClientState_eq_iff)
  then show "daemon_run (daemon_start one_state) [Started, Ticked, Answered (Ok one_state)] ?d" by simp
  show "is_match FELT_REGEX ''0x1''"
    using shared_state_well_typed [OF run, of one_http one_json undefined] one_gateway by (auto simp: answers_def)
qed

text \<open>
  C40. What a \<open>Felt\<close> can hold: an accepted text has at most 65 characters and denotes a number
  below \<open>2 ^ 252\<close>, so it fits a field element's 32 bytes with four bits to spare.
\<close>

theorem Felt_bounds:
  assumes "Felt_try_new t = Ok v"
  shows "length (Felt_as_ref v) \<le> 65 \<and> hex_value (hex_part (Felt_as_ref v)) < 2 ^ 252"
proof -
  obtain h where h: "Felt_as_ref v = ''0x'' @ h" "list_all hex_digit h" "length h \<le> 63"
    using Felt_as_ref_shape [OF assms] by metis
  have "hex_value h < 16 ^ length h" by (rule hex_value_bound [OF h(2)])
  also have "\<dots> \<le> 16 ^ 63" using h(3) by (intro power_increasing) simp_all
  finally show ?thesis using h(1,3) by simp
qed

theorem Felt_bounds_witness: "hex_value (hex_part ''0x1'') < 2 ^ 252"
  using Felt_bounds [OF try_new_one] by simp

end
