(* ===== verification/Web.thy ===== *)
theory Web
  imports ExeCall
begin

text \<open>
  \<open>src/web/beerus-web/src/lib.rs\<close>: the client in a browser. It keeps at most one state: the
  last one it got from the gateway. Its posts go through a JavaScript function; that
  function, the JSON texts and the \<open>Debug\<close> text of a report are parameters, a \<open>JsValue\<close>
  that carries a text is the text. The object's own state is passed beside the world.
\<close>

section \<open>Posts\<close>

definition web_error :: "string \<Rightarrow> rpc_error" where
  "web_error e = rpc_err 32101 (''request failed: '' @ e)"

text \<open>The UTF-8 bytes of the shrug the code puts for an answer that is not a text.\<close>

definition shrug :: string where
  "shrug = map char_of [0xC2 :: nat, 0xAF, 0x5C, 0x5F, 0x28, 0xE3, 0x83, 0x84, 0x29, 0x5F, 0x2F, 0xC2, 0xAF]"

definition Web_blocking_post ::
  "('v rpc_request \<Rightarrow> (string, string) outcome) \<Rightarrow> (string \<Rightarrow> string \<Rightarrow> ('s, 'js, string) io)
     \<Rightarrow> ('js \<Rightarrow> string option) \<Rightarrow> (string \<Rightarrow> ('v rpc_response, string) outcome) \<Rightarrow> ('s, 'v) http_post" where
  "Web_blocking_post to_string call2 js_text from_str url request =
     io_bind (io_lift (map_err web_error (to_string request))) (\<lambda>json.
     io_bind (io_map_err web_error (call2 url json)) (\<lambda>result.
     io_bind (io_lift (ok_or (js_text result) (web_error shrug))) (\<lambda>answer.
     io_lift (map_err web_error (from_str answer)))))"

definition web_post ::
  "('s, 'q, 'resp, 'r) reqwest \<Rightarrow> string \<Rightarrow> 'q \<Rightarrow> ('s, 'r, rpc_error) io" where
  "web_post rq url request =
     io_bind (io_map_err (\<lambda>e. rpc_err 32101 (''request failed: '' @ e)) (rq_post rq url request)) (\<lambda>resp.
     io_map_err (\<lambda>e. rpc_err 32102 (''invalid response: '' @ e)) (resp_json rq resp))"

definition Web_post :: "('s, 'v rpc_request, 'resp, 'v rpc_response) reqwest \<Rightarrow> ('s, 'v) http_post" where
  "Web_post rq url request = web_post rq url request"

section \<open>\<open>Beerus\<close>\<close>

record dto_State =
  dto_len :: i64
  dto_hash :: string
  dto_root :: string

record dto_Config =
  dto_gateway_url :: string
  dto_starknet_url :: string

record ('s, 'v) Beerus =
  web_client :: "('s, 'v) LibClient"
  web_state :: "ClientState option"

record web_texts =
  dto_config_from_str :: "string \<Rightarrow> (dto_Config, string) outcome"
  dto_state_to_string :: "dto_State \<Rightarrow> (string, string) outcome"
  call_from_str :: "string \<Rightarrow> (FunctionCall, string) outcome"
  felts_to_string :: "Felt list \<Rightarrow> (string, string) outcome"
  debug_report :: "report \<Rightarrow> string"

text \<open>On wasm32 the settings have no data directory; the record's field is empty and never read.\<close>

definition Beerus_new ::
  "('s, 'q, 'resp, 'j) reqwest \<Rightarrow> 'j json_ops \<Rightarrow> (string \<Rightarrow> 'q) \<Rightarrow> 'v codecs \<Rightarrow> web_texts \<Rightarrow> string
     \<Rightarrow> ('s, 'v) http_post \<Rightarrow> ('s, 'v) http_post \<Rightarrow> ('s, ('s, 'v) Beerus, string) io" where
  "Beerus_new rq J body C T config_json http blocking =
     io_bind (io_lift (map_err (\<lambda>e. ''beerus: invalid config JSON: '' @ e) (dto_config_from_str T config_json))) (\<lambda>config.
     io_bind (io_map_err (\<lambda>e. ''failed to create client: '' @ debug_report T e)
        (LibClient_new rq J body C
           \<lparr>starknet_rpc = dto_starknet_url config, gateway_url = Some (dto_gateway_url config), data_dir = []\<rparr>
           http blocking)) (\<lambda>beerus.
     io_lift (Ok \<lparr>web_client = beerus, web_state = None\<rparr>)))"

text \<open>A method with \<open>&mut self\<close>: the object is part of what it changes.\<close>

type_synonym ('s, 'v, 'w, 'a) web_method = "(('s, 'v) Beerus \<times> 'w, 'a, string) io"

definition on_world :: "('w, 'a, 'e) io \<Rightarrow> ('b \<times> 'w, 'a, 'e) io" where
  "on_world m = (\<lambda>(self, w). case m w of (r, w') \<Rightarrow> (r, (self, w')))"

definition Beerus_get_state ::
  "('s, 'q, 'resp, 'j) reqwest \<Rightarrow> 'j json_ops \<Rightarrow> web_texts
     \<Rightarrow> ('s, 'v, ('s, 'l1, 'l2, 'l3) cached_world, string) web_method" where
  "Beerus_get_state rq J T = (\<lambda>(self, w).
     io_bind (io_map_err (\<lambda>e. ''failed to get state: '' @ debug_report T e)
        (on_world (on_net (LibClient_get_state rq J (web_client self))))) (\<lambda>state.
     io_bind (io_lift (map_err (\<lambda>e. ''failed to serialize state: '' @ e)
        (dto_state_to_string T \<lparr>dto_len = block_number state, dto_hash = Felt_as_ref (block_hash state),
           dto_root = Felt_as_ref (root state)\<rparr>))) (\<lambda>ret.
     \<lambda>(self, w). (Ok ret, (self\<lparr>web_state := Some state\<rparr>, w)))) (self, w))"

definition Beerus_execute ::
  "(('s, 'l1, 'l2, 'l3) cached_world, 'f, 'c, 'ctx, 'ci) machine \<Rightarrow> ('u, 'f, 'c, 'l1, 'l2, 'l3) cache_env
     \<Rightarrow> ('v, 'f, 'v0, 'c) exe_env \<Rightarrow> ('s, 'q, 'resp, 'j) reqwest \<Rightarrow> 'j json_ops \<Rightarrow> web_texts \<Rightarrow> string
     \<Rightarrow> ('s, 'v, ('s, 'l1, 'l2, 'l3) cached_world, string) web_method" where
  "Beerus_execute M V E rq J T request = (\<lambda>(self, w).
     io_bind (if web_state self = None then io_bind (Beerus_get_state rq J T) (\<lambda>_. io_lift (Ok ())) else io_lift (Ok ()))
       (\<lambda>_ (self, w). (case web_state self of
          None \<Rightarrow> io_lift Panicked
        | Some state \<Rightarrow>
          io_bind (io_lift (map_err (\<lambda>e. ''failed to parse request: '' @ e) (call_from_str T request))) (\<lambda>request.
          io_bind (io_map_err (\<lambda>e. ''failed to execute call: '' @ debug_report T e)
             (on_world (LibClient_execute M V E (web_client self) request state))) (\<lambda>result.
          io_lift (map_err (\<lambda>e. ''failed to serialize call result: '' @ e) (felts_to_string T result))))) (self, w))
     (self, w))"

section \<open>Facts\<close>

lemma on_world_Ok [outcome_simps]:
  "on_world m (self, w) = (Ok x, t) \<longleftrightarrow> (\<exists>w'. m w = (Ok x, w') \<and> t = (self, w'))"
  by (auto simp: on_world_def split: prod.splits)

lemma on_net_Ok [outcome_simps]:
  "on_net m w = (Ok x, w') \<longleftrightarrow> (\<exists>s. m (net w) = (Ok x, s) \<and> w' = w\<lparr>net := s\<rparr>)"
  by (auto simp: on_net_def split: prod.splits)

lemma Beerus_get_state_Ok [outcome_simps]:
  "Beerus_get_state rq J T (self, w) = (Ok t, (self', w')) \<longleftrightarrow>
     (\<exists>state s. LibClient_get_state rq J (web_client self) (net w) = (Ok state, s) \<and>
        dto_state_to_string T \<lparr>dto_len = block_number state, dto_hash = Felt_as_ref (block_hash state),
          dto_root = Felt_as_ref (root state)\<rparr> = Ok t \<and>
        self' = self\<lparr>web_state := Some state\<rparr> \<and> w' = w\<lparr>net := s\<rparr>)"
  by (auto simp: Beerus_get_state_def outcome_simps)

text \<open>A state once held is never lost: a failing request leaves the old one.\<close>

lemma Beerus_get_state_keeps:
  assumes "Beerus_get_state rq J T (self, w) = (r, (self', w'))" and "web_state self \<noteq> None"
  shows "web_state self' \<noteq> None \<and> web_client self' = web_client self"
  using assms
  by (auto simp: Beerus_get_state_def io_bind_def io_map_err_def on_world_def io_lift_def split: prod.splits outcome.splits)

section \<open>Properties\<close>

text \<open>A call in the browser runs on the state the object holds or, when it holds none, on one it
  asks the gateway for first and then keeps; it does not refresh a state it holds. The
  request is parsed only after that.\<close>

lemma Beerus_execute_Ok_iff:
  "Beerus_execute M V E rq J T request (self, w) = (Ok t, (self', w')) \<longleftrightarrow>
     (\<exists>state w1 call felts. web_state self' = Some state \<and>
        (case web_state self of
           Some held \<Rightarrow> state = held \<and> self' = self \<and> w1 = w
         | None \<Rightarrow> \<exists>shown. Beerus_get_state rq J T (self, w) = (Ok shown, (self', w1))) \<and>
        call_from_str T request = Ok call \<and>
        LibClient_execute M V E (web_client self) call state w1 = (Ok felts, w') \<and>
        felts_to_string T felts = Ok t)"
proof (cases "web_state self")
  case None
  then show ?thesis
    by (auto simp: Beerus_execute_def outcome_simps split: option.splits)
next
  case (Some held)
  then show ?thesis
    by (auto simp: Beerus_execute_def outcome_simps split: option.splits)
qed

end
