(* ===== verification/Spec2Isabelle.thy ===== *)
theory Spec2Isabelle
  imports ScalarFacts StarkField AbsentProof RpcServerFacts CacheRefine Requests Daemon DaemonRefine Serve Typing Web
begin

text \<open>
  Beerus is a light client for Starknet: it serves the Starknet JSON-RPC interface from the
  answers of a node it does not trust, checked against the state root of a block it takes
  from a feeder gateway it does trust. This development models the program under \<open>src/\<close>
  (the crate's own sources are in \<open>src/src/\<close>) as HOL functions, one theory per component,
  with the source's names.

  How the parts work together. \<open>bin/beerus.rs\<close> (theory \<open>Daemon\<close>) reads the settings
  (\<open>Config\<close>), builds a client (\<open>ExeCall\<close>) and polls the gateway (\<open>Gateway\<close>) for the latest
  block's number, hash and root. \<open>rpc.rs\<close> (\<open>RpcServer\<close>) serves requests through the dispatcher
  of the generated file \<open>gen.rs\<close> (\<open>Dispatch\<close>): \<open>getStorageAt\<close> is resolved to a block, asked
  of the node through the generated client (\<open>GenClient\<close>) and verified with a Merkle proof
  (\<open>MerkleProof\<close>, over \<open>Bits\<close> and \<open>FieldElement\<close>); \<open>call\<close> runs the virtual machine on a state
  whose storage reads are verified in the same way (\<open>StateProxy\<close>) behind caches (\<open>Cache\<close>);
  everything else is passed to the node. \<open>Web\<close> is the same client in a browser.

  Vocabulary (\<open>Prelude\<close>). A Rust \<open>Result\<close> together with the possibility of a panic is an
  \<open>outcome\<close>: \<open>Ok\<close>, \<open>Err\<close> or \<open>Panicked\<close>. A function with effects is an \<open>io\<close>: it takes the world
  \<open>'s\<close> and returns an outcome and the next world; \<open>?\<close> is \<open>bind\<close> or \<open>io_bind\<close>. Machine integers
  are words (\<open>u64\<close>, \<open>i64\<close>, \<open>usize\<close>, \<open>u8\<close>), read with \<open>unat\<close> or \<open>sint\<close> as the type demands;
  arithmetic that panics on overflow in a debug build takes the flag \<open>checks\<close>, so that
  every theorem covers both builds. \<open>outcome_simps\<close> collects the rules that say when a
  computation returns. Texts are HOL strings of bytes.

  The theories, in the order of the imports, with what they model and show:

  \<open>Regex\<close>, \<open>Scalars\<close>, \<open>Dto\<close>, \<open>Jsonrpc\<close> - \<open>gen.rs\<close>, the data: regular expressions as
  data with a matcher, the validated newtypes (\<open>Felt\<close>, \<open>BlockNumber\<close>, \<open>StorageKey\<close>, ...) with
  \<open>try_new\<close> and \<open>as_ref\<close>, and all structs and enums of the interface. The locale
  \<open>validated_newtype\<close> states what a newtype's constructor promises and is interpreted for
  each of them. \<open>ScalarFacts\<close>: which texts \<open>Felt::try_new\<close> accepts, that accepting keeps the
  number, and two oddities of the patterns.

  \<open>Bits\<close>, \<open>FieldElement\<close>, \<open>MerkleProof\<close> - \<open>util.rs\<close> and \<open>proof.rs\<close>: bit strings of field
  elements, and \<open>GetProofResult::verify\<close> with all its helpers; the loop of \<open>parse_proof\<close> is a
  fold of \<open>proof_step\<close> over the nodes from the last to the first. \<open>MerkleTrie\<close> is the
  specification: tries with their hashes, lookups, honest proofs and what a proof opens.
  \<open>ProofFacts\<close> relates the code's bottom-up loop to the top-down specification,
  \<open>ProofProps\<close> has the properties of \<open>parse_proof\<close> (complete, sound under the checks the code
  leaves out, never panics up to 251 levels, and the three ways it goes wrong),
  \<open>VerifyProps\<close> those of \<open>verify\<close> for a storage trie below a contract trie below a root.
  \<open>AbsentProof\<close>: keys a trie does not hold (a proof of absence is refused), and answers
  without any storage proof (a panic). \<open>StarkField\<close>: the naturals below the Stark prime as a
  type with its order and addition, which satisfy the laws assumed of the field.

  \<open>RpcTrait\<close>, \<open>Dispatch\<close>, \<open>GenClient\<close>, \<open>RpcFacts\<close> - \<open>gen.rs\<close>, the code: the trait \<open>Rpc\<close> as a
  record of 32 methods, the handlers and \<open>handle\<close>, the async and the blocking client and
  dispatcher, and the predefined errors. The locale \<open>dispatcher\<close> states what callers rely on
  (an answer has the request's id and exactly one of result and error) and is interpreted
  for both dispatchers; a client in front of a dispatcher is the implementation behind it.

  \<open>Gateway\<close>, \<open>Config\<close> - \<open>feeder.rs\<close>, \<open>config.rs\<close>: which answers of the gateway give a state,
  which settings are accepted, which gateway belongs to a chain.

  \<open>ExeMap\<close>, \<open>StateProxy\<close>, \<open>Cache\<close>, \<open>CacheFacts\<close>, \<open>ExeCall\<close> - \<open>exe/\<close> and \<open>client.rs\<close>: the errors
  and conversions between \<open>Felt\<close> and the machine's field elements, the verified state, the
  caches, \<open>call\<close>, and the library's client. The locale \<open>trusted_reads\<close> states what the
  machine may assume of a state it reads (each value is backed by the trusted root, under
  an invariant every read keeps); it holds of the state proxy and, given the laws of the
  cache, of the cached state, so a whole run of dependent reads is backed. \<open>CacheRefine\<close>: over a
  node with fixed answers the cached state refines the state without caches, stated with the
  locale \<open>functional_state\<close> for programs of dependent queries of all four kinds.

  \<open>RpcServer\<close>, \<open>RpcServerFacts\<close> - \<open>rpc.rs\<close>: block resolution, the verified \<open>getStorageAt\<close>,
  \<open>call\<close>, the 30 methods passed on, single requests and batches. \<open>Requests\<close>: a cost logic that
  bounds the requests posted for a storage value and for a contract call (locale
  \<open>metered_state\<close>). \<open>Serve\<close>: \<open>serve\<close>, \<open>serve_on\<close> and \<open>Server\<close>, the answers over HTTP, the rest of
  \<open>main\<close>, and a wallet that reaches the server through the library's \<open>Http\<close> client.

  \<open>Daemon\<close>, \<open>Web\<close> - \<open>bin/beerus.rs\<close> as a step relation of the polling task interleaved with
  readers, and the browser client. \<open>DaemonRefine\<close>: the specification of the task is a log with a
  position that only advances; every run of the task is simulated by it, reads are monotone,
  and between two ticks the task does finitely many steps. \<open>Typing\<close>: what an accepted \<open>Felt\<close> is
  bounded by (\<open>2 ^ 252\<close>), and that hash and root of the shared state are accepted felts in every
  run. The root theory joins the two halves: a value that is served, or that a wallet
  receives, is proved against a root that the gateway answered.

  Parameters. What is not in the sources is an argument: the field and its hash functions
  (\<open>field_ops\<close>, crate \<open>starknet_crypto\<close>; \<open>field_laws\<close> says that texts and bytes of an element
  are read back and that 251-bit byte strings are distinct elements), JSON conversions
  (\<open>codecs\<close>; \<open>codecs_ok\<close> says they are inverse), the HTTP clients, the LRU map (\<open>lru_laws\<close>: it
  returns what was put and may forget), 256-bit integers, TOML and file access, and the
  virtual machine. \<open>codecs_ok\<close> quantifies over all values of the HOL types and covers whole argument
  lists, so the layouts \<open>ArgByName\<close> and \<open>ArgByPos\<close> belong to it; the theorems on the wallet need it
  only of the arguments and the result at hand (\<open>args_survive\<close>, \<open>result_survives\<close>), and of the
  network what \<open>connected\<close> says: a post reaches the handler that the router has for the path of
  its URL, a path without one is answered with something that is no JSON-RPC response, and
  a panic of the handler fails the post. No collision resistance is assumed globally: soundness theorems name
  the finite lists of hashed inputs that must not collide. Each hypothesis is discharged on
  a concrete instance (\<open>word_field\<close> on 252-bit words, \<open>sample_codecs\<close>, \<open>list_lru\<close>,
  \<open>sample_context\<close>, \<open>loopback\<close>) in the witnesses.

  Bounds. There is no fuel: every loop of the sources modelled here runs over a list, except
  the polling loop, which is a step relation. The numbers 251 (bits of a path) and 32 (bytes of
  an element) are the source's. Waiting for a task that may never end is an option (\<open>rt_join\<close>).

  Not modelled: the serde derivations (generated by a macro), the accept loop of axum and its
  answers to requests without a route, the timer itself (the period is only passed to it),
  logging, the virtual machine, the examples and the tests.
\<close>

section \<open>From the gateway to a served value\<close>

text \<open>
  C3. Where a served value is anchored: whatever the interleaving of the polling task and the
  requests, the value \<open>starknet_getStorageAt\<close> returns for the latest block, for a number at or
  above the current one or for the current block's hash has a proof against the root of a
  state that the gateway itself answered (the first one, or one of the updates).
\<close>

theorem latest_value_from_gateway:
  assumes "daemon_run (daemon_start init) es d" and "ctx_state self w = shared d"
    and "Context_getStorageAt E self a k b w = (Ok v, w')"
    and "b = BlockId.BlockTag BlockTag.Latest \<or>
      (\<exists>n. b = BlockId.BlockNumber n \<and> block_number (shared d) \<le> BlockNumber_as_ref n) \<or>
      b = BlockId.BlockHash (BlockHash.BlockHash (block_hash (shared d)))"
  shows "\<exists>st \<in> set (init # answers es). \<exists>proof.
    verify (env_field E) (env_checks E) proof (root st) a k v = Ok ()"
  using Context_getStorageAt_current [OF assms(3)] shared_from_gateway [OF assms(1)] assms(2,4) by auto

theorem latest_value_from_gateway_witness:
  "\<exists>st \<in> {sample_state}. \<exists>proof.
     verify word_field True proof (root st) (Address.Address (Felt ''0x0'')) (StorageKey ''0x0'') (felt_text word_field 5) = Ok ()"
proof -
  have "ctx_state (sample_context undefined) sample_world = shared (daemon_start sample_state)"
    by (simp add: sample_context_def daemon_start_def)
  from latest_value_from_gateway [OF daemon_run.refl this sample_served] show ?thesis
    by (simp add: sample_env_fields)
qed




end
